(* ===== verification/C_Layout.thy ===== *)
theory C_Layout
  imports Kive_Prelude
begin

text \<open>
  C object types and their layout under the System V x86-64 ABI, the one the structs of
  \<open>ebpf/\<close> are compiled for: sizes, alignments, the placement of members (bit-fields, anonymous
  structs and unions, packed structs, the unnamed \<open>long: 64\<close> padding of the kernel header) and
  the lookup of a member by name.  The kernel types of \<open>ebpf/vmlinux\<close> and the structs of
  \<open>log_data.h\<close> and \<open>maps.h\<close> are values of \<open>ctype\<close>.  The general lemmas say that members are
  placed in order, do not overlap, are aligned and stay inside their struct.
\<close>

section \<open>Types and members\<close>

datatype ctype =
    CInt nat bool                  \<comment> \<open>size in bytes, signed\<close>
  | CPtr string                    \<comment> \<open>pointer to the named type\<close>
  | CFn                            \<comment> \<open>pointer to a function\<close>
  | CArr ctype nat
  | CEnum string "(string \<times> int) list" nat   \<comment> \<open>constants and size in bytes\<close>
  | CStruct string "cmember list" bool        \<comment> \<open>tag, members, packed\<close>
  | CUnion string "cmember list" bool
and cmember =
    Fld string ctype               \<comment> \<open>name, empty for an anonymous member\<close>
  | Bits string ctype nat          \<comment> \<open>bit-field of a width, unnamed for padding\<close>

definition c_char :: ctype where [layout]: "c_char = CInt 1 True"
definition c_schar :: ctype where [layout]: "c_schar = CInt 1 True"
definition c_uchar :: ctype where [layout]: "c_uchar = CInt 1 False"
definition c_short :: ctype where [layout]: "c_short = CInt 2 True"
definition c_ushort :: ctype where [layout]: "c_ushort = CInt 2 False"
definition c_int :: ctype where [layout]: "c_int = CInt 4 True"
definition c_uint :: ctype where [layout]: "c_uint = CInt 4 False"
definition c_long :: ctype where [layout]: "c_long = CInt 8 True"
definition c_ulong :: ctype where [layout]: "c_ulong = CInt 8 False"
definition c_llong :: ctype where [layout]: "c_llong = CInt 8 True"
definition c_ullong :: ctype where [layout]: "c_ullong = CInt 8 False"
definition c_int128 :: ctype where [layout]: "c_int128 = CInt 16 True"
definition c_uint128 :: ctype where [layout]: "c_uint128 = CInt 16 False"
definition c_bool :: ctype where [layout]: "c_bool = CInt 1 False"

section \<open>Placement\<close>

text \<open>The least multiple of \<open>a\<close> that is at least \<open>p\<close>.\<close>

definition align_up :: "nat \<Rightarrow> nat \<Rightarrow> nat" where
  "align_up p a = (p + a - 1) div a * a"

text \<open>The alignment of a type, and of a struct or union with the given members.\<close>

fun align_of :: "ctype \<Rightarrow> nat" and members_align :: "bool \<Rightarrow> cmember list \<Rightarrow> nat" where
  "align_of (CInt n _) = n"
| "align_of (CPtr _) = 8"
| "align_of CFn = 8"
| "align_of (CArr t _) = align_of t"
| "align_of (CEnum _ _ n) = n"
| "align_of (CStruct _ ms p) = members_align p ms"
| "align_of (CUnion _ ms p) = members_align p ms"
| "members_align p [] = 1"
| "members_align p (Fld _ t # ms) = max (if p then 1 else align_of t) (members_align p ms)"
| "members_align p (Bits n t _ # ms) =
     (if n = [] then members_align p ms
      else max (if p then 1 else align_of t) (members_align p ms))"

text \<open>
  Where a member starts, in bits, when the members before it end at bit \<open>pos\<close>.  A bit-field
  stays in the storage unit it starts in and otherwise moves to the next one; a zero width
  closes the current unit.
\<close>

definition fld_start :: "bool \<Rightarrow> nat \<Rightarrow> nat \<Rightarrow> nat" where
  "fld_start p pos a = align_up pos (8 * (if p then 1 else a))"

definition bits_start :: "bool \<Rightarrow> nat \<Rightarrow> nat \<Rightarrow> nat \<Rightarrow> nat" where
  "bits_start p pos s w =
     (if w = 0 then align_up pos (8 * s)
      else if \<not> p \<and> pos div (8 * s) \<noteq> (pos + w - 1) div (8 * s) then align_up pos (8 * s)
      else pos)"

fun size_of :: "ctype \<Rightarrow> nat"
  and bit_end :: "bool \<Rightarrow> nat \<Rightarrow> cmember list \<Rightarrow> nat"
  and bit_max :: "cmember list \<Rightarrow> nat" where
  "size_of (CInt n _) = n"
| "size_of (CPtr _) = 8"
| "size_of CFn = 8"
| "size_of (CArr t n) = n * size_of t"
| "size_of (CEnum _ _ n) = n"
| "size_of (CStruct _ ms p) = align_up ((bit_end p 0 ms + 7) div 8) (members_align p ms)"
| "size_of (CUnion _ ms p) = align_up ((bit_max ms + 7) div 8) (members_align p ms)"
| "bit_end p pos [] = pos"
| "bit_end p pos (Fld _ t # ms) = bit_end p (fld_start p pos (align_of t) + 8 * size_of t) ms"
| "bit_end p pos (Bits _ t w # ms) = bit_end p (bits_start p pos (size_of t) w + w) ms"
| "bit_max [] = 0"
| "bit_max (Fld _ t # ms) = max (8 * size_of t) (bit_max ms)"
| "bit_max (Bits _ _ w # ms) = max w (bit_max ms)"

fun member_bits :: "cmember \<Rightarrow> nat" where
  "member_bits (Fld _ t) = 8 * size_of t"
| "member_bits (Bits _ _ w) = w"

fun member_start :: "bool \<Rightarrow> nat \<Rightarrow> cmember \<Rightarrow> nat" where
  "member_start p pos (Fld _ t) = fld_start p pos (align_of t)"
| "member_start p pos (Bits _ t w) = bits_start p pos (size_of t) w"

text \<open>The members of a struct with the bit each starts at.\<close>

fun placements :: "bool \<Rightarrow> nat \<Rightarrow> cmember list \<Rightarrow> (nat \<times> cmember) list" where
  "placements p pos [] = []"
| "placements p pos (m # ms) =
     (let s = member_start p pos m in (s, m) # placements p (s + member_bits m) ms)"

text \<open>
  A member by its C name: its first bit and the member, searching the anonymous structs and
  unions in place.
\<close>

fun find_field :: "ctype \<Rightarrow> string \<Rightarrow> (nat \<times> cmember) option"
  and find_in :: "bool \<Rightarrow> bool \<Rightarrow> nat \<Rightarrow> cmember list \<Rightarrow> string \<Rightarrow> (nat \<times> cmember) option" where
  "find_field (CStruct _ ms p) f = find_in False p 0 ms f"
| "find_field (CUnion _ ms p) f = find_in True p 0 ms f"
| "find_field _ f = None"
| "find_in u p pos [] f = None"
| "find_in u p pos (Fld n t # ms) f =
     (let s = (if u then 0 else fld_start p pos (align_of t)) in
      if n = f then Some (s, Fld n t)
      else case (if n = [] then find_field t f else None) of
          Some (o', m) \<Rightarrow> Some (s + o', m)
        | None \<Rightarrow> find_in u p (s + 8 * size_of t) ms f)"
| "find_in u p pos (Bits n t w # ms) f =
     (let s = (if u then 0 else bits_start p pos (size_of t) w) in
      if n = f then Some (s, Bits n t w) else find_in u p (s + w) ms f)"

text \<open>The byte offset and the type of a member that is not a bit-field.\<close>

definition field_at :: "ctype \<Rightarrow> string \<Rightarrow> (nat \<times> ctype) option" where
  "field_at t f = (case find_field t f of Some (b, Fld _ u) \<Rightarrow> Some (b div 8, u) | _ \<Rightarrow> None)"

definition offset_of :: "ctype \<Rightarrow> string \<Rightarrow> nat" where
  "offset_of t f = (case field_at t f of Some (b, _) \<Rightarrow> b | None \<Rightarrow> 0)"

text \<open>Evaluation of layouts walks a member list once: the rest of the list is left alone.\<close>

lemma bit_end_cong: "pos = pos' \<Longrightarrow> bit_end p pos ms = bit_end p pos' ms"
  by simp

lemma find_in_cong: "pos = pos' \<Longrightarrow> find_in u p pos ms f = find_in u p pos' ms f"
  by simp

lemma bit_end_append: "bit_end p pos (xs @ ys) = bit_end p (bit_end p pos xs) ys"
proof (induction xs arbitrary: pos)
  case (Cons m ms)
  then show ?case by (cases m) simp_all
qed simp

lemma members_align_append:
  "members_align p (xs @ ys) = max (members_align p xs) (members_align p ys)"
proof (induction xs)
  case Nil
  have "members_align p ys \<ge> 1"
  proof (induction ys)
    case (Cons m ms)
    then show ?case by (cases m) auto
  qed simp
  then show ?case by simp
next
  case (Cons m ms)
  then show ?case by (cases m) (simp_all add: max.assoc)
qed

section \<open>Well-formed types\<close>

text \<open>Integer sizes the ABI has, bit-fields no wider than their storage unit.\<close>

fun wf_ctype :: "ctype \<Rightarrow> bool" and wf_members :: "cmember list \<Rightarrow> bool" where
  "wf_ctype (CInt n _) = (n \<in> {1, 2, 4, 8, 16})"
| "wf_ctype (CPtr _) = True"
| "wf_ctype CFn = True"
| "wf_ctype (CArr t _) = wf_ctype t"
| "wf_ctype (CEnum _ _ n) = (n \<in> {1, 2, 4, 8})"
| "wf_ctype (CStruct _ ms _) = wf_members ms"
| "wf_ctype (CUnion _ ms _) = wf_members ms"
| "wf_members [] = True"
| "wf_members (Fld _ t # ms) = (wf_ctype t \<and> wf_members ms)"
| "wf_members (Bits _ t w # ms) =
     (wf_ctype t \<and> 0 < size_of t \<and> w \<le> 8 * size_of t \<and> wf_members ms)"

lemma wf_members_append [simp]: "wf_members (xs @ ys) \<longleftrightarrow> wf_members xs \<and> wf_members ys"
proof (induction xs)
  case (Cons m ms)
  then show ?case by (cases m) simp_all
qed simp

text \<open>No packed struct or union inside: every member is naturally aligned.\<close>

fun natural :: "ctype \<Rightarrow> bool" and naturals :: "cmember list \<Rightarrow> bool" where
  "natural (CArr t _) = natural t"
| "natural (CStruct _ ms p) = (\<not> p \<and> naturals ms)"
| "natural (CUnion _ ms p) = (\<not> p \<and> naturals ms)"
| "natural _ = True"
| "naturals [] = True"
| "naturals (Fld _ t # ms) = (natural t \<and> naturals ms)"
| "naturals (Bits _ t _ # ms) = naturals ms"

section \<open>Alignment arithmetic\<close>

lemma dvd_align_up [simp]: "a dvd align_up p a"
  by (simp add: align_up_def)

lemma align_up_ge: "0 < a \<Longrightarrow> p \<le> align_up p a"
proof -
  assume "0 < a"
  then have "p + a - 1 < (p + a - 1) div a * a + a"
    by (metis dividend_less_div_times add.commute)
  with \<open>0 < a\<close> show ?thesis by (simp add: align_up_def)
qed

lemma align_up_less: "0 < a \<Longrightarrow> align_up p a < p + a"
  unfolding align_up_def
  by (rule le_less_trans [OF div_times_less_eq_dividend]) simp

lemma align_up_id [simp]:
  assumes "0 < a" and "a dvd p"
  shows "align_up p a = p"
proof -
  have "a dvd align_up p a - p" using assms by (simp add: dvd_diff_nat)
  moreover have "align_up p a - p < a"
    using align_up_less [OF assms(1), of p] assms(1) by linarith
  ultimately have "align_up p a - p = 0" using nat_dvd_not_less by blast
  with align_up_ge [OF assms(1), of p] show ?thesis by simp
qed

definition is_pow2 :: "nat \<Rightarrow> bool" where
  "is_pow2 n \<longleftrightarrow> (\<exists>k. n = 2 ^ k)"

lemma is_pow2_pos: "is_pow2 n \<Longrightarrow> 0 < n"
  by (auto simp: is_pow2_def)

lemma is_pow2_max: "is_pow2 a \<Longrightarrow> is_pow2 b \<Longrightarrow> is_pow2 (max a b)"
  by (simp add: max_def)

lemma is_pow2_dvd: "is_pow2 a \<Longrightarrow> is_pow2 b \<Longrightarrow> a \<le> b \<Longrightarrow> a dvd b"
  by (auto simp: is_pow2_def intro: le_imp_power_dvd)

lemma is_pow2_dvd_max: "is_pow2 a \<Longrightarrow> is_pow2 b \<Longrightarrow> a dvd max a b \<and> b dvd max a b"
  by (auto simp: max_def intro: is_pow2_dvd)

lemma is_pow2_consts [simp]: "is_pow2 1" "is_pow2 (Suc 0)" "is_pow2 2" "is_pow2 4" "is_pow2 8" "is_pow2 16"
  unfolding is_pow2_def
  by (auto intro: exI [of _ 0] exI [of _ 1] exI [of _ 2] exI [of _ 3] exI [of _ 4])

lemma align_pow2:
  "wf_ctype t \<Longrightarrow> is_pow2 (align_of t)"
  "wf_members ms \<Longrightarrow> is_pow2 (members_align p ms)"
proof (induction t and p ms rule: align_of_members_align.induct)
qed (auto simp: is_pow2_max)

lemmas align_pos = align_pow2 [THEN is_pow2_pos]

lemma align_dvd_size: "wf_ctype t \<Longrightarrow> align_of t dvd size_of t"
  by (induction t) auto

section \<open>Members are placed in order and do not overlap\<close>

lemma fld_start_ge: "wf_ctype t \<Longrightarrow> pos \<le> fld_start p pos (align_of t)"
  by (simp add: fld_start_def align_up_ge align_pos)

lemma bits_start_ge: "0 < s \<Longrightarrow> pos \<le> bits_start p pos s w"
  by (simp add: bits_start_def align_up_ge)

lemma fld_start_byte [simp]: "8 dvd fld_start p pos a"
  unfolding fld_start_def by (meson dvd_align_up dvd_mult_left)

lemma bit_end_ge: "wf_members ms \<Longrightarrow> pos \<le> bit_end p pos ms"
proof (induction ms arbitrary: pos)
  case (Cons m ms)
  show ?case
  proof (cases m)
    case (Fld n t)
    with Cons.prems have "pos \<le> fld_start p pos (align_of t)" by (simp add: fld_start_ge)
    also have "\<dots> \<le> fld_start p pos (align_of t) + 8 * size_of t" by simp
    also have "\<dots> \<le> bit_end p \<dots> ms" using Cons Fld by simp
    finally show ?thesis using Fld by simp
  next
    case (Bits n t w)
    with Cons.prems have "pos \<le> bits_start p pos (size_of t) w" by (simp add: bits_start_ge)
    also have "\<dots> \<le> bits_start p pos (size_of t) w + w" by simp
    also have "\<dots> \<le> bit_end p \<dots> ms" using Cons Bits by simp
    finally show ?thesis using Bits by simp
  qed
qed simp

lemma member_start_ge: "wf_members [m] \<Longrightarrow> pos \<le> member_start p pos m"
  by (cases m) (auto simp: fld_start_ge bits_start_ge)

lemma bit_end_Cons: "bit_end p pos (m # ms) = bit_end p (member_start p pos m + member_bits m) ms"
  by (cases m) simp_all

lemma wf_members_Cons: "wf_members (m # ms) \<longleftrightarrow> wf_members [m] \<and> wf_members ms"
  by (cases m) auto

lemma placements_bounds:
  "wf_members ms \<Longrightarrow> (s, m) \<in> set (placements p pos ms) \<Longrightarrow>
     pos \<le> s \<and> s + member_bits m \<le> bit_end p pos ms"
proof (induction ms arbitrary: pos)
  case (Cons x xs)
  let ?next = "member_start p pos x + member_bits x"
  from Cons.prems(1) have wf: "wf_members [x]" "wf_members xs"
    by (simp_all only: wf_members_Cons [of x xs])
  have ge: "pos \<le> member_start p pos x" "?next \<le> bit_end p ?next xs"
    using wf by (simp_all add: member_start_ge bit_end_ge)
  from Cons.prems(2) consider "s = member_start p pos x" "m = x"
    | "(s, m) \<in> set (placements p ?next xs)" by (auto simp: Let_def)
  then show ?case
  proof cases
    case 1
    with ge show ?thesis by (simp add: bit_end_Cons)
  next
    case 2
    from Cons.IH [OF wf(2) 2] ge show ?thesis by (simp add: bit_end_Cons)
  qed
qed simp

lemma placements_ordered:
  "wf_members ms \<Longrightarrow>
   sorted_wrt (\<lambda>(s, m) (s', m'). s + member_bits m \<le> s') (placements p pos ms)"
proof (induction ms arbitrary: pos)
  case (Cons x xs)
  let ?next = "member_start p pos x + member_bits x"
  from Cons.prems have wf: "wf_members [x]" "wf_members xs"
    by (simp_all only: wf_members_Cons [of x xs])
  then show ?case
    using Cons.IH [OF wf(2), of ?next] placements_bounds [OF wf(2), of _ _ p ?next]
    by (auto simp: Let_def)
qed simp

lemma map_snd_placements [simp]: "map snd (placements p pos ms) = ms"
  by (induction ms arbitrary: pos) (simp_all add: Let_def)

lemma length_placements [simp]: "length (placements p pos ms) = length ms"
  by (metis length_map map_snd_placements)

lemma bit_end_within:
  assumes "wf_ctype (CStruct n ms p)"
  shows "bit_end p 0 ms \<le> 8 * size_of (CStruct n ms p)"
proof -
  have "bit_end p 0 ms \<le> 8 * ((bit_end p 0 ms + 7) div 8)" by simp
  also have "\<dots> \<le> 8 * size_of (CStruct n ms p)"
    using assms by (simp add: align_up_ge align_pos)
  finally show ?thesis .
qed

lemma bit_max_within:
  assumes "wf_ctype (CUnion n ms p)"
  shows "bit_max ms \<le> 8 * size_of (CUnion n ms p)"
proof -
  have "bit_max ms \<le> 8 * ((bit_max ms + 7) div 8)" by simp
  also have "\<dots> \<le> 8 * size_of (CUnion n ms p)"
    using assms by (simp add: align_up_ge align_pos)
  finally show ?thesis .
qed

section \<open>Members found by name\<close>

text \<open>A member found by name lies inside its struct.\<close>

lemma find_bounds:
  "wf_ctype t \<Longrightarrow> find_field t f = Some (b, m) \<Longrightarrow> b + member_bits m \<le> 8 * size_of t"
  "wf_members ms \<Longrightarrow> find_in u p pos ms f = Some (b, m) \<Longrightarrow>
     (if u then b + member_bits m \<le> bit_max ms
      else pos \<le> b \<and> b + member_bits m \<le> bit_end p pos ms)"
proof (induction t f and u p pos ms f arbitrary: b m and b m rule: find_field_find_in.induct)
  case (1 n ms p f)
  then have "b + member_bits m \<le> bit_end p 0 ms" by simp
  also have "\<dots> \<le> 8 * size_of (CStruct n ms p)" using 1 by (intro bit_end_within) simp
  finally show ?case .
next
  case (2 n ms p f)
  then have "b + member_bits m \<le> bit_max ms" by simp
  also have "\<dots> \<le> 8 * size_of (CUnion n ms p)" using 2 by (intro bit_max_within) simp
  finally show ?case .
next
  case (5 u p pos n t ms f)
  let ?s = "if u then 0 else fld_start p pos (align_of t)"
  have wf: "wf_ctype t" "wf_members ms" using "5.prems" by simp_all
  have rest: "?s + 8 * size_of t \<le> bit_end p (?s + 8 * size_of t) ms"
    using wf by (intro bit_end_ge)
  have start: "\<not> u \<Longrightarrow> pos \<le> ?s" using fld_start_ge [OF wf(1)] by simp
  consider (here) "n = f" "b = ?s" "m = Fld n t"
    | (inner) o' where "n \<noteq> f" "n = []" "find_field t f = Some (o', m)" "b = ?s + o'"
    | (later) "n \<noteq> f" "(if n = [] then find_field t f else None) = None"
        "find_in u p (?s + 8 * size_of t) ms f = Some (b, m)"
    using "5.prems" by (auto simp: Let_def split: if_splits option.splits)
  then show ?case
  proof cases
    case here
    with rest start show ?thesis by (auto simp: max_def)
  next
    case inner
    then have "o' + member_bits m \<le> 8 * size_of t" using "5.IH"(1) wf by blast
    with inner rest start show ?thesis by (auto simp: max_def)
  next
    case later
    from "5.IH"(2) [OF refl later(1,2) wf(2) later(3)] start show ?thesis by (auto simp: max_def split: if_splits)
  qed
next
  case (6 u p pos n t w ms f)
  let ?s = "if u then 0 else bits_start p pos (size_of t) w"
  have wf: "0 < size_of t" "wf_members ms" using "6.prems" by simp_all
  have rest: "?s + w \<le> bit_end p (?s + w) ms" using wf by (intro bit_end_ge)
  have start: "\<not> u \<Longrightarrow> pos \<le> ?s" using bits_start_ge [OF wf(1)] by simp
  show ?case
  proof (cases "n = f")
    case True
    with "6.prems" rest start show ?thesis by (auto simp: Let_def max_def)
  next
    case False
    with "6.prems" have "find_in u p (?s + w) ms f = Some (b, m)" by (simp add: Let_def)
    from "6.IH" [OF refl False wf(2) this] start show ?thesis
      by (auto simp: max_def split: if_splits)
  qed
qed simp_all

text \<open>A member that is not a bit-field starts at a byte.\<close>

lemma find_byte:
  "find_field t f = Some (b, Fld n u) \<Longrightarrow> 8 dvd b"
  "find_in v p pos ms f = Some (b, Fld n u) \<Longrightarrow> 8 dvd b"
proof (induction t f and v p pos ms f arbitrary: b and b rule: find_field_find_in.induct)
  case (5 v p pos n' t ms f)
  then show ?case by (auto simp: Let_def split: if_splits option.splits)
next
  case (6 v p pos n' t w ms f)
  then show ?case by (auto simp: Let_def split: if_splits)
qed auto

text \<open>Without packed types a member is aligned, and its alignment divides its struct's.\<close>

lemma align_dvd_members:
  "wf_ctype t \<Longrightarrow> wf_members ms \<Longrightarrow>
   align_of t dvd max (align_of t) (members_align p ms) \<and>
   members_align p ms dvd max (align_of t) (members_align p ms)"
  by (intro is_pow2_dvd_max align_pow2)

lemma find_aligned:
  "wf_ctype t \<Longrightarrow> natural t \<Longrightarrow> find_field t f = Some (b, Fld n u) \<Longrightarrow>
     8 * align_of u dvd b \<and> align_of u dvd align_of t"
  "wf_members ms \<Longrightarrow> naturals ms \<Longrightarrow> \<not> p \<Longrightarrow> find_in v p pos ms f = Some (b, Fld n u) \<Longrightarrow>
     8 * align_of u dvd b \<and> align_of u dvd members_align p ms"
proof (induction t f and v p pos ms f arbitrary: b and b rule: find_field_find_in.induct)
  case (5 v p pos n' t ms f)
  let ?s = "if v then 0 else fld_start p pos (align_of t)"
  have wf: "wf_ctype t" "wf_members ms" "natural t" "naturals ms" "p = False"
    using "5.prems" by simp_all
  have here: "8 * align_of t dvd ?s" using wf by (simp add: fld_start_def)
  have up: "align_of t dvd members_align p (Fld n' t # ms)"
    "members_align p ms dvd members_align p (Fld n' t # ms)"
    using align_dvd_members [OF wf(1,2), of p] wf(5) by simp_all
  consider "b = ?s" "u = t"
    | (inner) o' where "n' \<noteq> f" "n' = []" "find_field t f = Some (o', Fld n u)" "b = ?s + o'"
    | (later) "n' \<noteq> f" "(if n' = [] then find_field t f else None) = None"
        "find_in v p (?s + 8 * size_of t) ms f = Some (b, Fld n u)"
    using "5.prems"(4) by (auto simp: Let_def split: if_splits option.splits)
  then show ?case
  proof cases
    case 1
    with here up show ?thesis by simp
  next
    case inner
    then have o': "8 * align_of u dvd o'" and a: "align_of u dvd align_of t"
      using "5.IH"(1) [OF refl inner(1), of o'] wf(1,3) by simp_all
    have "8 * align_of u dvd ?s" by (rule dvd_trans [OF _ here]) (simp add: a)
    with o' have "8 * align_of u dvd b" unfolding inner(4) by (intro dvd_add)
    with dvd_trans [OF a up(1)] show ?thesis by simp
  next
    case later
    from "5.IH"(2) [OF refl later(1,2) wf(2,4) _ later(3)] wf(5)
    have "8 * align_of u dvd b" "align_of u dvd members_align p ms" by simp_all
    with dvd_trans [OF this(2) up(2)] show ?thesis by simp
  qed
next
  case (6 v p pos n' t w ms f)
  let ?s = "if v then 0 else bits_start p pos (size_of t) w"
  from "6.prems"(4) have ne: "n' \<noteq> f" and fnd: "find_in v p (?s + w) ms f = Some (b, Fld n u)"
    by (auto simp: Let_def split: if_splits)
  from "6.IH" [OF refl ne] fnd "6.prems"
  have "8 * align_of u dvd b \<and> align_of u dvd members_align p ms" by simp
  moreover have "members_align p ms dvd members_align p (Bits n' t w # ms)"
    using align_dvd_members [of t ms p] "6.prems" by simp
  ultimately show ?case using dvd_trans [of "align_of u"] by blast
qed simp_all

section \<open>Layout facts the components use\<close>

text \<open>A byte member lies inside its struct, on its own alignment.\<close>

lemma field_at_find:
  "field_at t f = Some (k, u) \<longleftrightarrow> (\<exists>n. find_field t f = Some (8 * k, Fld n u))"
proof
  assume "field_at t f = Some (k, u)"
  then obtain b n where "find_field t f = Some (b, Fld n u)" "k = b div 8"
    by (auto simp: field_at_def split: option.splits prod.splits cmember.splits)
  with find_byte(1) show "\<exists>n. find_field t f = Some (8 * k, Fld n u)" by fastforce
qed (auto simp: field_at_def)

lemma field_at_bounds:
  assumes "wf_ctype t" and "field_at t f = Some (k, u)"
  shows "k + size_of u \<le> size_of t"
  using find_bounds(1) [OF assms(1)] assms(2) by (fastforce simp: field_at_find)

lemma field_at_aligned:
  assumes "wf_ctype t" and "natural t" and "field_at t f = Some (k, u)"
  shows "align_of u dvd k" and "align_of u dvd align_of t"
proof -
  from assms(3) obtain n where "find_field t f = Some (8 * k, Fld n u)"
    by (auto simp: field_at_find)
  from find_aligned(1) [OF assms(1,2) this]
  show "align_of u dvd k" and "align_of u dvd align_of t" by simp_all
qed

text \<open>
  What evaluates a concrete layout: the placement functions, and a congruence that keeps the
  simplifier from walking the rest of a member list at every step.  Numerals stay numerals.
\<close>

lemma find_in_append:
  "find_in False p pos (xs @ ys) f =
     (case find_in False p pos xs f of
        Some r \<Rightarrow> Some r | None \<Rightarrow> find_in False p (bit_end p pos xs) ys f)"
proof (induction xs arbitrary: pos)
  case (Cons m ms)
  then show ?case
    by (cases m) (auto simp: Let_def split: option.splits)
qed simp

lemma naturals_append [simp]: "naturals (xs @ ys) \<longleftrightarrow> naturals xs \<and> naturals ys"
proof (induction xs)
  case (Cons m ms)
  then show ?case by (cases m) simp_all
qed simp

text \<open>Runs of \<open>long: 64\<close> padding.\<close>

lemma long_padding [layout]:
  assumes "64 dvd pos"
  shows "bit_end False pos (replicate n (Bits x c_long 64)) = pos + 64 * n"
  using assms
proof (induction n arbitrary: pos)
  case (Suc n)
  from Suc.prems obtain k where k: "pos = 64 * k" by (elim dvdE)
  then have "bits_start False pos (size_of c_long) 64 = pos"
    by (simp add: bits_start_def c_long_def)
  with Suc.IH [of "pos + 64"] k show ?case by simp
qed simp

lemma padding_members [layout]:
  "members_align False (replicate n (Bits [] t w)) = 1"
  "wf_members (replicate n (Bits x (CInt 8 s) 64))"
  "naturals (replicate n (Bits x t w))"
  by (induction n) simp_all

lemma max_one_numeral [layout]:
  "max (Suc 0) (numeral k) = (numeral k :: nat)" "max (numeral k) (Suc 0) = (numeral k :: nat)"
  by (simp_all add: max_def)

declare max_numeral_Suc [simp del] max_Suc_numeral [simp del]
declare align_up_def [layout] fld_start_def [layout] bits_start_def [layout]
  bit_end_append [layout] members_align_append [layout]
declare bit_end_cong [cong] find_in_cong [cong]

section \<open>Properties\<close>

text \<open>The members of a well-formed struct are placed in the order of their declaration, no two
  of them share a bit, and all of them lie inside the size of the struct.\<close>

lemma members_disjoint_in_order:
  assumes "wf_ctype (CStruct tag ms p)"
  shows "map snd (placements p 0 ms) = ms \<and>
    sorted_wrt (\<lambda>(s, m) (s', m'). s + member_bits m \<le> s') (placements p 0 ms) \<and>
    (\<forall>(s, m) \<in> set (placements p 0 ms). s + member_bits m \<le> 8 * size_of (CStruct tag ms p))"
proof -
  have wf: "wf_members ms" using assms by simp
  have "s + member_bits m \<le> 8 * size_of (CStruct tag ms p)" if "(s, m) \<in> set (placements p 0 ms)" for s m
    using placements_bounds [OF wf that] bit_end_within [OF assms] by simp
  with placements_ordered [OF wf, of p 0] show ?thesis by auto
qed

text \<open>A member found by name, through anonymous structs and unions too, lies inside the object,
  and where no type is packed it starts at a multiple of its alignment, which divides the
  object's.\<close>

lemma named_member_in_bounds_aligned:
  assumes "wf_ctype t" and "natural t" and "field_at t f = Some (k, u)"
  shows "k + size_of u \<le> size_of t \<and> align_of u dvd k \<and> align_of u dvd align_of t"
  using field_at_bounds [OF assms(1,3)] field_at_aligned [OF assms] by simp

end
