(* ===== verification/Vmlinux_Regs.thy ===== *)
theory Vmlinux_Regs
  imports C_Layout
begin

text \<open>
  Types of \<open>ebpf/vmlinux/x86_64/vmlinux_x86_64_6_11.h\<close>: the saved registers a kprobe receives and the BPF map types.
  One definition per declaration, members in the header's order; a declaration longer than
  forty members is split into consecutive member lists.  Pointers keep only the name of their
  target.  Each lemma records the size, the alignment and the well-formedness of a type.
\<close>

definition td___u64 :: ctype where
  "td___u64 = c_ullong"

lemma layout_td___u64 [layout]:
  "size_of td___u64 = 8" "align_of td___u64 = 8" "wf_ctype td___u64" "natural td___u64"
  unfolding td___u64_def by (simp_all add: layout)

definition td_u64 :: ctype where
  "td_u64 = td___u64"

lemma layout_td_u64 [layout]:
  "size_of td_u64 = 8" "align_of td_u64 = 8" "wf_ctype td_u64" "natural td_u64"
  unfolding td_u64_def by (simp_all add: layout)

definition struct_fred_cs :: ctype where
  "struct_fred_cs = CStruct ''fred_cs''
    [Bits ''cs'' td_u64 16, Bits ''sl'' td_u64 2, Bits ''wfe'' td_u64 1] False"

lemma layout_struct_fred_cs [layout]:
  "size_of struct_fred_cs = 8" "align_of struct_fred_cs = 8" "wf_ctype struct_fred_cs" "natural struct_fred_cs"
  unfolding struct_fred_cs_def by (simp_all add: layout)

definition struct_fred_ss :: ctype where
  "struct_fred_ss = CStruct ''fred_ss''
    [Bits ''ss'' td_u64 16, Bits ''sti'' td_u64 1, Bits ''swevent'' td_u64 1,
     Bits ''nmi'' td_u64 1, Bits '''' c_int 13, Bits ''vector'' td_u64 8, Bits '''' c_short 8,
     Bits ''type'' td_u64 4, Bits '''' c_char 4, Bits ''enclave'' td_u64 1,
     Bits ''lm'' td_u64 1, Bits ''nested'' td_u64 1, Bits '''' c_char 1,
     Bits ''insnlen'' td_u64 4] False"

lemma layout_struct_fred_ss [layout]:
  "size_of struct_fred_ss = 8" "align_of struct_fred_ss = 8" "wf_ctype struct_fred_ss" "natural struct_fred_ss"
  unfolding struct_fred_ss_def by (simp_all add: layout)

definition td___u16 :: ctype where
  "td___u16 = c_ushort"

lemma layout_td___u16 [layout]:
  "size_of td___u16 = 2" "align_of td___u16 = 2" "wf_ctype td___u16" "natural td___u16"
  unfolding td___u16_def by (simp_all add: layout)

definition td_u16 :: ctype where
  "td_u16 = td___u16"

lemma layout_td_u16 [layout]:
  "size_of td_u16 = 2" "align_of td_u16 = 2" "wf_ctype td_u16" "natural td_u16"
  unfolding td_u16_def by (simp_all add: layout)

definition struct_pt_regs :: ctype where
  "struct_pt_regs = CStruct ''pt_regs''
    [Fld ''r15'' c_ulong, Fld ''r14'' c_ulong, Fld ''r13'' c_ulong, Fld ''r12'' c_ulong,
     Fld ''bp'' c_ulong, Fld ''bx'' c_ulong, Fld ''r11'' c_ulong, Fld ''r10'' c_ulong,
     Fld ''r9'' c_ulong, Fld ''r8'' c_ulong, Fld ''ax'' c_ulong, Fld ''cx'' c_ulong,
     Fld ''dx'' c_ulong, Fld ''si'' c_ulong, Fld ''di'' c_ulong, Fld ''orig_ax'' c_ulong,
     Fld ''ip'' c_ulong,
     Fld '''' (CUnion '''' [Fld ''cs'' td_u16, Fld ''csx'' td_u64, Fld ''fred_cs'' struct_fred_cs] False),
     Fld ''flags'' c_ulong, Fld ''sp'' c_ulong,
     Fld '''' (CUnion '''' [Fld ''ss'' td_u16, Fld ''ssx'' td_u64, Fld ''fred_ss'' struct_fred_ss] False)] False"

lemma layout_struct_pt_regs [layout]:
  "size_of struct_pt_regs = 168" "align_of struct_pt_regs = 8" "wf_ctype struct_pt_regs" "natural struct_pt_regs"
  unfolding struct_pt_regs_def by (simp_all add: layout)

definition enum_bpf_map_type :: ctype where
  "enum_bpf_map_type = CEnum ''bpf_map_type''
    [(''BPF_MAP_TYPE_UNSPEC'', 0), (''BPF_MAP_TYPE_HASH'', 1), (''BPF_MAP_TYPE_ARRAY'', 2),
     (''BPF_MAP_TYPE_PROG_ARRAY'', 3), (''BPF_MAP_TYPE_PERF_EVENT_ARRAY'', 4),
     (''BPF_MAP_TYPE_PERCPU_HASH'', 5), (''BPF_MAP_TYPE_PERCPU_ARRAY'', 6),
     (''BPF_MAP_TYPE_STACK_TRACE'', 7), (''BPF_MAP_TYPE_CGROUP_ARRAY'', 8),
     (''BPF_MAP_TYPE_LRU_HASH'', 9), (''BPF_MAP_TYPE_LRU_PERCPU_HASH'', 10),
     (''BPF_MAP_TYPE_LPM_TRIE'', 11), (''BPF_MAP_TYPE_ARRAY_OF_MAPS'', 12),
     (''BPF_MAP_TYPE_HASH_OF_MAPS'', 13), (''BPF_MAP_TYPE_DEVMAP'', 14),
     (''BPF_MAP_TYPE_SOCKMAP'', 15), (''BPF_MAP_TYPE_CPUMAP'', 16),
     (''BPF_MAP_TYPE_XSKMAP'', 17), (''BPF_MAP_TYPE_SOCKHASH'', 18),
     (''BPF_MAP_TYPE_CGROUP_STORAGE_DEPRECATED'', 19), (''BPF_MAP_TYPE_CGROUP_STORAGE'', 19),
     (''BPF_MAP_TYPE_REUSEPORT_SOCKARRAY'', 20),
     (''BPF_MAP_TYPE_PERCPU_CGROUP_STORAGE_DEPRECATED'', 21),
     (''BPF_MAP_TYPE_PERCPU_CGROUP_STORAGE'', 21), (''BPF_MAP_TYPE_QUEUE'', 22),
     (''BPF_MAP_TYPE_STACK'', 23), (''BPF_MAP_TYPE_SK_STORAGE'', 24),
     (''BPF_MAP_TYPE_DEVMAP_HASH'', 25), (''BPF_MAP_TYPE_STRUCT_OPS'', 26),
     (''BPF_MAP_TYPE_RINGBUF'', 27), (''BPF_MAP_TYPE_INODE_STORAGE'', 28),
     (''BPF_MAP_TYPE_TASK_STORAGE'', 29), (''BPF_MAP_TYPE_BLOOM_FILTER'', 30),
     (''BPF_MAP_TYPE_USER_RINGBUF'', 31), (''BPF_MAP_TYPE_CGRP_STORAGE'', 32),
     (''BPF_MAP_TYPE_ARENA'', 33), (''__MAX_BPF_MAP_TYPE'', 34)] 4"

lemma layout_enum_bpf_map_type [layout]:
  "size_of enum_bpf_map_type = 4" "align_of enum_bpf_map_type = 4" "wf_ctype enum_bpf_map_type" "natural enum_bpf_map_type"
  unfolding enum_bpf_map_type_def by (simp_all add: layout)

end
