(* ===== verification/Vmlinux_Inode.thy ===== *)
theory Vmlinux_Inode
  imports Vmlinux_Regs
begin

text \<open>
  Types of \<open>ebpf/vmlinux/x86_64/vmlinux_x86_64_6_11.h\<close>: \<open>struct inode\<close> and the types it holds by value.
  One definition per declaration, members in the header's order; a declaration longer than
  forty members is split into consecutive member lists.  Pointers keep only the name of their
  target.  Each lemma records the size, the alignment and the well-formedness of a type.
\<close>

definition enum_rw_hint :: ctype where
  "enum_rw_hint = CEnum ''rw_hint''
    [(''WRITE_LIFE_NOT_SET'', 0), (''WRITE_LIFE_NONE'', 1), (''WRITE_LIFE_SHORT'', 2),
     (''WRITE_LIFE_MEDIUM'', 3), (''WRITE_LIFE_LONG'', 4), (''WRITE_LIFE_EXTREME'', 5)] 1"

lemma layout_enum_rw_hint [layout]:
  "size_of enum_rw_hint = 1" "align_of enum_rw_hint = 1" "wf_ctype enum_rw_hint" "natural enum_rw_hint"
  unfolding enum_rw_hint_def by (simp_all add: layout)

definition struct_list_head :: ctype where
  "struct_list_head = CStruct ''list_head''
    [Fld ''next'' (CPtr ''struct list_head''), Fld ''prev'' (CPtr ''struct list_head'')] False"

lemma layout_struct_list_head [layout]:
  "size_of struct_list_head = 16" "align_of struct_list_head = 8" "wf_ctype struct_list_head" "natural struct_list_head"
  unfolding struct_list_head_def by (simp_all add: layout)

definition struct_rb_root :: ctype where
  "struct_rb_root = CStruct ''rb_root''
    [Fld ''rb_node'' (CPtr ''struct rb_node'')] False"

lemma layout_struct_rb_root [layout]:
  "size_of struct_rb_root = 8" "align_of struct_rb_root = 8" "wf_ctype struct_rb_root" "natural struct_rb_root"
  unfolding struct_rb_root_def by (simp_all add: layout)

definition struct_rb_root_cached :: ctype where
  "struct_rb_root_cached = CStruct ''rb_root_cached''
    [Fld ''rb_root'' struct_rb_root, Fld ''rb_leftmost'' (CPtr ''struct rb_node'')] False"

lemma layout_struct_rb_root_cached [layout]:
  "size_of struct_rb_root_cached = 16" "align_of struct_rb_root_cached = 8" "wf_ctype struct_rb_root_cached" "natural struct_rb_root_cached"
  unfolding struct_rb_root_cached_def by (simp_all add: layout)

definition td_atomic_t :: ctype where
  "td_atomic_t = CStruct ''''
    [Fld ''counter'' c_int] False"

lemma layout_td_atomic_t [layout]:
  "size_of td_atomic_t = 4" "align_of td_atomic_t = 4" "wf_ctype td_atomic_t" "natural td_atomic_t"
  unfolding td_atomic_t_def by (simp_all add: layout)

definition struct_optimistic_spin_queue :: ctype where
  "struct_optimistic_spin_queue = CStruct ''optimistic_spin_queue''
    [Fld ''tail'' td_atomic_t] False"

lemma layout_struct_optimistic_spin_queue [layout]:
  "size_of struct_optimistic_spin_queue = 4" "align_of struct_optimistic_spin_queue = 4" "wf_ctype struct_optimistic_spin_queue" "natural struct_optimistic_spin_queue"
  unfolding struct_optimistic_spin_queue_def by (simp_all add: layout)

definition td___s64 :: ctype where
  "td___s64 = c_llong"

lemma layout_td___s64 [layout]:
  "size_of td___s64 = 8" "align_of td___s64 = 8" "wf_ctype td___s64" "natural td___s64"
  unfolding td___s64_def by (simp_all add: layout)

definition td_s64 :: ctype where
  "td_s64 = td___s64"

lemma layout_td_s64 [layout]:
  "size_of td_s64 = 8" "align_of td_s64 = 8" "wf_ctype td_s64" "natural td_s64"
  unfolding td_s64_def by (simp_all add: layout)

definition td_atomic64_t :: ctype where
  "td_atomic64_t = CStruct ''''
    [Fld ''counter'' td_s64] False"

lemma layout_td_atomic64_t [layout]:
  "size_of td_atomic64_t = 8" "align_of td_atomic64_t = 8" "wf_ctype td_atomic64_t" "natural td_atomic64_t"
  unfolding td_atomic64_t_def by (simp_all add: layout)

definition td_atomic_long_t :: ctype where
  "td_atomic_long_t = td_atomic64_t"

lemma layout_td_atomic_long_t [layout]:
  "size_of td_atomic_long_t = 8" "align_of td_atomic_long_t = 8" "wf_ctype td_atomic_long_t" "natural td_atomic_long_t"
  unfolding td_atomic_long_t_def by (simp_all add: layout)

definition td___u8 :: ctype where
  "td___u8 = c_uchar"

lemma layout_td___u8 [layout]:
  "size_of td___u8 = 1" "align_of td___u8 = 1" "wf_ctype td___u8" "natural td___u8"
  unfolding td___u8_def by (simp_all add: layout)

definition td_u8 :: ctype where
  "td_u8 = td___u8"

lemma layout_td_u8 [layout]:
  "size_of td_u8 = 1" "align_of td_u8 = 1" "wf_ctype td_u8" "natural td_u8"
  unfolding td_u8_def by (simp_all add: layout)

definition struct_qspinlock :: ctype where
  "struct_qspinlock = CStruct ''qspinlock''
    [Fld '''' (CUnion '''' [Fld ''val'' td_atomic_t, Fld '''' (CStruct '''' [Fld ''locked'' td_u8, Fld ''pending'' td_u8] False), Fld '''' (CStruct '''' [Fld ''locked_pending'' td_u16, Fld ''tail'' td_u16] False)] False)] False"

lemma layout_struct_qspinlock [layout]:
  "size_of struct_qspinlock = 4" "align_of struct_qspinlock = 4" "wf_ctype struct_qspinlock" "natural struct_qspinlock"
  unfolding struct_qspinlock_def by (simp_all add: layout)

definition td_arch_spinlock_t :: ctype where
  "td_arch_spinlock_t = struct_qspinlock"

lemma layout_td_arch_spinlock_t [layout]:
  "size_of td_arch_spinlock_t = 4" "align_of td_arch_spinlock_t = 4" "wf_ctype td_arch_spinlock_t" "natural td_arch_spinlock_t"
  unfolding td_arch_spinlock_t_def by (simp_all add: layout)

definition struct_raw_spinlock :: ctype where
  "struct_raw_spinlock = CStruct ''raw_spinlock''
    [Fld ''raw_lock'' td_arch_spinlock_t] False"

lemma layout_struct_raw_spinlock [layout]:
  "size_of struct_raw_spinlock = 4" "align_of struct_raw_spinlock = 4" "wf_ctype struct_raw_spinlock" "natural struct_raw_spinlock"
  unfolding struct_raw_spinlock_def by (simp_all add: layout)

definition td_raw_spinlock_t :: ctype where
  "td_raw_spinlock_t = struct_raw_spinlock"

lemma layout_td_raw_spinlock_t [layout]:
  "size_of td_raw_spinlock_t = 4" "align_of td_raw_spinlock_t = 4" "wf_ctype td_raw_spinlock_t" "natural td_raw_spinlock_t"
  unfolding td_raw_spinlock_t_def by (simp_all add: layout)

definition struct_rw_semaphore :: ctype where
  "struct_rw_semaphore = CStruct ''rw_semaphore''
    [Fld ''count'' td_atomic_long_t, Fld ''owner'' td_atomic_long_t,
     Fld ''osq'' struct_optimistic_spin_queue, Fld ''wait_lock'' td_raw_spinlock_t,
     Fld ''wait_list'' struct_list_head] False"

lemma layout_struct_rw_semaphore [layout]:
  "size_of struct_rw_semaphore = 40" "align_of struct_rw_semaphore = 8" "wf_ctype struct_rw_semaphore" "natural struct_rw_semaphore"
  unfolding struct_rw_semaphore_def by (simp_all add: layout)

definition td_gfp_t :: ctype where
  "td_gfp_t = c_uint"

lemma layout_td_gfp_t [layout]:
  "size_of td_gfp_t = 4" "align_of td_gfp_t = 4" "wf_ctype td_gfp_t" "natural td_gfp_t"
  unfolding td_gfp_t_def by (simp_all add: layout)

definition struct_spinlock :: ctype where
  "struct_spinlock = CStruct ''spinlock''
    [Fld '''' (CUnion '''' [Fld ''rlock'' struct_raw_spinlock] False)] False"

lemma layout_struct_spinlock [layout]:
  "size_of struct_spinlock = 4" "align_of struct_spinlock = 4" "wf_ctype struct_spinlock" "natural struct_spinlock"
  unfolding struct_spinlock_def by (simp_all add: layout)

definition td_spinlock_t :: ctype where
  "td_spinlock_t = struct_spinlock"

lemma layout_td_spinlock_t [layout]:
  "size_of td_spinlock_t = 4" "align_of td_spinlock_t = 4" "wf_ctype td_spinlock_t" "natural td_spinlock_t"
  unfolding td_spinlock_t_def by (simp_all add: layout)

definition struct_xarray :: ctype where
  "struct_xarray = CStruct ''xarray''
    [Fld ''xa_lock'' td_spinlock_t, Fld ''xa_flags'' td_gfp_t, Fld ''xa_head'' (CPtr ''void'')] False"

lemma layout_struct_xarray [layout]:
  "size_of struct_xarray = 16" "align_of struct_xarray = 8" "wf_ctype struct_xarray" "natural struct_xarray"
  unfolding struct_xarray_def by (simp_all add: layout)

definition td___u32 :: ctype where
  "td___u32 = c_uint"

lemma layout_td___u32 [layout]:
  "size_of td___u32 = 4" "align_of td___u32 = 4" "wf_ctype td___u32" "natural td___u32"
  unfolding td___u32_def by (simp_all add: layout)

definition td_u32 :: ctype where
  "td_u32 = td___u32"

lemma layout_td_u32 [layout]:
  "size_of td_u32 = 4" "align_of td_u32 = 4" "wf_ctype td_u32" "natural td_u32"
  unfolding td_u32_def by (simp_all add: layout)

definition td_errseq_t :: ctype where
  "td_errseq_t = td_u32"

lemma layout_td_errseq_t [layout]:
  "size_of td_errseq_t = 4" "align_of td_errseq_t = 4" "wf_ctype td_errseq_t" "natural td_errseq_t"
  unfolding td_errseq_t_def by (simp_all add: layout)

definition struct_address_space :: ctype where
  "struct_address_space = CStruct ''address_space''
    [Fld ''host'' (CPtr ''struct inode''), Fld ''i_pages'' struct_xarray,
     Fld ''invalidate_lock'' struct_rw_semaphore, Fld ''gfp_mask'' td_gfp_t,
     Fld ''i_mmap_writable'' td_atomic_t, Fld ''nr_thps'' td_atomic_t,
     Fld ''i_mmap'' struct_rb_root_cached, Fld ''nrpages'' c_ulong,
     Fld ''writeback_index'' c_ulong, Fld ''a_ops'' (CPtr ''struct address_space_operations''),
     Fld ''flags'' c_ulong, Fld ''wb_err'' td_errseq_t, Fld ''i_private_lock'' td_spinlock_t,
     Fld ''i_private_list'' struct_list_head, Fld ''i_mmap_rwsem'' struct_rw_semaphore,
     Fld ''i_private_data'' (CPtr ''void'')] False"

lemma layout_struct_address_space [layout]:
  "size_of struct_address_space = 200" "align_of struct_address_space = 8" "wf_ctype struct_address_space" "natural struct_address_space"
  unfolding struct_address_space_def by (simp_all add: layout)

definition struct_callback_head :: ctype where
  "struct_callback_head = CStruct ''callback_head''
    [Fld ''next'' (CPtr ''struct callback_head''), Fld ''func'' CFn] False"

lemma layout_struct_callback_head [layout]:
  "size_of struct_callback_head = 16" "align_of struct_callback_head = 8" "wf_ctype struct_callback_head" "natural struct_callback_head"
  unfolding struct_callback_head_def by (simp_all add: layout)

definition struct_hlist_head :: ctype where
  "struct_hlist_head = CStruct ''hlist_head''
    [Fld ''first'' (CPtr ''struct hlist_node'')] False"

lemma layout_struct_hlist_head [layout]:
  "size_of struct_hlist_head = 8" "align_of struct_hlist_head = 8" "wf_ctype struct_hlist_head" "natural struct_hlist_head"
  unfolding struct_hlist_head_def by (simp_all add: layout)

definition struct_hlist_node :: ctype where
  "struct_hlist_node = CStruct ''hlist_node''
    [Fld ''next'' (CPtr ''struct hlist_node''), Fld ''pprev'' (CPtr ''struct hlist_node *'')] False"

lemma layout_struct_hlist_node [layout]:
  "size_of struct_hlist_node = 16" "align_of struct_hlist_node = 8" "wf_ctype struct_hlist_node" "natural struct_hlist_node"
  unfolding struct_hlist_node_def by (simp_all add: layout)

definition td_blkcnt_t :: ctype where
  "td_blkcnt_t = td_u64"

lemma layout_td_blkcnt_t [layout]:
  "size_of td_blkcnt_t = 8" "align_of td_blkcnt_t = 8" "wf_ctype td_blkcnt_t" "natural td_blkcnt_t"
  unfolding td_blkcnt_t_def by (simp_all add: layout)

definition td___kernel_dev_t :: ctype where
  "td___kernel_dev_t = td_u32"

lemma layout_td___kernel_dev_t [layout]:
  "size_of td___kernel_dev_t = 4" "align_of td___kernel_dev_t = 4" "wf_ctype td___kernel_dev_t" "natural td___kernel_dev_t"
  unfolding td___kernel_dev_t_def by (simp_all add: layout)

definition td_dev_t :: ctype where
  "td_dev_t = td___kernel_dev_t"

lemma layout_td_dev_t [layout]:
  "size_of td_dev_t = 4" "align_of td_dev_t = 4" "wf_ctype td_dev_t" "natural td_dev_t"
  unfolding td_dev_t_def by (simp_all add: layout)

definition td___kernel_gid32_t :: ctype where
  "td___kernel_gid32_t = c_uint"

lemma layout_td___kernel_gid32_t [layout]:
  "size_of td___kernel_gid32_t = 4" "align_of td___kernel_gid32_t = 4" "wf_ctype td___kernel_gid32_t" "natural td___kernel_gid32_t"
  unfolding td___kernel_gid32_t_def by (simp_all add: layout)

definition td_gid_t :: ctype where
  "td_gid_t = td___kernel_gid32_t"

lemma layout_td_gid_t [layout]:
  "size_of td_gid_t = 4" "align_of td_gid_t = 4" "wf_ctype td_gid_t" "natural td_gid_t"
  unfolding td_gid_t_def by (simp_all add: layout)

definition td_kgid_t :: ctype where
  "td_kgid_t = CStruct ''''
    [Fld ''val'' td_gid_t] False"

lemma layout_td_kgid_t [layout]:
  "size_of td_kgid_t = 4" "align_of td_kgid_t = 4" "wf_ctype td_kgid_t" "natural td_kgid_t"
  unfolding td_kgid_t_def by (simp_all add: layout)

definition td___kernel_uid32_t :: ctype where
  "td___kernel_uid32_t = c_uint"

lemma layout_td___kernel_uid32_t [layout]:
  "size_of td___kernel_uid32_t = 4" "align_of td___kernel_uid32_t = 4" "wf_ctype td___kernel_uid32_t" "natural td___kernel_uid32_t"
  unfolding td___kernel_uid32_t_def by (simp_all add: layout)

definition td_uid_t :: ctype where
  "td_uid_t = td___kernel_uid32_t"

lemma layout_td_uid_t [layout]:
  "size_of td_uid_t = 4" "align_of td_uid_t = 4" "wf_ctype td_uid_t" "natural td_uid_t"
  unfolding td_uid_t_def by (simp_all add: layout)

definition td_kuid_t :: ctype where
  "td_kuid_t = CStruct ''''
    [Fld ''val'' td_uid_t] False"

lemma layout_td_kuid_t [layout]:
  "size_of td_kuid_t = 4" "align_of td_kuid_t = 4" "wf_ctype td_kuid_t" "natural td_kuid_t"
  unfolding td_kuid_t_def by (simp_all add: layout)

definition td___kernel_loff_t :: ctype where
  "td___kernel_loff_t = c_llong"

lemma layout_td___kernel_loff_t [layout]:
  "size_of td___kernel_loff_t = 8" "align_of td___kernel_loff_t = 8" "wf_ctype td___kernel_loff_t" "natural td___kernel_loff_t"
  unfolding td___kernel_loff_t_def by (simp_all add: layout)

definition td_loff_t :: ctype where
  "td_loff_t = td___kernel_loff_t"

lemma layout_td_loff_t [layout]:
  "size_of td_loff_t = 8" "align_of td_loff_t = 8" "wf_ctype td_loff_t" "natural td_loff_t"
  unfolding td_loff_t_def by (simp_all add: layout)

definition td_time64_t :: ctype where
  "td_time64_t = td___s64"

lemma layout_td_time64_t [layout]:
  "size_of td_time64_t = 8" "align_of td_time64_t = 8" "wf_ctype td_time64_t" "natural td_time64_t"
  unfolding td_time64_t_def by (simp_all add: layout)

definition td_umode_t :: ctype where
  "td_umode_t = c_ushort"

lemma layout_td_umode_t [layout]:
  "size_of td_umode_t = 2" "align_of td_umode_t = 2" "wf_ctype td_umode_t" "natural td_umode_t"
  unfolding td_umode_t_def by (simp_all add: layout)

definition struct_inode_members_1 :: "cmember list" where
  "struct_inode_members_1 =
    [Fld ''i_mode'' td_umode_t, Fld ''i_opflags'' c_ushort, Fld ''i_uid'' td_kuid_t,
     Fld ''i_gid'' td_kgid_t, Fld ''i_flags'' c_uint, Fld ''i_acl'' (CPtr ''struct posix_acl''),
     Fld ''i_default_acl'' (CPtr ''struct posix_acl''),
     Fld ''i_op'' (CPtr ''struct inode_operations''),
     Fld ''i_sb'' (CPtr ''struct super_block''),
     Fld ''i_mapping'' (CPtr ''struct address_space''), Fld ''i_security'' (CPtr ''void''),
     Fld ''i_ino'' c_ulong,
     Fld '''' (CUnion '''' [Fld ''i_nlink'' c_uint, Fld ''__i_nlink'' c_uint] False),
     Fld ''i_rdev'' td_dev_t, Fld ''i_size'' td_loff_t, Fld ''i_atime_sec'' td_time64_t,
     Fld ''i_mtime_sec'' td_time64_t, Fld ''i_ctime_sec'' td_time64_t,
     Fld ''i_atime_nsec'' td_u32, Fld ''i_mtime_nsec'' td_u32, Fld ''i_ctime_nsec'' td_u32,
     Fld ''i_generation'' td_u32, Fld ''i_lock'' td_spinlock_t, Fld ''i_bytes'' c_ushort,
     Fld ''i_blkbits'' td_u8, Fld ''i_write_hint'' enum_rw_hint, Fld ''i_blocks'' td_blkcnt_t,
     Fld ''i_state'' c_ulong, Fld ''i_rwsem'' struct_rw_semaphore, Fld ''dirtied_when'' c_ulong,
     Fld ''dirtied_time_when'' c_ulong, Fld ''i_hash'' struct_hlist_node,
     Fld ''i_io_list'' struct_list_head, Fld ''i_wb'' (CPtr ''struct bdi_writeback''),
     Fld ''i_wb_frn_winner'' c_int, Fld ''i_wb_frn_avg_time'' td_u16,
     Fld ''i_wb_frn_history'' td_u16, Fld ''i_lru'' struct_list_head,
     Fld ''i_sb_list'' struct_list_head, Fld ''i_wb_list'' struct_list_head]"

lemma layout_struct_inode_members_1 [layout]:
  "bit_end False 0 struct_inode_members_1 = 2432" "members_align False struct_inode_members_1 = 8"
  "wf_members struct_inode_members_1" "naturals struct_inode_members_1"
  unfolding struct_inode_members_1_def by (simp_all add: layout)

definition struct_inode_members_2 :: "cmember list" where
  "struct_inode_members_2 =
    [Fld '''' (CUnion '''' [Fld ''i_dentry'' struct_hlist_head, Fld ''i_rcu'' struct_callback_head] False),
     Fld ''i_version'' td_atomic64_t, Fld ''i_sequence'' td_atomic64_t,
     Fld ''i_count'' td_atomic_t, Fld ''i_dio_count'' td_atomic_t,
     Fld ''i_writecount'' td_atomic_t, Fld ''i_readcount'' td_atomic_t,
     Fld '''' (CUnion '''' [Fld ''i_fop'' (CPtr ''struct file_operations''), Fld ''free_inode'' CFn] False),
     Fld ''i_flctx'' (CPtr ''struct file_lock_context''), Fld ''i_data'' struct_address_space,
     Fld ''i_devices'' struct_list_head,
     Fld '''' (CUnion '''' [Fld ''i_pipe'' (CPtr ''struct pipe_inode_info''), Fld ''i_cdev'' (CPtr ''struct cdev''), Fld ''i_link'' (CPtr ''char''), Fld ''i_dir_seq'' c_uint] False),
     Fld ''i_fsnotify_mask'' td___u32,
     Fld ''i_fsnotify_marks'' (CPtr ''struct fsnotify_mark_connector''),
     Fld ''i_crypt_info'' (CPtr ''struct fscrypt_inode_info''),
     Fld ''i_verity_info'' (CPtr ''struct fsverity_info''), Fld ''i_private'' (CPtr ''void'')]"

lemma layout_struct_inode_members_2 [layout]:
  "bit_end False 2432 struct_inode_members_2 = 5056" "members_align False struct_inode_members_2 = 8"
  "wf_members struct_inode_members_2" "naturals struct_inode_members_2"
  unfolding struct_inode_members_2_def by (simp_all add: layout)

definition struct_inode :: ctype where
  "struct_inode = CStruct ''inode''
    (struct_inode_members_1 @
     struct_inode_members_2) False"

lemma layout_struct_inode [layout]:
  "size_of struct_inode = 632" "align_of struct_inode = 8" "wf_ctype struct_inode" "natural struct_inode"
  unfolding struct_inode_def by (simp_all add: layout)

end
