(* ===== verification/Vmlinux_Super.thy ===== *)
theory Vmlinux_Super
  imports Vmlinux_Inode
begin

text \<open>
  Types of \<open>ebpf/vmlinux/x86_64/vmlinux_x86_64_6_11.h\<close>: \<open>struct super_block\<close> and the types it holds by value.
  One definition per declaration, members in the header's order; a declaration longer than
  forty members is split into consecutive member lists.  Pointers keep only the name of their
  target.  Each lemma records the size, the alignment and the well-formedness of a type.
\<close>

definition struct_hlist_bl_head :: ctype where
  "struct_hlist_bl_head = CStruct ''hlist_bl_head''
    [Fld ''first'' (CPtr ''struct hlist_bl_node'')] False"

lemma layout_struct_hlist_bl_head [layout]:
  "size_of struct_hlist_bl_head = 8" "align_of struct_hlist_bl_head = 8" "wf_ctype struct_hlist_bl_head" "natural struct_hlist_bl_head"
  unfolding struct_hlist_bl_head_def by (simp_all add: layout)

definition td_bool :: ctype where
  "td_bool = c_bool"

lemma layout_td_bool [layout]:
  "size_of td_bool = 1" "align_of td_bool = 1" "wf_ctype td_bool" "natural td_bool"
  unfolding td_bool_def by (simp_all add: layout)

definition struct_list_lru :: ctype where
  "struct_list_lru = CStruct ''list_lru''
    [Fld ''node'' (CPtr ''struct list_lru_node''), Fld ''list'' struct_list_head,
     Fld ''shrinker_id'' c_int, Fld ''memcg_aware'' td_bool, Fld ''xa'' struct_xarray] False"

lemma layout_struct_list_lru [layout]:
  "size_of struct_list_lru = 48" "align_of struct_list_lru = 8" "wf_ctype struct_list_lru" "natural struct_list_lru"
  unfolding struct_list_lru_def by (simp_all add: layout)

definition struct_mutex :: ctype where
  "struct_mutex = CStruct ''mutex''
    [Fld ''owner'' td_atomic_long_t, Fld ''wait_lock'' td_raw_spinlock_t,
     Fld ''osq'' struct_optimistic_spin_queue, Fld ''wait_list'' struct_list_head] False"

lemma layout_struct_mutex [layout]:
  "size_of struct_mutex = 32" "align_of struct_mutex = 8" "wf_ctype struct_mutex" "natural struct_mutex"
  unfolding struct_mutex_def by (simp_all add: layout)

definition td_qsize_t :: ctype where
  "td_qsize_t = c_llong"

lemma layout_td_qsize_t [layout]:
  "size_of td_qsize_t = 8" "align_of td_qsize_t = 8" "wf_ctype td_qsize_t" "natural td_qsize_t"
  unfolding td_qsize_t_def by (simp_all add: layout)

definition struct_mem_dqinfo :: ctype where
  "struct_mem_dqinfo = CStruct ''mem_dqinfo''
    [Fld ''dqi_format'' (CPtr ''struct quota_format_type''), Fld ''dqi_fmt_id'' c_int,
     Fld ''dqi_dirty_list'' struct_list_head, Fld ''dqi_flags'' c_ulong,
     Fld ''dqi_bgrace'' c_uint, Fld ''dqi_igrace'' c_uint, Fld ''dqi_max_spc_limit'' td_qsize_t,
     Fld ''dqi_max_ino_limit'' td_qsize_t, Fld ''dqi_priv'' (CPtr ''void'')] False"

lemma layout_struct_mem_dqinfo [layout]:
  "size_of struct_mem_dqinfo = 72" "align_of struct_mem_dqinfo = 8" "wf_ctype struct_mem_dqinfo" "natural struct_mem_dqinfo"
  unfolding struct_mem_dqinfo_def by (simp_all add: layout)

definition struct_quota_info :: ctype where
  "struct_quota_info = CStruct ''quota_info''
    [Fld ''flags'' c_uint, Fld ''dqio_sem'' struct_rw_semaphore,
     Fld ''files'' (CArr (CPtr ''struct inode'') 3), Fld ''info'' (CArr struct_mem_dqinfo 3),
     Fld ''ops'' (CArr (CPtr ''struct quota_format_ops'') 3)] False"

lemma layout_struct_quota_info [layout]:
  "size_of struct_quota_info = 312" "align_of struct_quota_info = 8" "wf_ctype struct_quota_info" "natural struct_quota_info"
  unfolding struct_quota_info_def by (simp_all add: layout)

definition struct_wait_queue_head :: ctype where
  "struct_wait_queue_head = CStruct ''wait_queue_head''
    [Fld ''lock'' td_spinlock_t, Fld ''head'' struct_list_head] False"

lemma layout_struct_wait_queue_head [layout]:
  "size_of struct_wait_queue_head = 24" "align_of struct_wait_queue_head = 8" "wf_ctype struct_wait_queue_head" "natural struct_wait_queue_head"
  unfolding struct_wait_queue_head_def by (simp_all add: layout)

definition td_wait_queue_head_t :: ctype where
  "td_wait_queue_head_t = struct_wait_queue_head"

lemma layout_td_wait_queue_head_t [layout]:
  "size_of td_wait_queue_head_t = 24" "align_of td_wait_queue_head_t = 8" "wf_ctype td_wait_queue_head_t" "natural td_wait_queue_head_t"
  unfolding td_wait_queue_head_t_def by (simp_all add: layout)

definition struct_rcu_sync :: ctype where
  "struct_rcu_sync = CStruct ''rcu_sync''
    [Fld ''gp_state'' c_int, Fld ''gp_count'' c_int, Fld ''gp_wait'' td_wait_queue_head_t,
     Fld ''cb_head'' struct_callback_head] False"

lemma layout_struct_rcu_sync [layout]:
  "size_of struct_rcu_sync = 48" "align_of struct_rcu_sync = 8" "wf_ctype struct_rcu_sync" "natural struct_rcu_sync"
  unfolding struct_rcu_sync_def by (simp_all add: layout)

definition struct_rcuwait :: ctype where
  "struct_rcuwait = CStruct ''rcuwait''
    [Fld ''task'' (CPtr ''struct task_struct'')] False"

lemma layout_struct_rcuwait [layout]:
  "size_of struct_rcuwait = 8" "align_of struct_rcuwait = 8" "wf_ctype struct_rcuwait" "natural struct_rcuwait"
  unfolding struct_rcuwait_def by (simp_all add: layout)

definition struct_percpu_rw_semaphore :: ctype where
  "struct_percpu_rw_semaphore = CStruct ''percpu_rw_semaphore''
    [Fld ''rss'' struct_rcu_sync, Fld ''read_count'' (CPtr ''unsigned int''),
     Fld ''writer'' struct_rcuwait, Fld ''waiters'' td_wait_queue_head_t,
     Fld ''block'' td_atomic_t] False"

lemma layout_struct_percpu_rw_semaphore [layout]:
  "size_of struct_percpu_rw_semaphore = 96" "align_of struct_percpu_rw_semaphore = 8" "wf_ctype struct_percpu_rw_semaphore" "natural struct_percpu_rw_semaphore"
  unfolding struct_percpu_rw_semaphore_def by (simp_all add: layout)

definition struct_sb_writers :: ctype where
  "struct_sb_writers = CStruct ''sb_writers''
    [Fld ''frozen'' c_ushort, Fld ''freeze_kcount'' c_int, Fld ''freeze_ucount'' c_int,
     Fld ''rw_sem'' (CArr struct_percpu_rw_semaphore 3)] False"

lemma layout_struct_sb_writers [layout]:
  "size_of struct_sb_writers = 304" "align_of struct_sb_writers = 8" "wf_ctype struct_sb_writers" "natural struct_sb_writers"
  unfolding struct_sb_writers_def by (simp_all add: layout)

definition td_work_func_t :: ctype where
  "td_work_func_t = CFn"

lemma layout_td_work_func_t [layout]:
  "size_of td_work_func_t = 8" "align_of td_work_func_t = 8" "wf_ctype td_work_func_t" "natural td_work_func_t"
  unfolding td_work_func_t_def by (simp_all add: layout)

definition struct_work_struct :: ctype where
  "struct_work_struct = CStruct ''work_struct''
    [Fld ''data'' td_atomic_long_t, Fld ''entry'' struct_list_head, Fld ''func'' td_work_func_t] False"

lemma layout_struct_work_struct [layout]:
  "size_of struct_work_struct = 32" "align_of struct_work_struct = 8" "wf_ctype struct_work_struct" "natural struct_work_struct"
  unfolding struct_work_struct_def by (simp_all add: layout)

definition td_uuid_t :: ctype where
  "td_uuid_t = CStruct ''''
    [Fld ''b'' (CArr td___u8 16)] False"

lemma layout_td_uuid_t [layout]:
  "size_of td_uuid_t = 16" "align_of td_uuid_t = 1" "wf_ctype td_uuid_t" "natural td_uuid_t"
  unfolding td_uuid_t_def by (simp_all add: layout)

definition struct_super_block_members_1 :: "cmember list" where
  "struct_super_block_members_1 =
    [Fld ''s_list'' struct_list_head, Fld ''s_dev'' td_dev_t, Fld ''s_blocksize_bits'' c_uchar,
     Fld ''s_blocksize'' c_ulong, Fld ''s_maxbytes'' td_loff_t,
     Fld ''s_type'' (CPtr ''struct file_system_type''),
     Fld ''s_op'' (CPtr ''struct super_operations''),
     Fld ''dq_op'' (CPtr ''struct dquot_operations''),
     Fld ''s_qcop'' (CPtr ''struct quotactl_ops''),
     Fld ''s_export_op'' (CPtr ''struct export_operations''), Fld ''s_flags'' c_ulong,
     Fld ''s_iflags'' c_ulong, Fld ''s_magic'' c_ulong, Fld ''s_root'' (CPtr ''struct dentry''),
     Fld ''s_umount'' struct_rw_semaphore, Fld ''s_count'' c_int, Fld ''s_active'' td_atomic_t,
     Fld ''s_security'' (CPtr ''void''), Fld ''s_xattr'' (CPtr ''struct xattr_handler *''),
     Fld ''s_cop'' (CPtr ''struct fscrypt_operations''),
     Fld ''s_master_keys'' (CPtr ''struct fscrypt_keyring''),
     Fld ''s_vop'' (CPtr ''struct fsverity_operations''),
     Fld ''s_encoding'' (CPtr ''struct unicode_map''), Fld ''s_encoding_flags'' td___u16,
     Fld ''s_roots'' struct_hlist_bl_head, Fld ''s_mounts'' struct_list_head,
     Fld ''s_bdev'' (CPtr ''struct block_device''), Fld ''s_bdev_file'' (CPtr ''struct file''),
     Fld ''s_bdi'' (CPtr ''struct backing_dev_info''), Fld ''s_mtd'' (CPtr ''struct mtd_info''),
     Fld ''s_instances'' struct_hlist_node, Fld ''s_quota_types'' c_uint,
     Fld ''s_dquot'' struct_quota_info, Fld ''s_writers'' struct_sb_writers,
     Fld ''s_fs_info'' (CPtr ''void''), Fld ''s_time_gran'' td_u32,
     Fld ''s_time_min'' td_time64_t, Fld ''s_time_max'' td_time64_t,
     Fld ''s_fsnotify_mask'' td___u32,
     Fld ''s_fsnotify_info'' (CPtr ''struct fsnotify_sb_info'')]"

lemma layout_struct_super_block_members_1 [layout]:
  "bit_end False 0 struct_super_block_members_1 = 7680" "members_align False struct_super_block_members_1 = 8"
  "wf_members struct_super_block_members_1" "naturals struct_super_block_members_1"
  unfolding struct_super_block_members_1_def by (simp_all add: layout)

definition struct_super_block_members_2 :: "cmember list" where
  "struct_super_block_members_2 =
    [Fld ''s_id'' (CArr c_char 32), Fld ''s_uuid'' td_uuid_t, Fld ''s_uuid_len'' td_u8,
     Fld ''s_sysfs_name'' (CArr c_char 37), Fld ''s_max_links'' c_uint,
     Fld ''s_vfs_rename_mutex'' struct_mutex, Fld ''s_subtype'' (CPtr ''char''),
     Fld ''s_d_op'' (CPtr ''struct dentry_operations''),
     Fld ''s_shrink'' (CPtr ''struct shrinker''), Fld ''s_remove_count'' td_atomic_long_t,
     Fld ''s_readonly_remount'' c_int, Fld ''s_wb_err'' td_errseq_t,
     Fld ''s_dio_done_wq'' (CPtr ''struct workqueue_struct''), Fld ''s_pins'' struct_hlist_head,
     Fld ''s_user_ns'' (CPtr ''struct user_namespace''), Fld ''s_dentry_lru'' struct_list_lru,
     Fld ''s_inode_lru'' struct_list_lru, Fld ''rcu'' struct_callback_head,
     Fld ''destroy_work'' struct_work_struct, Fld ''s_sync_lock'' struct_mutex,
     Fld ''s_stack_depth'' c_int, Bits '''' c_long 64, Fld ''s_inode_list_lock'' td_spinlock_t,
     Fld ''s_inodes'' struct_list_head, Fld ''s_inode_wblist_lock'' td_spinlock_t,
     Fld ''s_inodes_wb'' struct_list_head, Bits '''' c_long 64, Bits '''' c_long 64]"

lemma layout_struct_super_block_members_2 [layout]:
  "bit_end False 7680 struct_super_block_members_2 = 11264" "members_align False struct_super_block_members_2 = 8"
  "wf_members struct_super_block_members_2" "naturals struct_super_block_members_2"
  unfolding struct_super_block_members_2_def by (simp_all add: layout)

definition struct_super_block :: ctype where
  "struct_super_block = CStruct ''super_block''
    (struct_super_block_members_1 @
     struct_super_block_members_2) False"

lemma layout_struct_super_block [layout]:
  "size_of struct_super_block = 1408" "align_of struct_super_block = 8" "wf_ctype struct_super_block" "natural struct_super_block"
  unfolding struct_super_block_def by (simp_all add: layout)

end
