(* ===== verification/Vmlinux_Task.thy ===== *)
theory Vmlinux_Task
  imports Vmlinux_Super
begin

text \<open>
  Types of \<open>ebpf/vmlinux/x86_64/vmlinux_x86_64_6_11.h\<close>: \<open>struct task_struct\<close>, the current task of the BPF helpers, and the types it holds.
  One definition per declaration, members in the header's order; a declaration longer than
  forty members is split into consecutive member lists.  Pointers keep only the name of their
  target.  Each lemma records the size, the alignment and the well-formedness of a type.
\<close>

definition struct_llist_node :: ctype where
  "struct_llist_node = CStruct ''llist_node''
    [Fld ''next'' (CPtr ''struct llist_node'')] False"

lemma layout_struct_llist_node [layout]:
  "size_of struct_llist_node = 8" "align_of struct_llist_node = 8" "wf_ctype struct_llist_node" "natural struct_llist_node"
  unfolding struct_llist_node_def by (simp_all add: layout)

definition struct___call_single_node :: ctype where
  "struct___call_single_node = CStruct ''__call_single_node''
    [Fld ''llist'' struct_llist_node,
     Fld '''' (CUnion '''' [Fld ''u_flags'' c_uint, Fld ''a_flags'' td_atomic_t] False),
     Fld ''src'' td_u16, Fld ''dst'' td_u16] False"

lemma layout_struct___call_single_node [layout]:
  "size_of struct___call_single_node = 16" "align_of struct___call_single_node = 8" "wf_ctype struct___call_single_node" "natural struct___call_single_node"
  unfolding struct___call_single_node_def by (simp_all add: layout)

definition struct_kmap_ctrl :: ctype where
  "struct_kmap_ctrl = CStruct ''kmap_ctrl''
    [] False"

lemma layout_struct_kmap_ctrl [layout]:
  "size_of struct_kmap_ctrl = 0" "align_of struct_kmap_ctrl = 1" "wf_ctype struct_kmap_ctrl" "natural struct_kmap_ctrl"
  unfolding struct_kmap_ctrl_def by (simp_all add: layout)

definition struct_latency_record :: ctype where
  "struct_latency_record = CStruct ''latency_record''
    [Fld ''backtrace'' (CArr c_ulong 12), Fld ''count'' c_uint, Fld ''time'' c_ulong,
     Fld ''max'' c_ulong] False"

lemma layout_struct_latency_record [layout]:
  "size_of struct_latency_record = 120" "align_of struct_latency_record = 8" "wf_ctype struct_latency_record" "natural struct_latency_record"
  unfolding struct_latency_record_def by (simp_all add: layout)

definition struct_llist_head :: ctype where
  "struct_llist_head = CStruct ''llist_head''
    [Fld ''first'' (CPtr ''struct llist_node'')] False"

lemma layout_struct_llist_head [layout]:
  "size_of struct_llist_head = 8" "align_of struct_llist_head = 8" "wf_ctype struct_llist_head" "natural struct_llist_head"
  unfolding struct_llist_head_def by (simp_all add: layout)

definition struct_page_frag :: ctype where
  "struct_page_frag = CStruct ''page_frag''
    [Fld ''page'' (CPtr ''struct page''), Fld ''offset'' td___u32, Fld ''size'' td___u32] False"

lemma layout_struct_page_frag [layout]:
  "size_of struct_page_frag = 16" "align_of struct_page_frag = 8" "wf_ctype struct_page_frag" "natural struct_page_frag"
  unfolding struct_page_frag_def by (simp_all add: layout)

definition struct_plist_node :: ctype where
  "struct_plist_node = CStruct ''plist_node''
    [Fld ''prio'' c_int, Fld ''prio_list'' struct_list_head, Fld ''node_list'' struct_list_head] False"

lemma layout_struct_plist_node [layout]:
  "size_of struct_plist_node = 40" "align_of struct_plist_node = 8" "wf_ctype struct_plist_node" "natural struct_plist_node"
  unfolding struct_plist_node_def by (simp_all add: layout)

definition struct_timerqueue_head :: ctype where
  "struct_timerqueue_head = CStruct ''timerqueue_head''
    [Fld ''rb_root'' struct_rb_root_cached] False"

lemma layout_struct_timerqueue_head [layout]:
  "size_of struct_timerqueue_head = 16" "align_of struct_timerqueue_head = 8" "wf_ctype struct_timerqueue_head" "natural struct_timerqueue_head"
  unfolding struct_timerqueue_head_def by (simp_all add: layout)

definition struct_posix_cputimer_base :: ctype where
  "struct_posix_cputimer_base = CStruct ''posix_cputimer_base''
    [Fld ''nextevt'' td_u64, Fld ''tqhead'' struct_timerqueue_head] False"

lemma layout_struct_posix_cputimer_base [layout]:
  "size_of struct_posix_cputimer_base = 24" "align_of struct_posix_cputimer_base = 8" "wf_ctype struct_posix_cputimer_base" "natural struct_posix_cputimer_base"
  unfolding struct_posix_cputimer_base_def by (simp_all add: layout)

definition struct_posix_cputimers :: ctype where
  "struct_posix_cputimers = CStruct ''posix_cputimers''
    [Fld ''bases'' (CArr struct_posix_cputimer_base 3), Fld ''timers_active'' c_uint,
     Fld ''expiry_active'' c_uint] False"

lemma layout_struct_posix_cputimers [layout]:
  "size_of struct_posix_cputimers = 80" "align_of struct_posix_cputimers = 8" "wf_ctype struct_posix_cputimers" "natural struct_posix_cputimers"
  unfolding struct_posix_cputimers_def by (simp_all add: layout)

definition struct_posix_cputimers_work :: ctype where
  "struct_posix_cputimers_work = CStruct ''posix_cputimers_work''
    [Fld ''work'' struct_callback_head, Fld ''mutex'' struct_mutex, Fld ''scheduled'' c_uint] False"

lemma layout_struct_posix_cputimers_work [layout]:
  "size_of struct_posix_cputimers_work = 56" "align_of struct_posix_cputimers_work = 8" "wf_ctype struct_posix_cputimers_work" "natural struct_posix_cputimers_work"
  unfolding struct_posix_cputimers_work_def by (simp_all add: layout)

definition struct_prev_cputime :: ctype where
  "struct_prev_cputime = CStruct ''prev_cputime''
    [Fld ''utime'' td_u64, Fld ''stime'' td_u64, Fld ''lock'' td_raw_spinlock_t] False"

lemma layout_struct_prev_cputime [layout]:
  "size_of struct_prev_cputime = 24" "align_of struct_prev_cputime = 8" "wf_ctype struct_prev_cputime" "natural struct_prev_cputime"
  unfolding struct_prev_cputime_def by (simp_all add: layout)

definition struct_rb_node :: ctype where
  "struct_rb_node = CStruct ''rb_node''
    [Fld ''__rb_parent_color'' c_ulong, Fld ''rb_right'' (CPtr ''struct rb_node''),
     Fld ''rb_left'' (CPtr ''struct rb_node'')] False"

lemma layout_struct_rb_node [layout]:
  "size_of struct_rb_node = 24" "align_of struct_rb_node = 8" "wf_ctype struct_rb_node" "natural struct_rb_node"
  unfolding struct_rb_node_def by (simp_all add: layout)

definition enum_timespec_type :: ctype where
  "enum_timespec_type = CEnum ''timespec_type''
    [(''TT_NONE'', 0), (''TT_NATIVE'', 1), (''TT_COMPAT'', 2)] 4"

lemma layout_enum_timespec_type [layout]:
  "size_of enum_timespec_type = 4" "align_of enum_timespec_type = 4" "wf_ctype enum_timespec_type" "natural enum_timespec_type"
  unfolding enum_timespec_type_def by (simp_all add: layout)

definition td___kernel_clockid_t :: ctype where
  "td___kernel_clockid_t = c_int"

lemma layout_td___kernel_clockid_t [layout]:
  "size_of td___kernel_clockid_t = 4" "align_of td___kernel_clockid_t = 4" "wf_ctype td___kernel_clockid_t" "natural td___kernel_clockid_t"
  unfolding td___kernel_clockid_t_def by (simp_all add: layout)

definition td_clockid_t :: ctype where
  "td_clockid_t = td___kernel_clockid_t"

lemma layout_td_clockid_t [layout]:
  "size_of td_clockid_t = 4" "align_of td_clockid_t = 4" "wf_ctype td_clockid_t" "natural td_clockid_t"
  unfolding td_clockid_t_def by (simp_all add: layout)

definition struct_restart_block :: ctype where
  "struct_restart_block = CStruct ''restart_block''
    [Fld ''arch_data'' c_ulong, Fld ''fn'' CFn,
     Fld '''' (CUnion '''' [Fld ''futex'' (CStruct '''' [Fld ''uaddr'' (CPtr ''u32''), Fld ''val'' td_u32, Fld ''flags'' td_u32, Fld ''bitset'' td_u32, Fld ''time'' td_u64, Fld ''uaddr2'' (CPtr ''u32'')] False), Fld ''nanosleep'' (CStruct '''' [Fld ''clockid'' td_clockid_t, Fld ''type'' enum_timespec_type, Fld '''' (CUnion '''' [Fld ''rmtp'' (CPtr ''struct __kernel_timespec''), Fld ''compat_rmtp'' (CPtr ''struct old_timespec32'')] False), Fld ''expires'' td_u64] False), Fld ''poll'' (CStruct '''' [Fld ''ufds'' (CPtr ''struct pollfd''), Fld ''nfds'' c_int, Fld ''has_timeout'' c_int, Fld ''tv_sec'' c_ulong, Fld ''tv_nsec'' c_ulong] False)] False)] False"

lemma layout_struct_restart_block [layout]:
  "size_of struct_restart_block = 56" "align_of struct_restart_block = 8" "wf_ctype struct_restart_block" "natural struct_restart_block"
  unfolding struct_restart_block_def by (simp_all add: layout)

definition td_ktime_t :: ctype where
  "td_ktime_t = td_s64"

lemma layout_td_ktime_t [layout]:
  "size_of td_ktime_t = 8" "align_of td_ktime_t = 8" "wf_ctype td_ktime_t" "natural td_ktime_t"
  unfolding td_ktime_t_def by (simp_all add: layout)

definition struct_timerqueue_node :: ctype where
  "struct_timerqueue_node = CStruct ''timerqueue_node''
    [Fld ''node'' struct_rb_node, Fld ''expires'' td_ktime_t] False"

lemma layout_struct_timerqueue_node [layout]:
  "size_of struct_timerqueue_node = 32" "align_of struct_timerqueue_node = 8" "wf_ctype struct_timerqueue_node" "natural struct_timerqueue_node"
  unfolding struct_timerqueue_node_def by (simp_all add: layout)

definition struct_hrtimer :: ctype where
  "struct_hrtimer = CStruct ''hrtimer''
    [Fld ''node'' struct_timerqueue_node, Fld ''_softexpires'' td_ktime_t, Fld ''function'' CFn,
     Fld ''base'' (CPtr ''struct hrtimer_clock_base''), Fld ''state'' td_u8,
     Fld ''is_rel'' td_u8, Fld ''is_soft'' td_u8, Fld ''is_hard'' td_u8] False"

lemma layout_struct_hrtimer [layout]:
  "size_of struct_hrtimer = 64" "align_of struct_hrtimer = 8" "wf_ctype struct_hrtimer" "natural struct_hrtimer"
  unfolding struct_hrtimer_def by (simp_all add: layout)

definition td_dl_server_has_tasks_f :: ctype where
  "td_dl_server_has_tasks_f = CFn"

lemma layout_td_dl_server_has_tasks_f [layout]:
  "size_of td_dl_server_has_tasks_f = 8" "align_of td_dl_server_has_tasks_f = 8" "wf_ctype td_dl_server_has_tasks_f" "natural td_dl_server_has_tasks_f"
  unfolding td_dl_server_has_tasks_f_def by (simp_all add: layout)

definition td_dl_server_pick_f :: ctype where
  "td_dl_server_pick_f = CFn"

lemma layout_td_dl_server_pick_f [layout]:
  "size_of td_dl_server_pick_f = 8" "align_of td_dl_server_pick_f = 8" "wf_ctype td_dl_server_pick_f" "natural td_dl_server_pick_f"
  unfolding td_dl_server_pick_f_def by (simp_all add: layout)

definition struct_sched_dl_entity :: ctype where
  "struct_sched_dl_entity = CStruct ''sched_dl_entity''
    [Fld ''rb_node'' struct_rb_node, Fld ''dl_runtime'' td_u64, Fld ''dl_deadline'' td_u64,
     Fld ''dl_period'' td_u64, Fld ''dl_bw'' td_u64, Fld ''dl_density'' td_u64,
     Fld ''runtime'' td_s64, Fld ''deadline'' td_u64, Fld ''flags'' c_uint,
     Bits ''dl_throttled'' c_uint 1, Bits ''dl_yielded'' c_uint 1,
     Bits ''dl_non_contending'' c_uint 1, Bits ''dl_overrun'' c_uint 1,
     Bits ''dl_server'' c_uint 1, Fld ''dl_timer'' struct_hrtimer,
     Fld ''inactive_timer'' struct_hrtimer, Fld ''rq'' (CPtr ''struct rq''),
     Fld ''server_has_tasks'' td_dl_server_has_tasks_f, Fld ''server_pick'' td_dl_server_pick_f,
     Fld ''pi_se'' (CPtr ''struct sched_dl_entity'')] False"

lemma layout_struct_sched_dl_entity [layout]:
  "size_of struct_sched_dl_entity = 248" "align_of struct_sched_dl_entity = 8" "wf_ctype struct_sched_dl_entity" "natural struct_sched_dl_entity"
  unfolding struct_sched_dl_entity_def by (simp_all add: layout)

definition struct_load_weight :: ctype where
  "struct_load_weight = CStruct ''load_weight''
    [Fld ''weight'' c_ulong, Fld ''inv_weight'' td_u32] False"

lemma layout_struct_load_weight [layout]:
  "size_of struct_load_weight = 16" "align_of struct_load_weight = 8" "wf_ctype struct_load_weight" "natural struct_load_weight"
  unfolding struct_load_weight_def by (simp_all add: layout)

definition struct_sched_avg :: ctype where
  "struct_sched_avg = CStruct ''sched_avg''
    [Fld ''last_update_time'' td_u64, Fld ''load_sum'' td_u64, Fld ''runnable_sum'' td_u64,
     Fld ''util_sum'' td_u32, Fld ''period_contrib'' td_u32, Fld ''load_avg'' c_ulong,
     Fld ''runnable_avg'' c_ulong, Fld ''util_avg'' c_ulong, Fld ''util_est'' c_uint] False"

lemma layout_struct_sched_avg [layout]:
  "size_of struct_sched_avg = 64" "align_of struct_sched_avg = 8" "wf_ctype struct_sched_avg" "natural struct_sched_avg"
  unfolding struct_sched_avg_def by (simp_all add: layout)

definition struct_sched_entity :: ctype where
  "struct_sched_entity = CStruct ''sched_entity''
    [Fld ''load'' struct_load_weight, Fld ''run_node'' struct_rb_node, Fld ''deadline'' td_u64,
     Fld ''min_vruntime'' td_u64, Fld ''group_node'' struct_list_head, Fld ''on_rq'' c_uint,
     Fld ''exec_start'' td_u64, Fld ''sum_exec_runtime'' td_u64,
     Fld ''prev_sum_exec_runtime'' td_u64, Fld ''vruntime'' td_u64, Fld ''vlag'' td_s64,
     Fld ''slice'' td_u64, Fld ''nr_migrations'' td_u64, Fld ''depth'' c_int,
     Fld ''parent'' (CPtr ''struct sched_entity''), Fld ''cfs_rq'' (CPtr ''struct cfs_rq''),
     Fld ''my_q'' (CPtr ''struct cfs_rq''), Fld ''runnable_weight'' c_ulong,
     Bits '''' c_long 64, Bits '''' c_long 64, Fld ''avg'' struct_sched_avg] False"

lemma layout_struct_sched_entity [layout]:
  "size_of struct_sched_entity = 256" "align_of struct_sched_entity = 8" "wf_ctype struct_sched_entity" "natural struct_sched_entity"
  unfolding struct_sched_entity_def by (simp_all add: layout)

definition struct_sched_info :: ctype where
  "struct_sched_info = CStruct ''sched_info''
    [Fld ''pcount'' c_ulong, Fld ''run_delay'' c_ullong, Fld ''last_arrival'' c_ullong,
     Fld ''last_queued'' c_ullong] False"

lemma layout_struct_sched_info [layout]:
  "size_of struct_sched_info = 32" "align_of struct_sched_info = 8" "wf_ctype struct_sched_info" "natural struct_sched_info"
  unfolding struct_sched_info_def by (simp_all add: layout)

definition struct_sched_rt_entity :: ctype where
  "struct_sched_rt_entity = CStruct ''sched_rt_entity''
    [Fld ''run_list'' struct_list_head, Fld ''timeout'' c_ulong, Fld ''watchdog_stamp'' c_ulong,
     Fld ''time_slice'' c_uint, Fld ''on_rq'' c_ushort, Fld ''on_list'' c_ushort,
     Fld ''back'' (CPtr ''struct sched_rt_entity'')] False"

lemma layout_struct_sched_rt_entity [layout]:
  "size_of struct_sched_rt_entity = 48" "align_of struct_sched_rt_entity = 8" "wf_ctype struct_sched_rt_entity" "natural struct_sched_rt_entity"
  unfolding struct_sched_rt_entity_def by (simp_all add: layout)

definition struct_sched_statistics :: ctype where
  "struct_sched_statistics = CStruct ''sched_statistics''
    [Fld ''wait_start'' td_u64, Fld ''wait_max'' td_u64, Fld ''wait_count'' td_u64,
     Fld ''wait_sum'' td_u64, Fld ''iowait_count'' td_u64, Fld ''iowait_sum'' td_u64,
     Fld ''sleep_start'' td_u64, Fld ''sleep_max'' td_u64, Fld ''sum_sleep_runtime'' td_s64,
     Fld ''block_start'' td_u64, Fld ''block_max'' td_u64, Fld ''sum_block_runtime'' td_s64,
     Fld ''exec_max'' td_s64, Fld ''slice_max'' td_u64, Fld ''nr_migrations_cold'' td_u64,
     Fld ''nr_failed_migrations_affine'' td_u64, Fld ''nr_failed_migrations_running'' td_u64,
     Fld ''nr_failed_migrations_hot'' td_u64, Fld ''nr_forced_migrations'' td_u64,
     Fld ''nr_wakeups'' td_u64, Fld ''nr_wakeups_sync'' td_u64,
     Fld ''nr_wakeups_migrate'' td_u64, Fld ''nr_wakeups_local'' td_u64,
     Fld ''nr_wakeups_remote'' td_u64, Fld ''nr_wakeups_affine'' td_u64,
     Fld ''nr_wakeups_affine_attempts'' td_u64, Fld ''nr_wakeups_passive'' td_u64,
     Fld ''nr_wakeups_idle'' td_u64, Fld ''core_forceidle_sum'' td_u64, Bits '''' c_long 64,
     Bits '''' c_long 64, Bits '''' c_long 64] False"

lemma layout_struct_sched_statistics [layout]:
  "size_of struct_sched_statistics = 256" "align_of struct_sched_statistics = 8" "wf_ctype struct_sched_statistics" "natural struct_sched_statistics"
  unfolding struct_sched_statistics_def by (simp_all add: layout)

definition struct_seccomp :: ctype where
  "struct_seccomp = CStruct ''seccomp''
    [Fld ''mode'' c_int, Fld ''filter_count'' td_atomic_t,
     Fld ''filter'' (CPtr ''struct seccomp_filter'')] False"

lemma layout_struct_seccomp [layout]:
  "size_of struct_seccomp = 16" "align_of struct_seccomp = 8" "wf_ctype struct_seccomp" "natural struct_seccomp"
  unfolding struct_seccomp_def by (simp_all add: layout)

definition td_sigset_t :: ctype where
  "td_sigset_t = CStruct ''''
    [Fld ''sig'' (CArr c_ulong 1)] False"

lemma layout_td_sigset_t [layout]:
  "size_of td_sigset_t = 8" "align_of td_sigset_t = 8" "wf_ctype td_sigset_t" "natural td_sigset_t"
  unfolding td_sigset_t_def by (simp_all add: layout)

definition struct_sigpending :: ctype where
  "struct_sigpending = CStruct ''sigpending''
    [Fld ''list'' struct_list_head, Fld ''signal'' td_sigset_t] False"

lemma layout_struct_sigpending [layout]:
  "size_of struct_sigpending = 24" "align_of struct_sigpending = 8" "wf_ctype struct_sigpending" "natural struct_sigpending"
  unfolding struct_sigpending_def by (simp_all add: layout)

definition struct_syscall_user_dispatch :: ctype where
  "struct_syscall_user_dispatch = CStruct ''syscall_user_dispatch''
    [Fld ''selector'' (CPtr ''char''), Fld ''offset'' c_ulong, Fld ''len'' c_ulong,
     Fld ''on_dispatch'' td_bool] False"

lemma layout_struct_syscall_user_dispatch [layout]:
  "size_of struct_syscall_user_dispatch = 32" "align_of struct_syscall_user_dispatch = 8" "wf_ctype struct_syscall_user_dispatch" "natural struct_syscall_user_dispatch"
  unfolding struct_syscall_user_dispatch_def by (simp_all add: layout)

definition struct_sysv_sem :: ctype where
  "struct_sysv_sem = CStruct ''sysv_sem''
    [Fld ''undo_list'' (CPtr ''struct sem_undo_list'')] False"

lemma layout_struct_sysv_sem [layout]:
  "size_of struct_sysv_sem = 8" "align_of struct_sysv_sem = 8" "wf_ctype struct_sysv_sem" "natural struct_sysv_sem"
  unfolding struct_sysv_sem_def by (simp_all add: layout)

definition struct_sysv_shm :: ctype where
  "struct_sysv_shm = CStruct ''sysv_shm''
    [Fld ''shm_clist'' struct_list_head] False"

lemma layout_struct_sysv_shm [layout]:
  "size_of struct_sysv_shm = 16" "align_of struct_sysv_shm = 8" "wf_ctype struct_sysv_shm" "natural struct_sysv_shm"
  unfolding struct_sysv_shm_def by (simp_all add: layout)

definition struct_task_io_accounting :: ctype where
  "struct_task_io_accounting = CStruct ''task_io_accounting''
    [Fld ''rchar'' td_u64, Fld ''wchar'' td_u64, Fld ''syscr'' td_u64, Fld ''syscw'' td_u64,
     Fld ''read_bytes'' td_u64, Fld ''write_bytes'' td_u64, Fld ''cancelled_write_bytes'' td_u64] False"

lemma layout_struct_task_io_accounting [layout]:
  "size_of struct_task_io_accounting = 56" "align_of struct_task_io_accounting = 8" "wf_ctype struct_task_io_accounting" "natural struct_task_io_accounting"
  unfolding struct_task_io_accounting_def by (simp_all add: layout)

definition struct_thread_info :: ctype where
  "struct_thread_info = CStruct ''thread_info''
    [Fld ''flags'' c_ulong, Fld ''syscall_work'' c_ulong, Fld ''status'' td_u32,
     Fld ''cpu'' td_u32] False"

lemma layout_struct_thread_info [layout]:
  "size_of struct_thread_info = 24" "align_of struct_thread_info = 8" "wf_ctype struct_thread_info" "natural struct_thread_info"
  unfolding struct_thread_info_def by (simp_all add: layout)

definition struct_desc_struct :: ctype where
  "struct_desc_struct = CStruct ''desc_struct''
    [Fld ''limit0'' td_u16, Fld ''base0'' td_u16, Bits ''base1'' td_u16 8,
     Bits ''type'' td_u16 4, Bits ''s'' td_u16 1, Bits ''dpl'' td_u16 2, Bits ''p'' td_u16 1,
     Bits ''limit1'' td_u16 4, Bits ''avl'' td_u16 1, Bits ''l'' td_u16 1, Bits ''d'' td_u16 1,
     Bits ''g'' td_u16 1, Bits ''base2'' td_u16 8] False"

lemma layout_struct_desc_struct [layout]:
  "size_of struct_desc_struct = 8" "align_of struct_desc_struct = 2" "wf_ctype struct_desc_struct" "natural struct_desc_struct"
  unfolding struct_desc_struct_def by (simp_all add: layout)

definition struct_fregs_state :: ctype where
  "struct_fregs_state = CStruct ''fregs_state''
    [Fld ''cwd'' td_u32, Fld ''swd'' td_u32, Fld ''twd'' td_u32, Fld ''fip'' td_u32,
     Fld ''fcs'' td_u32, Fld ''foo'' td_u32, Fld ''fos'' td_u32,
     Fld ''st_space'' (CArr td_u32 20), Fld ''status'' td_u32] False"

lemma layout_struct_fregs_state [layout]:
  "size_of struct_fregs_state = 112" "align_of struct_fregs_state = 4" "wf_ctype struct_fregs_state" "natural struct_fregs_state"
  unfolding struct_fregs_state_def by (simp_all add: layout)

definition struct_fxregs_state :: ctype where
  "struct_fxregs_state = CStruct ''fxregs_state''
    [Fld ''cwd'' td_u16, Fld ''swd'' td_u16, Fld ''twd'' td_u16, Fld ''fop'' td_u16,
     Fld '''' (CUnion '''' [Fld '''' (CStruct '''' [Fld ''rip'' td_u64, Fld ''rdp'' td_u64] False), Fld '''' (CStruct '''' [Fld ''fip'' td_u32, Fld ''fcs'' td_u32, Fld ''foo'' td_u32, Fld ''fos'' td_u32] False)] False),
     Fld ''mxcsr'' td_u32, Fld ''mxcsr_mask'' td_u32, Fld ''st_space'' (CArr td_u32 32),
     Fld ''xmm_space'' (CArr td_u32 64), Fld ''padding'' (CArr td_u32 12),
     Fld '''' (CUnion '''' [Fld ''padding1'' (CArr td_u32 12), Fld ''sw_reserved'' (CArr td_u32 12)] False)] False"

lemma layout_struct_fxregs_state [layout]:
  "size_of struct_fxregs_state = 512" "align_of struct_fxregs_state = 8" "wf_ctype struct_fxregs_state" "natural struct_fxregs_state"
  unfolding struct_fxregs_state_def by (simp_all add: layout)

definition struct_swregs_state :: ctype where
  "struct_swregs_state = CStruct ''swregs_state''
    [Fld ''cwd'' td_u32, Fld ''swd'' td_u32, Fld ''twd'' td_u32, Fld ''fip'' td_u32,
     Fld ''fcs'' td_u32, Fld ''foo'' td_u32, Fld ''fos'' td_u32,
     Fld ''st_space'' (CArr td_u32 20), Fld ''ftop'' td_u8, Fld ''changed'' td_u8,
     Fld ''lookahead'' td_u8, Fld ''no_update'' td_u8, Fld ''rm'' td_u8, Fld ''alimit'' td_u8,
     Fld ''info'' (CPtr ''struct math_emu_info''), Fld ''entry_eip'' td_u32] False"

lemma layout_struct_swregs_state [layout]:
  "size_of struct_swregs_state = 136" "align_of struct_swregs_state = 8" "wf_ctype struct_swregs_state" "natural struct_swregs_state"
  unfolding struct_swregs_state_def by (simp_all add: layout)

definition struct_xstate_header :: ctype where
  "struct_xstate_header = CStruct ''xstate_header''
    [Fld ''xfeatures'' td_u64, Fld ''xcomp_bv'' td_u64, Fld ''reserved'' (CArr td_u64 6)] False"

lemma layout_struct_xstate_header [layout]:
  "size_of struct_xstate_header = 64" "align_of struct_xstate_header = 8" "wf_ctype struct_xstate_header" "natural struct_xstate_header"
  unfolding struct_xstate_header_def by (simp_all add: layout)

definition struct_xregs_state :: ctype where
  "struct_xregs_state = CStruct ''xregs_state''
    [Fld ''i387'' struct_fxregs_state, Fld ''header'' struct_xstate_header,
     Fld ''extended_state_area'' (CArr td_u8 0)] False"

lemma layout_struct_xregs_state [layout]:
  "size_of struct_xregs_state = 576" "align_of struct_xregs_state = 8" "wf_ctype struct_xregs_state" "natural struct_xregs_state"
  unfolding struct_xregs_state_def by (simp_all add: layout)

definition union_fpregs_state :: ctype where
  "union_fpregs_state = CUnion ''fpregs_state''
    [Fld ''fsave'' struct_fregs_state, Fld ''fxsave'' struct_fxregs_state,
     Fld ''soft'' struct_swregs_state, Fld ''xsave'' struct_xregs_state,
     Fld ''__padding'' (CArr td_u8 4096)] False"

lemma layout_union_fpregs_state [layout]:
  "size_of union_fpregs_state = 4096" "align_of union_fpregs_state = 8" "wf_ctype union_fpregs_state" "natural union_fpregs_state"
  unfolding union_fpregs_state_def by (simp_all add: layout)

definition struct_fpstate :: ctype where
  "struct_fpstate = CStruct ''fpstate''
    [Fld ''size'' c_uint, Fld ''user_size'' c_uint, Fld ''xfeatures'' td_u64,
     Fld ''user_xfeatures'' td_u64, Fld ''xfd'' td_u64, Bits ''is_valloc'' c_uint 1,
     Bits ''is_guest'' c_uint 1, Bits ''is_confidential'' c_uint 1, Bits ''in_use'' c_uint 1,
     Bits '''' c_long 64, Bits '''' c_long 64, Bits '''' c_long 64,
     Fld ''regs'' union_fpregs_state] False"

lemma layout_struct_fpstate [layout]:
  "size_of struct_fpstate = 4160" "align_of struct_fpstate = 8" "wf_ctype struct_fpstate" "natural struct_fpstate"
  unfolding struct_fpstate_def by (simp_all add: layout)

definition struct_fpu_state_perm :: ctype where
  "struct_fpu_state_perm = CStruct ''fpu_state_perm''
    [Fld ''__state_perm'' td_u64, Fld ''__state_size'' c_uint, Fld ''__user_state_size'' c_uint] False"

lemma layout_struct_fpu_state_perm [layout]:
  "size_of struct_fpu_state_perm = 16" "align_of struct_fpu_state_perm = 8" "wf_ctype struct_fpu_state_perm" "natural struct_fpu_state_perm"
  unfolding struct_fpu_state_perm_def by (simp_all add: layout)

definition struct_fpu :: ctype where
  "struct_fpu = CStruct ''fpu''
    [Fld ''last_cpu'' c_uint, Fld ''avx512_timestamp'' c_ulong,
     Fld ''fpstate'' (CPtr ''struct fpstate''),
     Fld ''__task_fpstate'' (CPtr ''struct fpstate''), Fld ''perm'' struct_fpu_state_perm,
     Fld ''guest_perm'' struct_fpu_state_perm, Fld ''__fpstate'' struct_fpstate] False"

lemma layout_struct_fpu [layout]:
  "size_of struct_fpu = 4224" "align_of struct_fpu = 8" "wf_ctype struct_fpu" "natural struct_fpu"
  unfolding struct_fpu_def by (simp_all add: layout)

definition struct_thread_shstk :: ctype where
  "struct_thread_shstk = CStruct ''thread_shstk''
    [Fld ''base'' td_u64, Fld ''size'' td_u64] False"

lemma layout_struct_thread_shstk [layout]:
  "size_of struct_thread_shstk = 16" "align_of struct_thread_shstk = 8" "wf_ctype struct_thread_shstk" "natural struct_thread_shstk"
  unfolding struct_thread_shstk_def by (simp_all add: layout)

definition struct_thread_struct :: ctype where
  "struct_thread_struct = CStruct ''thread_struct''
    [Fld ''tls_array'' (CArr struct_desc_struct 3), Fld ''sp'' c_ulong, Fld ''es'' c_ushort,
     Fld ''ds'' c_ushort, Fld ''fsindex'' c_ushort, Fld ''gsindex'' c_ushort,
     Fld ''fsbase'' c_ulong, Fld ''gsbase'' c_ulong,
     Fld ''ptrace_bps'' (CArr (CPtr ''struct perf_event'') 4), Fld ''virtual_dr6'' c_ulong,
     Fld ''ptrace_dr7'' c_ulong, Fld ''cr2'' c_ulong, Fld ''trap_nr'' c_ulong,
     Fld ''error_code'' c_ulong, Fld ''io_bitmap'' (CPtr ''struct io_bitmap''),
     Fld ''iopl_emul'' c_ulong, Bits ''iopl_warn'' c_uint 1, Fld ''pkru'' td_u32,
     Fld ''features'' c_ulong, Fld ''features_locked'' c_ulong,
     Fld ''shstk'' struct_thread_shstk, Bits '''' c_long 64, Fld ''fpu'' struct_fpu] False"

lemma layout_struct_thread_struct [layout]:
  "size_of struct_thread_struct = 4416" "align_of struct_thread_struct = 8" "wf_ctype struct_thread_struct" "natural struct_thread_struct"
  unfolding struct_thread_struct_def by (simp_all add: layout)

definition struct_timer_list :: ctype where
  "struct_timer_list = CStruct ''timer_list''
    [Fld ''entry'' struct_hlist_node, Fld ''expires'' c_ulong, Fld ''function'' CFn,
     Fld ''flags'' td_u32] False"

lemma layout_struct_timer_list [layout]:
  "size_of struct_timer_list = 40" "align_of struct_timer_list = 8" "wf_ctype struct_timer_list" "natural struct_timer_list"
  unfolding struct_timer_list_def by (simp_all add: layout)

definition struct_cpumask :: ctype where
  "struct_cpumask = CStruct ''cpumask''
    [Fld ''bits'' (CArr c_ulong 128)] False"

lemma layout_struct_cpumask [layout]:
  "size_of struct_cpumask = 1024" "align_of struct_cpumask = 8" "wf_ctype struct_cpumask" "natural struct_cpumask"
  unfolding struct_cpumask_def by (simp_all add: layout)

definition struct_arch_tlbflush_unmap_batch :: ctype where
  "struct_arch_tlbflush_unmap_batch = CStruct ''arch_tlbflush_unmap_batch''
    [Fld ''cpumask'' struct_cpumask] False"

lemma layout_struct_arch_tlbflush_unmap_batch [layout]:
  "size_of struct_arch_tlbflush_unmap_batch = 1024" "align_of struct_arch_tlbflush_unmap_batch = 8" "wf_ctype struct_arch_tlbflush_unmap_batch" "natural struct_arch_tlbflush_unmap_batch"
  unfolding struct_arch_tlbflush_unmap_batch_def by (simp_all add: layout)

definition struct_tlbflush_unmap_batch :: ctype where
  "struct_tlbflush_unmap_batch = CStruct ''tlbflush_unmap_batch''
    [Fld ''arch'' struct_arch_tlbflush_unmap_batch, Fld ''flush_required'' td_bool,
     Fld ''writable'' td_bool] False"

lemma layout_struct_tlbflush_unmap_batch [layout]:
  "size_of struct_tlbflush_unmap_batch = 1032" "align_of struct_tlbflush_unmap_batch = 8" "wf_ctype struct_tlbflush_unmap_batch" "natural struct_tlbflush_unmap_batch"
  unfolding struct_tlbflush_unmap_batch_def by (simp_all add: layout)

definition struct_uclamp_se :: ctype where
  "struct_uclamp_se = CStruct ''uclamp_se''
    [Bits ''value'' c_uint 11, Bits ''bucket_id'' c_uint 3, Bits ''active'' c_uint 1,
     Bits ''user_defined'' c_uint 1] False"

lemma layout_struct_uclamp_se [layout]:
  "size_of struct_uclamp_se = 4" "align_of struct_uclamp_se = 4" "wf_ctype struct_uclamp_se" "natural struct_uclamp_se"
  unfolding struct_uclamp_se_def by (simp_all add: layout)

definition enum_vtime_state :: ctype where
  "enum_vtime_state = CEnum ''vtime_state''
    [(''VTIME_INACTIVE'', 0), (''VTIME_IDLE'', 1), (''VTIME_SYS'', 2), (''VTIME_USER'', 3),
     (''VTIME_GUEST'', 4)] 4"

lemma layout_enum_vtime_state [layout]:
  "size_of enum_vtime_state = 4" "align_of enum_vtime_state = 4" "wf_ctype enum_vtime_state" "natural enum_vtime_state"
  unfolding enum_vtime_state_def by (simp_all add: layout)

definition struct_seqcount :: ctype where
  "struct_seqcount = CStruct ''seqcount''
    [Fld ''sequence'' c_uint] False"

lemma layout_struct_seqcount [layout]:
  "size_of struct_seqcount = 4" "align_of struct_seqcount = 4" "wf_ctype struct_seqcount" "natural struct_seqcount"
  unfolding struct_seqcount_def by (simp_all add: layout)

definition td_seqcount_t :: ctype where
  "td_seqcount_t = struct_seqcount"

lemma layout_td_seqcount_t [layout]:
  "size_of td_seqcount_t = 4" "align_of td_seqcount_t = 4" "wf_ctype td_seqcount_t" "natural td_seqcount_t"
  unfolding td_seqcount_t_def by (simp_all add: layout)

definition struct_vtime :: ctype where
  "struct_vtime = CStruct ''vtime''
    [Fld ''seqcount'' td_seqcount_t, Fld ''starttime'' c_ullong, Fld ''state'' enum_vtime_state,
     Fld ''cpu'' c_uint, Fld ''utime'' td_u64, Fld ''stime'' td_u64, Fld ''gtime'' td_u64] False"

lemma layout_struct_vtime [layout]:
  "size_of struct_vtime = 48" "align_of struct_vtime = 8" "wf_ctype struct_vtime" "natural struct_vtime"
  unfolding struct_vtime_def by (simp_all add: layout)

definition struct_wake_q_node :: ctype where
  "struct_wake_q_node = CStruct ''wake_q_node''
    [Fld ''next'' (CPtr ''struct wake_q_node'')] False"

lemma layout_struct_wake_q_node [layout]:
  "size_of struct_wake_q_node = 8" "align_of struct_wake_q_node = 8" "wf_ctype struct_wake_q_node" "natural struct_wake_q_node"
  unfolding struct_wake_q_node_def by (simp_all add: layout)

definition td_cpumask_t :: ctype where
  "td_cpumask_t = struct_cpumask"

lemma layout_td_cpumask_t [layout]:
  "size_of td_cpumask_t = 1024" "align_of td_cpumask_t = 8" "wf_ctype td_cpumask_t" "natural td_cpumask_t"
  unfolding td_cpumask_t_def by (simp_all add: layout)

definition td_nodemask_t :: ctype where
  "td_nodemask_t = CStruct ''''
    [Fld ''bits'' (CArr c_ulong 16)] False"

lemma layout_td_nodemask_t [layout]:
  "size_of td_nodemask_t = 128" "align_of td_nodemask_t = 8" "wf_ctype td_nodemask_t" "natural td_nodemask_t"
  unfolding td_nodemask_t_def by (simp_all add: layout)

definition td___kernel_pid_t :: ctype where
  "td___kernel_pid_t = c_int"

lemma layout_td___kernel_pid_t [layout]:
  "size_of td___kernel_pid_t = 4" "align_of td___kernel_pid_t = 4" "wf_ctype td___kernel_pid_t" "natural td___kernel_pid_t"
  unfolding td___kernel_pid_t_def by (simp_all add: layout)

definition td_pid_t :: ctype where
  "td_pid_t = td___kernel_pid_t"

lemma layout_td_pid_t [layout]:
  "size_of td_pid_t = 4" "align_of td_pid_t = 4" "wf_ctype td_pid_t" "natural td_pid_t"
  unfolding td_pid_t_def by (simp_all add: layout)

definition struct_refcount_struct :: ctype where
  "struct_refcount_struct = CStruct ''refcount_struct''
    [Fld ''refs'' td_atomic_t] False"

lemma layout_struct_refcount_struct [layout]:
  "size_of struct_refcount_struct = 4" "align_of struct_refcount_struct = 4" "wf_ctype struct_refcount_struct" "natural struct_refcount_struct"
  unfolding struct_refcount_struct_def by (simp_all add: layout)

definition td_refcount_t :: ctype where
  "td_refcount_t = struct_refcount_struct"

lemma layout_td_refcount_t [layout]:
  "size_of td_refcount_t = 4" "align_of td_refcount_t = 4" "wf_ctype td_refcount_t" "natural td_refcount_t"
  unfolding td_refcount_t_def by (simp_all add: layout)

definition struct_seqcount_spinlock :: ctype where
  "struct_seqcount_spinlock = CStruct ''seqcount_spinlock''
    [Fld ''seqcount'' td_seqcount_t] False"

lemma layout_struct_seqcount_spinlock [layout]:
  "size_of struct_seqcount_spinlock = 4" "align_of struct_seqcount_spinlock = 4" "wf_ctype struct_seqcount_spinlock" "natural struct_seqcount_spinlock"
  unfolding struct_seqcount_spinlock_def by (simp_all add: layout)

definition td_seqcount_spinlock_t :: ctype where
  "td_seqcount_spinlock_t = struct_seqcount_spinlock"

lemma layout_td_seqcount_spinlock_t [layout]:
  "size_of td_seqcount_spinlock_t = 4" "align_of td_seqcount_spinlock_t = 4" "wf_ctype td_seqcount_spinlock_t" "natural td_seqcount_spinlock_t"
  unfolding td_seqcount_spinlock_t_def by (simp_all add: layout)

definition td___kernel_ulong_t :: ctype where
  "td___kernel_ulong_t = c_ulong"

lemma layout_td___kernel_ulong_t [layout]:
  "size_of td___kernel_ulong_t = 8" "align_of td___kernel_ulong_t = 8" "wf_ctype td___kernel_ulong_t" "natural td___kernel_ulong_t"
  unfolding td___kernel_ulong_t_def by (simp_all add: layout)

definition td___kernel_size_t :: ctype where
  "td___kernel_size_t = td___kernel_ulong_t"

lemma layout_td___kernel_size_t [layout]:
  "size_of td___kernel_size_t = 8" "align_of td___kernel_size_t = 8" "wf_ctype td___kernel_size_t" "natural td___kernel_size_t"
  unfolding td___kernel_size_t_def by (simp_all add: layout)

definition td_size_t :: ctype where
  "td_size_t = td___kernel_size_t"

lemma layout_td_size_t [layout]:
  "size_of td_size_t = 8" "align_of td_size_t = 8" "wf_ctype td_size_t" "natural td_size_t"
  unfolding td_size_t_def by (simp_all add: layout)

definition union_rcu_special :: ctype where
  "union_rcu_special = CUnion ''rcu_special''
    [Fld ''b'' (CStruct '''' [Fld ''blocked'' td_u8, Fld ''need_qs'' td_u8, Fld ''exp_hint'' td_u8, Fld ''need_mb'' td_u8] False),
     Fld ''s'' td_u32] False"

lemma layout_union_rcu_special [layout]:
  "size_of union_rcu_special = 4" "align_of union_rcu_special = 4" "wf_ctype union_rcu_special" "natural union_rcu_special"
  unfolding union_rcu_special_def by (simp_all add: layout)

definition struct_da_monitor :: ctype where
  "struct_da_monitor = CStruct ''da_monitor''
    [Fld ''monitoring'' td_bool, Fld ''curr_state'' c_uint] False"

lemma layout_struct_da_monitor [layout]:
  "size_of struct_da_monitor = 8" "align_of struct_da_monitor = 4" "wf_ctype struct_da_monitor" "natural struct_da_monitor"
  unfolding struct_da_monitor_def by (simp_all add: layout)

definition union_rv_task_monitor :: ctype where
  "union_rv_task_monitor = CUnion ''rv_task_monitor''
    [Fld ''da_mon'' struct_da_monitor] False"

lemma layout_union_rv_task_monitor [layout]:
  "size_of union_rv_task_monitor = 8" "align_of union_rv_task_monitor = 4" "wf_ctype union_rv_task_monitor" "natural union_rv_task_monitor"
  unfolding union_rv_task_monitor_def by (simp_all add: layout)

definition struct_task_struct_members_1 :: "cmember list" where
  "struct_task_struct_members_1 =
    [Fld ''thread_info'' struct_thread_info, Fld ''__state'' c_uint, Fld ''saved_state'' c_uint,
     Fld ''stack'' (CPtr ''void''), Fld ''usage'' td_refcount_t, Fld ''flags'' c_uint,
     Fld ''ptrace'' c_uint, Fld ''on_cpu'' c_int, Fld ''wake_entry'' struct___call_single_node,
     Fld ''wakee_flips'' c_uint, Fld ''wakee_flip_decay_ts'' c_ulong,
     Fld ''last_wakee'' (CPtr ''struct task_struct''), Fld ''recent_used_cpu'' c_int,
     Fld ''wake_cpu'' c_int, Fld ''on_rq'' c_int, Fld ''prio'' c_int, Fld ''static_prio'' c_int,
     Fld ''normal_prio'' c_int, Fld ''rt_priority'' c_uint, Fld ''se'' struct_sched_entity,
     Fld ''rt'' struct_sched_rt_entity, Fld ''dl'' struct_sched_dl_entity,
     Fld ''dl_server'' (CPtr ''struct sched_dl_entity''),
     Fld ''sched_class'' (CPtr ''struct sched_class''), Fld ''core_node'' struct_rb_node,
     Fld ''core_cookie'' c_ulong, Fld ''core_occupation'' c_uint,
     Fld ''sched_task_group'' (CPtr ''struct task_group''),
     Fld ''uclamp_req'' (CArr struct_uclamp_se 2), Fld ''uclamp'' (CArr struct_uclamp_se 2),
     Bits '''' c_long 64, Fld ''stats'' struct_sched_statistics,
     Fld ''preempt_notifiers'' struct_hlist_head, Fld ''btrace_seq'' c_uint,
     Fld ''policy'' c_uint, Fld ''max_allowed_capacity'' c_ulong, Fld ''nr_cpus_allowed'' c_int,
     Fld ''cpus_ptr'' (CPtr ''cpumask_t''), Fld ''user_cpus_ptr'' (CPtr ''cpumask_t''),
     Fld ''cpus_mask'' td_cpumask_t]"

lemma layout_struct_task_struct_members_1 [layout]:
  "bit_end False 0 struct_task_struct_members_1 = 16768" "members_align False struct_task_struct_members_1 = 8"
  "wf_members struct_task_struct_members_1" "naturals struct_task_struct_members_1"
  unfolding struct_task_struct_members_1_def by (simp_all add: layout)

definition struct_task_struct_members_2 :: "cmember list" where
  "struct_task_struct_members_2 =
    [Fld ''migration_pending'' (CPtr ''void''), Fld ''migration_disabled'' c_ushort,
     Fld ''migration_flags'' c_ushort, Fld ''rcu_read_lock_nesting'' c_int,
     Fld ''rcu_read_unlock_special'' union_rcu_special, Fld ''rcu_node_entry'' struct_list_head,
     Fld ''rcu_blocked_node'' (CPtr ''struct rcu_node''), Fld ''rcu_tasks_nvcsw'' c_ulong,
     Fld ''rcu_tasks_holdout'' td_u8, Fld ''rcu_tasks_idx'' td_u8,
     Fld ''rcu_tasks_idle_cpu'' c_int, Fld ''rcu_tasks_holdout_list'' struct_list_head,
     Fld ''rcu_tasks_exit_cpu'' c_int, Fld ''rcu_tasks_exit_list'' struct_list_head,
     Fld ''trc_reader_nesting'' c_int, Fld ''trc_ipi_to_cpu'' c_int,
     Fld ''trc_reader_special'' union_rcu_special, Fld ''trc_holdout_list'' struct_list_head,
     Fld ''trc_blkd_node'' struct_list_head, Fld ''trc_blkd_cpu'' c_int,
     Fld ''sched_info'' struct_sched_info, Fld ''tasks'' struct_list_head,
     Fld ''pushable_tasks'' struct_plist_node, Fld ''pushable_dl_tasks'' struct_rb_node,
     Fld ''mm'' (CPtr ''struct mm_struct''), Fld ''active_mm'' (CPtr ''struct mm_struct''),
     Fld ''faults_disabled_mapping'' (CPtr ''struct address_space''), Fld ''exit_state'' c_int,
     Fld ''exit_code'' c_int, Fld ''exit_signal'' c_int, Fld ''pdeath_signal'' c_int,
     Fld ''jobctl'' c_ulong, Fld ''personality'' c_uint, Bits ''sched_reset_on_fork'' c_uint 1,
     Bits ''sched_contributes_to_load'' c_uint 1, Bits ''sched_migrated'' c_uint 1,
     Bits '''' c_long 29, Bits ''sched_remote_wakeup'' c_uint 1,
     Bits ''sched_rt_mutex'' c_uint 1, Bits ''in_execve'' c_uint 1]"

lemma layout_struct_task_struct_members_2 [layout]:
  "bit_end False 16768 struct_task_struct_members_2 = 19395" "members_align False struct_task_struct_members_2 = 8"
  "wf_members struct_task_struct_members_2" "naturals struct_task_struct_members_2"
  unfolding struct_task_struct_members_2_def by (simp_all add: layout)

definition struct_task_struct_members_3 :: "cmember list" where
  "struct_task_struct_members_3 =
    [Bits ''in_iowait'' c_uint 1, Bits ''restore_sigmask'' c_uint 1,
     Bits ''in_user_fault'' c_uint 1, Bits ''in_lru_fault'' c_uint 1,
     Bits ''no_cgroup_migration'' c_uint 1, Bits ''frozen'' c_uint 1,
     Bits ''use_memdelay'' c_uint 1, Bits ''in_memstall'' c_uint 1,
     Bits ''in_page_owner'' c_uint 1, Bits ''in_eventfd'' c_uint 1,
     Bits ''pasid_activated'' c_uint 1, Bits ''reported_split_lock'' c_uint 1,
     Bits ''in_thrashing'' c_uint 1, Fld ''atomic_flags'' c_ulong,
     Fld ''restart_block'' struct_restart_block, Fld ''pid'' td_pid_t, Fld ''tgid'' td_pid_t,
     Fld ''stack_canary'' c_ulong, Fld ''real_parent'' (CPtr ''struct task_struct''),
     Fld ''parent'' (CPtr ''struct task_struct''), Fld ''children'' struct_list_head,
     Fld ''sibling'' struct_list_head, Fld ''group_leader'' (CPtr ''struct task_struct''),
     Fld ''ptraced'' struct_list_head, Fld ''ptrace_entry'' struct_list_head,
     Fld ''thread_pid'' (CPtr ''struct pid''), Fld ''pid_links'' (CArr struct_hlist_node 4),
     Fld ''thread_node'' struct_list_head, Fld ''vfork_done'' (CPtr ''struct completion''),
     Fld ''set_child_tid'' (CPtr ''int''), Fld ''clear_child_tid'' (CPtr ''int''),
     Fld ''worker_private'' (CPtr ''void''), Fld ''utime'' td_u64, Fld ''stime'' td_u64,
     Fld ''gtime'' td_u64, Fld ''prev_cputime'' struct_prev_cputime, Fld ''vtime'' struct_vtime,
     Fld ''tick_dep_mask'' td_atomic_t, Fld ''nvcsw'' c_ulong, Fld ''nivcsw'' c_ulong]"

lemma layout_struct_task_struct_members_3 [layout]:
  "bit_end False 19395 struct_task_struct_members_3 = 22720" "members_align False struct_task_struct_members_3 = 8"
  "wf_members struct_task_struct_members_3" "naturals struct_task_struct_members_3"
  unfolding struct_task_struct_members_3_def by (simp_all add: layout)

definition struct_task_struct_members_4 :: "cmember list" where
  "struct_task_struct_members_4 =
    [Fld ''start_time'' td_u64, Fld ''start_boottime'' td_u64, Fld ''min_flt'' c_ulong,
     Fld ''maj_flt'' c_ulong, Fld ''posix_cputimers'' struct_posix_cputimers,
     Fld ''posix_cputimers_work'' struct_posix_cputimers_work,
     Fld ''ptracer_cred'' (CPtr ''struct cred''), Fld ''real_cred'' (CPtr ''struct cred''),
     Fld ''cred'' (CPtr ''struct cred''), Fld ''cached_requested_key'' (CPtr ''struct key''),
     Fld ''comm'' (CArr c_char 16), Fld ''nameidata'' (CPtr ''struct nameidata''),
     Fld ''sysvsem'' struct_sysv_sem, Fld ''sysvshm'' struct_sysv_shm,
     Fld ''fs'' (CPtr ''struct fs_struct''), Fld ''files'' (CPtr ''struct files_struct''),
     Fld ''io_uring'' (CPtr ''struct io_uring_task''),
     Fld ''nsproxy'' (CPtr ''struct nsproxy''), Fld ''signal'' (CPtr ''struct signal_struct''),
     Fld ''sighand'' (CPtr ''struct sighand_struct''), Fld ''blocked'' td_sigset_t,
     Fld ''real_blocked'' td_sigset_t, Fld ''saved_sigmask'' td_sigset_t,
     Fld ''pending'' struct_sigpending, Fld ''sas_ss_sp'' c_ulong,
     Fld ''sas_ss_size'' td_size_t, Fld ''sas_ss_flags'' c_uint,
     Fld ''task_works'' (CPtr ''struct callback_head''),
     Fld ''audit_context'' (CPtr ''struct audit_context''), Fld ''loginuid'' td_kuid_t,
     Fld ''sessionid'' c_uint, Fld ''seccomp'' struct_seccomp,
     Fld ''syscall_dispatch'' struct_syscall_user_dispatch, Fld ''parent_exec_id'' td_u64,
     Fld ''self_exec_id'' td_u64, Fld ''alloc_lock'' td_spinlock_t,
     Fld ''pi_lock'' td_raw_spinlock_t, Fld ''wake_q'' struct_wake_q_node,
     Fld ''pi_waiters'' struct_rb_root_cached, Fld ''pi_top_task'' (CPtr ''struct task_struct'')]"

lemma layout_struct_task_struct_members_4 [layout]:
  "bit_end False 22720 struct_task_struct_members_4 = 26688" "members_align False struct_task_struct_members_4 = 8"
  "wf_members struct_task_struct_members_4" "naturals struct_task_struct_members_4"
  unfolding struct_task_struct_members_4_def by (simp_all add: layout)

definition struct_task_struct_members_5 :: "cmember list" where
  "struct_task_struct_members_5 =
    [Fld ''pi_blocked_on'' (CPtr ''struct rt_mutex_waiter''), Fld ''in_ubsan'' c_uint,
     Fld ''journal_info'' (CPtr ''void''), Fld ''bio_list'' (CPtr ''struct bio_list''),
     Fld ''plug'' (CPtr ''struct blk_plug''),
     Fld ''reclaim_state'' (CPtr ''struct reclaim_state''),
     Fld ''io_context'' (CPtr ''struct io_context''),
     Fld ''capture_control'' (CPtr ''struct capture_control''), Fld ''ptrace_message'' c_ulong,
     Fld ''last_siginfo'' (CPtr ''kernel_siginfo_t''), Fld ''ioac'' struct_task_io_accounting,
     Fld ''psi_flags'' c_uint, Fld ''acct_rss_mem1'' td_u64, Fld ''acct_vm_mem1'' td_u64,
     Fld ''acct_timexpd'' td_u64, Fld ''mems_allowed'' td_nodemask_t,
     Fld ''mems_allowed_seq'' td_seqcount_spinlock_t, Fld ''cpuset_mem_spread_rotor'' c_int,
     Fld ''cpuset_slab_spread_rotor'' c_int, Fld ''cgroups'' (CPtr ''struct css_set''),
     Fld ''cg_list'' struct_list_head, Fld ''closid'' td_u32, Fld ''rmid'' td_u32,
     Fld ''robust_list'' (CPtr ''struct robust_list_head''),
     Fld ''compat_robust_list'' (CPtr ''struct compat_robust_list_head''),
     Fld ''pi_state_list'' struct_list_head,
     Fld ''pi_state_cache'' (CPtr ''struct futex_pi_state''),
     Fld ''futex_exit_mutex'' struct_mutex, Fld ''futex_state'' c_uint,
     Fld ''perf_recursion'' (CArr td_u8 4),
     Fld ''perf_event_ctxp'' (CPtr ''struct perf_event_context''),
     Fld ''perf_event_mutex'' struct_mutex, Fld ''perf_event_list'' struct_list_head,
     Fld ''mempolicy'' (CPtr ''struct mempolicy''), Fld ''il_prev'' c_short,
     Fld ''il_weight'' td_u8, Fld ''pref_node_fork'' c_short, Fld ''numa_scan_seq'' c_int,
     Fld ''numa_scan_period'' c_uint, Fld ''numa_scan_period_max'' c_uint]"

lemma layout_struct_task_struct_members_5 [layout]:
  "bit_end False 26688 struct_task_struct_members_5 = 30752" "members_align False struct_task_struct_members_5 = 8"
  "wf_members struct_task_struct_members_5" "naturals struct_task_struct_members_5"
  unfolding struct_task_struct_members_5_def by (simp_all add: layout)

definition struct_task_struct_members_6 :: "cmember list" where
  "struct_task_struct_members_6 =
    [Fld ''numa_preferred_nid'' c_int, Fld ''numa_migrate_retry'' c_ulong,
     Fld ''node_stamp'' td_u64, Fld ''last_task_numa_placement'' td_u64,
     Fld ''last_sum_exec_runtime'' td_u64, Fld ''numa_work'' struct_callback_head,
     Fld ''numa_group'' (CPtr ''struct numa_group''),
     Fld ''numa_faults'' (CPtr ''long unsigned int''), Fld ''total_numa_faults'' c_ulong,
     Fld ''numa_faults_locality'' (CArr c_ulong 3), Fld ''numa_pages_migrated'' c_ulong,
     Fld ''rseq'' (CPtr ''struct rseq''), Fld ''rseq_len'' td_u32, Fld ''rseq_sig'' td_u32,
     Fld ''rseq_event_mask'' c_ulong, Fld ''mm_cid'' c_int, Fld ''last_mm_cid'' c_int,
     Fld ''migrate_from_cpu'' c_int, Fld ''mm_cid_active'' c_int,
     Fld ''cid_work'' struct_callback_head, Fld ''tlb_ubc'' struct_tlbflush_unmap_batch,
     Fld ''splice_pipe'' (CPtr ''struct pipe_inode_info''), Fld ''task_frag'' struct_page_frag,
     Fld ''delays'' (CPtr ''struct task_delay_info''), Fld ''nr_dirtied'' c_int,
     Fld ''nr_dirtied_pause'' c_int, Fld ''dirty_paused_when'' c_ulong,
     Fld ''latency_record_count'' c_int, Fld ''latency_record'' (CArr struct_latency_record 32),
     Fld ''timer_slack_ns'' td_u64, Fld ''default_timer_slack_ns'' td_u64,
     Fld ''kunit_test'' (CPtr ''struct kunit''), Fld ''curr_ret_stack'' c_int,
     Fld ''curr_ret_depth'' c_int, Fld ''ret_stack'' (CPtr ''long unsigned int''),
     Fld ''ftrace_timestamp'' c_ullong, Fld ''trace_overrun'' td_atomic_t,
     Fld ''tracing_graph_pause'' td_atomic_t, Fld ''trace_recursion'' c_ulong,
     Fld ''memcg_in_oom'' (CPtr ''struct mem_cgroup'')]"

lemma layout_struct_task_struct_members_6 [layout]:
  "bit_end False 30752 struct_task_struct_members_6 = 72064" "members_align False struct_task_struct_members_6 = 8"
  "wf_members struct_task_struct_members_6" "naturals struct_task_struct_members_6"
  unfolding struct_task_struct_members_6_def by (simp_all add: layout)

definition struct_task_struct_members_7 :: "cmember list" where
  "struct_task_struct_members_7 =
    [Fld ''memcg_nr_pages_over_high'' c_uint, Fld ''active_memcg'' (CPtr ''struct mem_cgroup''),
     Fld ''objcg'' (CPtr ''struct obj_cgroup''),
     Fld ''throttle_disk'' (CPtr ''struct gendisk''),
     Fld ''utask'' (CPtr ''struct uprobe_task''), Fld ''sequential_io'' c_uint,
     Fld ''sequential_io_avg'' c_uint, Fld ''kmap_ctrl'' struct_kmap_ctrl,
     Fld ''rcu'' struct_callback_head, Fld ''rcu_users'' td_refcount_t,
     Fld ''pagefault_disabled'' c_int, Fld ''oom_reaper_list'' (CPtr ''struct task_struct''),
     Fld ''oom_reaper_timer'' struct_timer_list,
     Fld ''stack_vm_area'' (CPtr ''struct vm_struct''), Fld ''stack_refcount'' td_refcount_t,
     Fld ''patch_state'' c_int, Fld ''security'' (CPtr ''void''),
     Fld ''bpf_storage'' (CPtr ''struct bpf_local_storage''),
     Fld ''bpf_ctx'' (CPtr ''struct bpf_run_ctx''),
     Fld ''bpf_net_context'' (CPtr ''struct bpf_net_context''),
     Fld ''mce_vaddr'' (CPtr ''void''), Fld ''mce_kflags'' td___u64, Fld ''mce_addr'' td_u64,
     Bits ''mce_ripv'' td___u64 1, Bits ''mce_whole_page'' td___u64 1,
     Bits ''__mce_reserved'' td___u64 62, Fld ''mce_kill_me'' struct_callback_head,
     Fld ''mce_count'' c_int, Fld ''kretprobe_instances'' struct_llist_head,
     Fld ''rethooks'' struct_llist_head, Fld ''l1d_flush_kill'' struct_callback_head,
     Fld ''rv'' (CArr union_rv_task_monitor 1), Bits '''' c_long 64,
     Fld ''thread'' struct_thread_struct]"

lemma layout_struct_task_struct_members_7 [layout]:
  "bit_end False 72064 struct_task_struct_members_7 = 109568" "members_align False struct_task_struct_members_7 = 8"
  "wf_members struct_task_struct_members_7" "naturals struct_task_struct_members_7"
  unfolding struct_task_struct_members_7_def by (simp_all add: layout)

definition struct_task_struct :: ctype where
  "struct_task_struct = CStruct ''task_struct''
    (struct_task_struct_members_1 @
     struct_task_struct_members_2 @
     struct_task_struct_members_3 @
     struct_task_struct_members_4 @
     struct_task_struct_members_5 @
     struct_task_struct_members_6 @
     struct_task_struct_members_7) False"

lemma layout_struct_task_struct [layout]:
  "size_of struct_task_struct = 13696" "align_of struct_task_struct = 8" "wf_ctype struct_task_struct" "natural struct_task_struct"
  unfolding struct_task_struct_def by (simp_all add: layout)

end
