(* ===== verification/Vmlinux_Bpf.thy ===== *)
theory Vmlinux_Bpf
  imports Vmlinux_Task
begin

text \<open>
  Types of \<open>ebpf/vmlinux/x86_64/vmlinux_x86_64_6_11.h\<close>: credentials, and the kernel objects behind BPF maps, ring buffers and programs.
  One definition per declaration, members in the header's order; a declaration longer than
  forty members is split into consecutive member lists.  Pointers keep only the name of their
  target.  Each lemma records the size, the alignment and the well-formedness of a type.
\<close>

definition td_kernel_cap_t :: ctype where
  "td_kernel_cap_t = CStruct ''''
    [Fld ''val'' td_u64] False"

lemma layout_td_kernel_cap_t [layout]:
  "size_of td_kernel_cap_t = 8" "align_of td_kernel_cap_t = 8" "wf_ctype td_kernel_cap_t" "natural td_kernel_cap_t"
  unfolding td_kernel_cap_t_def by (simp_all add: layout)

definition struct_cred :: ctype where
  "struct_cred = CStruct ''cred''
    [Fld ''usage'' td_atomic_long_t, Fld ''uid'' td_kuid_t, Fld ''gid'' td_kgid_t,
     Fld ''suid'' td_kuid_t, Fld ''sgid'' td_kgid_t, Fld ''euid'' td_kuid_t,
     Fld ''egid'' td_kgid_t, Fld ''fsuid'' td_kuid_t, Fld ''fsgid'' td_kgid_t,
     Fld ''securebits'' c_uint, Fld ''cap_inheritable'' td_kernel_cap_t,
     Fld ''cap_permitted'' td_kernel_cap_t, Fld ''cap_effective'' td_kernel_cap_t,
     Fld ''cap_bset'' td_kernel_cap_t, Fld ''cap_ambient'' td_kernel_cap_t,
     Fld ''jit_keyring'' c_uchar, Fld ''session_keyring'' (CPtr ''struct key''),
     Fld ''process_keyring'' (CPtr ''struct key''),
     Fld ''thread_keyring'' (CPtr ''struct key''),
     Fld ''request_key_auth'' (CPtr ''struct key''), Fld ''security'' (CPtr ''void''),
     Fld ''user'' (CPtr ''struct user_struct''),
     Fld ''user_ns'' (CPtr ''struct user_namespace''),
     Fld ''ucounts'' (CPtr ''struct ucounts''), Fld ''group_info'' (CPtr ''struct group_info''),
     Fld '''' (CUnion '''' [Fld ''non_rcu'' c_int, Fld ''rcu'' struct_callback_head] False)] False"

lemma layout_struct_cred [layout]:
  "size_of struct_cred = 184" "align_of struct_cred = 8" "wf_ctype struct_cred" "natural struct_cred"
  unfolding struct_cred_def by (simp_all add: layout)

definition struct_bpf_lru_list :: ctype where
  "struct_bpf_lru_list = CStruct ''bpf_lru_list''
    [Fld ''lists'' (CArr struct_list_head 3), Fld ''counts'' (CArr c_uint 2),
     Fld ''next_inactive_rotation'' (CPtr ''struct list_head''), Fld ''lock'' td_raw_spinlock_t,
     Bits '''' c_long 64, Bits '''' c_long 64, Bits '''' c_long 64, Bits '''' c_long 64,
     Bits '''' c_long 64, Bits '''' c_long 64, Bits '''' c_long 64] False"

lemma layout_struct_bpf_lru_list [layout]:
  "size_of struct_bpf_lru_list = 128" "align_of struct_bpf_lru_list = 8" "wf_ctype struct_bpf_lru_list" "natural struct_bpf_lru_list"
  unfolding struct_bpf_lru_list_def by (simp_all add: layout)

definition struct_bpf_common_lru :: ctype where
  "struct_bpf_common_lru = CStruct ''bpf_common_lru''
    [Fld ''lru_list'' struct_bpf_lru_list,
     Fld ''local_list'' (CPtr ''struct bpf_lru_locallist''), Bits '''' c_long 64,
     Bits '''' c_long 64, Bits '''' c_long 64, Bits '''' c_long 64, Bits '''' c_long 64,
     Bits '''' c_long 64, Bits '''' c_long 64] False"

lemma layout_struct_bpf_common_lru [layout]:
  "size_of struct_bpf_common_lru = 192" "align_of struct_bpf_common_lru = 8" "wf_ctype struct_bpf_common_lru" "natural struct_bpf_common_lru"
  unfolding struct_bpf_common_lru_def by (simp_all add: layout)

definition td_del_from_htab_func :: ctype where
  "td_del_from_htab_func = CFn"

lemma layout_td_del_from_htab_func [layout]:
  "size_of td_del_from_htab_func = 8" "align_of td_del_from_htab_func = 8" "wf_ctype td_del_from_htab_func" "natural td_del_from_htab_func"
  unfolding td_del_from_htab_func_def by (simp_all add: layout)

definition struct_bpf_lru :: ctype where
  "struct_bpf_lru = CStruct ''bpf_lru''
    [Fld '''' (CUnion '''' [Fld ''common_lru'' struct_bpf_common_lru, Fld ''percpu_lru'' (CPtr ''struct bpf_lru_list'')] False),
     Fld ''del_from_htab'' td_del_from_htab_func, Fld ''del_arg'' (CPtr ''void''),
     Fld ''hash_offset'' c_uint, Fld ''nr_scans'' c_uint, Fld ''percpu'' td_bool,
     Bits '''' c_long 64, Bits '''' c_long 64, Bits '''' c_long 64, Bits '''' c_long 64] False"

lemma layout_struct_bpf_lru [layout]:
  "size_of struct_bpf_lru = 256" "align_of struct_bpf_lru = 8" "wf_ctype struct_bpf_lru" "natural struct_bpf_lru"
  unfolding struct_bpf_lru_def by (simp_all add: layout)

definition enum_bpf_prog_type :: ctype where
  "enum_bpf_prog_type = CEnum ''bpf_prog_type''
    [(''BPF_PROG_TYPE_UNSPEC'', 0), (''BPF_PROG_TYPE_SOCKET_FILTER'', 1),
     (''BPF_PROG_TYPE_KPROBE'', 2), (''BPF_PROG_TYPE_SCHED_CLS'', 3),
     (''BPF_PROG_TYPE_SCHED_ACT'', 4), (''BPF_PROG_TYPE_TRACEPOINT'', 5),
     (''BPF_PROG_TYPE_XDP'', 6), (''BPF_PROG_TYPE_PERF_EVENT'', 7),
     (''BPF_PROG_TYPE_CGROUP_SKB'', 8), (''BPF_PROG_TYPE_CGROUP_SOCK'', 9),
     (''BPF_PROG_TYPE_LWT_IN'', 10), (''BPF_PROG_TYPE_LWT_OUT'', 11),
     (''BPF_PROG_TYPE_LWT_XMIT'', 12), (''BPF_PROG_TYPE_SOCK_OPS'', 13),
     (''BPF_PROG_TYPE_SK_SKB'', 14), (''BPF_PROG_TYPE_CGROUP_DEVICE'', 15),
     (''BPF_PROG_TYPE_SK_MSG'', 16), (''BPF_PROG_TYPE_RAW_TRACEPOINT'', 17),
     (''BPF_PROG_TYPE_CGROUP_SOCK_ADDR'', 18), (''BPF_PROG_TYPE_LWT_SEG6LOCAL'', 19),
     (''BPF_PROG_TYPE_LIRC_MODE2'', 20), (''BPF_PROG_TYPE_SK_REUSEPORT'', 21),
     (''BPF_PROG_TYPE_FLOW_DISSECTOR'', 22), (''BPF_PROG_TYPE_CGROUP_SYSCTL'', 23),
     (''BPF_PROG_TYPE_RAW_TRACEPOINT_WRITABLE'', 24), (''BPF_PROG_TYPE_CGROUP_SOCKOPT'', 25),
     (''BPF_PROG_TYPE_TRACING'', 26), (''BPF_PROG_TYPE_STRUCT_OPS'', 27),
     (''BPF_PROG_TYPE_EXT'', 28), (''BPF_PROG_TYPE_LSM'', 29),
     (''BPF_PROG_TYPE_SK_LOOKUP'', 30), (''BPF_PROG_TYPE_SYSCALL'', 31),
     (''BPF_PROG_TYPE_NETFILTER'', 32), (''__MAX_BPF_PROG_TYPE'', 33)] 4"

lemma layout_enum_bpf_prog_type [layout]:
  "size_of enum_bpf_prog_type = 4" "align_of enum_bpf_prog_type = 4" "wf_ctype enum_bpf_prog_type" "natural enum_bpf_prog_type"
  unfolding enum_bpf_prog_type_def by (simp_all add: layout)

definition struct_bpf_map :: ctype where
  "struct_bpf_map = CStruct ''bpf_map''
    [Fld ''ops'' (CPtr ''struct bpf_map_ops''),
     Fld ''inner_map_meta'' (CPtr ''struct bpf_map''), Fld ''security'' (CPtr ''void''),
     Fld ''map_type'' enum_bpf_map_type, Fld ''key_size'' td_u32, Fld ''value_size'' td_u32,
     Fld ''max_entries'' td_u32, Fld ''map_extra'' td_u64, Fld ''map_flags'' td_u32,
     Fld ''id'' td_u32, Fld ''record'' (CPtr ''struct btf_record''), Fld ''numa_node'' c_int,
     Fld ''btf_key_type_id'' td_u32, Fld ''btf_value_type_id'' td_u32,
     Fld ''btf_vmlinux_value_type_id'' td_u32, Fld ''btf'' (CPtr ''struct btf''),
     Fld ''objcg'' (CPtr ''struct obj_cgroup''), Fld ''name'' (CArr c_char 16),
     Fld ''freeze_mutex'' struct_mutex, Fld ''refcnt'' td_atomic64_t,
     Fld ''usercnt'' td_atomic64_t,
     Fld '''' (CUnion '''' [Fld ''work'' struct_work_struct, Fld ''rcu'' struct_callback_head] False),
     Fld ''writecnt'' td_atomic64_t,
     Fld ''owner'' (CStruct '''' [Fld ''attach_func_proto'' (CPtr ''struct btf_type''), Fld ''lock'' td_spinlock_t, Fld ''type'' enum_bpf_prog_type, Fld ''jited'' td_bool, Fld ''xdp_has_frags'' td_bool] False),
     Fld ''bypass_spec_v1'' td_bool, Fld ''frozen'' td_bool,
     Fld ''free_after_mult_rcu_gp'' td_bool, Fld ''free_after_rcu_gp'' td_bool,
     Fld ''sleepable_refcnt'' td_atomic64_t, Fld ''elem_count'' (CPtr ''s64'')] False"

lemma layout_struct_bpf_map [layout]:
  "size_of struct_bpf_map = 248" "align_of struct_bpf_map = 8" "wf_ctype struct_bpf_map" "natural struct_bpf_map"
  unfolding struct_bpf_map_def by (simp_all add: layout)

definition struct_bpf_mem_alloc :: ctype where
  "struct_bpf_mem_alloc = CStruct ''bpf_mem_alloc''
    [Fld ''caches'' (CPtr ''struct bpf_mem_caches''),
     Fld ''cache'' (CPtr ''struct bpf_mem_cache''), Fld ''objcg'' (CPtr ''struct obj_cgroup''),
     Fld ''percpu'' td_bool, Fld ''work'' struct_work_struct] False"

lemma layout_struct_bpf_mem_alloc [layout]:
  "size_of struct_bpf_mem_alloc = 64" "align_of struct_bpf_mem_alloc = 8" "wf_ctype struct_bpf_mem_alloc" "natural struct_bpf_mem_alloc"
  unfolding struct_bpf_mem_alloc_def by (simp_all add: layout)

definition struct_lock_class_key :: ctype where
  "struct_lock_class_key = CStruct ''lock_class_key''
    [] False"

lemma layout_struct_lock_class_key [layout]:
  "size_of struct_lock_class_key = 0" "align_of struct_lock_class_key = 1" "wf_ctype struct_lock_class_key" "natural struct_lock_class_key"
  unfolding struct_lock_class_key_def by (simp_all add: layout)

definition struct_pcpu_freelist_head :: ctype where
  "struct_pcpu_freelist_head = CStruct ''pcpu_freelist_head''
    [Fld ''first'' (CPtr ''struct pcpu_freelist_node''), Fld ''lock'' td_raw_spinlock_t] False"

lemma layout_struct_pcpu_freelist_head [layout]:
  "size_of struct_pcpu_freelist_head = 16" "align_of struct_pcpu_freelist_head = 8" "wf_ctype struct_pcpu_freelist_head" "natural struct_pcpu_freelist_head"
  unfolding struct_pcpu_freelist_head_def by (simp_all add: layout)

definition struct_pcpu_freelist :: ctype where
  "struct_pcpu_freelist = CStruct ''pcpu_freelist''
    [Fld ''freelist'' (CPtr ''struct pcpu_freelist_head''),
     Fld ''extralist'' struct_pcpu_freelist_head] False"

lemma layout_struct_pcpu_freelist [layout]:
  "size_of struct_pcpu_freelist = 24" "align_of struct_pcpu_freelist = 8" "wf_ctype struct_pcpu_freelist" "natural struct_pcpu_freelist"
  unfolding struct_pcpu_freelist_def by (simp_all add: layout)

definition struct_percpu_counter :: ctype where
  "struct_percpu_counter = CStruct ''percpu_counter''
    [Fld ''lock'' td_raw_spinlock_t, Fld ''count'' td_s64, Fld ''list'' struct_list_head,
     Fld ''counters'' (CPtr ''s32'')] False"

lemma layout_struct_percpu_counter [layout]:
  "size_of struct_percpu_counter = 40" "align_of struct_percpu_counter = 8" "wf_ctype struct_percpu_counter" "natural struct_percpu_counter"
  unfolding struct_percpu_counter_def by (simp_all add: layout)

definition struct_bpf_htab :: ctype where
  "struct_bpf_htab = CStruct ''bpf_htab''
    [Fld ''map'' struct_bpf_map, Fld ''ma'' struct_bpf_mem_alloc,
     Fld ''pcpu_ma'' struct_bpf_mem_alloc, Fld ''buckets'' (CPtr ''struct bucket''),
     Fld ''elems'' (CPtr ''void''), Bits '''' c_long 64, Bits '''' c_long 64,
     Bits '''' c_long 64, Bits '''' c_long 64, Bits '''' c_long 64, Bits '''' c_long 64,
     Bits '''' c_long 64,
     Fld '''' (CUnion '''' [Fld ''freelist'' struct_pcpu_freelist, Fld ''lru'' struct_bpf_lru] False),
     Fld ''extra_elems'' (CPtr ''struct htab_elem *''), Fld ''pcount'' struct_percpu_counter,
     Fld ''count'' td_atomic_t, Fld ''use_percpu_counter'' td_bool, Fld ''n_buckets'' td_u32,
     Fld ''elem_size'' td_u32, Fld ''hashrnd'' td_u32,
     Fld ''lockdep_key'' struct_lock_class_key, Fld ''map_locked'' (CArr (CPtr ''int'') 8),
     Bits '''' c_long 64, Bits '''' c_long 64, Bits '''' c_long 64, Bits '''' c_long 64,
     Bits '''' c_long 64, Bits '''' c_long 64, Bits '''' c_long 64] False"

lemma layout_struct_bpf_htab [layout]:
  "size_of struct_bpf_htab = 896" "align_of struct_bpf_htab = 8" "wf_ctype struct_bpf_htab" "natural struct_bpf_htab"
  unfolding struct_bpf_htab_def by (simp_all add: layout)

definition struct_bpf_lru_node :: ctype where
  "struct_bpf_lru_node = CStruct ''bpf_lru_node''
    [Fld ''list'' struct_list_head, Fld ''cpu'' td_u16, Fld ''type'' td_u8, Fld ''ref'' td_u8] False"

lemma layout_struct_bpf_lru_node [layout]:
  "size_of struct_bpf_lru_node = 24" "align_of struct_bpf_lru_node = 8" "wf_ctype struct_bpf_lru_node" "natural struct_bpf_lru_node"
  unfolding struct_bpf_lru_node_def by (simp_all add: layout)

definition struct_hlist_nulls_node :: ctype where
  "struct_hlist_nulls_node = CStruct ''hlist_nulls_node''
    [Fld ''next'' (CPtr ''struct hlist_nulls_node''),
     Fld ''pprev'' (CPtr ''struct hlist_nulls_node *'')] False"

lemma layout_struct_hlist_nulls_node [layout]:
  "size_of struct_hlist_nulls_node = 16" "align_of struct_hlist_nulls_node = 8" "wf_ctype struct_hlist_nulls_node" "natural struct_hlist_nulls_node"
  unfolding struct_hlist_nulls_node_def by (simp_all add: layout)

definition struct_pcpu_freelist_node :: ctype where
  "struct_pcpu_freelist_node = CStruct ''pcpu_freelist_node''
    [Fld ''next'' (CPtr ''struct pcpu_freelist_node'')] False"

lemma layout_struct_pcpu_freelist_node [layout]:
  "size_of struct_pcpu_freelist_node = 8" "align_of struct_pcpu_freelist_node = 8" "wf_ctype struct_pcpu_freelist_node" "natural struct_pcpu_freelist_node"
  unfolding struct_pcpu_freelist_node_def by (simp_all add: layout)

definition struct_htab_elem :: ctype where
  "struct_htab_elem = CStruct ''htab_elem''
    [Fld '''' (CUnion '''' [Fld ''hash_node'' struct_hlist_nulls_node, Fld '''' (CStruct '''' [Fld ''padding'' (CPtr ''void''), Fld '''' (CUnion '''' [Fld ''fnode'' struct_pcpu_freelist_node, Fld ''batch_flink'' (CPtr ''struct htab_elem'')] False)] False)] False),
     Fld '''' (CUnion '''' [Fld ''ptr_to_pptr'' (CPtr ''void''), Fld ''lru_node'' struct_bpf_lru_node] False),
     Fld ''hash'' td_u32, Bits '''' c_long 0, Fld ''key'' (CArr c_char 0)] False"

lemma layout_struct_htab_elem [layout]:
  "size_of struct_htab_elem = 48" "align_of struct_htab_elem = 8" "wf_ctype struct_htab_elem" "natural struct_htab_elem"
  unfolding struct_htab_elem_def by (simp_all add: layout)

definition struct_bpf_ringbuf_map :: ctype where
  "struct_bpf_ringbuf_map = CStruct ''bpf_ringbuf_map''
    [Fld ''map'' struct_bpf_map, Fld ''rb'' (CPtr ''struct bpf_ringbuf'')] False"

lemma layout_struct_bpf_ringbuf_map [layout]:
  "size_of struct_bpf_ringbuf_map = 256" "align_of struct_bpf_ringbuf_map = 8" "wf_ctype struct_bpf_ringbuf_map" "natural struct_bpf_ringbuf_map"
  unfolding struct_bpf_ringbuf_map_def by (simp_all add: layout)

definition struct_irq_work :: ctype where
  "struct_irq_work = CStruct ''irq_work''
    [Fld ''node'' struct___call_single_node, Fld ''func'' CFn, Fld ''irqwait'' struct_rcuwait] False"

lemma layout_struct_irq_work [layout]:
  "size_of struct_irq_work = 32" "align_of struct_irq_work = 8" "wf_ctype struct_irq_work" "natural struct_irq_work"
  unfolding struct_irq_work_def by (simp_all add: layout)

definition struct_bpf_ringbuf_members_1 :: "cmember list" where
  "struct_bpf_ringbuf_members_1 =
    [Fld ''waitq'' td_wait_queue_head_t, Fld ''work'' struct_irq_work, Fld ''mask'' td_u64,
     Fld ''pages'' (CPtr ''struct page *''), Fld ''nr_pages'' c_int, Bits '''' c_long 64,
     Bits '''' c_long 64, Bits '''' c_long 64, Bits '''' c_long 64, Bits '''' c_long 64,
     Bits '''' c_long 64, Fld ''spinlock'' td_spinlock_t, Bits '''' c_long 64,
     Bits '''' c_long 64, Bits '''' c_long 64, Bits '''' c_long 64, Bits '''' c_long 64,
     Bits '''' c_long 64, Bits '''' c_long 64, Fld ''busy'' td_atomic_t, Bits '''' c_long 64]"

lemma layout_struct_bpf_ringbuf_members_1 [layout]:
  "bit_end False 0 struct_bpf_ringbuf_members_1 = 1664" "members_align False struct_bpf_ringbuf_members_1 = 8"
  "wf_members struct_bpf_ringbuf_members_1" "naturals struct_bpf_ringbuf_members_1"
  unfolding struct_bpf_ringbuf_members_1_def by (simp_all add: layout)

definition struct_bpf_ringbuf_members_2 :: "cmember list" where
  "struct_bpf_ringbuf_members_2 =
    replicate 486 (Bits '''' c_long 64)"

lemma layout_struct_bpf_ringbuf_members_2 [layout]:
  "bit_end False 1664 struct_bpf_ringbuf_members_2 = 32768" "members_align False struct_bpf_ringbuf_members_2 = 1"
  "wf_members struct_bpf_ringbuf_members_2" "naturals struct_bpf_ringbuf_members_2"
  unfolding struct_bpf_ringbuf_members_2_def by (simp_all add: layout)

definition struct_bpf_ringbuf_members_3 :: "cmember list" where
  "struct_bpf_ringbuf_members_3 =
    [Fld ''consumer_pos'' c_ulong, Bits '''' c_long 64]"

lemma layout_struct_bpf_ringbuf_members_3 [layout]:
  "bit_end False 32768 struct_bpf_ringbuf_members_3 = 32896" "members_align False struct_bpf_ringbuf_members_3 = 8"
  "wf_members struct_bpf_ringbuf_members_3" "naturals struct_bpf_ringbuf_members_3"
  unfolding struct_bpf_ringbuf_members_3_def by (simp_all add: layout)

definition struct_bpf_ringbuf_members_4 :: "cmember list" where
  "struct_bpf_ringbuf_members_4 =
    replicate 510 (Bits '''' c_long 64)"

lemma layout_struct_bpf_ringbuf_members_4 [layout]:
  "bit_end False 32896 struct_bpf_ringbuf_members_4 = 65536" "members_align False struct_bpf_ringbuf_members_4 = 1"
  "wf_members struct_bpf_ringbuf_members_4" "naturals struct_bpf_ringbuf_members_4"
  unfolding struct_bpf_ringbuf_members_4_def by (simp_all add: layout)

definition struct_bpf_ringbuf_members_5 :: "cmember list" where
  "struct_bpf_ringbuf_members_5 =
    [Fld ''producer_pos'' c_ulong, Fld ''pending_pos'' c_ulong, Bits '''' c_long 64]"

lemma layout_struct_bpf_ringbuf_members_5 [layout]:
  "bit_end False 65536 struct_bpf_ringbuf_members_5 = 65728" "members_align False struct_bpf_ringbuf_members_5 = 8"
  "wf_members struct_bpf_ringbuf_members_5" "naturals struct_bpf_ringbuf_members_5"
  unfolding struct_bpf_ringbuf_members_5_def by (simp_all add: layout)

definition struct_bpf_ringbuf_members_6 :: "cmember list" where
  "struct_bpf_ringbuf_members_6 =
    replicate 509 (Bits '''' c_long 64)"

lemma layout_struct_bpf_ringbuf_members_6 [layout]:
  "bit_end False 65728 struct_bpf_ringbuf_members_6 = 98304" "members_align False struct_bpf_ringbuf_members_6 = 1"
  "wf_members struct_bpf_ringbuf_members_6" "naturals struct_bpf_ringbuf_members_6"
  unfolding struct_bpf_ringbuf_members_6_def by (simp_all add: layout)

definition struct_bpf_ringbuf_members_7 :: "cmember list" where
  "struct_bpf_ringbuf_members_7 =
    [Fld ''data'' (CArr c_char 0)]"

lemma layout_struct_bpf_ringbuf_members_7 [layout]:
  "bit_end False 98304 struct_bpf_ringbuf_members_7 = 98304" "members_align False struct_bpf_ringbuf_members_7 = 1"
  "wf_members struct_bpf_ringbuf_members_7" "naturals struct_bpf_ringbuf_members_7"
  unfolding struct_bpf_ringbuf_members_7_def by (simp_all add: layout)

definition struct_bpf_ringbuf :: ctype where
  "struct_bpf_ringbuf = CStruct ''bpf_ringbuf''
    (struct_bpf_ringbuf_members_1 @
     struct_bpf_ringbuf_members_2 @
     struct_bpf_ringbuf_members_3 @
     struct_bpf_ringbuf_members_4 @
     struct_bpf_ringbuf_members_5 @
     struct_bpf_ringbuf_members_6 @
     struct_bpf_ringbuf_members_7) False"

lemma layout_struct_bpf_ringbuf [layout]:
  "size_of struct_bpf_ringbuf = 12288" "align_of struct_bpf_ringbuf = 8" "wf_ctype struct_bpf_ringbuf" "natural struct_bpf_ringbuf"
  unfolding struct_bpf_ringbuf_def by (simp_all add: layout)

definition struct_bpf_ringbuf_hdr :: ctype where
  "struct_bpf_ringbuf_hdr = CStruct ''bpf_ringbuf_hdr''
    [Fld ''len'' td_u32, Fld ''pg_off'' td_u32] False"

lemma layout_struct_bpf_ringbuf_hdr [layout]:
  "size_of struct_bpf_ringbuf_hdr = 8" "align_of struct_bpf_ringbuf_hdr = 4" "wf_ctype struct_bpf_ringbuf_hdr" "natural struct_bpf_ringbuf_hdr"
  unfolding struct_bpf_ringbuf_hdr_def by (simp_all add: layout)

definition enum_bpf_attach_type :: ctype where
  "enum_bpf_attach_type = CEnum ''bpf_attach_type''
    [(''BPF_CGROUP_INET_INGRESS'', 0), (''BPF_CGROUP_INET_EGRESS'', 1),
     (''BPF_CGROUP_INET_SOCK_CREATE'', 2), (''BPF_CGROUP_SOCK_OPS'', 3),
     (''BPF_SK_SKB_STREAM_PARSER'', 4), (''BPF_SK_SKB_STREAM_VERDICT'', 5),
     (''BPF_CGROUP_DEVICE'', 6), (''BPF_SK_MSG_VERDICT'', 7), (''BPF_CGROUP_INET4_BIND'', 8),
     (''BPF_CGROUP_INET6_BIND'', 9), (''BPF_CGROUP_INET4_CONNECT'', 10),
     (''BPF_CGROUP_INET6_CONNECT'', 11), (''BPF_CGROUP_INET4_POST_BIND'', 12),
     (''BPF_CGROUP_INET6_POST_BIND'', 13), (''BPF_CGROUP_UDP4_SENDMSG'', 14),
     (''BPF_CGROUP_UDP6_SENDMSG'', 15), (''BPF_LIRC_MODE2'', 16), (''BPF_FLOW_DISSECTOR'', 17),
     (''BPF_CGROUP_SYSCTL'', 18), (''BPF_CGROUP_UDP4_RECVMSG'', 19),
     (''BPF_CGROUP_UDP6_RECVMSG'', 20), (''BPF_CGROUP_GETSOCKOPT'', 21),
     (''BPF_CGROUP_SETSOCKOPT'', 22), (''BPF_TRACE_RAW_TP'', 23), (''BPF_TRACE_FENTRY'', 24),
     (''BPF_TRACE_FEXIT'', 25), (''BPF_MODIFY_RETURN'', 26), (''BPF_LSM_MAC'', 27),
     (''BPF_TRACE_ITER'', 28), (''BPF_CGROUP_INET4_GETPEERNAME'', 29),
     (''BPF_CGROUP_INET6_GETPEERNAME'', 30), (''BPF_CGROUP_INET4_GETSOCKNAME'', 31),
     (''BPF_CGROUP_INET6_GETSOCKNAME'', 32), (''BPF_XDP_DEVMAP'', 33),
     (''BPF_CGROUP_INET_SOCK_RELEASE'', 34), (''BPF_XDP_CPUMAP'', 35), (''BPF_SK_LOOKUP'', 36),
     (''BPF_XDP'', 37), (''BPF_SK_SKB_VERDICT'', 38), (''BPF_SK_REUSEPORT_SELECT'', 39),
     (''BPF_SK_REUSEPORT_SELECT_OR_MIGRATE'', 40), (''BPF_PERF_EVENT'', 41),
     (''BPF_TRACE_KPROBE_MULTI'', 42), (''BPF_LSM_CGROUP'', 43), (''BPF_STRUCT_OPS'', 44),
     (''BPF_NETFILTER'', 45), (''BPF_TCX_INGRESS'', 46), (''BPF_TCX_EGRESS'', 47),
     (''BPF_TRACE_UPROBE_MULTI'', 48), (''BPF_CGROUP_UNIX_CONNECT'', 49),
     (''BPF_CGROUP_UNIX_SENDMSG'', 50), (''BPF_CGROUP_UNIX_RECVMSG'', 51),
     (''BPF_CGROUP_UNIX_GETPEERNAME'', 52), (''BPF_CGROUP_UNIX_GETSOCKNAME'', 53),
     (''BPF_NETKIT_PRIMARY'', 54), (''BPF_NETKIT_PEER'', 55),
     (''BPF_TRACE_KPROBE_SESSION'', 56), (''__MAX_BPF_ATTACH_TYPE'', 57)] 4"

lemma layout_enum_bpf_attach_type [layout]:
  "size_of enum_bpf_attach_type = 4" "align_of enum_bpf_attach_type = 4" "wf_ctype enum_bpf_attach_type" "natural enum_bpf_attach_type"
  unfolding enum_bpf_attach_type_def by (simp_all add: layout)

definition td___s16 :: ctype where
  "td___s16 = c_short"

lemma layout_td___s16 [layout]:
  "size_of td___s16 = 2" "align_of td___s16 = 2" "wf_ctype td___s16" "natural td___s16"
  unfolding td___s16_def by (simp_all add: layout)

definition td___s32 :: ctype where
  "td___s32 = c_int"

lemma layout_td___s32 [layout]:
  "size_of td___s32 = 4" "align_of td___s32 = 4" "wf_ctype td___s32" "natural td___s32"
  unfolding td___s32_def by (simp_all add: layout)

definition struct_bpf_insn :: ctype where
  "struct_bpf_insn = CStruct ''bpf_insn''
    [Fld ''code'' td___u8, Bits ''dst_reg'' td___u8 4, Bits ''src_reg'' td___u8 4,
     Fld ''off'' td___s16, Fld ''imm'' td___s32] False"

lemma layout_struct_bpf_insn [layout]:
  "size_of struct_bpf_insn = 8" "align_of struct_bpf_insn = 4" "wf_ctype struct_bpf_insn" "natural struct_bpf_insn"
  unfolding struct_bpf_insn_def by (simp_all add: layout)

definition struct_sock_filter :: ctype where
  "struct_sock_filter = CStruct ''sock_filter''
    [Fld ''code'' td___u16, Fld ''jt'' td___u8, Fld ''jf'' td___u8, Fld ''k'' td___u32] False"

lemma layout_struct_sock_filter [layout]:
  "size_of struct_sock_filter = 8" "align_of struct_sock_filter = 4" "wf_ctype struct_sock_filter" "natural struct_sock_filter"
  unfolding struct_sock_filter_def by (simp_all add: layout)

definition struct_bpf_prog :: ctype where
  "struct_bpf_prog = CStruct ''bpf_prog''
    [Fld ''pages'' td_u16, Bits ''jited'' td_u16 1, Bits ''jit_requested'' td_u16 1,
     Bits ''gpl_compatible'' td_u16 1, Bits ''cb_access'' td_u16 1,
     Bits ''dst_needed'' td_u16 1, Bits ''blinding_requested'' td_u16 1,
     Bits ''blinded'' td_u16 1, Bits ''is_func'' td_u16 1, Bits ''kprobe_override'' td_u16 1,
     Bits ''has_callchain_buf'' td_u16 1, Bits ''enforce_expected_attach_type'' td_u16 1,
     Bits ''call_get_stack'' td_u16 1, Bits ''call_get_func_ip'' td_u16 1,
     Bits ''tstamp_type_access'' td_u16 1, Bits ''sleepable'' td_u16 1,
     Fld ''type'' enum_bpf_prog_type, Fld ''expected_attach_type'' enum_bpf_attach_type,
     Fld ''len'' td_u32, Fld ''jited_len'' td_u32, Fld ''tag'' (CArr td_u8 8),
     Fld ''stats'' (CPtr ''struct bpf_prog_stats''), Fld ''active'' (CPtr ''int''),
     Fld ''bpf_func'' CFn, Fld ''aux'' (CPtr ''struct bpf_prog_aux''),
     Fld ''orig_prog'' (CPtr ''struct sock_fprog_kern''),
     Fld '''' (CUnion '''' [Fld '''' (CStruct '''' [Fld ''__empty_insns'' (CStruct '''' [] False), Fld ''insns'' (CArr struct_sock_filter 0)] False), Fld '''' (CStruct '''' [Fld ''__empty_insnsi'' (CStruct '''' [] False), Fld ''insnsi'' (CArr struct_bpf_insn 0)] False)] False)] False"

lemma layout_struct_bpf_prog [layout]:
  "size_of struct_bpf_prog = 72" "align_of struct_bpf_prog = 8" "wf_ctype struct_bpf_prog" "natural struct_bpf_prog"
  unfolding struct_bpf_prog_def by (simp_all add: layout)

definition struct_latch_tree_node :: ctype where
  "struct_latch_tree_node = CStruct ''latch_tree_node''
    [Fld ''node'' (CArr struct_rb_node 2)] False"

lemma layout_struct_latch_tree_node [layout]:
  "size_of struct_latch_tree_node = 48" "align_of struct_latch_tree_node = 8" "wf_ctype struct_latch_tree_node" "natural struct_latch_tree_node"
  unfolding struct_latch_tree_node_def by (simp_all add: layout)

definition struct_bpf_ksym :: ctype where
  "struct_bpf_ksym = CStruct ''bpf_ksym''
    [Fld ''start'' c_ulong, Fld ''end'' c_ulong, Fld ''name'' (CArr c_char 512),
     Fld ''lnode'' struct_list_head, Fld ''tnode'' struct_latch_tree_node, Fld ''prog'' td_bool] False"

lemma layout_struct_bpf_ksym [layout]:
  "size_of struct_bpf_ksym = 600" "align_of struct_bpf_ksym = 8" "wf_ctype struct_bpf_ksym" "natural struct_bpf_ksym"
  unfolding struct_bpf_ksym_def by (simp_all add: layout)

definition struct_bpf_prog_aux_members_1 :: "cmember list" where
  "struct_bpf_prog_aux_members_1 =
    [Fld ''refcnt'' td_atomic64_t, Fld ''used_map_cnt'' td_u32, Fld ''used_btf_cnt'' td_u32,
     Fld ''max_ctx_offset'' td_u32, Fld ''max_pkt_offset'' td_u32, Fld ''max_tp_access'' td_u32,
     Fld ''stack_depth'' td_u32, Fld ''id'' td_u32, Fld ''func_cnt'' td_u32,
     Fld ''real_func_cnt'' td_u32, Fld ''func_idx'' td_u32, Fld ''attach_btf_id'' td_u32,
     Fld ''ctx_arg_info_size'' td_u32, Fld ''max_rdonly_access'' td_u32,
     Fld ''max_rdwr_access'' td_u32, Fld ''attach_btf'' (CPtr ''struct btf''),
     Fld ''ctx_arg_info'' (CPtr ''struct bpf_ctx_arg_aux''), Fld ''dst_mutex'' struct_mutex,
     Fld ''dst_prog'' (CPtr ''struct bpf_prog''),
     Fld ''dst_trampoline'' (CPtr ''struct bpf_trampoline''),
     Fld ''saved_dst_prog_type'' enum_bpf_prog_type,
     Fld ''saved_dst_attach_type'' enum_bpf_attach_type, Fld ''verifier_zext'' td_bool,
     Fld ''dev_bound'' td_bool, Fld ''offload_requested'' td_bool,
     Fld ''attach_btf_trace'' td_bool, Fld ''attach_tracing_prog'' td_bool,
     Fld ''func_proto_unreliable'' td_bool, Fld ''tail_call_reachable'' td_bool,
     Fld ''xdp_has_frags'' td_bool, Fld ''exception_cb'' td_bool,
     Fld ''exception_boundary'' td_bool, Fld ''arena'' (CPtr ''struct bpf_arena''),
     Fld ''attach_func_proto'' (CPtr ''struct btf_type''),
     Fld ''attach_func_name'' (CPtr ''char''), Fld ''func'' (CPtr ''struct bpf_prog *''),
     Fld ''jit_data'' (CPtr ''void''),
     Fld ''poke_tab'' (CPtr ''struct bpf_jit_poke_descriptor''),
     Fld ''kfunc_tab'' (CPtr ''struct bpf_kfunc_desc_tab''),
     Fld ''kfunc_btf_tab'' (CPtr ''struct bpf_kfunc_btf_tab'')]"

lemma layout_struct_bpf_prog_aux_members_1 [layout]:
  "bit_end False 0 struct_bpf_prog_aux_members_1 = 1728" "members_align False struct_bpf_prog_aux_members_1 = 8"
  "wf_members struct_bpf_prog_aux_members_1" "naturals struct_bpf_prog_aux_members_1"
  unfolding struct_bpf_prog_aux_members_1_def by (simp_all add: layout)

definition struct_bpf_prog_aux_members_2 :: "cmember list" where
  "struct_bpf_prog_aux_members_2 =
    [Fld ''size_poke_tab'' td_u32, Fld ''ksym'' struct_bpf_ksym,
     Fld ''ops'' (CPtr ''struct bpf_prog_ops''), Fld ''used_maps'' (CPtr ''struct bpf_map *''),
     Fld ''used_maps_mutex'' struct_mutex, Fld ''used_btfs'' (CPtr ''struct btf_mod_pair''),
     Fld ''prog'' (CPtr ''struct bpf_prog''), Fld ''user'' (CPtr ''struct user_struct''),
     Fld ''load_time'' td_u64, Fld ''verified_insns'' td_u32, Fld ''cgroup_atype'' c_int,
     Fld ''cgroup_storage'' (CArr (CPtr ''struct bpf_map'') 2), Fld ''name'' (CArr c_char 16),
     Fld ''bpf_exception_cb'' CFn, Fld ''security'' (CPtr ''void''),
     Fld ''token'' (CPtr ''struct bpf_token''),
     Fld ''offload'' (CPtr ''struct bpf_prog_offload''), Fld ''btf'' (CPtr ''struct btf''),
     Fld ''func_info'' (CPtr ''struct bpf_func_info''),
     Fld ''func_info_aux'' (CPtr ''struct bpf_func_info_aux''),
     Fld ''linfo'' (CPtr ''struct bpf_line_info''), Fld ''jited_linfo'' (CPtr ''void *''),
     Fld ''func_info_cnt'' td_u32, Fld ''nr_linfo'' td_u32, Fld ''linfo_idx'' td_u32,
     Fld ''mod'' (CPtr ''struct module''), Fld ''num_exentries'' td_u32,
     Fld ''extable'' (CPtr ''struct exception_table_entry''),
     Fld '''' (CUnion '''' [Fld ''work'' struct_work_struct, Fld ''rcu'' struct_callback_head] False)]"

lemma layout_struct_bpf_prog_aux_members_2 [layout]:
  "bit_end False 1728 struct_bpf_prog_aux_members_2 = 8704" "members_align False struct_bpf_prog_aux_members_2 = 8"
  "wf_members struct_bpf_prog_aux_members_2" "naturals struct_bpf_prog_aux_members_2"
  unfolding struct_bpf_prog_aux_members_2_def by (simp_all add: layout)

definition struct_bpf_prog_aux :: ctype where
  "struct_bpf_prog_aux = CStruct ''bpf_prog_aux''
    (struct_bpf_prog_aux_members_1 @
     struct_bpf_prog_aux_members_2) False"

lemma layout_struct_bpf_prog_aux [layout]:
  "size_of struct_bpf_prog_aux = 1088" "align_of struct_bpf_prog_aux = 8" "wf_ctype struct_bpf_prog_aux" "natural struct_bpf_prog_aux"
  unfolding struct_bpf_prog_aux_def by (simp_all add: layout)

definition enum_bpf_func_id_constants_1 :: "(string \<times> int) list" where
  "enum_bpf_func_id_constants_1 =
    [(''BPF_FUNC_unspec'', 0), (''BPF_FUNC_map_lookup_elem'', 1),
     (''BPF_FUNC_map_update_elem'', 2), (''BPF_FUNC_map_delete_elem'', 3),
     (''BPF_FUNC_probe_read'', 4), (''BPF_FUNC_ktime_get_ns'', 5),
     (''BPF_FUNC_trace_printk'', 6), (''BPF_FUNC_get_prandom_u32'', 7),
     (''BPF_FUNC_get_smp_processor_id'', 8), (''BPF_FUNC_skb_store_bytes'', 9),
     (''BPF_FUNC_l3_csum_replace'', 10), (''BPF_FUNC_l4_csum_replace'', 11),
     (''BPF_FUNC_tail_call'', 12), (''BPF_FUNC_clone_redirect'', 13),
     (''BPF_FUNC_get_current_pid_tgid'', 14), (''BPF_FUNC_get_current_uid_gid'', 15),
     (''BPF_FUNC_get_current_comm'', 16), (''BPF_FUNC_get_cgroup_classid'', 17),
     (''BPF_FUNC_skb_vlan_push'', 18), (''BPF_FUNC_skb_vlan_pop'', 19),
     (''BPF_FUNC_skb_get_tunnel_key'', 20), (''BPF_FUNC_skb_set_tunnel_key'', 21),
     (''BPF_FUNC_perf_event_read'', 22), (''BPF_FUNC_redirect'', 23),
     (''BPF_FUNC_get_route_realm'', 24), (''BPF_FUNC_perf_event_output'', 25),
     (''BPF_FUNC_skb_load_bytes'', 26), (''BPF_FUNC_get_stackid'', 27),
     (''BPF_FUNC_csum_diff'', 28), (''BPF_FUNC_skb_get_tunnel_opt'', 29),
     (''BPF_FUNC_skb_set_tunnel_opt'', 30), (''BPF_FUNC_skb_change_proto'', 31),
     (''BPF_FUNC_skb_change_type'', 32), (''BPF_FUNC_skb_under_cgroup'', 33),
     (''BPF_FUNC_get_hash_recalc'', 34), (''BPF_FUNC_get_current_task'', 35),
     (''BPF_FUNC_probe_write_user'', 36), (''BPF_FUNC_current_task_under_cgroup'', 37),
     (''BPF_FUNC_skb_change_tail'', 38), (''BPF_FUNC_skb_pull_data'', 39),
     (''BPF_FUNC_csum_update'', 40), (''BPF_FUNC_set_hash_invalid'', 41),
     (''BPF_FUNC_get_numa_node_id'', 42), (''BPF_FUNC_skb_change_head'', 43),
     (''BPF_FUNC_xdp_adjust_head'', 44), (''BPF_FUNC_probe_read_str'', 45),
     (''BPF_FUNC_get_socket_cookie'', 46), (''BPF_FUNC_get_socket_uid'', 47),
     (''BPF_FUNC_set_hash'', 48), (''BPF_FUNC_setsockopt'', 49),
     (''BPF_FUNC_skb_adjust_room'', 50), (''BPF_FUNC_redirect_map'', 51),
     (''BPF_FUNC_sk_redirect_map'', 52), (''BPF_FUNC_sock_map_update'', 53),
     (''BPF_FUNC_xdp_adjust_meta'', 54), (''BPF_FUNC_perf_event_read_value'', 55),
     (''BPF_FUNC_perf_prog_read_value'', 56), (''BPF_FUNC_getsockopt'', 57),
     (''BPF_FUNC_override_return'', 58), (''BPF_FUNC_sock_ops_cb_flags_set'', 59),
     (''BPF_FUNC_msg_redirect_map'', 60), (''BPF_FUNC_msg_apply_bytes'', 61),
     (''BPF_FUNC_msg_cork_bytes'', 62), (''BPF_FUNC_msg_pull_data'', 63),
     (''BPF_FUNC_bind'', 64), (''BPF_FUNC_xdp_adjust_tail'', 65),
     (''BPF_FUNC_skb_get_xfrm_state'', 66), (''BPF_FUNC_get_stack'', 67),
     (''BPF_FUNC_skb_load_bytes_relative'', 68), (''BPF_FUNC_fib_lookup'', 69),
     (''BPF_FUNC_sock_hash_update'', 70), (''BPF_FUNC_msg_redirect_hash'', 71),
     (''BPF_FUNC_sk_redirect_hash'', 72), (''BPF_FUNC_lwt_push_encap'', 73),
     (''BPF_FUNC_lwt_seg6_store_bytes'', 74), (''BPF_FUNC_lwt_seg6_adjust_srh'', 75),
     (''BPF_FUNC_lwt_seg6_action'', 76), (''BPF_FUNC_rc_repeat'', 77),
     (''BPF_FUNC_rc_keydown'', 78), (''BPF_FUNC_skb_cgroup_id'', 79),
     (''BPF_FUNC_get_current_cgroup_id'', 80), (''BPF_FUNC_get_local_storage'', 81),
     (''BPF_FUNC_sk_select_reuseport'', 82), (''BPF_FUNC_skb_ancestor_cgroup_id'', 83),
     (''BPF_FUNC_sk_lookup_tcp'', 84), (''BPF_FUNC_sk_lookup_udp'', 85),
     (''BPF_FUNC_sk_release'', 86), (''BPF_FUNC_map_push_elem'', 87),
     (''BPF_FUNC_map_pop_elem'', 88), (''BPF_FUNC_map_peek_elem'', 89),
     (''BPF_FUNC_msg_push_data'', 90), (''BPF_FUNC_msg_pop_data'', 91),
     (''BPF_FUNC_rc_pointer_rel'', 92), (''BPF_FUNC_spin_lock'', 93),
     (''BPF_FUNC_spin_unlock'', 94), (''BPF_FUNC_sk_fullsock'', 95),
     (''BPF_FUNC_tcp_sock'', 96), (''BPF_FUNC_skb_ecn_set_ce'', 97),
     (''BPF_FUNC_get_listener_sock'', 98), (''BPF_FUNC_skc_lookup_tcp'', 99),
     (''BPF_FUNC_tcp_check_syncookie'', 100), (''BPF_FUNC_sysctl_get_name'', 101),
     (''BPF_FUNC_sysctl_get_current_value'', 102), (''BPF_FUNC_sysctl_get_new_value'', 103),
     (''BPF_FUNC_sysctl_set_new_value'', 104), (''BPF_FUNC_strtol'', 105),
     (''BPF_FUNC_strtoul'', 106), (''BPF_FUNC_sk_storage_get'', 107),
     (''BPF_FUNC_sk_storage_delete'', 108), (''BPF_FUNC_send_signal'', 109)]"

definition enum_bpf_func_id_constants_2 :: "(string \<times> int) list" where
  "enum_bpf_func_id_constants_2 =
    [(''BPF_FUNC_tcp_gen_syncookie'', 110), (''BPF_FUNC_skb_output'', 111),
     (''BPF_FUNC_probe_read_user'', 112), (''BPF_FUNC_probe_read_kernel'', 113),
     (''BPF_FUNC_probe_read_user_str'', 114), (''BPF_FUNC_probe_read_kernel_str'', 115),
     (''BPF_FUNC_tcp_send_ack'', 116), (''BPF_FUNC_send_signal_thread'', 117),
     (''BPF_FUNC_jiffies64'', 118), (''BPF_FUNC_read_branch_records'', 119),
     (''BPF_FUNC_get_ns_current_pid_tgid'', 120), (''BPF_FUNC_xdp_output'', 121),
     (''BPF_FUNC_get_netns_cookie'', 122), (''BPF_FUNC_get_current_ancestor_cgroup_id'', 123),
     (''BPF_FUNC_sk_assign'', 124), (''BPF_FUNC_ktime_get_boot_ns'', 125),
     (''BPF_FUNC_seq_printf'', 126), (''BPF_FUNC_seq_write'', 127),
     (''BPF_FUNC_sk_cgroup_id'', 128), (''BPF_FUNC_sk_ancestor_cgroup_id'', 129),
     (''BPF_FUNC_ringbuf_output'', 130), (''BPF_FUNC_ringbuf_reserve'', 131),
     (''BPF_FUNC_ringbuf_submit'', 132), (''BPF_FUNC_ringbuf_discard'', 133),
     (''BPF_FUNC_ringbuf_query'', 134), (''BPF_FUNC_csum_level'', 135),
     (''BPF_FUNC_skc_to_tcp6_sock'', 136), (''BPF_FUNC_skc_to_tcp_sock'', 137),
     (''BPF_FUNC_skc_to_tcp_timewait_sock'', 138), (''BPF_FUNC_skc_to_tcp_request_sock'', 139),
     (''BPF_FUNC_skc_to_udp6_sock'', 140), (''BPF_FUNC_get_task_stack'', 141),
     (''BPF_FUNC_load_hdr_opt'', 142), (''BPF_FUNC_store_hdr_opt'', 143),
     (''BPF_FUNC_reserve_hdr_opt'', 144), (''BPF_FUNC_inode_storage_get'', 145),
     (''BPF_FUNC_inode_storage_delete'', 146), (''BPF_FUNC_d_path'', 147),
     (''BPF_FUNC_copy_from_user'', 148), (''BPF_FUNC_snprintf_btf'', 149),
     (''BPF_FUNC_seq_printf_btf'', 150), (''BPF_FUNC_skb_cgroup_classid'', 151),
     (''BPF_FUNC_redirect_neigh'', 152), (''BPF_FUNC_per_cpu_ptr'', 153),
     (''BPF_FUNC_this_cpu_ptr'', 154), (''BPF_FUNC_redirect_peer'', 155),
     (''BPF_FUNC_task_storage_get'', 156), (''BPF_FUNC_task_storage_delete'', 157),
     (''BPF_FUNC_get_current_task_btf'', 158), (''BPF_FUNC_bprm_opts_set'', 159),
     (''BPF_FUNC_ktime_get_coarse_ns'', 160), (''BPF_FUNC_ima_inode_hash'', 161),
     (''BPF_FUNC_sock_from_file'', 162), (''BPF_FUNC_check_mtu'', 163),
     (''BPF_FUNC_for_each_map_elem'', 164), (''BPF_FUNC_snprintf'', 165),
     (''BPF_FUNC_sys_bpf'', 166), (''BPF_FUNC_btf_find_by_name_kind'', 167),
     (''BPF_FUNC_sys_close'', 168), (''BPF_FUNC_timer_init'', 169),
     (''BPF_FUNC_timer_set_callback'', 170), (''BPF_FUNC_timer_start'', 171),
     (''BPF_FUNC_timer_cancel'', 172), (''BPF_FUNC_get_func_ip'', 173),
     (''BPF_FUNC_get_attach_cookie'', 174), (''BPF_FUNC_task_pt_regs'', 175),
     (''BPF_FUNC_get_branch_snapshot'', 176), (''BPF_FUNC_trace_vprintk'', 177),
     (''BPF_FUNC_skc_to_unix_sock'', 178), (''BPF_FUNC_kallsyms_lookup_name'', 179),
     (''BPF_FUNC_find_vma'', 180), (''BPF_FUNC_loop'', 181), (''BPF_FUNC_strncmp'', 182),
     (''BPF_FUNC_get_func_arg'', 183), (''BPF_FUNC_get_func_ret'', 184),
     (''BPF_FUNC_get_func_arg_cnt'', 185), (''BPF_FUNC_get_retval'', 186),
     (''BPF_FUNC_set_retval'', 187), (''BPF_FUNC_xdp_get_buff_len'', 188),
     (''BPF_FUNC_xdp_load_bytes'', 189), (''BPF_FUNC_xdp_store_bytes'', 190),
     (''BPF_FUNC_copy_from_user_task'', 191), (''BPF_FUNC_skb_set_tstamp'', 192),
     (''BPF_FUNC_ima_file_hash'', 193), (''BPF_FUNC_kptr_xchg'', 194),
     (''BPF_FUNC_map_lookup_percpu_elem'', 195), (''BPF_FUNC_skc_to_mptcp_sock'', 196),
     (''BPF_FUNC_dynptr_from_mem'', 197), (''BPF_FUNC_ringbuf_reserve_dynptr'', 198),
     (''BPF_FUNC_ringbuf_submit_dynptr'', 199), (''BPF_FUNC_ringbuf_discard_dynptr'', 200),
     (''BPF_FUNC_dynptr_read'', 201), (''BPF_FUNC_dynptr_write'', 202),
     (''BPF_FUNC_dynptr_data'', 203), (''BPF_FUNC_tcp_raw_gen_syncookie_ipv4'', 204),
     (''BPF_FUNC_tcp_raw_gen_syncookie_ipv6'', 205),
     (''BPF_FUNC_tcp_raw_check_syncookie_ipv4'', 206),
     (''BPF_FUNC_tcp_raw_check_syncookie_ipv6'', 207), (''BPF_FUNC_ktime_get_tai_ns'', 208),
     (''BPF_FUNC_user_ringbuf_drain'', 209), (''BPF_FUNC_cgrp_storage_get'', 210),
     (''BPF_FUNC_cgrp_storage_delete'', 211), (''__BPF_FUNC_MAX_ID'', 212)]"

definition enum_bpf_func_id :: ctype where
  "enum_bpf_func_id = CEnum ''bpf_func_id'' (enum_bpf_func_id_constants_1 @ enum_bpf_func_id_constants_2) 4"

lemma layout_enum_bpf_func_id [layout]:
  "size_of enum_bpf_func_id = 4" "align_of enum_bpf_func_id = 4" "wf_ctype enum_bpf_func_id" "natural enum_bpf_func_id"
  unfolding enum_bpf_func_id_def by (simp_all add: layout)

definition enum_bpf_cmd :: ctype where
  "enum_bpf_cmd = CEnum ''bpf_cmd''
    [(''BPF_MAP_CREATE'', 0), (''BPF_MAP_LOOKUP_ELEM'', 1), (''BPF_MAP_UPDATE_ELEM'', 2),
     (''BPF_MAP_DELETE_ELEM'', 3), (''BPF_MAP_GET_NEXT_KEY'', 4), (''BPF_PROG_LOAD'', 5),
     (''BPF_OBJ_PIN'', 6), (''BPF_OBJ_GET'', 7), (''BPF_PROG_ATTACH'', 8),
     (''BPF_PROG_DETACH'', 9), (''BPF_PROG_TEST_RUN'', 10), (''BPF_PROG_RUN'', 10),
     (''BPF_PROG_GET_NEXT_ID'', 11), (''BPF_MAP_GET_NEXT_ID'', 12),
     (''BPF_PROG_GET_FD_BY_ID'', 13), (''BPF_MAP_GET_FD_BY_ID'', 14),
     (''BPF_OBJ_GET_INFO_BY_FD'', 15), (''BPF_PROG_QUERY'', 16),
     (''BPF_RAW_TRACEPOINT_OPEN'', 17), (''BPF_BTF_LOAD'', 18), (''BPF_BTF_GET_FD_BY_ID'', 19),
     (''BPF_TASK_FD_QUERY'', 20), (''BPF_MAP_LOOKUP_AND_DELETE_ELEM'', 21),
     (''BPF_MAP_FREEZE'', 22), (''BPF_BTF_GET_NEXT_ID'', 23), (''BPF_MAP_LOOKUP_BATCH'', 24),
     (''BPF_MAP_LOOKUP_AND_DELETE_BATCH'', 25), (''BPF_MAP_UPDATE_BATCH'', 26),
     (''BPF_MAP_DELETE_BATCH'', 27), (''BPF_LINK_CREATE'', 28), (''BPF_LINK_UPDATE'', 29),
     (''BPF_LINK_GET_FD_BY_ID'', 30), (''BPF_LINK_GET_NEXT_ID'', 31),
     (''BPF_ENABLE_STATS'', 32), (''BPF_ITER_CREATE'', 33), (''BPF_LINK_DETACH'', 34),
     (''BPF_PROG_BIND_MAP'', 35), (''BPF_TOKEN_CREATE'', 36), (''__MAX_BPF_CMD'', 37)] 4"

lemma layout_enum_bpf_cmd [layout]:
  "size_of enum_bpf_cmd = 4" "align_of enum_bpf_cmd = 4" "wf_ctype enum_bpf_cmd" "natural enum_bpf_cmd"
  unfolding enum_bpf_cmd_def by (simp_all add: layout)

definition union_bpf_attr :: ctype where
  "union_bpf_attr = CUnion ''bpf_attr''
    [Fld '''' (CStruct '''' [Fld ''map_type'' td___u32, Fld ''key_size'' td___u32, Fld ''value_size'' td___u32, Fld ''max_entries'' td___u32, Fld ''map_flags'' td___u32, Fld ''inner_map_fd'' td___u32, Fld ''numa_node'' td___u32, Fld ''map_name'' (CArr c_char 16), Fld ''map_ifindex'' td___u32, Fld ''btf_fd'' td___u32, Fld ''btf_key_type_id'' td___u32, Fld ''btf_value_type_id'' td___u32, Fld ''btf_vmlinux_value_type_id'' td___u32, Fld ''map_extra'' td___u64, Fld ''value_type_btf_obj_fd'' td___s32, Fld ''map_token_fd'' td___s32] False),
     Fld '''' (CStruct '''' [Fld ''map_fd'' td___u32, Fld ''key'' td___u64, Fld '''' (CUnion '''' [Fld ''value'' td___u64, Fld ''next_key'' td___u64] False), Fld ''flags'' td___u64] False),
     Fld ''batch'' (CStruct '''' [Fld ''in_batch'' td___u64, Fld ''out_batch'' td___u64, Fld ''keys'' td___u64, Fld ''values'' td___u64, Fld ''count'' td___u32, Fld ''map_fd'' td___u32, Fld ''elem_flags'' td___u64, Fld ''flags'' td___u64] False),
     Fld '''' (CStruct '''' [Fld ''prog_type'' td___u32, Fld ''insn_cnt'' td___u32, Fld ''insns'' td___u64, Fld ''license'' td___u64, Fld ''log_level'' td___u32, Fld ''log_size'' td___u32, Fld ''log_buf'' td___u64, Fld ''kern_version'' td___u32, Fld ''prog_flags'' td___u32, Fld ''prog_name'' (CArr c_char 16), Fld ''prog_ifindex'' td___u32, Fld ''expected_attach_type'' td___u32, Fld ''prog_btf_fd'' td___u32, Fld ''func_info_rec_size'' td___u32, Fld ''func_info'' td___u64, Fld ''func_info_cnt'' td___u32, Fld ''line_info_rec_size'' td___u32, Fld ''line_info'' td___u64, Fld ''line_info_cnt'' td___u32, Fld ''attach_btf_id'' td___u32, Fld '''' (CUnion '''' [Fld ''attach_prog_fd'' td___u32, Fld ''attach_btf_obj_fd'' td___u32] False), Fld ''core_relo_cnt'' td___u32, Fld ''fd_array'' td___u64, Fld ''core_relos'' td___u64, Fld ''core_relo_rec_size'' td___u32, Fld ''log_true_size'' td___u32, Fld ''prog_token_fd'' td___s32] False),
     Fld '''' (CStruct '''' [Fld ''pathname'' td___u64, Fld ''bpf_fd'' td___u32, Fld ''file_flags'' td___u32, Fld ''path_fd'' td___s32] False),
     Fld '''' (CStruct '''' [Fld '''' (CUnion '''' [Fld ''target_fd'' td___u32, Fld ''target_ifindex'' td___u32] False), Fld ''attach_bpf_fd'' td___u32, Fld ''attach_type'' td___u32, Fld ''attach_flags'' td___u32, Fld ''replace_bpf_fd'' td___u32, Fld '''' (CUnion '''' [Fld ''relative_fd'' td___u32, Fld ''relative_id'' td___u32] False), Fld ''expected_revision'' td___u64] False),
     Fld ''test'' (CStruct '''' [Fld ''prog_fd'' td___u32, Fld ''retval'' td___u32, Fld ''data_size_in'' td___u32, Fld ''data_size_out'' td___u32, Fld ''data_in'' td___u64, Fld ''data_out'' td___u64, Fld ''repeat'' td___u32, Fld ''duration'' td___u32, Fld ''ctx_size_in'' td___u32, Fld ''ctx_size_out'' td___u32, Fld ''ctx_in'' td___u64, Fld ''ctx_out'' td___u64, Fld ''flags'' td___u32, Fld ''cpu'' td___u32, Fld ''batch_size'' td___u32] False),
     Fld '''' (CStruct '''' [Fld '''' (CUnion '''' [Fld ''start_id'' td___u32, Fld ''prog_id'' td___u32, Fld ''map_id'' td___u32, Fld ''btf_id'' td___u32, Fld ''link_id'' td___u32] False), Fld ''next_id'' td___u32, Fld ''open_flags'' td___u32] False),
     Fld ''info'' (CStruct '''' [Fld ''bpf_fd'' td___u32, Fld ''info_len'' td___u32, Fld ''info'' td___u64] False),
     Fld ''query'' (CStruct '''' [Fld '''' (CUnion '''' [Fld ''target_fd'' td___u32, Fld ''target_ifindex'' td___u32] False), Fld ''attach_type'' td___u32, Fld ''query_flags'' td___u32, Fld ''attach_flags'' td___u32, Fld ''prog_ids'' td___u64, Fld '''' (CUnion '''' [Fld ''prog_cnt'' td___u32, Fld ''count'' td___u32] False), Fld ''prog_attach_flags'' td___u64, Fld ''link_ids'' td___u64, Fld ''link_attach_flags'' td___u64, Fld ''revision'' td___u64] False),
     Fld ''raw_tracepoint'' (CStruct '''' [Fld ''name'' td___u64, Fld ''prog_fd'' td___u32, Fld ''cookie'' td___u64] False),
     Fld '''' (CStruct '''' [Fld ''btf'' td___u64, Fld ''btf_log_buf'' td___u64, Fld ''btf_size'' td___u32, Fld ''btf_log_size'' td___u32, Fld ''btf_log_level'' td___u32, Fld ''btf_log_true_size'' td___u32, Fld ''btf_flags'' td___u32, Fld ''btf_token_fd'' td___s32] False),
     Fld ''task_fd_query'' (CStruct '''' [Fld ''pid'' td___u32, Fld ''fd'' td___u32, Fld ''flags'' td___u32, Fld ''buf_len'' td___u32, Fld ''buf'' td___u64, Fld ''prog_id'' td___u32, Fld ''fd_type'' td___u32, Fld ''probe_offset'' td___u64, Fld ''probe_addr'' td___u64] False),
     Fld ''link_create'' (CStruct '''' [Fld '''' (CUnion '''' [Fld ''prog_fd'' td___u32, Fld ''map_fd'' td___u32] False), Fld '''' (CUnion '''' [Fld ''target_fd'' td___u32, Fld ''target_ifindex'' td___u32] False), Fld ''attach_type'' td___u32, Fld ''flags'' td___u32, Fld '''' (CUnion '''' [Fld ''target_btf_id'' td___u32, Fld '''' (CStruct '''' [Fld ''iter_info'' td___u64, Fld ''iter_info_len'' td___u32] False), Fld ''perf_event'' (CStruct '''' [Fld ''bpf_cookie'' td___u64] False), Fld ''kprobe_multi'' (CStruct '''' [Fld ''flags'' td___u32, Fld ''cnt'' td___u32, Fld ''syms'' td___u64, Fld ''addrs'' td___u64, Fld ''cookies'' td___u64] False), Fld ''tracing'' (CStruct '''' [Fld ''target_btf_id'' td___u32, Fld ''cookie'' td___u64] False), Fld ''netfilter'' (CStruct '''' [Fld ''pf'' td___u32, Fld ''hooknum'' td___u32, Fld ''priority'' td___s32, Fld ''flags'' td___u32] False), Fld ''tcx'' (CStruct '''' [Fld '''' (CUnion '''' [Fld ''relative_fd'' td___u32, Fld ''relative_id'' td___u32] False), Fld ''expected_revision'' td___u64] False), Fld ''uprobe_multi'' (CStruct '''' [Fld ''path'' td___u64, Fld ''offsets'' td___u64, Fld ''ref_ctr_offsets'' td___u64, Fld ''cookies'' td___u64, Fld ''cnt'' td___u32, Fld ''flags'' td___u32, Fld ''pid'' td___u32] False), Fld ''netkit'' (CStruct '''' [Fld '''' (CUnion '''' [Fld ''relative_fd'' td___u32, Fld ''relative_id'' td___u32] False), Fld ''expected_revision'' td___u64] False)] False)] False),
     Fld ''link_update'' (CStruct '''' [Fld ''link_fd'' td___u32, Fld '''' (CUnion '''' [Fld ''new_prog_fd'' td___u32, Fld ''new_map_fd'' td___u32] False), Fld ''flags'' td___u32, Fld '''' (CUnion '''' [Fld ''old_prog_fd'' td___u32, Fld ''old_map_fd'' td___u32] False)] False),
     Fld ''link_detach'' (CStruct '''' [Fld ''link_fd'' td___u32] False),
     Fld ''enable_stats'' (CStruct '''' [Fld ''type'' td___u32] False),
     Fld ''iter_create'' (CStruct '''' [Fld ''link_fd'' td___u32, Fld ''flags'' td___u32] False),
     Fld ''prog_bind_map'' (CStruct '''' [Fld ''prog_fd'' td___u32, Fld ''map_fd'' td___u32, Fld ''flags'' td___u32] False),
     Fld ''token_create'' (CStruct '''' [Fld ''flags'' td___u32, Fld ''bpffs_fd'' td___u32] False)] False"

lemma layout_union_bpf_attr [layout]:
  "size_of union_bpf_attr = 152" "align_of union_bpf_attr = 8" "wf_ctype union_bpf_attr" "natural union_bpf_attr"
  unfolding union_bpf_attr_def by (simp_all add: layout)

end
