(* ===== verification/Vmlinux_Files.thy ===== *)
theory Vmlinux_Files
  imports Vmlinux_Bpf
begin

text \<open>
  Types of \<open>ebpf/vmlinux/x86_64/vmlinux_x86_64_6_11.h\<close>: open files, directory entries, mounts and the operation tables of the file system.
  One definition per declaration, members in the header's order; a declaration longer than
  forty members is split into consecutive member lists.  Pointers keep only the name of their
  target.  Each lemma records the size, the alignment and the well-formedness of a type.
\<close>

definition struct_file_ra_state :: ctype where
  "struct_file_ra_state = CStruct ''file_ra_state''
    [Fld ''start'' c_ulong, Fld ''size'' c_uint, Fld ''async_size'' c_uint,
     Fld ''ra_pages'' c_uint, Fld ''mmap_miss'' c_uint, Fld ''prev_pos'' td_loff_t] False"

lemma layout_struct_file_ra_state [layout]:
  "size_of struct_file_ra_state = 32" "align_of struct_file_ra_state = 8" "wf_ctype struct_file_ra_state" "natural struct_file_ra_state"
  unfolding struct_file_ra_state_def by (simp_all add: layout)

definition enum_pid_type :: ctype where
  "enum_pid_type = CEnum ''pid_type''
    [(''PIDTYPE_PID'', 0), (''PIDTYPE_TGID'', 1), (''PIDTYPE_PGID'', 2), (''PIDTYPE_SID'', 3),
     (''PIDTYPE_MAX'', 4)] 4"

lemma layout_enum_pid_type [layout]:
  "size_of enum_pid_type = 4" "align_of enum_pid_type = 4" "wf_ctype enum_pid_type" "natural enum_pid_type"
  unfolding enum_pid_type_def by (simp_all add: layout)

definition struct_qrwlock :: ctype where
  "struct_qrwlock = CStruct ''qrwlock''
    [Fld '''' (CUnion '''' [Fld ''cnts'' td_atomic_t, Fld '''' (CStruct '''' [Fld ''wlocked'' td_u8, Fld ''__lstate'' (CArr td_u8 3)] False)] False),
     Fld ''wait_lock'' td_arch_spinlock_t] False"

lemma layout_struct_qrwlock [layout]:
  "size_of struct_qrwlock = 8" "align_of struct_qrwlock = 4" "wf_ctype struct_qrwlock" "natural struct_qrwlock"
  unfolding struct_qrwlock_def by (simp_all add: layout)

definition td_arch_rwlock_t :: ctype where
  "td_arch_rwlock_t = struct_qrwlock"

lemma layout_td_arch_rwlock_t [layout]:
  "size_of td_arch_rwlock_t = 8" "align_of td_arch_rwlock_t = 4" "wf_ctype td_arch_rwlock_t" "natural td_arch_rwlock_t"
  unfolding td_arch_rwlock_t_def by (simp_all add: layout)

definition td_rwlock_t :: ctype where
  "td_rwlock_t = CStruct ''''
    [Fld ''raw_lock'' td_arch_rwlock_t] False"

lemma layout_td_rwlock_t [layout]:
  "size_of td_rwlock_t = 8" "align_of td_rwlock_t = 4" "wf_ctype td_rwlock_t" "natural td_rwlock_t"
  unfolding td_rwlock_t_def by (simp_all add: layout)

definition struct_fown_struct :: ctype where
  "struct_fown_struct = CStruct ''fown_struct''
    [Fld ''lock'' td_rwlock_t, Fld ''pid'' (CPtr ''struct pid''),
     Fld ''pid_type'' enum_pid_type, Fld ''uid'' td_kuid_t, Fld ''euid'' td_kuid_t,
     Fld ''signum'' c_int] False"

lemma layout_struct_fown_struct [layout]:
  "size_of struct_fown_struct = 32" "align_of struct_fown_struct = 8" "wf_ctype struct_fown_struct" "natural struct_fown_struct"
  unfolding struct_fown_struct_def by (simp_all add: layout)

definition struct_path :: ctype where
  "struct_path = CStruct ''path''
    [Fld ''mnt'' (CPtr ''struct vfsmount''), Fld ''dentry'' (CPtr ''struct dentry'')] False"

lemma layout_struct_path [layout]:
  "size_of struct_path = 16" "align_of struct_path = 8" "wf_ctype struct_path" "natural struct_path"
  unfolding struct_path_def by (simp_all add: layout)

definition td_fmode_t :: ctype where
  "td_fmode_t = c_uint"

lemma layout_td_fmode_t [layout]:
  "size_of td_fmode_t = 4" "align_of td_fmode_t = 4" "wf_ctype td_fmode_t" "natural td_fmode_t"
  unfolding td_fmode_t_def by (simp_all add: layout)

definition struct_file :: ctype where
  "struct_file = CStruct ''file''
    [Fld '''' (CUnion '''' [Fld ''f_task_work'' struct_callback_head, Fld ''f_llist'' struct_llist_node, Fld ''f_iocb_flags'' c_uint] False),
     Fld ''f_lock'' td_spinlock_t, Fld ''f_mode'' td_fmode_t, Fld ''f_count'' td_atomic_long_t,
     Fld ''f_pos_lock'' struct_mutex, Fld ''f_pos'' td_loff_t, Fld ''f_flags'' c_uint,
     Fld ''f_owner'' struct_fown_struct, Fld ''f_cred'' (CPtr ''struct cred''),
     Fld ''f_ra'' struct_file_ra_state, Fld ''f_path'' struct_path,
     Fld ''f_inode'' (CPtr ''struct inode''), Fld ''f_op'' (CPtr ''struct file_operations''),
     Fld ''f_version'' td_u64, Fld ''f_security'' (CPtr ''void''),
     Fld ''private_data'' (CPtr ''void''), Fld ''f_ep'' (CPtr ''struct hlist_head''),
     Fld ''f_mapping'' (CPtr ''struct address_space''), Fld ''f_wb_err'' td_errseq_t,
     Fld ''f_sb_err'' td_errseq_t] False"

lemma layout_struct_file [layout]:
  "size_of struct_file = 232" "align_of struct_file = 8" "wf_ctype struct_file" "natural struct_file"
  unfolding struct_file_def by (simp_all add: layout)

definition struct_hlist_bl_node :: ctype where
  "struct_hlist_bl_node = CStruct ''hlist_bl_node''
    [Fld ''next'' (CPtr ''struct hlist_bl_node''),
     Fld ''pprev'' (CPtr ''struct hlist_bl_node *'')] False"

lemma layout_struct_hlist_bl_node [layout]:
  "size_of struct_hlist_bl_node = 16" "align_of struct_hlist_bl_node = 8" "wf_ctype struct_hlist_bl_node" "natural struct_hlist_bl_node"
  unfolding struct_hlist_bl_node_def by (simp_all add: layout)

definition struct_lockref :: ctype where
  "struct_lockref = CStruct ''lockref''
    [Fld '''' (CUnion '''' [Fld ''lock_count'' td___u64, Fld '''' (CStruct '''' [Fld ''lock'' td_spinlock_t, Fld ''count'' c_int] False)] False)] False"

lemma layout_struct_lockref [layout]:
  "size_of struct_lockref = 8" "align_of struct_lockref = 8" "wf_ctype struct_lockref" "natural struct_lockref"
  unfolding struct_lockref_def by (simp_all add: layout)

definition struct_qstr :: ctype where
  "struct_qstr = CStruct ''qstr''
    [Fld '''' (CUnion '''' [Fld '''' (CStruct '''' [Fld ''hash'' td_u32, Fld ''len'' td_u32] False), Fld ''hash_len'' td_u64] False),
     Fld ''name'' (CPtr ''unsigned char'')] False"

lemma layout_struct_qstr [layout]:
  "size_of struct_qstr = 16" "align_of struct_qstr = 8" "wf_ctype struct_qstr" "natural struct_qstr"
  unfolding struct_qstr_def by (simp_all add: layout)

definition struct_dentry :: ctype where
  "struct_dentry = CStruct ''dentry''
    [Fld ''d_flags'' c_uint, Fld ''d_seq'' td_seqcount_spinlock_t,
     Fld ''d_hash'' struct_hlist_bl_node, Fld ''d_parent'' (CPtr ''struct dentry''),
     Fld ''d_name'' struct_qstr, Fld ''d_inode'' (CPtr ''struct inode''),
     Fld ''d_iname'' (CArr c_uchar 40), Fld ''d_op'' (CPtr ''struct dentry_operations''),
     Fld ''d_sb'' (CPtr ''struct super_block''), Fld ''d_time'' c_ulong,
     Fld ''d_fsdata'' (CPtr ''void''), Fld ''d_lockref'' struct_lockref,
     Fld '''' (CUnion '''' [Fld ''d_lru'' struct_list_head, Fld ''d_wait'' (CPtr ''wait_queue_head_t'')] False),
     Fld ''d_sib'' struct_hlist_node, Fld ''d_children'' struct_hlist_head,
     Fld ''d_u'' (CUnion '''' [Fld ''d_alias'' struct_hlist_node, Fld ''d_in_lookup_hash'' struct_hlist_bl_node, Fld ''d_rcu'' struct_callback_head] False)] False"

lemma layout_struct_dentry [layout]:
  "size_of struct_dentry = 192" "align_of struct_dentry = 8" "wf_ctype struct_dentry" "natural struct_dentry"
  unfolding struct_dentry_def by (simp_all add: layout)

definition struct_uid_gid_extent :: ctype where
  "struct_uid_gid_extent = CStruct ''uid_gid_extent''
    [Fld ''first'' td_u32, Fld ''lower_first'' td_u32, Fld ''count'' td_u32] False"

lemma layout_struct_uid_gid_extent [layout]:
  "size_of struct_uid_gid_extent = 12" "align_of struct_uid_gid_extent = 4" "wf_ctype struct_uid_gid_extent" "natural struct_uid_gid_extent"
  unfolding struct_uid_gid_extent_def by (simp_all add: layout)

definition struct_uid_gid_map :: ctype where
  "struct_uid_gid_map = CStruct ''uid_gid_map''
    [Fld ''nr_extents'' td_u32,
     Fld '''' (CUnion '''' [Fld ''extent'' (CArr struct_uid_gid_extent 5), Fld '''' (CStruct '''' [Fld ''forward'' (CPtr ''struct uid_gid_extent''), Fld ''reverse'' (CPtr ''struct uid_gid_extent'')] False)] False)] False"

lemma layout_struct_uid_gid_map [layout]:
  "size_of struct_uid_gid_map = 72" "align_of struct_uid_gid_map = 8" "wf_ctype struct_uid_gid_map" "natural struct_uid_gid_map"
  unfolding struct_uid_gid_map_def by (simp_all add: layout)

definition struct_mnt_idmap :: ctype where
  "struct_mnt_idmap = CStruct ''mnt_idmap''
    [Fld ''uid_map'' struct_uid_gid_map, Fld ''gid_map'' struct_uid_gid_map,
     Fld ''count'' td_refcount_t] False"

lemma layout_struct_mnt_idmap [layout]:
  "size_of struct_mnt_idmap = 152" "align_of struct_mnt_idmap = 8" "wf_ctype struct_mnt_idmap" "natural struct_mnt_idmap"
  unfolding struct_mnt_idmap_def by (simp_all add: layout)

definition struct_file_system_type :: ctype where
  "struct_file_system_type = CStruct ''file_system_type''
    [Fld ''name'' (CPtr ''char''), Fld ''fs_flags'' c_int, Fld ''init_fs_context'' CFn,
     Fld ''parameters'' (CPtr ''struct fs_parameter_spec''), Fld ''mount'' CFn,
     Fld ''kill_sb'' CFn, Fld ''owner'' (CPtr ''struct module''),
     Fld ''next'' (CPtr ''struct file_system_type''), Fld ''fs_supers'' struct_hlist_head,
     Fld ''s_lock_key'' struct_lock_class_key, Fld ''s_umount_key'' struct_lock_class_key,
     Fld ''s_vfs_rename_key'' struct_lock_class_key,
     Fld ''s_writers_key'' (CArr struct_lock_class_key 3),
     Fld ''i_lock_key'' struct_lock_class_key, Fld ''i_mutex_key'' struct_lock_class_key,
     Fld ''invalidate_lock_key'' struct_lock_class_key,
     Fld ''i_mutex_dir_key'' struct_lock_class_key] False"

lemma layout_struct_file_system_type [layout]:
  "size_of struct_file_system_type = 72" "align_of struct_file_system_type = 8" "wf_ctype struct_file_system_type" "natural struct_file_system_type"
  unfolding struct_file_system_type_def by (simp_all add: layout)

definition struct_vfsmount :: ctype where
  "struct_vfsmount = CStruct ''vfsmount''
    [Fld ''mnt_root'' (CPtr ''struct dentry''), Fld ''mnt_sb'' (CPtr ''struct super_block''),
     Fld ''mnt_flags'' c_int, Fld ''mnt_idmap'' (CPtr ''struct mnt_idmap'')] False"

lemma layout_struct_vfsmount [layout]:
  "size_of struct_vfsmount = 32" "align_of struct_vfsmount = 8" "wf_ctype struct_vfsmount" "natural struct_vfsmount"
  unfolding struct_vfsmount_def by (simp_all add: layout)

definition struct_inode_operations :: ctype where
  "struct_inode_operations = CStruct ''inode_operations''
    [Fld ''lookup'' CFn, Fld ''get_link'' CFn, Fld ''permission'' CFn,
     Fld ''get_inode_acl'' CFn, Fld ''readlink'' CFn, Fld ''create'' CFn, Fld ''link'' CFn,
     Fld ''unlink'' CFn, Fld ''symlink'' CFn, Fld ''mkdir'' CFn, Fld ''rmdir'' CFn,
     Fld ''mknod'' CFn, Fld ''rename'' CFn, Fld ''setattr'' CFn, Fld ''getattr'' CFn,
     Fld ''listxattr'' CFn, Fld ''fiemap'' CFn, Fld ''update_time'' CFn,
     Fld ''atomic_open'' CFn, Fld ''tmpfile'' CFn, Fld ''get_acl'' CFn, Fld ''set_acl'' CFn,
     Fld ''fileattr_set'' CFn, Fld ''fileattr_get'' CFn, Fld ''get_offset_ctx'' CFn,
     Bits '''' c_long 64, Bits '''' c_long 64, Bits '''' c_long 64, Bits '''' c_long 64,
     Bits '''' c_long 64, Bits '''' c_long 64, Bits '''' c_long 64] False"

lemma layout_struct_inode_operations [layout]:
  "size_of struct_inode_operations = 256" "align_of struct_inode_operations = 8" "wf_ctype struct_inode_operations" "natural struct_inode_operations"
  unfolding struct_inode_operations_def by (simp_all add: layout)

definition struct_super_operations :: ctype where
  "struct_super_operations = CStruct ''super_operations''
    [Fld ''alloc_inode'' CFn, Fld ''destroy_inode'' CFn, Fld ''free_inode'' CFn,
     Fld ''dirty_inode'' CFn, Fld ''write_inode'' CFn, Fld ''drop_inode'' CFn,
     Fld ''evict_inode'' CFn, Fld ''put_super'' CFn, Fld ''sync_fs'' CFn,
     Fld ''freeze_super'' CFn, Fld ''freeze_fs'' CFn, Fld ''thaw_super'' CFn,
     Fld ''unfreeze_fs'' CFn, Fld ''statfs'' CFn, Fld ''remount_fs'' CFn,
     Fld ''umount_begin'' CFn, Fld ''show_options'' CFn, Fld ''show_devname'' CFn,
     Fld ''show_path'' CFn, Fld ''show_stats'' CFn, Fld ''quota_read'' CFn,
     Fld ''quota_write'' CFn, Fld ''get_dquots'' CFn, Fld ''nr_cached_objects'' CFn,
     Fld ''free_cached_objects'' CFn, Fld ''shutdown'' CFn] False"

lemma layout_struct_super_operations [layout]:
  "size_of struct_super_operations = 208" "align_of struct_super_operations = 8" "wf_ctype struct_super_operations" "natural struct_super_operations"
  unfolding struct_super_operations_def by (simp_all add: layout)

definition td_fop_flags_t :: ctype where
  "td_fop_flags_t = c_uint"

lemma layout_td_fop_flags_t [layout]:
  "size_of td_fop_flags_t = 4" "align_of td_fop_flags_t = 4" "wf_ctype td_fop_flags_t" "natural td_fop_flags_t"
  unfolding td_fop_flags_t_def by (simp_all add: layout)

definition struct_file_operations :: ctype where
  "struct_file_operations = CStruct ''file_operations''
    [Fld ''owner'' (CPtr ''struct module''), Fld ''fop_flags'' td_fop_flags_t,
     Fld ''llseek'' CFn, Fld ''read'' CFn, Fld ''write'' CFn, Fld ''read_iter'' CFn,
     Fld ''write_iter'' CFn, Fld ''iopoll'' CFn, Fld ''iterate_shared'' CFn, Fld ''poll'' CFn,
     Fld ''unlocked_ioctl'' CFn, Fld ''compat_ioctl'' CFn, Fld ''mmap'' CFn, Fld ''open'' CFn,
     Fld ''flush'' CFn, Fld ''release'' CFn, Fld ''fsync'' CFn, Fld ''fasync'' CFn,
     Fld ''lock'' CFn, Fld ''get_unmapped_area'' CFn, Fld ''check_flags'' CFn,
     Fld ''flock'' CFn, Fld ''splice_write'' CFn, Fld ''splice_read'' CFn,
     Fld ''splice_eof'' CFn, Fld ''setlease'' CFn, Fld ''fallocate'' CFn,
     Fld ''show_fdinfo'' CFn, Fld ''copy_file_range'' CFn, Fld ''remap_file_range'' CFn,
     Fld ''fadvise'' CFn, Fld ''uring_cmd'' CFn, Fld ''uring_cmd_iopoll'' CFn] False"

lemma layout_struct_file_operations [layout]:
  "size_of struct_file_operations = 264" "align_of struct_file_operations = 8" "wf_ctype struct_file_operations" "natural struct_file_operations"
  unfolding struct_file_operations_def by (simp_all add: layout)

definition struct_dentry_operations :: ctype where
  "struct_dentry_operations = CStruct ''dentry_operations''
    [Fld ''d_revalidate'' CFn, Fld ''d_weak_revalidate'' CFn, Fld ''d_hash'' CFn,
     Fld ''d_compare'' CFn, Fld ''d_delete'' CFn, Fld ''d_init'' CFn, Fld ''d_release'' CFn,
     Fld ''d_prune'' CFn, Fld ''d_iput'' CFn, Fld ''d_dname'' CFn, Fld ''d_automount'' CFn,
     Fld ''d_manage'' CFn, Fld ''d_real'' CFn, Bits '''' c_long 64, Bits '''' c_long 64,
     Bits '''' c_long 64] False"

lemma layout_struct_dentry_operations [layout]:
  "size_of struct_dentry_operations = 128" "align_of struct_dentry_operations = 8" "wf_ctype struct_dentry_operations" "natural struct_dentry_operations"
  unfolding struct_dentry_operations_def by (simp_all add: layout)

definition struct_address_space_operations :: ctype where
  "struct_address_space_operations = CStruct ''address_space_operations''
    [Fld ''writepage'' CFn, Fld ''read_folio'' CFn, Fld ''writepages'' CFn,
     Fld ''dirty_folio'' CFn, Fld ''readahead'' CFn, Fld ''write_begin'' CFn,
     Fld ''write_end'' CFn, Fld ''bmap'' CFn, Fld ''invalidate_folio'' CFn,
     Fld ''release_folio'' CFn, Fld ''free_folio'' CFn, Fld ''direct_IO'' CFn,
     Fld ''migrate_folio'' CFn, Fld ''launder_folio'' CFn, Fld ''is_partially_uptodate'' CFn,
     Fld ''is_dirty_writeback'' CFn, Fld ''error_remove_folio'' CFn, Fld ''swap_activate'' CFn,
     Fld ''swap_deactivate'' CFn, Fld ''swap_rw'' CFn] False"

lemma layout_struct_address_space_operations [layout]:
  "size_of struct_address_space_operations = 160" "align_of struct_address_space_operations = 8" "wf_ctype struct_address_space_operations" "natural struct_address_space_operations"
  unfolding struct_address_space_operations_def by (simp_all add: layout)

end
