(* ===== verification/Vmlinux_Kernel.thy ===== *)
theory Vmlinux_Kernel
  imports Vmlinux_Files
begin

text \<open>
  Types of \<open>ebpf/vmlinux/x86_64/vmlinux_x86_64_6_11.h\<close>: process, perf event, name space, memory and verifier state around a kprobe.
  One definition per declaration, members in the header's order; a declaration longer than
  forty members is split into consecutive member lists.  Pointers keep only the name of their
  target.  Each lemma records the size, the alignment and the well-formedness of a type.
\<close>

definition struct_cpu_itimer :: ctype where
  "struct_cpu_itimer = CStruct ''cpu_itimer''
    [Fld ''expires'' td_u64, Fld ''incr'' td_u64] False"

lemma layout_struct_cpu_itimer [layout]:
  "size_of struct_cpu_itimer = 16" "align_of struct_cpu_itimer = 8" "wf_ctype struct_cpu_itimer" "natural struct_cpu_itimer"
  unfolding struct_cpu_itimer_def by (simp_all add: layout)

definition struct_pacct_struct :: ctype where
  "struct_pacct_struct = CStruct ''pacct_struct''
    [Fld ''ac_flag'' c_int, Fld ''ac_exitcode'' c_long, Fld ''ac_mem'' c_ulong,
     Fld ''ac_utime'' td_u64, Fld ''ac_stime'' td_u64, Fld ''ac_minflt'' c_ulong,
     Fld ''ac_majflt'' c_ulong] False"

lemma layout_struct_pacct_struct [layout]:
  "size_of struct_pacct_struct = 56" "align_of struct_pacct_struct = 8" "wf_ctype struct_pacct_struct" "natural struct_pacct_struct"
  unfolding struct_pacct_struct_def by (simp_all add: layout)

definition struct_rlimit :: ctype where
  "struct_rlimit = CStruct ''rlimit''
    [Fld ''rlim_cur'' td___kernel_ulong_t, Fld ''rlim_max'' td___kernel_ulong_t] False"

lemma layout_struct_rlimit [layout]:
  "size_of struct_rlimit = 16" "align_of struct_rlimit = 8" "wf_ctype struct_rlimit" "natural struct_rlimit"
  unfolding struct_rlimit_def by (simp_all add: layout)

definition struct_task_cputime_atomic :: ctype where
  "struct_task_cputime_atomic = CStruct ''task_cputime_atomic''
    [Fld ''utime'' td_atomic64_t, Fld ''stime'' td_atomic64_t,
     Fld ''sum_exec_runtime'' td_atomic64_t] False"

lemma layout_struct_task_cputime_atomic [layout]:
  "size_of struct_task_cputime_atomic = 24" "align_of struct_task_cputime_atomic = 8" "wf_ctype struct_task_cputime_atomic" "natural struct_task_cputime_atomic"
  unfolding struct_task_cputime_atomic_def by (simp_all add: layout)

definition struct_thread_group_cputimer :: ctype where
  "struct_thread_group_cputimer = CStruct ''thread_group_cputimer''
    [Fld ''cputime_atomic'' struct_task_cputime_atomic] False"

lemma layout_struct_thread_group_cputimer [layout]:
  "size_of struct_thread_group_cputimer = 24" "align_of struct_thread_group_cputimer = 8" "wf_ctype struct_thread_group_cputimer" "natural struct_thread_group_cputimer"
  unfolding struct_thread_group_cputimer_def by (simp_all add: layout)

definition td_seqlock_t :: ctype where
  "td_seqlock_t = CStruct ''''
    [Fld ''seqcount'' td_seqcount_spinlock_t, Fld ''lock'' td_spinlock_t] False"

lemma layout_td_seqlock_t [layout]:
  "size_of td_seqlock_t = 8" "align_of td_seqlock_t = 4" "wf_ctype td_seqlock_t" "natural td_seqlock_t"
  unfolding td_seqlock_t_def by (simp_all add: layout)

definition struct_signal_struct_members_1 :: "cmember list" where
  "struct_signal_struct_members_1 =
    [Fld ''sigcnt'' td_refcount_t, Fld ''live'' td_atomic_t, Fld ''nr_threads'' c_int,
     Fld ''quick_threads'' c_int, Fld ''thread_head'' struct_list_head,
     Fld ''wait_chldexit'' td_wait_queue_head_t,
     Fld ''curr_target'' (CPtr ''struct task_struct''),
     Fld ''shared_pending'' struct_sigpending, Fld ''multiprocess'' struct_hlist_head,
     Fld ''group_exit_code'' c_int, Fld ''notify_count'' c_int,
     Fld ''group_exec_task'' (CPtr ''struct task_struct''), Fld ''group_stop_count'' c_int,
     Fld ''flags'' c_uint, Fld ''core_state'' (CPtr ''struct core_state''),
     Bits ''is_child_subreaper'' c_uint 1, Bits ''has_child_subreaper'' c_uint 1,
     Fld ''next_posix_timer_id'' c_uint, Fld ''posix_timers'' struct_list_head,
     Fld ''real_timer'' struct_hrtimer, Fld ''it_real_incr'' td_ktime_t,
     Fld ''it'' (CArr struct_cpu_itimer 2), Fld ''cputimer'' struct_thread_group_cputimer,
     Fld ''posix_cputimers'' struct_posix_cputimers,
     Fld ''pids'' (CArr (CPtr ''struct pid'') 4), Fld ''tick_dep_mask'' td_atomic_t,
     Fld ''tty_old_pgrp'' (CPtr ''struct pid''), Fld ''leader'' c_int,
     Fld ''tty'' (CPtr ''struct tty_struct''), Fld ''autogroup'' (CPtr ''struct autogroup''),
     Fld ''stats_lock'' td_seqlock_t, Fld ''utime'' td_u64, Fld ''stime'' td_u64,
     Fld ''cutime'' td_u64, Fld ''cstime'' td_u64, Fld ''gtime'' td_u64, Fld ''cgtime'' td_u64,
     Fld ''prev_cputime'' struct_prev_cputime, Fld ''nvcsw'' c_ulong, Fld ''nivcsw'' c_ulong]"

lemma layout_struct_signal_struct_members_1 [layout]:
  "bit_end False 0 struct_signal_struct_members_1 = 4224" "members_align False struct_signal_struct_members_1 = 8"
  "wf_members struct_signal_struct_members_1" "naturals struct_signal_struct_members_1"
  unfolding struct_signal_struct_members_1_def by (simp_all add: layout)

definition struct_signal_struct_members_2 :: "cmember list" where
  "struct_signal_struct_members_2 =
    [Fld ''cnvcsw'' c_ulong, Fld ''cnivcsw'' c_ulong, Fld ''min_flt'' c_ulong,
     Fld ''maj_flt'' c_ulong, Fld ''cmin_flt'' c_ulong, Fld ''cmaj_flt'' c_ulong,
     Fld ''inblock'' c_ulong, Fld ''oublock'' c_ulong, Fld ''cinblock'' c_ulong,
     Fld ''coublock'' c_ulong, Fld ''maxrss'' c_ulong, Fld ''cmaxrss'' c_ulong,
     Fld ''ioac'' struct_task_io_accounting, Fld ''sum_sched_runtime'' c_ullong,
     Fld ''rlim'' (CArr struct_rlimit 16), Fld ''pacct'' struct_pacct_struct,
     Fld ''stats'' (CPtr ''struct taskstats''), Fld ''audit_tty'' c_uint,
     Fld ''tty_audit_buf'' (CPtr ''struct tty_audit_buf''), Fld ''oom_flag_origin'' td_bool,
     Fld ''oom_score_adj'' c_short, Fld ''oom_score_adj_min'' c_short,
     Fld ''oom_mm'' (CPtr ''struct mm_struct''), Fld ''cred_guard_mutex'' struct_mutex,
     Fld ''exec_update_lock'' struct_rw_semaphore]"

lemma layout_struct_signal_struct_members_2 [layout]:
  "bit_end False 4224 struct_signal_struct_members_2 = 8896" "members_align False struct_signal_struct_members_2 = 8"
  "wf_members struct_signal_struct_members_2" "naturals struct_signal_struct_members_2"
  unfolding struct_signal_struct_members_2_def by (simp_all add: layout)

definition struct_signal_struct :: ctype where
  "struct_signal_struct = CStruct ''signal_struct''
    (struct_signal_struct_members_1 @
     struct_signal_struct_members_2) False"

lemma layout_struct_signal_struct [layout]:
  "size_of struct_signal_struct = 1112" "align_of struct_signal_struct = 8" "wf_ctype struct_signal_struct" "natural struct_signal_struct"
  unfolding struct_signal_struct_def by (simp_all add: layout)

definition td_s32 :: ctype where
  "td_s32 = td___s32"

lemma layout_td_s32 [layout]:
  "size_of td_s32 = 4" "align_of td_s32 = 4" "wf_ctype td_s32" "natural td_s32"
  unfolding td_s32_def by (simp_all add: layout)

definition struct_arch_specific_insn :: ctype where
  "struct_arch_specific_insn = CStruct ''arch_specific_insn''
    [Fld ''insn'' (CPtr ''kprobe_opcode_t''), Bits ''boostable'' c_uint 1, Fld ''size'' c_uchar,
     Fld '''' (CUnion '''' [Fld ''opcode'' c_uchar, Fld ''jcc'' (CStruct '''' [Fld ''type'' c_uchar] False), Fld ''loop'' (CStruct '''' [Fld ''type'' c_uchar, Fld ''asize'' c_uchar] False), Fld ''indirect'' (CStruct '''' [Fld ''reg'' c_uchar] False)] False),
     Fld ''rel32'' td_s32, Fld ''emulate_op'' CFn, Fld ''tp_len'' c_int] False"

lemma layout_struct_arch_specific_insn [layout]:
  "size_of struct_arch_specific_insn = 32" "align_of struct_arch_specific_insn = 8" "wf_ctype struct_arch_specific_insn" "natural struct_arch_specific_insn"
  unfolding struct_arch_specific_insn_def by (simp_all add: layout)

definition td_kprobe_opcode_t :: ctype where
  "td_kprobe_opcode_t = td_u8"

lemma layout_td_kprobe_opcode_t [layout]:
  "size_of td_kprobe_opcode_t = 1" "align_of td_kprobe_opcode_t = 1" "wf_ctype td_kprobe_opcode_t" "natural td_kprobe_opcode_t"
  unfolding td_kprobe_opcode_t_def by (simp_all add: layout)

definition td_kprobe_post_handler_t :: ctype where
  "td_kprobe_post_handler_t = CFn"

lemma layout_td_kprobe_post_handler_t [layout]:
  "size_of td_kprobe_post_handler_t = 8" "align_of td_kprobe_post_handler_t = 8" "wf_ctype td_kprobe_post_handler_t" "natural td_kprobe_post_handler_t"
  unfolding td_kprobe_post_handler_t_def by (simp_all add: layout)

definition td_kprobe_pre_handler_t :: ctype where
  "td_kprobe_pre_handler_t = CFn"

lemma layout_td_kprobe_pre_handler_t [layout]:
  "size_of td_kprobe_pre_handler_t = 8" "align_of td_kprobe_pre_handler_t = 8" "wf_ctype td_kprobe_pre_handler_t" "natural td_kprobe_pre_handler_t"
  unfolding td_kprobe_pre_handler_t_def by (simp_all add: layout)

definition struct_kprobe :: ctype where
  "struct_kprobe = CStruct ''kprobe''
    [Fld ''hlist'' struct_hlist_node, Fld ''list'' struct_list_head, Fld ''nmissed'' c_ulong,
     Fld ''addr'' (CPtr ''kprobe_opcode_t''), Fld ''symbol_name'' (CPtr ''char''),
     Fld ''offset'' c_uint, Fld ''pre_handler'' td_kprobe_pre_handler_t,
     Fld ''post_handler'' td_kprobe_post_handler_t, Fld ''opcode'' td_kprobe_opcode_t,
     Fld ''ainsn'' struct_arch_specific_insn, Fld ''flags'' td_u32] False"

lemma layout_struct_kprobe [layout]:
  "size_of struct_kprobe = 128" "align_of struct_kprobe = 8" "wf_ctype struct_kprobe" "natural struct_kprobe"
  unfolding struct_kprobe_def by (simp_all add: layout)

definition enum_perf_event_state :: ctype where
  "enum_perf_event_state = CEnum ''perf_event_state''
    [(''PERF_EVENT_STATE_DEAD'', -4), (''PERF_EVENT_STATE_EXIT'', -3),
     (''PERF_EVENT_STATE_ERROR'', -2), (''PERF_EVENT_STATE_OFF'', -1),
     (''PERF_EVENT_STATE_INACTIVE'', 0), (''PERF_EVENT_STATE_ACTIVE'', 1)] 4"

lemma layout_enum_perf_event_state [layout]:
  "size_of enum_perf_event_state = 4" "align_of enum_perf_event_state = 4" "wf_ctype enum_perf_event_state" "natural enum_perf_event_state"
  unfolding enum_perf_event_state_def by (simp_all add: layout)

definition struct_ftrace_ops_hash :: ctype where
  "struct_ftrace_ops_hash = CStruct ''ftrace_ops_hash''
    [Fld ''notrace_hash'' (CPtr ''struct ftrace_hash''),
     Fld ''filter_hash'' (CPtr ''struct ftrace_hash''), Fld ''regex_lock'' struct_mutex] False"

lemma layout_struct_ftrace_ops_hash [layout]:
  "size_of struct_ftrace_ops_hash = 48" "align_of struct_ftrace_ops_hash = 8" "wf_ctype struct_ftrace_ops_hash" "natural struct_ftrace_ops_hash"
  unfolding struct_ftrace_ops_hash_def by (simp_all add: layout)

definition td_ftrace_func_t :: ctype where
  "td_ftrace_func_t = CFn"

lemma layout_td_ftrace_func_t [layout]:
  "size_of td_ftrace_func_t = 8" "align_of td_ftrace_func_t = 8" "wf_ctype td_ftrace_func_t" "natural td_ftrace_func_t"
  unfolding td_ftrace_func_t_def by (simp_all add: layout)

definition td_ftrace_ops_func_t :: ctype where
  "td_ftrace_ops_func_t = CFn"

lemma layout_td_ftrace_ops_func_t [layout]:
  "size_of td_ftrace_ops_func_t = 8" "align_of td_ftrace_ops_func_t = 8" "wf_ctype td_ftrace_ops_func_t" "natural td_ftrace_ops_func_t"
  unfolding td_ftrace_ops_func_t_def by (simp_all add: layout)

definition struct_ftrace_ops :: ctype where
  "struct_ftrace_ops = CStruct ''ftrace_ops''
    [Fld ''func'' td_ftrace_func_t, Fld ''next'' (CPtr ''struct ftrace_ops''),
     Fld ''flags'' c_ulong, Fld ''private'' (CPtr ''void''),
     Fld ''saved_func'' td_ftrace_func_t, Fld ''local_hash'' struct_ftrace_ops_hash,
     Fld ''func_hash'' (CPtr ''struct ftrace_ops_hash''),
     Fld ''old_hash'' struct_ftrace_ops_hash, Fld ''trampoline'' c_ulong,
     Fld ''trampoline_size'' c_ulong, Fld ''list'' struct_list_head,
     Fld ''subop_list'' struct_list_head, Fld ''ops_func'' td_ftrace_ops_func_t,
     Fld ''managed'' (CPtr ''struct ftrace_ops''), Fld ''direct_call'' c_ulong] False"

lemma layout_struct_ftrace_ops [layout]:
  "size_of struct_ftrace_ops = 216" "align_of struct_ftrace_ops = 8" "wf_ctype struct_ftrace_ops" "natural struct_ftrace_ops"
  unfolding struct_ftrace_ops_def by (simp_all add: layout)

definition struct_arch_hw_breakpoint :: ctype where
  "struct_arch_hw_breakpoint = CStruct ''arch_hw_breakpoint''
    [Fld ''address'' c_ulong, Fld ''mask'' c_ulong, Fld ''len'' td_u8, Fld ''type'' td_u8] False"

lemma layout_struct_arch_hw_breakpoint [layout]:
  "size_of struct_arch_hw_breakpoint = 24" "align_of struct_arch_hw_breakpoint = 8" "wf_ctype struct_arch_hw_breakpoint" "natural struct_arch_hw_breakpoint"
  unfolding struct_arch_hw_breakpoint_def by (simp_all add: layout)

definition struct_hw_perf_event_extra :: ctype where
  "struct_hw_perf_event_extra = CStruct ''hw_perf_event_extra''
    [Fld ''config'' td_u64, Fld ''reg'' c_uint, Fld ''alloc'' c_int, Fld ''idx'' c_int] False"

lemma layout_struct_hw_perf_event_extra [layout]:
  "size_of struct_hw_perf_event_extra = 24" "align_of struct_hw_perf_event_extra = 8" "wf_ctype struct_hw_perf_event_extra" "natural struct_hw_perf_event_extra"
  unfolding struct_hw_perf_event_extra_def by (simp_all add: layout)

definition struct_rhash_head :: ctype where
  "struct_rhash_head = CStruct ''rhash_head''
    [Fld ''next'' (CPtr ''struct rhash_head'')] False"

lemma layout_struct_rhash_head [layout]:
  "size_of struct_rhash_head = 8" "align_of struct_rhash_head = 8" "wf_ctype struct_rhash_head" "natural struct_rhash_head"
  unfolding struct_rhash_head_def by (simp_all add: layout)

definition struct_rhlist_head :: ctype where
  "struct_rhlist_head = CStruct ''rhlist_head''
    [Fld ''rhead'' struct_rhash_head, Fld ''next'' (CPtr ''struct rhlist_head'')] False"

lemma layout_struct_rhlist_head [layout]:
  "size_of struct_rhlist_head = 16" "align_of struct_rhlist_head = 8" "wf_ctype struct_rhlist_head" "natural struct_rhlist_head"
  unfolding struct_rhlist_head_def by (simp_all add: layout)

definition td_local_t :: ctype where
  "td_local_t = CStruct ''''
    [Fld ''a'' td_atomic_long_t] False"

lemma layout_td_local_t [layout]:
  "size_of td_local_t = 8" "align_of td_local_t = 8" "wf_ctype td_local_t" "natural td_local_t"
  unfolding td_local_t_def by (simp_all add: layout)

definition td_local64_t :: ctype where
  "td_local64_t = CStruct ''''
    [Fld ''a'' td_local_t] False"

lemma layout_td_local64_t [layout]:
  "size_of td_local64_t = 8" "align_of td_local64_t = 8" "wf_ctype td_local64_t" "natural td_local64_t"
  unfolding td_local64_t_def by (simp_all add: layout)

definition struct_hw_perf_event :: ctype where
  "struct_hw_perf_event = CStruct ''hw_perf_event''
    [Fld '''' (CUnion '''' [Fld '''' (CStruct '''' [Fld ''config'' td_u64, Fld ''last_tag'' td_u64, Fld ''config_base'' c_ulong, Fld ''event_base'' c_ulong, Fld ''event_base_rdpmc'' c_int, Fld ''idx'' c_int, Fld ''last_cpu'' c_int, Fld ''flags'' c_int, Fld ''extra_reg'' struct_hw_perf_event_extra, Fld ''branch_reg'' struct_hw_perf_event_extra] False), Fld '''' (CStruct '''' [Fld ''hrtimer'' struct_hrtimer] False), Fld '''' (CStruct '''' [Fld ''tp_list'' struct_list_head] False), Fld '''' (CStruct '''' [Fld ''pwr_acc'' td_u64, Fld ''ptsc'' td_u64] False), Fld '''' (CStruct '''' [Fld ''info'' struct_arch_hw_breakpoint, Fld ''bp_list'' struct_rhlist_head] False), Fld '''' (CStruct '''' [Fld ''iommu_bank'' td_u8, Fld ''iommu_cntr'' td_u8, Fld ''padding'' td_u16, Fld ''conf'' td_u64, Fld ''conf1'' td_u64] False)] False),
     Fld ''target'' (CPtr ''struct task_struct''), Fld ''addr_filters'' (CPtr ''void''),
     Fld ''addr_filters_gen'' c_ulong, Fld ''state'' c_int, Fld ''prev_count'' td_local64_t,
     Fld ''sample_period'' td_u64,
     Fld '''' (CUnion '''' [Fld '''' (CStruct '''' [Fld ''last_period'' td_u64, Fld ''period_left'' td_local64_t] False), Fld '''' (CStruct '''' [Fld ''saved_metric'' td_u64, Fld ''saved_slots'' td_u64] False)] False),
     Fld ''interrupts_seq'' td_u64, Fld ''interrupts'' td_u64, Fld ''freq_time_stamp'' td_u64,
     Fld ''freq_count_stamp'' td_u64] False"

lemma layout_struct_hw_perf_event [layout]:
  "size_of struct_hw_perf_event = 192" "align_of struct_hw_perf_event = 8" "wf_ctype struct_hw_perf_event" "natural struct_hw_perf_event"
  unfolding struct_hw_perf_event_def by (simp_all add: layout)

definition struct_perf_addr_filters_head :: ctype where
  "struct_perf_addr_filters_head = CStruct ''perf_addr_filters_head''
    [Fld ''list'' struct_list_head, Fld ''lock'' td_raw_spinlock_t,
     Fld ''nr_file_filters'' c_uint] False"

lemma layout_struct_perf_addr_filters_head [layout]:
  "size_of struct_perf_addr_filters_head = 24" "align_of struct_perf_addr_filters_head = 8" "wf_ctype struct_perf_addr_filters_head" "natural struct_perf_addr_filters_head"
  unfolding struct_perf_addr_filters_head_def by (simp_all add: layout)

definition struct_perf_event_attr_members_1 :: "cmember list" where
  "struct_perf_event_attr_members_1 =
    [Fld ''type'' td___u32, Fld ''size'' td___u32, Fld ''config'' td___u64,
     Fld '''' (CUnion '''' [Fld ''sample_period'' td___u64, Fld ''sample_freq'' td___u64] False),
     Fld ''sample_type'' td___u64, Fld ''read_format'' td___u64, Bits ''disabled'' td___u64 1,
     Bits ''inherit'' td___u64 1, Bits ''pinned'' td___u64 1, Bits ''exclusive'' td___u64 1,
     Bits ''exclude_user'' td___u64 1, Bits ''exclude_kernel'' td___u64 1,
     Bits ''exclude_hv'' td___u64 1, Bits ''exclude_idle'' td___u64 1, Bits ''mmap'' td___u64 1,
     Bits ''comm'' td___u64 1, Bits ''freq'' td___u64 1, Bits ''inherit_stat'' td___u64 1,
     Bits ''enable_on_exec'' td___u64 1, Bits ''task'' td___u64 1,
     Bits ''watermark'' td___u64 1, Bits ''precise_ip'' td___u64 2,
     Bits ''mmap_data'' td___u64 1, Bits ''sample_id_all'' td___u64 1,
     Bits ''exclude_host'' td___u64 1, Bits ''exclude_guest'' td___u64 1,
     Bits ''exclude_callchain_kernel'' td___u64 1, Bits ''exclude_callchain_user'' td___u64 1,
     Bits ''mmap2'' td___u64 1, Bits ''comm_exec'' td___u64 1, Bits ''use_clockid'' td___u64 1,
     Bits ''context_switch'' td___u64 1, Bits ''write_backward'' td___u64 1,
     Bits ''namespaces'' td___u64 1, Bits ''ksymbol'' td___u64 1, Bits ''bpf_event'' td___u64 1,
     Bits ''aux_output'' td___u64 1, Bits ''cgroup'' td___u64 1, Bits ''text_poke'' td___u64 1,
     Bits ''build_id'' td___u64 1]"

lemma layout_struct_perf_event_attr_members_1 [layout]:
  "bit_end False 0 struct_perf_event_attr_members_1 = 355" "members_align False struct_perf_event_attr_members_1 = 8"
  "wf_members struct_perf_event_attr_members_1" "naturals struct_perf_event_attr_members_1"
  unfolding struct_perf_event_attr_members_1_def by (simp_all add: layout)

definition struct_perf_event_attr_members_2 :: "cmember list" where
  "struct_perf_event_attr_members_2 =
    [Bits ''inherit_thread'' td___u64 1, Bits ''remove_on_exec'' td___u64 1,
     Bits ''sigtrap'' td___u64 1, Bits ''__reserved_1'' td___u64 26,
     Fld '''' (CUnion '''' [Fld ''wakeup_events'' td___u32, Fld ''wakeup_watermark'' td___u32] False),
     Fld ''bp_type'' td___u32,
     Fld '''' (CUnion '''' [Fld ''bp_addr'' td___u64, Fld ''kprobe_func'' td___u64, Fld ''uprobe_path'' td___u64, Fld ''config1'' td___u64] False),
     Fld '''' (CUnion '''' [Fld ''bp_len'' td___u64, Fld ''kprobe_addr'' td___u64, Fld ''probe_offset'' td___u64, Fld ''config2'' td___u64] False),
     Fld ''branch_sample_type'' td___u64, Fld ''sample_regs_user'' td___u64,
     Fld ''sample_stack_user'' td___u32, Fld ''clockid'' td___s32,
     Fld ''sample_regs_intr'' td___u64, Fld ''aux_watermark'' td___u32,
     Fld ''sample_max_stack'' td___u16, Fld ''__reserved_2'' td___u16,
     Fld ''aux_sample_size'' td___u32, Fld ''__reserved_3'' td___u32, Fld ''sig_data'' td___u64,
     Fld ''config3'' td___u64]"

lemma layout_struct_perf_event_attr_members_2 [layout]:
  "bit_end False 355 struct_perf_event_attr_members_2 = 1088" "members_align False struct_perf_event_attr_members_2 = 8"
  "wf_members struct_perf_event_attr_members_2" "naturals struct_perf_event_attr_members_2"
  unfolding struct_perf_event_attr_members_2_def by (simp_all add: layout)

definition struct_perf_event_attr :: ctype where
  "struct_perf_event_attr = CStruct ''perf_event_attr''
    (struct_perf_event_attr_members_1 @
     struct_perf_event_attr_members_2) False"

lemma layout_struct_perf_event_attr [layout]:
  "size_of struct_perf_event_attr = 136" "align_of struct_perf_event_attr = 8" "wf_ctype struct_perf_event_attr" "natural struct_perf_event_attr"
  unfolding struct_perf_event_attr_def by (simp_all add: layout)

definition td_perf_overflow_handler_t :: ctype where
  "td_perf_overflow_handler_t = CFn"

lemma layout_td_perf_overflow_handler_t [layout]:
  "size_of td_perf_overflow_handler_t = 8" "align_of td_perf_overflow_handler_t = 8" "wf_ctype td_perf_overflow_handler_t" "natural td_perf_overflow_handler_t"
  unfolding td_perf_overflow_handler_t_def by (simp_all add: layout)

definition struct_perf_event_members_1 :: "cmember list" where
  "struct_perf_event_members_1 =
    [Fld ''event_entry'' struct_list_head, Fld ''sibling_list'' struct_list_head,
     Fld ''active_list'' struct_list_head, Fld ''group_node'' struct_rb_node,
     Fld ''group_index'' td_u64, Fld ''migrate_entry'' struct_list_head,
     Fld ''hlist_entry'' struct_hlist_node, Fld ''active_entry'' struct_list_head,
     Fld ''nr_siblings'' c_int, Fld ''event_caps'' c_int, Fld ''group_caps'' c_int,
     Fld ''group_generation'' c_uint, Fld ''group_leader'' (CPtr ''struct perf_event''),
     Fld ''pmu'' (CPtr ''struct pmu''), Fld ''pmu_private'' (CPtr ''void''),
     Fld ''state'' enum_perf_event_state, Fld ''attach_state'' c_uint,
     Fld ''count'' td_local64_t, Fld ''child_count'' td_atomic64_t,
     Fld ''total_time_enabled'' td_u64, Fld ''total_time_running'' td_u64,
     Fld ''tstamp'' td_u64, Fld ''attr'' struct_perf_event_attr, Fld ''header_size'' td_u16,
     Fld ''id_header_size'' td_u16, Fld ''read_size'' td_u16, Fld ''hw'' struct_hw_perf_event,
     Fld ''ctx'' (CPtr ''struct perf_event_context''),
     Fld ''pmu_ctx'' (CPtr ''struct perf_event_pmu_context''),
     Fld ''refcount'' td_atomic_long_t, Fld ''child_total_time_enabled'' td_atomic64_t,
     Fld ''child_total_time_running'' td_atomic64_t, Fld ''child_mutex'' struct_mutex,
     Fld ''child_list'' struct_list_head, Fld ''parent'' (CPtr ''struct perf_event''),
     Fld ''oncpu'' c_int, Fld ''cpu'' c_int, Fld ''owner_entry'' struct_list_head,
     Fld ''owner'' (CPtr ''struct task_struct''), Fld ''mmap_mutex'' struct_mutex]"

lemma layout_struct_perf_event_members_1 [layout]:
  "bit_end False 0 struct_perf_event_members_1 = 5696" "members_align False struct_perf_event_members_1 = 8"
  "wf_members struct_perf_event_members_1" "naturals struct_perf_event_members_1"
  unfolding struct_perf_event_members_1_def by (simp_all add: layout)

definition struct_perf_event_members_2 :: "cmember list" where
  "struct_perf_event_members_2 =
    [Fld ''mmap_count'' td_atomic_t, Fld ''rb'' (CPtr ''struct perf_buffer''),
     Fld ''rb_entry'' struct_list_head, Fld ''rcu_batches'' c_ulong, Fld ''rcu_pending'' c_int,
     Fld ''waitq'' td_wait_queue_head_t, Fld ''fasync'' (CPtr ''struct fasync_struct''),
     Fld ''pending_wakeup'' c_uint, Fld ''pending_kill'' c_uint, Fld ''pending_disable'' c_uint,
     Fld ''pending_addr'' c_ulong, Fld ''pending_irq'' struct_irq_work,
     Fld ''pending_disable_irq'' struct_irq_work, Fld ''pending_task'' struct_callback_head,
     Fld ''pending_work'' c_uint, Fld ''pending_work_wait'' struct_rcuwait,
     Fld ''event_limit'' td_atomic_t, Fld ''addr_filters'' struct_perf_addr_filters_head,
     Fld ''addr_filter_ranges'' (CPtr ''struct perf_addr_filter_range''),
     Fld ''addr_filters_gen'' c_ulong, Fld ''aux_event'' (CPtr ''struct perf_event''),
     Fld ''destroy'' CFn, Fld ''callback_head'' struct_callback_head,
     Fld ''ns'' (CPtr ''struct pid_namespace''), Fld ''id'' td_u64,
     Fld ''lost_samples'' td_atomic64_t, Fld ''clock'' CFn,
     Fld ''overflow_handler'' td_perf_overflow_handler_t,
     Fld ''overflow_handler_context'' (CPtr ''void''), Fld ''prog'' (CPtr ''struct bpf_prog''),
     Fld ''bpf_cookie'' td_u64, Fld ''tp_event'' (CPtr ''struct trace_event_call''),
     Fld ''filter'' (CPtr ''struct event_filter''), Fld ''ftrace_ops'' struct_ftrace_ops,
     Fld ''cgrp'' (CPtr ''struct perf_cgroup''), Fld ''security'' (CPtr ''void''),
     Fld ''sb_list'' struct_list_head, Fld ''orig_type'' td___u32]"

lemma layout_struct_perf_event_members_2 [layout]:
  "bit_end False 5696 struct_perf_event_members_2 = 10592" "members_align False struct_perf_event_members_2 = 8"
  "wf_members struct_perf_event_members_2" "naturals struct_perf_event_members_2"
  unfolding struct_perf_event_members_2_def by (simp_all add: layout)

definition struct_perf_event :: ctype where
  "struct_perf_event = CStruct ''perf_event''
    (struct_perf_event_members_1 @
     struct_perf_event_members_2) False"

lemma layout_struct_perf_event [layout]:
  "size_of struct_perf_event = 1328" "align_of struct_perf_event = 8" "wf_ctype struct_perf_event" "natural struct_perf_event"
  unfolding struct_perf_event_def by (simp_all add: layout)

definition struct_nsproxy :: ctype where
  "struct_nsproxy = CStruct ''nsproxy''
    [Fld ''count'' td_refcount_t, Fld ''uts_ns'' (CPtr ''struct uts_namespace''),
     Fld ''ipc_ns'' (CPtr ''struct ipc_namespace''),
     Fld ''mnt_ns'' (CPtr ''struct mnt_namespace''),
     Fld ''pid_ns_for_children'' (CPtr ''struct pid_namespace''),
     Fld ''net_ns'' (CPtr ''struct net''), Fld ''time_ns'' (CPtr ''struct time_namespace''),
     Fld ''time_ns_for_children'' (CPtr ''struct time_namespace''),
     Fld ''cgroup_ns'' (CPtr ''struct cgroup_namespace'')] False"

lemma layout_struct_nsproxy [layout]:
  "size_of struct_nsproxy = 72" "align_of struct_nsproxy = 8" "wf_ctype struct_nsproxy" "natural struct_nsproxy"
  unfolding struct_nsproxy_def by (simp_all add: layout)

definition struct_ctl_table_header :: ctype where
  "struct_ctl_table_header = CStruct ''ctl_table_header''
    [Fld '''' (CUnion '''' [Fld '''' (CStruct '''' [Fld ''ctl_table'' (CPtr ''struct ctl_table''), Fld ''ctl_table_size'' c_int, Fld ''used'' c_int, Fld ''count'' c_int, Fld ''nreg'' c_int] False), Fld ''rcu'' struct_callback_head] False),
     Fld ''unregistering'' (CPtr ''struct completion''),
     Fld ''ctl_table_arg'' (CPtr ''struct ctl_table''),
     Fld ''root'' (CPtr ''struct ctl_table_root''), Fld ''set'' (CPtr ''struct ctl_table_set''),
     Fld ''parent'' (CPtr ''struct ctl_dir''), Fld ''node'' (CPtr ''struct ctl_node''),
     Fld ''inodes'' struct_hlist_head,
     Fld ''type'' (CEnum '''' [(''SYSCTL_TABLE_TYPE_DEFAULT'', 0), (''SYSCTL_TABLE_TYPE_PERMANENTLY_EMPTY'', 1)] 4)] False"

lemma layout_struct_ctl_table_header [layout]:
  "size_of struct_ctl_table_header = 88" "align_of struct_ctl_table_header = 8" "wf_ctype struct_ctl_table_header" "natural struct_ctl_table_header"
  unfolding struct_ctl_table_header_def by (simp_all add: layout)

definition struct_ctl_dir :: ctype where
  "struct_ctl_dir = CStruct ''ctl_dir''
    [Fld ''header'' struct_ctl_table_header, Fld ''root'' struct_rb_root] False"

lemma layout_struct_ctl_dir [layout]:
  "size_of struct_ctl_dir = 96" "align_of struct_ctl_dir = 8" "wf_ctype struct_ctl_dir" "natural struct_ctl_dir"
  unfolding struct_ctl_dir_def by (simp_all add: layout)

definition struct_ctl_table_set :: ctype where
  "struct_ctl_table_set = CStruct ''ctl_table_set''
    [Fld ''is_seen'' CFn, Fld ''dir'' struct_ctl_dir] False"

lemma layout_struct_ctl_table_set [layout]:
  "size_of struct_ctl_table_set = 104" "align_of struct_ctl_table_set = 8" "wf_ctype struct_ctl_table_set" "natural struct_ctl_table_set"
  unfolding struct_ctl_table_set_def by (simp_all add: layout)

definition struct_ns_common :: ctype where
  "struct_ns_common = CStruct ''ns_common''
    [Fld ''stashed'' (CPtr ''struct dentry''), Fld ''ops'' (CPtr ''struct proc_ns_operations''),
     Fld ''inum'' c_uint, Fld ''count'' td_refcount_t] False"

lemma layout_struct_ns_common [layout]:
  "size_of struct_ns_common = 24" "align_of struct_ns_common = 8" "wf_ctype struct_ns_common" "natural struct_ns_common"
  unfolding struct_ns_common_def by (simp_all add: layout)

definition struct_user_namespace :: ctype where
  "struct_user_namespace = CStruct ''user_namespace''
    [Fld ''uid_map'' struct_uid_gid_map, Fld ''gid_map'' struct_uid_gid_map,
     Fld ''projid_map'' struct_uid_gid_map, Fld ''parent'' (CPtr ''struct user_namespace''),
     Fld ''level'' c_int, Fld ''owner'' td_kuid_t, Fld ''group'' td_kgid_t,
     Fld ''ns'' struct_ns_common, Fld ''flags'' c_ulong, Fld ''parent_could_setfcap'' td_bool,
     Fld ''keyring_name_list'' struct_list_head,
     Fld ''user_keyring_register'' (CPtr ''struct key''),
     Fld ''keyring_sem'' struct_rw_semaphore,
     Fld ''persistent_keyring_register'' (CPtr ''struct key''), Fld ''work'' struct_work_struct,
     Fld ''set'' struct_ctl_table_set, Fld ''sysctls'' (CPtr ''struct ctl_table_header''),
     Fld ''ucounts'' (CPtr ''struct ucounts''), Fld ''ucount_max'' (CArr c_long 12),
     Fld ''rlimit_max'' (CArr c_long 4), Fld ''binfmt_misc'' (CPtr ''struct binfmt_misc'')] False"

lemma layout_struct_user_namespace [layout]:
  "size_of struct_user_namespace = 640" "align_of struct_user_namespace = 8" "wf_ctype struct_user_namespace" "natural struct_user_namespace"
  unfolding struct_user_namespace_def by (simp_all add: layout)

definition struct_upid :: ctype where
  "struct_upid = CStruct ''upid''
    [Fld ''nr'' c_int, Fld ''ns'' (CPtr ''struct pid_namespace'')] False"

lemma layout_struct_upid [layout]:
  "size_of struct_upid = 16" "align_of struct_upid = 8" "wf_ctype struct_upid" "natural struct_upid"
  unfolding struct_upid_def by (simp_all add: layout)

definition struct_pid :: ctype where
  "struct_pid = CStruct ''pid''
    [Fld ''count'' td_refcount_t, Fld ''level'' c_uint, Fld ''lock'' td_spinlock_t,
     Fld ''stashed'' (CPtr ''struct dentry''), Fld ''ino'' td_u64,
     Fld ''tasks'' (CArr struct_hlist_head 4), Fld ''inodes'' struct_hlist_head,
     Fld ''wait_pidfd'' td_wait_queue_head_t, Fld ''rcu'' struct_callback_head,
     Fld ''numbers'' (CArr struct_upid 0)] False"

lemma layout_struct_pid [layout]:
  "size_of struct_pid = 112" "align_of struct_pid = 8" "wf_ctype struct_pid" "natural struct_pid"
  unfolding struct_pid_def by (simp_all add: layout)

definition td_lockdep_map_p :: ctype where
  "td_lockdep_map_p = CStruct ''''
    [] False"

lemma layout_td_lockdep_map_p [layout]:
  "size_of td_lockdep_map_p = 0" "align_of td_lockdep_map_p = 1" "wf_ctype td_lockdep_map_p" "natural td_lockdep_map_p"
  unfolding td_lockdep_map_p_def by (simp_all add: layout)

definition struct_maple_tree :: ctype where
  "struct_maple_tree = CStruct ''maple_tree''
    [Fld '''' (CUnion '''' [Fld ''ma_lock'' td_spinlock_t, Fld ''ma_external_lock'' td_lockdep_map_p] False),
     Fld ''ma_flags'' c_uint, Fld ''ma_root'' (CPtr ''void'')] False"

lemma layout_struct_maple_tree [layout]:
  "size_of struct_maple_tree = 16" "align_of struct_maple_tree = 8" "wf_ctype struct_maple_tree" "natural struct_maple_tree"
  unfolding struct_maple_tree_def by (simp_all add: layout)

definition struct_uprobes_state :: ctype where
  "struct_uprobes_state = CStruct ''uprobes_state''
    [Fld ''xol_area'' (CPtr ''struct xol_area'')] False"

lemma layout_struct_uprobes_state [layout]:
  "size_of struct_uprobes_state = 8" "align_of struct_uprobes_state = 8" "wf_ctype struct_uprobes_state" "natural struct_uprobes_state"
  unfolding struct_uprobes_state_def by (simp_all add: layout)

definition td_s16 :: ctype where
  "td_s16 = td___s16"

lemma layout_td_s16 [layout]:
  "size_of td_s16 = 2" "align_of td_s16 = 2" "wf_ctype td_s16" "natural td_s16"
  unfolding td_s16_def by (simp_all add: layout)

definition td_mm_context_t :: ctype where
  "td_mm_context_t = CStruct ''''
    [Fld ''ctx_id'' td_u64, Fld ''tlb_gen'' td_atomic64_t,
     Fld ''ldt_usr_sem'' struct_rw_semaphore, Fld ''ldt'' (CPtr ''struct ldt_struct''),
     Fld ''flags'' c_ulong, Fld ''lam_cr3_mask'' c_ulong, Fld ''untag_mask'' td_u64,
     Fld ''lock'' struct_mutex, Fld ''vdso'' (CPtr ''void''),
     Fld ''vdso_image'' (CPtr ''struct vdso_image''), Fld ''perf_rdpmc_allowed'' td_atomic_t,
     Fld ''pkey_allocation_map'' td_u16, Fld ''execute_only_pkey'' td_s16] False"

lemma layout_td_mm_context_t [layout]:
  "size_of td_mm_context_t = 144" "align_of td_mm_context_t = 8" "wf_ctype td_mm_context_t" "natural td_mm_context_t"
  unfolding td_mm_context_t_def by (simp_all add: layout)

definition struct_mm_struct :: ctype where
  "struct_mm_struct = CStruct ''mm_struct''
    [Fld '''' (CStruct '''' [Fld '''' (CStruct '''' [Fld ''mm_count'' td_atomic_t, Bits '''' c_long 64, Bits '''' c_long 64, Bits '''' c_long 64, Bits '''' c_long 64, Bits '''' c_long 64, Bits '''' c_long 64, Bits '''' c_long 64] False), Fld ''mm_mt'' struct_maple_tree, Fld ''mmap_base'' c_ulong, Fld ''mmap_legacy_base'' c_ulong, Fld ''mmap_compat_base'' c_ulong, Fld ''mmap_compat_legacy_base'' c_ulong, Fld ''task_size'' c_ulong, Fld ''pgd'' (CPtr ''pgd_t''), Fld ''membarrier_state'' td_atomic_t, Fld ''mm_users'' td_atomic_t, Fld ''pcpu_cid'' (CPtr ''struct mm_cid''), Fld ''mm_cid_next_scan'' c_ulong, Fld ''pgtables_bytes'' td_atomic_long_t, Fld ''map_count'' c_int, Fld ''page_table_lock'' td_spinlock_t, Fld ''mmap_lock'' struct_rw_semaphore, Fld ''mmlist'' struct_list_head, Fld ''mm_lock_seq'' c_int, Fld ''hiwater_rss'' c_ulong, Fld ''hiwater_vm'' c_ulong, Fld ''total_vm'' c_ulong, Fld ''locked_vm'' c_ulong, Fld ''pinned_vm'' td_atomic64_t, Fld ''data_vm'' c_ulong, Fld ''exec_vm'' c_ulong, Fld ''stack_vm'' c_ulong, Fld ''def_flags'' c_ulong, Fld ''write_protect_seq'' td_seqcount_t, Fld ''arg_lock'' td_spinlock_t, Fld ''start_code'' c_ulong, Fld ''end_code'' c_ulong, Fld ''start_data'' c_ulong, Fld ''end_data'' c_ulong, Fld ''start_brk'' c_ulong, Fld ''brk'' c_ulong, Fld ''start_stack'' c_ulong, Fld ''arg_start'' c_ulong, Fld ''arg_end'' c_ulong, Fld ''env_start'' c_ulong, Fld ''env_end'' c_ulong, Fld ''saved_auxv'' (CArr c_ulong 52), Fld ''rss_stat'' (CArr struct_percpu_counter 4), Fld ''binfmt'' (CPtr ''struct linux_binfmt''), Fld ''context'' td_mm_context_t, Fld ''flags'' c_ulong, Fld ''ioctx_lock'' td_spinlock_t, Fld ''ioctx_table'' (CPtr ''struct kioctx_table''), Fld ''owner'' (CPtr ''struct task_struct''), Fld ''user_ns'' (CPtr ''struct user_namespace''), Fld ''exe_file'' (CPtr ''struct file''), Fld ''notifier_subscriptions'' (CPtr ''struct mmu_notifier_subscriptions''), Fld ''numa_next_scan'' c_ulong, Fld ''numa_scan_offset'' c_ulong, Fld ''numa_scan_seq'' c_int, Fld ''tlb_flush_pending'' td_atomic_t, Fld ''tlb_flush_batched'' td_atomic_t, Fld ''uprobes_state'' struct_uprobes_state, Fld ''hugetlb_usage'' td_atomic_long_t, Fld ''async_put_work'' struct_work_struct, Fld ''iommu_mm'' (CPtr ''struct iommu_mm_data''), Fld ''ksm_merging_pages'' c_ulong, Fld ''ksm_rmap_items'' c_ulong, Fld ''ksm_zero_pages'' td_atomic_long_t, Fld ''lru_gen'' (CStruct '''' [Fld ''list'' struct_list_head, Fld ''bitmap'' c_ulong, Fld ''memcg'' (CPtr ''struct mem_cgroup'')] False), Bits '''' c_long 64, Bits '''' c_long 64] False),
     Fld ''cpu_bitmap'' (CArr c_ulong 0)] False"

lemma layout_struct_mm_struct [layout]:
  "size_of struct_mm_struct = 1344" "align_of struct_mm_struct = 8" "wf_ctype struct_mm_struct" "natural struct_mm_struct"
  unfolding struct_mm_struct_def by (simp_all add: layout)

definition struct_vm_userfaultfd_ctx :: ctype where
  "struct_vm_userfaultfd_ctx = CStruct ''vm_userfaultfd_ctx''
    [Fld ''ctx'' (CPtr ''struct userfaultfd_ctx'')] False"

lemma layout_struct_vm_userfaultfd_ctx [layout]:
  "size_of struct_vm_userfaultfd_ctx = 8" "align_of struct_vm_userfaultfd_ctx = 8" "wf_ctype struct_vm_userfaultfd_ctx" "natural struct_vm_userfaultfd_ctx"
  unfolding struct_vm_userfaultfd_ctx_def by (simp_all add: layout)

definition td_pgprotval_t :: ctype where
  "td_pgprotval_t = c_ulong"

lemma layout_td_pgprotval_t [layout]:
  "size_of td_pgprotval_t = 8" "align_of td_pgprotval_t = 8" "wf_ctype td_pgprotval_t" "natural td_pgprotval_t"
  unfolding td_pgprotval_t_def by (simp_all add: layout)

definition struct_pgprot :: ctype where
  "struct_pgprot = CStruct ''pgprot''
    [Fld ''pgprot'' td_pgprotval_t] False"

lemma layout_struct_pgprot [layout]:
  "size_of struct_pgprot = 8" "align_of struct_pgprot = 8" "wf_ctype struct_pgprot" "natural struct_pgprot"
  unfolding struct_pgprot_def by (simp_all add: layout)

definition td_pgprot_t :: ctype where
  "td_pgprot_t = struct_pgprot"

lemma layout_td_pgprot_t [layout]:
  "size_of td_pgprot_t = 8" "align_of td_pgprot_t = 8" "wf_ctype td_pgprot_t" "natural td_pgprot_t"
  unfolding td_pgprot_t_def by (simp_all add: layout)

definition td_vm_flags_t :: ctype where
  "td_vm_flags_t = c_ulong"

lemma layout_td_vm_flags_t [layout]:
  "size_of td_vm_flags_t = 8" "align_of td_vm_flags_t = 8" "wf_ctype td_vm_flags_t" "natural td_vm_flags_t"
  unfolding td_vm_flags_t_def by (simp_all add: layout)

definition struct_vm_area_struct :: ctype where
  "struct_vm_area_struct = CStruct ''vm_area_struct''
    [Fld '''' (CUnion '''' [Fld '''' (CStruct '''' [Fld ''vm_start'' c_ulong, Fld ''vm_end'' c_ulong] False), Fld ''vm_rcu'' struct_callback_head] False),
     Fld ''vm_mm'' (CPtr ''struct mm_struct''), Fld ''vm_page_prot'' td_pgprot_t,
     Fld '''' (CUnion '''' [Fld ''vm_flags'' td_vm_flags_t, Fld ''__vm_flags'' td_vm_flags_t] False),
     Fld ''detached'' td_bool, Fld ''vm_lock_seq'' c_int,
     Fld ''vm_lock'' (CPtr ''struct vma_lock''),
     Fld ''shared'' (CStruct '''' [Fld ''rb'' struct_rb_node, Fld ''rb_subtree_last'' c_ulong] False),
     Fld ''anon_vma_chain'' struct_list_head, Fld ''anon_vma'' (CPtr ''struct anon_vma''),
     Fld ''vm_ops'' (CPtr ''struct vm_operations_struct''), Fld ''vm_pgoff'' c_ulong,
     Fld ''vm_file'' (CPtr ''struct file''), Fld ''vm_private_data'' (CPtr ''void''),
     Fld ''swap_readahead_info'' td_atomic_long_t,
     Fld ''vm_policy'' (CPtr ''struct mempolicy''),
     Fld ''numab_state'' (CPtr ''struct vma_numab_state''),
     Fld ''vm_userfaultfd_ctx'' struct_vm_userfaultfd_ctx] False"

lemma layout_struct_vm_area_struct [layout]:
  "size_of struct_vm_area_struct = 176" "align_of struct_vm_area_struct = 8" "wf_ctype struct_vm_area_struct" "natural struct_vm_area_struct"
  unfolding struct_vm_area_struct_def by (simp_all add: layout)

definition struct_backtrack_state :: ctype where
  "struct_backtrack_state = CStruct ''backtrack_state''
    [Fld ''env'' (CPtr ''struct bpf_verifier_env''), Fld ''frame'' td_u32,
     Fld ''reg_masks'' (CArr td_u32 8), Fld ''stack_masks'' (CArr td_u64 8)] False"

lemma layout_struct_backtrack_state [layout]:
  "size_of struct_backtrack_state = 112" "align_of struct_backtrack_state = 8" "wf_ctype struct_backtrack_state" "natural struct_backtrack_state"
  unfolding struct_backtrack_state_def by (simp_all add: layout)

definition struct_bpf_id_pair :: ctype where
  "struct_bpf_id_pair = CStruct ''bpf_id_pair''
    [Fld ''old'' td_u32, Fld ''cur'' td_u32] False"

lemma layout_struct_bpf_id_pair [layout]:
  "size_of struct_bpf_id_pair = 8" "align_of struct_bpf_id_pair = 4" "wf_ctype struct_bpf_id_pair" "natural struct_bpf_id_pair"
  unfolding struct_bpf_id_pair_def by (simp_all add: layout)

definition struct_bpf_idmap :: ctype where
  "struct_bpf_idmap = CStruct ''bpf_idmap''
    [Fld ''tmp_id_gen'' td_u32, Fld ''map'' (CArr struct_bpf_id_pair 600)] False"

lemma layout_struct_bpf_idmap [layout]:
  "size_of struct_bpf_idmap = 4804" "align_of struct_bpf_idmap = 4" "wf_ctype struct_bpf_idmap" "natural struct_bpf_idmap"
  unfolding struct_bpf_idmap_def by (simp_all add: layout)

definition struct_bpf_idset :: ctype where
  "struct_bpf_idset = CStruct ''bpf_idset''
    [Fld ''count'' td_u32, Fld ''ids'' (CArr td_u32 600)] False"

lemma layout_struct_bpf_idset [layout]:
  "size_of struct_bpf_idset = 2404" "align_of struct_bpf_idset = 4" "wf_ctype struct_bpf_idset" "natural struct_bpf_idset"
  unfolding struct_bpf_idset_def by (simp_all add: layout)

definition enum_bpf_dynptr_type :: ctype where
  "enum_bpf_dynptr_type = CEnum ''bpf_dynptr_type''
    [(''BPF_DYNPTR_TYPE_INVALID'', 0), (''BPF_DYNPTR_TYPE_LOCAL'', 1),
     (''BPF_DYNPTR_TYPE_RINGBUF'', 2), (''BPF_DYNPTR_TYPE_SKB'', 3),
     (''BPF_DYNPTR_TYPE_XDP'', 4)] 4"

lemma layout_enum_bpf_dynptr_type [layout]:
  "size_of enum_bpf_dynptr_type = 4" "align_of enum_bpf_dynptr_type = 4" "wf_ctype enum_bpf_dynptr_type" "natural enum_bpf_dynptr_type"
  unfolding enum_bpf_dynptr_type_def by (simp_all add: layout)

definition enum_bpf_iter_state :: ctype where
  "enum_bpf_iter_state = CEnum ''bpf_iter_state''
    [(''BPF_ITER_STATE_INVALID'', 0), (''BPF_ITER_STATE_ACTIVE'', 1),
     (''BPF_ITER_STATE_DRAINED'', 2)] 4"

lemma layout_enum_bpf_iter_state [layout]:
  "size_of enum_bpf_iter_state = 4" "align_of enum_bpf_iter_state = 4" "wf_ctype enum_bpf_iter_state" "natural enum_bpf_iter_state"
  unfolding enum_bpf_iter_state_def by (simp_all add: layout)

definition enum_bpf_reg_liveness :: ctype where
  "enum_bpf_reg_liveness = CEnum ''bpf_reg_liveness''
    [(''REG_LIVE_NONE'', 0), (''REG_LIVE_READ32'', 1), (''REG_LIVE_READ64'', 2),
     (''REG_LIVE_READ'', 3), (''REG_LIVE_WRITTEN'', 4), (''REG_LIVE_DONE'', 8)] 4"

lemma layout_enum_bpf_reg_liveness [layout]:
  "size_of enum_bpf_reg_liveness = 4" "align_of enum_bpf_reg_liveness = 4" "wf_ctype enum_bpf_reg_liveness" "natural enum_bpf_reg_liveness"
  unfolding enum_bpf_reg_liveness_def by (simp_all add: layout)

definition enum_bpf_reg_type :: ctype where
  "enum_bpf_reg_type = CEnum ''bpf_reg_type''
    [(''NOT_INIT'', 0), (''SCALAR_VALUE'', 1), (''PTR_TO_CTX'', 2), (''CONST_PTR_TO_MAP'', 3),
     (''PTR_TO_MAP_VALUE'', 4), (''PTR_TO_MAP_KEY'', 5), (''PTR_TO_STACK'', 6),
     (''PTR_TO_PACKET_META'', 7), (''PTR_TO_PACKET'', 8), (''PTR_TO_PACKET_END'', 9),
     (''PTR_TO_FLOW_KEYS'', 10), (''PTR_TO_SOCKET'', 11), (''PTR_TO_SOCK_COMMON'', 12),
     (''PTR_TO_TCP_SOCK'', 13), (''PTR_TO_TP_BUFFER'', 14), (''PTR_TO_XDP_SOCK'', 15),
     (''PTR_TO_BTF_ID'', 16), (''PTR_TO_MEM'', 17), (''PTR_TO_ARENA'', 18),
     (''PTR_TO_BUF'', 19), (''PTR_TO_FUNC'', 20), (''CONST_PTR_TO_DYNPTR'', 21),
     (''__BPF_REG_TYPE_MAX'', 22), (''PTR_TO_MAP_VALUE_OR_NULL'', 260),
     (''PTR_TO_SOCKET_OR_NULL'', 267), (''PTR_TO_SOCK_COMMON_OR_NULL'', 268),
     (''PTR_TO_TCP_SOCK_OR_NULL'', 269), (''PTR_TO_BTF_ID_OR_NULL'', 272),
     (''__BPF_REG_TYPE_LIMIT'', 67108863)] 4"

lemma layout_enum_bpf_reg_type [layout]:
  "size_of enum_bpf_reg_type = 4" "align_of enum_bpf_reg_type = 4" "wf_ctype enum_bpf_reg_type" "natural enum_bpf_reg_type"
  unfolding enum_bpf_reg_type_def by (simp_all add: layout)

definition struct_tnum :: ctype where
  "struct_tnum = CStruct ''tnum''
    [Fld ''value'' td_u64, Fld ''mask'' td_u64] False"

lemma layout_struct_tnum [layout]:
  "size_of struct_tnum = 16" "align_of struct_tnum = 8" "wf_ctype struct_tnum" "natural struct_tnum"
  unfolding struct_tnum_def by (simp_all add: layout)

definition struct_bpf_reg_state :: ctype where
  "struct_bpf_reg_state = CStruct ''bpf_reg_state''
    [Fld ''type'' enum_bpf_reg_type, Fld ''off'' td_s32,
     Fld '''' (CUnion '''' [Fld ''range'' c_int, Fld '''' (CStruct '''' [Fld ''map_ptr'' (CPtr ''struct bpf_map''), Fld ''map_uid'' td_u32] False), Fld '''' (CStruct '''' [Fld ''btf'' (CPtr ''struct btf''), Fld ''btf_id'' td_u32] False), Fld '''' (CStruct '''' [Fld ''mem_size'' td_u32, Fld ''dynptr_id'' td_u32] False), Fld ''dynptr'' (CStruct '''' [Fld ''type'' enum_bpf_dynptr_type, Fld ''first_slot'' td_bool] False), Fld ''iter'' (CStruct '''' [Fld ''btf'' (CPtr ''struct btf''), Fld ''btf_id'' td_u32, Bits ''state'' enum_bpf_iter_state 2, Bits ''depth'' c_int 30] False), Fld ''raw'' (CStruct '''' [Fld ''raw1'' c_ulong, Fld ''raw2'' c_ulong] False), Fld ''subprogno'' td_u32] False),
     Fld ''var_off'' struct_tnum, Fld ''smin_value'' td_s64, Fld ''smax_value'' td_s64,
     Fld ''umin_value'' td_u64, Fld ''umax_value'' td_u64, Fld ''s32_min_value'' td_s32,
     Fld ''s32_max_value'' td_s32, Fld ''u32_min_value'' td_u32, Fld ''u32_max_value'' td_u32,
     Fld ''id'' td_u32, Fld ''ref_obj_id'' td_u32,
     Fld ''parent'' (CPtr ''struct bpf_reg_state''), Fld ''frameno'' td_u32,
     Fld ''subreg_def'' td_s32, Fld ''live'' enum_bpf_reg_liveness, Fld ''precise'' td_bool] False"

lemma layout_struct_bpf_reg_state [layout]:
  "size_of struct_bpf_reg_state = 120" "align_of struct_bpf_reg_state = 8" "wf_ctype struct_bpf_reg_state" "natural struct_bpf_reg_state"
  unfolding struct_bpf_reg_state_def by (simp_all add: layout)

definition enum_bpf_arg_type :: ctype where
  "enum_bpf_arg_type = CEnum ''bpf_arg_type''
    [(''ARG_DONTCARE'', 0), (''ARG_CONST_MAP_PTR'', 1), (''ARG_PTR_TO_MAP_KEY'', 2),
     (''ARG_PTR_TO_MAP_VALUE'', 3), (''ARG_PTR_TO_MEM'', 4), (''ARG_PTR_TO_ARENA'', 5),
     (''ARG_CONST_SIZE'', 6), (''ARG_CONST_SIZE_OR_ZERO'', 7), (''ARG_PTR_TO_CTX'', 8),
     (''ARG_ANYTHING'', 9), (''ARG_PTR_TO_SPIN_LOCK'', 10), (''ARG_PTR_TO_SOCK_COMMON'', 11),
     (''ARG_PTR_TO_SOCKET'', 12), (''ARG_PTR_TO_BTF_ID'', 13), (''ARG_PTR_TO_RINGBUF_MEM'', 14),
     (''ARG_CONST_ALLOC_SIZE_OR_ZERO'', 15), (''ARG_PTR_TO_BTF_ID_SOCK_COMMON'', 16),
     (''ARG_PTR_TO_PERCPU_BTF_ID'', 17), (''ARG_PTR_TO_FUNC'', 18), (''ARG_PTR_TO_STACK'', 19),
     (''ARG_PTR_TO_CONST_STR'', 20), (''ARG_PTR_TO_TIMER'', 21), (''ARG_PTR_TO_KPTR'', 22),
     (''ARG_PTR_TO_DYNPTR'', 23), (''__BPF_ARG_TYPE_MAX'', 24),
     (''ARG_PTR_TO_MAP_VALUE_OR_NULL'', 259), (''ARG_PTR_TO_MEM_OR_NULL'', 260),
     (''ARG_PTR_TO_CTX_OR_NULL'', 264), (''ARG_PTR_TO_SOCKET_OR_NULL'', 268),
     (''ARG_PTR_TO_STACK_OR_NULL'', 275), (''ARG_PTR_TO_BTF_ID_OR_NULL'', 269),
     (''ARG_PTR_TO_UNINIT_MEM'', 32772), (''ARG_PTR_TO_FIXED_SIZE_MEM'', 262148),
     (''__BPF_ARG_TYPE_LIMIT'', 67108863)] 4"

lemma layout_enum_bpf_arg_type [layout]:
  "size_of enum_bpf_arg_type = 4" "align_of enum_bpf_arg_type = 4" "wf_ctype enum_bpf_arg_type" "natural enum_bpf_arg_type"
  unfolding enum_bpf_arg_type_def by (simp_all add: layout)

definition struct_bpf_subprog_arg_info :: ctype where
  "struct_bpf_subprog_arg_info = CStruct ''bpf_subprog_arg_info''
    [Fld ''arg_type'' enum_bpf_arg_type,
     Fld '''' (CUnion '''' [Fld ''mem_size'' td_u32, Fld ''btf_id'' td_u32] False)] False"

lemma layout_struct_bpf_subprog_arg_info [layout]:
  "size_of struct_bpf_subprog_arg_info = 8" "align_of struct_bpf_subprog_arg_info = 4" "wf_ctype struct_bpf_subprog_arg_info" "natural struct_bpf_subprog_arg_info"
  unfolding struct_bpf_subprog_arg_info_def by (simp_all add: layout)

definition struct_bpf_subprog_info :: ctype where
  "struct_bpf_subprog_info = CStruct ''bpf_subprog_info''
    [Fld ''start'' td_u32, Fld ''linfo_idx'' td_u32, Fld ''stack_depth'' td_u16,
     Fld ''stack_extra'' td_u16, Bits ''has_tail_call'' td_bool 1,
     Bits ''tail_call_reachable'' td_bool 1, Bits ''has_ld_abs'' td_bool 1,
     Bits ''is_cb'' td_bool 1, Bits ''is_async_cb'' td_bool 1,
     Bits ''is_exception_cb'' td_bool 1, Bits ''args_cached'' td_bool 1, Fld ''arg_cnt'' td_u8,
     Fld ''args'' (CArr struct_bpf_subprog_arg_info 5)] False"

lemma layout_struct_bpf_subprog_info [layout]:
  "size_of struct_bpf_subprog_info = 56" "align_of struct_bpf_subprog_info = 4" "wf_ctype struct_bpf_subprog_info" "natural struct_bpf_subprog_info"
  unfolding struct_bpf_subprog_info_def by (simp_all add: layout)

definition struct_bpf_verifier_log :: ctype where
  "struct_bpf_verifier_log = CStruct ''bpf_verifier_log''
    [Fld ''start_pos'' td_u64, Fld ''end_pos'' td_u64, Fld ''ubuf'' (CPtr ''char''),
     Fld ''level'' td_u32, Fld ''len_total'' td_u32, Fld ''len_max'' td_u32,
     Fld ''kbuf'' (CArr c_char 1024)] False"

lemma layout_struct_bpf_verifier_log [layout]:
  "size_of struct_bpf_verifier_log = 1064" "align_of struct_bpf_verifier_log = 8" "wf_ctype struct_bpf_verifier_log" "natural struct_bpf_verifier_log"
  unfolding struct_bpf_verifier_log_def by (simp_all add: layout)

definition struct_btf_mod_pair :: ctype where
  "struct_btf_mod_pair = CStruct ''btf_mod_pair''
    [Fld ''btf'' (CPtr ''struct btf''), Fld ''module'' (CPtr ''struct module'')] False"

lemma layout_struct_btf_mod_pair [layout]:
  "size_of struct_btf_mod_pair = 16" "align_of struct_btf_mod_pair = 8" "wf_ctype struct_btf_mod_pair" "natural struct_btf_mod_pair"
  unfolding struct_btf_mod_pair_def by (simp_all add: layout)

definition td_sockptr_t :: ctype where
  "td_sockptr_t = CStruct ''''
    [Fld '''' (CUnion '''' [Fld ''kernel'' (CPtr ''void''), Fld ''user'' (CPtr ''void'')] False),
     Bits ''is_kernel'' td_bool 1] False"

lemma layout_td_sockptr_t [layout]:
  "size_of td_sockptr_t = 16" "align_of td_sockptr_t = 8" "wf_ctype td_sockptr_t" "natural td_sockptr_t"
  unfolding td_sockptr_t_def by (simp_all add: layout)

definition td_bpfptr_t :: ctype where
  "td_bpfptr_t = td_sockptr_t"

lemma layout_td_bpfptr_t [layout]:
  "size_of td_bpfptr_t = 16" "align_of td_bpfptr_t = 8" "wf_ctype td_bpfptr_t" "natural td_bpfptr_t"
  unfolding td_bpfptr_t_def by (simp_all add: layout)

definition struct_bpf_verifier_env_members_1 :: "cmember list" where
  "struct_bpf_verifier_env_members_1 =
    [Fld ''insn_idx'' td_u32, Fld ''prev_insn_idx'' td_u32,
     Fld ''prog'' (CPtr ''struct bpf_prog''), Fld ''ops'' (CPtr ''struct bpf_verifier_ops''),
     Fld ''attach_btf_mod'' (CPtr ''struct module''),
     Fld ''head'' (CPtr ''struct bpf_verifier_stack_elem''), Fld ''stack_size'' c_int,
     Fld ''strict_alignment'' td_bool, Fld ''test_state_freq'' td_bool,
     Fld ''test_reg_invariants'' td_bool,
     Fld ''cur_state'' (CPtr ''struct bpf_verifier_state''),
     Fld ''explored_states'' (CPtr ''struct bpf_verifier_state_list *''),
     Fld ''free_list'' (CPtr ''struct bpf_verifier_state_list''),
     Fld ''used_maps'' (CArr (CPtr ''struct bpf_map'') 64),
     Fld ''used_btfs'' (CArr struct_btf_mod_pair 64), Fld ''used_map_cnt'' td_u32,
     Fld ''used_btf_cnt'' td_u32, Fld ''id_gen'' td_u32, Fld ''hidden_subprog_cnt'' td_u32,
     Fld ''exception_callback_subprog'' c_int, Fld ''explore_alu_limits'' td_bool,
     Fld ''allow_ptr_leaks'' td_bool, Fld ''allow_uninit_stack'' td_bool,
     Fld ''bpf_capable'' td_bool, Fld ''bypass_spec_v1'' td_bool,
     Fld ''bypass_spec_v4'' td_bool, Fld ''seen_direct_write'' td_bool,
     Fld ''seen_exception'' td_bool, Fld ''insn_aux_data'' (CPtr ''struct bpf_insn_aux_data''),
     Fld ''prev_linfo'' (CPtr ''struct bpf_line_info''), Fld ''log'' struct_bpf_verifier_log,
     Fld ''subprog_info'' (CArr struct_bpf_subprog_info 258),
     Fld '''' (CUnion '''' [Fld ''idmap_scratch'' struct_bpf_idmap, Fld ''idset_scratch'' struct_bpf_idset] False),
     Fld ''cfg'' (CStruct '''' [Fld ''insn_state'' (CPtr ''int''), Fld ''insn_stack'' (CPtr ''int''), Fld ''cur_stack'' c_int] False),
     Fld ''bt'' struct_backtrack_state,
     Fld ''cur_hist_ent'' (CPtr ''struct bpf_jmp_history_entry''), Fld ''pass_cnt'' td_u32,
     Fld ''subprog_cnt'' td_u32, Fld ''prev_insn_processed'' td_u32,
     Fld ''insn_processed'' td_u32]"

lemma layout_struct_bpf_verifier_env_members_1 [layout]:
  "bit_end False 0 struct_bpf_verifier_env_members_1 = 177088" "members_align False struct_bpf_verifier_env_members_1 = 8"
  "wf_members struct_bpf_verifier_env_members_1" "naturals struct_bpf_verifier_env_members_1"
  unfolding struct_bpf_verifier_env_members_1_def by (simp_all add: layout)

definition struct_bpf_verifier_env_members_2 :: "cmember list" where
  "struct_bpf_verifier_env_members_2 =
    [Fld ''prev_jmps_processed'' td_u32, Fld ''jmps_processed'' td_u32,
     Fld ''verification_time'' td_u64, Fld ''max_states_per_insn'' td_u32,
     Fld ''total_states'' td_u32, Fld ''peak_states'' td_u32,
     Fld ''longest_mark_read_walk'' td_u32, Fld ''fd_array'' td_bpfptr_t,
     Fld ''scratched_regs'' td_u32, Fld ''scratched_stack_slots'' td_u64,
     Fld ''prev_log_pos'' td_u64, Fld ''prev_insn_print_pos'' td_u64,
     Fld ''fake_reg'' (CArr struct_bpf_reg_state 2), Fld ''tmp_str_buf'' (CArr c_char 320)]"

lemma layout_struct_bpf_verifier_env_members_2 [layout]:
  "bit_end False 177088 struct_bpf_verifier_env_members_2 = 182208" "members_align False struct_bpf_verifier_env_members_2 = 8"
  "wf_members struct_bpf_verifier_env_members_2" "naturals struct_bpf_verifier_env_members_2"
  unfolding struct_bpf_verifier_env_members_2_def by (simp_all add: layout)

definition struct_bpf_verifier_env :: ctype where
  "struct_bpf_verifier_env = CStruct ''bpf_verifier_env''
    (struct_bpf_verifier_env_members_1 @
     struct_bpf_verifier_env_members_2) False"

lemma layout_struct_bpf_verifier_env [layout]:
  "size_of struct_bpf_verifier_env = 22776" "align_of struct_bpf_verifier_env = 8" "wf_ctype struct_bpf_verifier_env" "natural struct_bpf_verifier_env"
  unfolding struct_bpf_verifier_env_def by (simp_all add: layout)

definition struct_trace_event :: ctype where
  "struct_trace_event = CStruct ''trace_event''
    [Fld ''node'' struct_hlist_node, Fld ''type'' c_int,
     Fld ''funcs'' (CPtr ''struct trace_event_functions'')] False"

lemma layout_struct_trace_event [layout]:
  "size_of struct_trace_event = 32" "align_of struct_trace_event = 8" "wf_ctype struct_trace_event" "natural struct_trace_event"
  unfolding struct_trace_event_def by (simp_all add: layout)

definition struct_trace_event_call :: ctype where
  "struct_trace_event_call = CStruct ''trace_event_call''
    [Fld ''list'' struct_list_head, Fld ''class'' (CPtr ''struct trace_event_class''),
     Fld '''' (CUnion '''' [Fld ''name'' (CPtr ''char''), Fld ''tp'' (CPtr ''struct tracepoint'')] False),
     Fld ''event'' struct_trace_event, Fld ''print_fmt'' (CPtr ''char''),
     Fld ''filter'' (CPtr ''struct event_filter''),
     Fld '''' (CUnion '''' [Fld ''module'' (CPtr ''void''), Fld ''refcnt'' td_atomic_t] False),
     Fld ''data'' (CPtr ''void''), Fld ''flags'' c_int, Fld ''perf_refcount'' c_int,
     Fld ''perf_events'' (CPtr ''struct hlist_head''),
     Fld ''prog_array'' (CPtr ''struct bpf_prog_array''), Fld ''perf_perm'' CFn] False"

lemma layout_struct_trace_event_call [layout]:
  "size_of struct_trace_event_call = 128" "align_of struct_trace_event_call = 8" "wf_ctype struct_trace_event_call" "natural struct_trace_event_call"
  unfolding struct_trace_event_call_def by (simp_all add: layout)

end
