(* ===== verification/Vmlinux_Types.thy ===== *)
theory Vmlinux_Types
  imports Vmlinux_Kernel
begin

text \<open>
  All the types of \<open>vmlinux_x86_64_6_11.h\<close> that are modelled, in one list per theory, and what holds
  of each of them.
\<close>

definition regs_types :: "ctype list" where
  "regs_types =
    [td___u64, td_u64, struct_fred_cs, struct_fred_ss, td___u16, td_u16, struct_pt_regs,
     enum_bpf_map_type]"

lemma regs_types_ok: "\<forall>t \<in> set regs_types. wf_ctype t \<and> natural t"
  by (simp add: regs_types_def layout)

definition inode_types :: "ctype list" where
  "inode_types =
    [enum_rw_hint, struct_list_head, struct_rb_root, struct_rb_root_cached, td_atomic_t,
     struct_optimistic_spin_queue, td___s64, td_s64, td_atomic64_t, td_atomic_long_t, td___u8,
     td_u8, struct_qspinlock, td_arch_spinlock_t, struct_raw_spinlock, td_raw_spinlock_t,
     struct_rw_semaphore, td_gfp_t, struct_spinlock, td_spinlock_t, struct_xarray, td___u32,
     td_u32, td_errseq_t, struct_address_space, struct_callback_head, struct_hlist_head,
     struct_hlist_node, td_blkcnt_t, td___kernel_dev_t, td_dev_t, td___kernel_gid32_t, td_gid_t,
     td_kgid_t, td___kernel_uid32_t, td_uid_t, td_kuid_t, td___kernel_loff_t, td_loff_t,
     td_time64_t, td_umode_t, struct_inode]"

lemma inode_types_ok: "\<forall>t \<in> set inode_types. wf_ctype t \<and> natural t"
  by (simp add: inode_types_def layout)

definition super_types :: "ctype list" where
  "super_types =
    [struct_hlist_bl_head, td_bool, struct_list_lru, struct_mutex, td_qsize_t, struct_mem_dqinfo,
     struct_quota_info, struct_wait_queue_head, td_wait_queue_head_t, struct_rcu_sync,
     struct_rcuwait, struct_percpu_rw_semaphore, struct_sb_writers, td_work_func_t,
     struct_work_struct, td_uuid_t, struct_super_block]"

lemma super_types_ok: "\<forall>t \<in> set super_types. wf_ctype t \<and> natural t"
  by (simp add: super_types_def layout)

definition task_types :: "ctype list" where
  "task_types =
    [struct_llist_node, struct___call_single_node, struct_kmap_ctrl, struct_latency_record,
     struct_llist_head, struct_page_frag, struct_plist_node, struct_timerqueue_head,
     struct_posix_cputimer_base, struct_posix_cputimers, struct_posix_cputimers_work,
     struct_prev_cputime, struct_rb_node, enum_timespec_type, td___kernel_clockid_t,
     td_clockid_t, struct_restart_block, td_ktime_t, struct_timerqueue_node, struct_hrtimer,
     td_dl_server_has_tasks_f, td_dl_server_pick_f, struct_sched_dl_entity, struct_load_weight,
     struct_sched_avg, struct_sched_entity, struct_sched_info, struct_sched_rt_entity,
     struct_sched_statistics, struct_seccomp, td_sigset_t, struct_sigpending,
     struct_syscall_user_dispatch, struct_sysv_sem, struct_sysv_shm, struct_task_io_accounting,
     struct_thread_info, struct_desc_struct, struct_fregs_state, struct_fxregs_state,
     struct_swregs_state, struct_xstate_header, struct_xregs_state, union_fpregs_state,
     struct_fpstate, struct_fpu_state_perm, struct_fpu, struct_thread_shstk,
     struct_thread_struct, struct_timer_list, struct_cpumask, struct_arch_tlbflush_unmap_batch,
     struct_tlbflush_unmap_batch, struct_uclamp_se, enum_vtime_state, struct_seqcount,
     td_seqcount_t, struct_vtime, struct_wake_q_node, td_cpumask_t, td_nodemask_t,
     td___kernel_pid_t, td_pid_t, struct_refcount_struct, td_refcount_t,
     struct_seqcount_spinlock, td_seqcount_spinlock_t, td___kernel_ulong_t, td___kernel_size_t,
     td_size_t, union_rcu_special, struct_da_monitor, union_rv_task_monitor, struct_task_struct]"

lemma task_types_ok: "\<forall>t \<in> set task_types. wf_ctype t \<and> natural t"
  by (simp add: task_types_def layout)

definition bpf_types :: "ctype list" where
  "bpf_types =
    [td_kernel_cap_t, struct_cred, struct_bpf_lru_list, struct_bpf_common_lru,
     td_del_from_htab_func, struct_bpf_lru, enum_bpf_prog_type, struct_bpf_map,
     struct_bpf_mem_alloc, struct_lock_class_key, struct_pcpu_freelist_head,
     struct_pcpu_freelist, struct_percpu_counter, struct_bpf_htab, struct_bpf_lru_node,
     struct_hlist_nulls_node, struct_pcpu_freelist_node, struct_htab_elem,
     struct_bpf_ringbuf_map, struct_irq_work, struct_bpf_ringbuf, struct_bpf_ringbuf_hdr,
     enum_bpf_attach_type, td___s16, td___s32, struct_bpf_insn, struct_sock_filter,
     struct_bpf_prog, struct_latch_tree_node, struct_bpf_ksym, struct_bpf_prog_aux,
     enum_bpf_func_id, enum_bpf_cmd, union_bpf_attr]"

lemma bpf_types_ok: "\<forall>t \<in> set bpf_types. wf_ctype t \<and> natural t"
  by (simp add: bpf_types_def layout)

definition files_types :: "ctype list" where
  "files_types =
    [struct_file_ra_state, enum_pid_type, struct_qrwlock, td_arch_rwlock_t, td_rwlock_t,
     struct_fown_struct, struct_path, td_fmode_t, struct_file, struct_hlist_bl_node,
     struct_lockref, struct_qstr, struct_dentry, struct_uid_gid_extent, struct_uid_gid_map,
     struct_mnt_idmap, struct_file_system_type, struct_vfsmount, struct_inode_operations,
     struct_super_operations, td_fop_flags_t, struct_file_operations, struct_dentry_operations,
     struct_address_space_operations]"

lemma files_types_ok: "\<forall>t \<in> set files_types. wf_ctype t \<and> natural t"
  by (simp add: files_types_def layout)

definition kernel_types :: "ctype list" where
  "kernel_types =
    [struct_cpu_itimer, struct_pacct_struct, struct_rlimit, struct_task_cputime_atomic,
     struct_thread_group_cputimer, td_seqlock_t, struct_signal_struct, td_s32,
     struct_arch_specific_insn, td_kprobe_opcode_t, td_kprobe_post_handler_t,
     td_kprobe_pre_handler_t, struct_kprobe, enum_perf_event_state, struct_ftrace_ops_hash,
     td_ftrace_func_t, td_ftrace_ops_func_t, struct_ftrace_ops, struct_arch_hw_breakpoint,
     struct_hw_perf_event_extra, struct_rhash_head, struct_rhlist_head, td_local_t, td_local64_t,
     struct_hw_perf_event, struct_perf_addr_filters_head, struct_perf_event_attr,
     td_perf_overflow_handler_t, struct_perf_event, struct_nsproxy, struct_ctl_table_header,
     struct_ctl_dir, struct_ctl_table_set, struct_ns_common, struct_user_namespace, struct_upid,
     struct_pid, td_lockdep_map_p, struct_maple_tree, struct_uprobes_state, td_s16,
     td_mm_context_t, struct_mm_struct, struct_vm_userfaultfd_ctx, td_pgprotval_t, struct_pgprot,
     td_pgprot_t, td_vm_flags_t, struct_vm_area_struct, struct_backtrack_state,
     struct_bpf_id_pair, struct_bpf_idmap, struct_bpf_idset, enum_bpf_dynptr_type,
     enum_bpf_iter_state, enum_bpf_reg_liveness, enum_bpf_reg_type, struct_tnum,
     struct_bpf_reg_state, enum_bpf_arg_type, struct_bpf_subprog_arg_info,
     struct_bpf_subprog_info, struct_bpf_verifier_log, struct_btf_mod_pair, td_sockptr_t,
     td_bpfptr_t, struct_bpf_verifier_env, struct_trace_event, struct_trace_event_call]"

lemma kernel_types_ok: "\<forall>t \<in> set kernel_types. wf_ctype t \<and> natural t"
  by (simp add: kernel_types_def layout)

definition vmlinux_types :: "ctype list" where
  "vmlinux_types = regs_types @ inode_types @ super_types @ task_types @
     bpf_types @ files_types @ kernel_types"

text \<open>In every type of the kernel header that is modelled, a member found by name lies inside the
  object, starts at a multiple of its alignment, and the size of the type is a multiple of its
  own alignment, so that the elements of an array of it are aligned too.\<close>

lemma kernel_types_laid_out:
  "\<forall>t \<in> set vmlinux_types. wf_ctype t \<and> align_of t dvd size_of t \<and>
     (\<forall>f k u. field_at t f = Some (k, u) \<longrightarrow> k + size_of u \<le> size_of t \<and> align_of u dvd k)"
proof
  fix t assume "t \<in> set vmlinux_types"
  then have "wf_ctype t \<and> natural t"
    unfolding vmlinux_types_def
    using regs_types_ok inode_types_ok super_types_ok task_types_ok
      bpf_types_ok files_types_ok kernel_types_ok by auto
  then show "wf_ctype t \<and> align_of t dvd size_of t \<and>
     (\<forall>f k u. field_at t f = Some (k, u) \<longrightarrow> k + size_of u \<le> size_of t \<and> align_of u dvd k)"
    using field_at_bounds field_at_aligned(1) align_dvd_size by blast
qed

end
