(* ===== verification/Log_Data.thy ===== *)
theory Log_Data
  imports Vmlinux_Task
begin

text \<open>
  The data the eBPF program and the Go operator exchange: \<open>struct log_data\<close> (\<open>log_data.h\<close>), the
  ring buffer record, and \<open>struct map_key\<close> (\<open>maps.h\<close>), the key of the map of traced inodes, with
  the declarations of the two maps.  On the Go side \<open>bpfLogData\<close> and \<open>bpfMapKey\<close>
  (\<open>bpf_bpfel.go\<close>) and \<open>binary.Read\<close> of a record.  The lemmas say that both sides give every
  field the same bytes, that a record decodes to what was written, and that two keys have the
  same bytes only if they are equal.
\<close>

section \<open>Reading and writing members of an object\<close>

definition get_field :: "ctype \<Rightarrow> string \<Rightarrow> u8 list \<Rightarrow> u8 list" where
  "get_field t f buf =
     (case field_at t f of Some (k, u) \<Rightarrow> window k (size_of u) buf | None \<Rightarrow> [])"

definition put_field :: "ctype \<Rightarrow> string \<Rightarrow> u8 list \<Rightarrow> u8 list \<Rightarrow> u8 list" where
  "put_field t f bs buf =
     (case field_at t f of Some (k, u) \<Rightarrow> overwrite k bs buf | None \<Rightarrow> buf)"

lemma put_field_props:
  assumes "wf_ctype t" and "field_at t f = Some (k, u)"
    and "length bs = size_of u" and "length buf = size_of t"
  shows "length (put_field t f bs buf) = size_of t"
    and "get_field t f (put_field t f bs buf) = bs"
  using field_at_bounds [OF assms(1,2)] assms
  by (simp_all add: put_field_def get_field_def)

lemma get_put_other:
  assumes "wf_ctype t" and "field_at t f = Some (k, u)" and "field_at t g = Some (j, v)"
    and "length bs = size_of u" and "length buf = size_of t"
    and "j + size_of v \<le> k \<or> k + size_of u \<le> j"
  shows "get_field t g (put_field t f bs buf) = get_field t g buf"
  using field_at_bounds [OF assms(1,2)] field_at_bounds [OF assms(1,3)] assms
  by (simp add: put_field_def get_field_def window_overwrite_other)

section \<open>The C structs and maps\<close>

definition TASK_COMM_LEN :: nat where "TASK_COMM_LEN = 16"

definition struct_log_data :: ctype where
  "struct_log_data = CStruct ''log_data''
    [Fld ''pid'' td_pid_t, Fld ''tgid'' td_gid_t, Fld ''uid'' td_uid_t, Fld ''gid'' td_gid_t,
     Fld ''dev'' td_dev_t, Fld ''ino'' c_ulong, Fld ''mask'' c_int,
     Fld ''comm'' (CArr c_char TASK_COMM_LEN)] False"

definition MAP_MAX_ENTRIES :: nat where "MAP_MAX_ENTRIES = 1024"

definition struct_map_key :: ctype where
  "struct_map_key = CStruct ''map_key'' [Fld ''inode'' c_ulong, Fld ''dev'' td_dev_t] False"

record map_decl =
  md_type :: int
  md_key :: "ctype option"
  md_value :: ctype
  md_max_entries :: nat

definition bpf_map_type_value :: "string \<Rightarrow> int option" where
  "bpf_map_type_value c =
     (case enum_bpf_map_type of CEnum _ cs _ \<Rightarrow> map_of cs c | _ \<Rightarrow> None)"

definition traced_inodes_decl :: map_decl where
  "traced_inodes_decl = \<lparr>md_type = the (bpf_map_type_value ''BPF_MAP_TYPE_HASH''),
     md_key = Some struct_map_key, md_value = td_u8, md_max_entries = MAP_MAX_ENTRIES\<rparr>"

definition rb_decl :: map_decl where
  "rb_decl = \<lparr>md_type = the (bpf_map_type_value ''BPF_MAP_TYPE_RINGBUF''),
     md_key = None, md_value = struct_log_data, md_max_entries = 2 ^ 24\<rparr>"

lemma layout_struct_log_data [layout]:
  "size_of struct_log_data = 56" "align_of struct_log_data = 8" "wf_ctype struct_log_data"
  "natural struct_log_data"
  unfolding struct_log_data_def by (simp_all add: layout TASK_COMM_LEN_def)

lemma layout_struct_map_key [layout]:
  "size_of struct_map_key = 16" "align_of struct_map_key = 8" "wf_ctype struct_map_key"
  "natural struct_map_key"
  unfolding struct_map_key_def by (simp_all add: layout)

lemma field_at_log_data [layout]:
  "field_at struct_log_data ''pid'' = Some (0, td_pid_t)"
  "field_at struct_log_data ''tgid'' = Some (4, td_gid_t)"
  "field_at struct_log_data ''uid'' = Some (8, td_uid_t)"
  "field_at struct_log_data ''gid'' = Some (12, td_gid_t)"
  "field_at struct_log_data ''dev'' = Some (16, td_dev_t)"
  "field_at struct_log_data ''ino'' = Some (24, c_ulong)"
  "field_at struct_log_data ''mask'' = Some (32, c_int)"
  "field_at struct_log_data ''comm'' = Some (36, CArr c_char TASK_COMM_LEN)"
  unfolding struct_log_data_def field_at_def by (simp_all add: layout Let_def)

lemma field_at_map_key [layout]:
  "field_at struct_map_key ''inode'' = Some (0, c_ulong)"
  "field_at struct_map_key ''dev'' = Some (8, td_dev_t)"
  unfolding struct_map_key_def field_at_def by (simp_all add: layout Let_def)

lemma map_types:
  "md_type traced_inodes_decl = 1" "md_type rb_decl = 27"
  by (simp_all add: traced_inodes_decl_def rb_decl_def bpf_map_type_value_def
      enum_bpf_map_type_def)

section \<open>The Go structs\<close>

record bpfLogData =
  ld_Pid :: u32
  ld_Tgid :: u32
  ld_Uid :: u32
  ld_Gid :: u32
  ld_Dev :: u32
  ld_Ino :: u64
  ld_Mask :: u32
  ld_Comm :: "u8 list"

record bpfMapKey =
  mk_Inode :: u64
  mk_Dev :: u32

text \<open>The widths of the fields in order, blank padding included, and a split along widths.\<close>

definition bpfLogData_widths :: "nat list" where
  "bpfLogData_widths = [4, 4, 4, 4, 4, 4, 8, 4, 16, 4]"

fun split_widths :: "nat list \<Rightarrow> 'a list \<Rightarrow> 'a list list" where
  "split_widths [] bs = []"
| "split_widths (n # ns) bs = take n bs # split_widths ns (drop n bs)"

text \<open>\<open>binary.Read\<close> of a record: it fails on a short input and skips blank fields.\<close>

definition read_bpfLogData :: "u8 list \<Rightarrow> bpfLogData option" where
  "read_bpfLogData bs =
     (if length bs < sum_list bpfLogData_widths then None
      else case split_widths bpfLogData_widths bs of
        [pid, tgid, uid, gid, dev, _, ino, msk, comm, _] \<Rightarrow>
          Some \<lparr>ld_Pid = le_word pid, ld_Tgid = le_word tgid, ld_Uid = le_word uid,
            ld_Gid = le_word gid, ld_Dev = le_word dev, ld_Ino = le_word ino,
            ld_Mask = le_word msk, ld_Comm = comm\<rparr>
      | _ \<Rightarrow> None)"

text \<open>The bytes of a \<open>bpfMapKey\<close> as the map update passes them: blank padding is zero.\<close>

definition bytes_bpfMapKey :: "bpfMapKey \<Rightarrow> u8 list" where
  "bytes_bpfMapKey k = le_bytes 8 (mk_Inode k) @ le_bytes 4 (mk_Dev k) @ replicate 4 0"

section \<open>Encodings\<close>

text \<open>
  A fixed-width encoding, and one with a decoder that inverts it.  Encoded values follow each
  other in a stream without separators; the lemmas say the stream determines them.
\<close>

locale fixed_width =
  fixes wf :: "'a \<Rightarrow> bool" and enc :: "'a \<Rightarrow> u8 list" and width :: nat
  assumes enc_width: "wf x \<Longrightarrow> length (enc x) = width"
    and enc_inject: "wf x \<Longrightarrow> wf y \<Longrightarrow> enc x = enc y \<Longrightarrow> x = y"
begin

lemma enc_eq_iff: "wf x \<Longrightarrow> wf y \<Longrightarrow> enc x = enc y \<longleftrightarrow> x = y"
  using enc_inject by blast

lemma stream_inject:
  assumes "\<forall>x \<in> set xs. wf x" and "\<forall>y \<in> set ys. wf y" and "length xs = length ys"
    and "concat (map enc xs) = concat (map enc ys)"
  shows "xs = ys"
  using assms(3,1,2,4)
proof (induction xs ys rule: list_induct2)
  case (Cons x xs y ys)
  then have "enc x = enc y \<and> concat (map enc xs) = concat (map enc ys)"
    by (intro append_eq_append_conv [THEN iffD1]) (simp_all add: enc_width)
  then show ?case using Cons.IH Cons.prems enc_inject [of x y] by simp
qed simp

lemma inj_on_enc: "inj_on enc {x. wf x}"
  by (auto intro: inj_onI enc_inject)

end

locale byte_codec =
  fixes wf :: "'a \<Rightarrow> bool" and enc :: "'a \<Rightarrow> u8 list" and width :: nat
    and dec :: "u8 list \<Rightarrow> 'a option"
  assumes width_enc: "wf x \<Longrightarrow> length (enc x) = width"
    and dec_enc: "wf x \<Longrightarrow> dec (enc x @ rest) = Some x"
    and dec_short: "length bs < width \<Longrightarrow> dec bs = None"
begin

lemma dec_enc_exact: "wf x \<Longrightarrow> dec (enc x) = Some x"
  using dec_enc [of x "[]"] by simp

end

sublocale byte_codec \<subseteq> fixed_width wf enc width
proof unfold_locales
  show "length (enc x) = width" if "wf x" for x using that by (rule width_enc)
  show "x = y" if "wf x" "wf y" "enc x = enc y" for x y
    using dec_enc_exact [OF that(1)] dec_enc_exact [OF that(2)] unfolding that(3) by simp
qed

context byte_codec
begin

lemma decode_stream:
  "\<forall>x \<in> set xs. wf x \<Longrightarrow> List.map_filter dec (map enc xs) = xs"
  by (induction xs) (simp_all add: dec_enc_exact List.map_filter_simps)

lemma dec_total: "wf x \<Longrightarrow> \<exists>y. dec (enc x) = Some y"
  by (simp add: dec_enc_exact)

end

section \<open>Ring buffer records\<close>

text \<open>The bytes of a \<open>log_data\<close> object with the given members, padding zero.\<close>

definition bytes_log_data :: "bpfLogData \<Rightarrow> u8 list" where
  "bytes_log_data r =
     le_bytes 4 (ld_Pid r) @ le_bytes 4 (ld_Tgid r) @ le_bytes 4 (ld_Uid r) @ le_bytes 4 (ld_Gid r) @
     le_bytes 4 (ld_Dev r) @ replicate 4 0 @ le_bytes 8 (ld_Ino r) @ le_bytes 4 (ld_Mask r) @
     ld_Comm r @ replicate 4 0"

definition wf_log_data :: "bpfLogData \<Rightarrow> bool" where
  "wf_log_data r \<longleftrightarrow> length (ld_Comm r) = TASK_COMM_LEN"

lemmas log_data_defs = bytes_log_data_def read_bpfLogData_def bpfLogData_widths_def
  wf_log_data_def TASK_COMM_LEN_def

interpretation log_data: byte_codec wf_log_data bytes_log_data 56 read_bpfLogData
  by unfold_locales (auto simp: log_data_defs)

text \<open>Storing the members one after the other into a zeroed object gives those bytes.\<close>

lemma stores_log_data:
  assumes "wf_log_data r"
  shows "put_field struct_log_data ''comm'' (ld_Comm r)
     (put_field struct_log_data ''mask'' (le_bytes 4 (ld_Mask r))
     (put_field struct_log_data ''dev'' (le_bytes 4 (ld_Dev r))
     (put_field struct_log_data ''ino'' (le_bytes 8 (ld_Ino r))
     (put_field struct_log_data ''uid'' (le_bytes 4 (ld_Uid r))
     (put_field struct_log_data ''gid'' (le_bytes 4 (ld_Gid r))
     (put_field struct_log_data ''pid'' (le_bytes 4 (ld_Pid r))
     (put_field struct_log_data ''tgid'' (le_bytes 4 (ld_Tgid r)) (replicate 56 0)))))))) =
     bytes_log_data r"
  using assms
  by (simp add: put_field_def field_at_log_data overwrite_def bytes_log_data_def wf_log_data_def
      TASK_COMM_LEN_def)

text \<open>Both sides read the same bytes for every field.\<close>

lemma go_reads_c_fields:
  assumes "length bs = 56"
  shows "read_bpfLogData bs = Some
    \<lparr>ld_Pid = le_word (get_field struct_log_data ''pid'' bs),
     ld_Tgid = le_word (get_field struct_log_data ''tgid'' bs),
     ld_Uid = le_word (get_field struct_log_data ''uid'' bs),
     ld_Gid = le_word (get_field struct_log_data ''gid'' bs),
     ld_Dev = le_word (get_field struct_log_data ''dev'' bs),
     ld_Ino = le_word (get_field struct_log_data ''ino'' bs),
     ld_Mask = le_word (get_field struct_log_data ''mask'' bs),
     ld_Comm = get_field struct_log_data ''comm'' bs\<rparr>"
  using assms
  by (simp add: read_bpfLogData_def bpfLogData_widths_def get_field_def layout window_def
      TASK_COMM_LEN_def)

section \<open>Map keys\<close>

text \<open>The key object the probes build: zeroed, then the two members stored.\<close>

definition map_key_object :: "u64 \<Rightarrow> u32 \<Rightarrow> u8 list" where
  "map_key_object ino dev =
     put_field struct_map_key ''dev'' (le_bytes 4 dev)
       (put_field struct_map_key ''inode'' (le_bytes 8 ino) (replicate (size_of struct_map_key) 0))"

interpretation map_key: fixed_width "\<lambda>_. True" bytes_bpfMapKey 16
  by unfold_locales (auto simp: bytes_bpfMapKey_def intro: bpfMapKey.equality)

lemma map_key_object_go:
  "map_key_object ino dev = bytes_bpfMapKey \<lparr>mk_Inode = ino, mk_Dev = dev\<rparr>"
  by (simp add: map_key_object_def put_field_def layout overwrite_def bytes_bpfMapKey_def)

lemma map_key_object_inject [simp]:
  "map_key_object i d = map_key_object i' d' \<longleftrightarrow> i = i' \<and> d = d'"
  by (simp add: map_key_object_go map_key.enc_eq_iff)

section \<open>Properties\<close>

text \<open>The witnesses of the layout properties of \<open>C_Layout\<close>, at the record and at its members.\<close>

theorem members_disjoint_in_order_witness:
  "sorted_wrt (\<lambda>(s, m) (s', m'). s + member_bits m \<le> s')
     (placements False 0 [Fld ''inode'' c_ulong, Fld ''dev'' td_dev_t])"
  using members_disjoint_in_order [of "''map_key''" "[Fld ''inode'' c_ulong, Fld ''dev'' td_dev_t]" False]
    layout_struct_map_key(3) [unfolded struct_map_key_def]
  by blast

theorem named_member_in_bounds_aligned_witness:
  "36 + size_of (CArr c_char TASK_COMM_LEN) \<le> size_of struct_log_data"
  using named_member_in_bounds_aligned [of struct_log_data "''comm''"]
    layout_struct_log_data field_at_log_data(8)
  by blast

text \<open>C30: a ring buffer record of 56 bytes, the size of the C struct, is always decoded by the Go
  side, and every field of \<open>bpfLogData\<close> gets the bytes of the member of \<open>struct log_data\<close> of that
  name, at the offset the C layout gives it.\<close>

theorem record_fields_agree:
  assumes "length bs = size_of struct_log_data"
  shows "sum_list bpfLogData_widths = size_of struct_log_data \<and>
    (\<exists>d. read_bpfLogData bs = Some d \<and>
       ld_Pid d = le_word (get_field struct_log_data ''pid'' bs) \<and>
       ld_Tgid d = le_word (get_field struct_log_data ''tgid'' bs) \<and>
       ld_Uid d = le_word (get_field struct_log_data ''uid'' bs) \<and>
       ld_Gid d = le_word (get_field struct_log_data ''gid'' bs) \<and>
       ld_Dev d = le_word (get_field struct_log_data ''dev'' bs) \<and>
       ld_Ino d = le_word (get_field struct_log_data ''ino'' bs) \<and>
       ld_Mask d = le_word (get_field struct_log_data ''mask'' bs) \<and>
       ld_Comm d = get_field struct_log_data ''comm'' bs)"
  using assms go_reads_c_fields [of bs]
  by (simp add: layout_struct_log_data(1) bpfLogData_widths_def)

theorem record_fields_agree_witness:
  "\<exists>d. read_bpfLogData (replicate 56 0) = Some d \<and>
     ld_Ino d = le_word (get_field struct_log_data ''ino'' (replicate 56 0))"
  using record_fields_agree [of "replicate 56 0"] by (auto simp: layout_struct_log_data(1))

text \<open>A stream of records, each with a name of \<open>TASK_COMM_LEN\<close> bytes, decodes to the records
  that were encoded, one by one and in order; a record cut short is never decoded.\<close>

lemma record_stream_round_trip:
  assumes "\<forall>r \<in> set rs. wf_log_data r"
  shows "List.map_filter read_bpfLogData (map bytes_log_data rs) = rs \<and>
    (\<forall>bs. length bs < size_of struct_log_data \<longrightarrow> read_bpfLogData bs = None)"
  using assms log_data.decode_stream log_data.dec_short by (simp add: layout_struct_log_data(1))


text \<open>C29: the key the eBPF program looks up and the key the operator stores have the same bytes
  exactly when they name the same inode and device.\<close>

theorem map_keys_agree:
  "map_key_object ino dev = bytes_bpfMapKey k \<longleftrightarrow> k = \<lparr>mk_Inode = ino, mk_Dev = dev\<rparr>"
  by (auto simp: map_key_object_go map_key.enc_eq_iff)

end
