(* ===== verification/Kernel_Objects.thy ===== *)
theory Kernel_Objects
  imports Vmlinux_Kernel Log_Data
begin

text \<open>
  Kernel memory as the eBPF program sees it.  \<open>BPF_CORE_READ\<close> (libbpf) reads a member through a
  chain of pointers, at offsets relocated to the running kernel, and yields zero bytes where
  memory cannot be read.  That macro, \<open>PT_REGS_PARMn\<close> and the BPF helpers are not part of the
  repository: the tracer takes them as parameters, and this theory states what their
  documentation promises, over a memory and the types of a running kernel.  The types of the
  header \<open>vmlinux.h\<close> are one such kernel.
\<close>

section \<open>Memory\<close>

type_synonym kmem = "u64 \<Rightarrow> u8 option"

definition load :: "kmem \<Rightarrow> nat \<Rightarrow> u64 \<Rightarrow> u8 list option" where
  "load mem n a = those (map (\<lambda>i. mem (a + of_nat i)) [0..<n])"

text \<open>What a checked kernel read leaves in its destination: the bytes, or zeros on a fault.\<close>

definition checked_read :: "kmem \<Rightarrow> nat \<Rightarrow> u64 \<Rightarrow> u8 list" where
  "checked_read mem n a = (case load mem n a of Some bs \<Rightarrow> bs | None \<Rightarrow> replicate n 0)"

lemma load_Some_length: "load mem n a = Some bs \<Longrightarrow> length bs = n"
proof -
  have those: "those xs = Some ys \<Longrightarrow> length ys = length xs" for xs :: "u8 option list" and ys
    by (induction xs arbitrary: ys) (auto split: option.splits)
  show "load mem n a = Some bs \<Longrightarrow> length bs = n"
    using those unfolding load_def by fastforce
qed

lemma length_checked_read [simp]: "length (checked_read mem n a) = n"
  by (auto simp: checked_read_def load_Some_length split: option.splits)

section \<open>Types of a running kernel\<close>

type_synonym btf = "string \<Rightarrow> ctype option"

definition vmlinux_btf :: btf where
  "vmlinux_btf = map_of
     [(''inode'', struct_inode), (''super_block'', struct_super_block),
      (''task_struct'', struct_task_struct), (''cred'', struct_cred),
      (''pt_regs'', struct_pt_regs)]"

definition btf_field :: "btf \<Rightarrow> string \<Rightarrow> string \<Rightarrow> (nat \<times> ctype) option" where
  "btf_field K s f = (case K s of Some t \<Rightarrow> field_at t f | None \<Rightarrow> None)"

text \<open>Member \<open>f\<close> of the object of type \<open>struct s\<close> at address \<open>a\<close> holds the bytes \<open>bs\<close>.\<close>

definition holds_field :: "kmem \<Rightarrow> btf \<Rightarrow> string \<Rightarrow> u64 \<Rightarrow> string \<Rightarrow> u8 list \<Rightarrow> bool" where
  "holds_field mem K s a f bs \<longleftrightarrow>
     (case btf_field K s f of
        Some (k, u) \<Rightarrow> load mem (size_of u) (a + of_nat k) = Some bs
      | None \<Rightarrow> False)"

text \<open>The documented meaning of \<open>BPF_CORE_READ(a, f1, f2, ...)\<close> with a result of \<open>n\<close> bytes.\<close>

fun core_chain :: "kmem \<Rightarrow> btf \<Rightarrow> (string \<times> string) list \<Rightarrow> nat \<Rightarrow> u64 \<Rightarrow> u8 list" where
  "core_chain mem K [] n a = checked_read mem n a"
| "core_chain mem K ((s, f) # path) n a =
     (let p = a + of_nat (case btf_field K s f of Some (k, _) \<Rightarrow> k | None \<Rightarrow> 0) in
      if path = [] then checked_read mem n p
      else core_chain mem K path n (le_word (checked_read mem 8 p)))"

lemma core_chain_last:
  assumes "holds_field mem K s a f bs"
  shows "core_chain mem K [(s, f)] (length bs) a = bs"
  using assms
  by (auto simp: holds_field_def checked_read_def Let_def load_Some_length
      split: option.splits prod.splits)

lemma core_chain_step:
  assumes "holds_field mem K s a f (le_bytes 8 p)" and "path \<noteq> []"
  shows "core_chain mem K ((s, f) # path) n a = core_chain mem K path n p"
  using assms core_chain_last [OF assms(1)] by (simp add: Let_def)

declare core_chain.simps [simp del]

section \<open>The objects an access touches\<close>

text \<open>An inode with its number and super block, and a super block with its device.\<close>

definition inode_object :: "kmem \<Rightarrow> btf \<Rightarrow> u64 \<Rightarrow> u64 \<Rightarrow> u32 \<Rightarrow> bool" where
  "inode_object mem K a ino dev \<longleftrightarrow>
     (\<exists>sb. holds_field mem K ''inode'' a ''i_ino'' (le_bytes 8 ino) \<and>
           holds_field mem K ''inode'' a ''i_sb'' (le_bytes 8 sb) \<and>
           holds_field mem K ''super_block'' sb ''s_dev'' (le_bytes 4 dev))"

text \<open>The current task: its ids, its name, and the user and group of its credentials.\<close>

definition task_object ::
  "kmem \<Rightarrow> btf \<Rightarrow> u64 \<Rightarrow> u32 \<Rightarrow> u32 \<Rightarrow> u32 \<Rightarrow> u32 \<Rightarrow> u8 list \<Rightarrow> bool" where
  "task_object mem K task tid tgrp user grp name \<longleftrightarrow>
     (\<exists>cred. holds_field mem K ''task_struct'' task ''pid'' (le_bytes 4 tid) \<and>
        holds_field mem K ''task_struct'' task ''tgid'' (le_bytes 4 tgrp) \<and>
        holds_field mem K ''task_struct'' task ''comm'' name \<and>
        holds_field mem K ''task_struct'' task ''cred'' (le_bytes 8 cred) \<and>
        holds_field mem K ''cred'' cred ''uid'' (le_bytes 4 user) \<and>
        holds_field mem K ''cred'' cred ''gid'' (le_bytes 4 grp))"

section \<open>The header's kernel\<close>

lemma field_at_inode [layout]:
  "field_at struct_inode ''i_ino'' = Some (64, c_ulong)"
  "field_at struct_inode ''i_sb'' = Some (40, CPtr ''struct super_block'')"
  unfolding struct_inode_def struct_inode_members_1_def struct_inode_members_2_def field_at_def
  by (simp_all add: layout Let_def)

lemma field_at_super_block [layout]:
  "field_at struct_super_block ''s_dev'' = Some (16, td_dev_t)"
  unfolding struct_super_block_def struct_super_block_members_1_def
    struct_super_block_members_2_def field_at_def
  by (simp add: layout Let_def)

lemma field_at_cred [layout]:
  "field_at struct_cred ''uid'' = Some (8, td_kuid_t)"
  "field_at struct_cred ''gid'' = Some (12, td_kgid_t)"
  unfolding struct_cred_def field_at_def by (simp_all add: layout Let_def)

lemma field_at_pt_regs [layout]:
  "field_at struct_pt_regs ''di'' = Some (112, c_ulong)"
  "field_at struct_pt_regs ''si'' = Some (104, c_ulong)"
  "field_at struct_pt_regs ''dx'' = Some (96, c_ulong)"
  unfolding struct_pt_regs_def field_at_def by (simp_all add: layout Let_def)

text \<open>\<open>struct task_struct\<close> has some 250 members: it is searched one member list at a time.\<close>

lemma find_in_task_struct:
  "find_in False False 0 struct_task_struct_members_1 ''pid'' = None"
  "find_in False False 0 struct_task_struct_members_1 ''tgid'' = None"
  "find_in False False 0 struct_task_struct_members_1 ''cred'' = None"
  "find_in False False 0 struct_task_struct_members_1 ''comm'' = None"
  "find_in False False 16768 struct_task_struct_members_2 ''pid'' = None"
  "find_in False False 16768 struct_task_struct_members_2 ''tgid'' = None"
  "find_in False False 16768 struct_task_struct_members_2 ''cred'' = None"
  "find_in False False 16768 struct_task_struct_members_2 ''comm'' = None"
  unfolding struct_task_struct_members_1_def struct_task_struct_members_2_def
  by (simp_all add: layout Let_def)

lemma find_in_task_struct_ids:
  "find_in False False 19395 struct_task_struct_members_3 ''pid'' = Some (19968, Fld ''pid'' td_pid_t)"
  "find_in False False 19395 struct_task_struct_members_3 ''tgid'' = Some (20000, Fld ''tgid'' td_pid_t)"
  "find_in False False 19395 struct_task_struct_members_3 ''cred'' = None"
  "find_in False False 19395 struct_task_struct_members_3 ''comm'' = None"
  "find_in False False 22720 struct_task_struct_members_4 ''cred'' =
     Some (24192, Fld ''cred'' (CPtr ''struct cred''))"
  "find_in False False 22720 struct_task_struct_members_4 ''comm'' =
     Some (24320, Fld ''comm'' (CArr c_char 16))"
  unfolding struct_task_struct_members_3_def struct_task_struct_members_4_def
  by (simp_all add: layout Let_def)

lemma field_at_task_struct [layout]:
  "field_at struct_task_struct ''pid'' = Some (2496, td_pid_t)"
  "field_at struct_task_struct ''tgid'' = Some (2500, td_pid_t)"
  "field_at struct_task_struct ''cred'' = Some (3024, CPtr ''struct cred'')"
  "field_at struct_task_struct ''comm'' = Some (3040, CArr c_char 16)"
  unfolding struct_task_struct_def field_at_def
  by (simp_all add: find_in_append find_in_task_struct find_in_task_struct_ids layout)

lemmas btf_eval = btf_field_def vmlinux_btf_def layout

lemma btf_field_vmlinux [simp]:
  "btf_field vmlinux_btf ''inode'' ''i_ino'' = Some (64, c_ulong)"
  "btf_field vmlinux_btf ''inode'' ''i_sb'' = Some (40, CPtr ''struct super_block'')"
  "btf_field vmlinux_btf ''super_block'' ''s_dev'' = Some (16, td_dev_t)"
  "btf_field vmlinux_btf ''task_struct'' ''pid'' = Some (2496, td_pid_t)"
  "btf_field vmlinux_btf ''task_struct'' ''tgid'' = Some (2500, td_pid_t)"
  "btf_field vmlinux_btf ''task_struct'' ''cred'' = Some (3024, CPtr ''struct cred'')"
  "btf_field vmlinux_btf ''task_struct'' ''comm'' = Some (3040, CArr c_char 16)"
  "btf_field vmlinux_btf ''cred'' ''uid'' = Some (8, td_kuid_t)"
  "btf_field vmlinux_btf ''cred'' ''gid'' = Some (12, td_kgid_t)"
  by (simp_all add: btf_field_def vmlinux_btf_def field_at_inode field_at_super_block
      field_at_task_struct field_at_cred)

section \<open>Properties\<close>

text \<open>In the kernel types of the header, the members the eBPF program reads are at the offsets
  64 and 40 of an inode and 16 of a super block, and the first three arguments of a probed
  function at 112, 104 and 96 of the saved registers, all inside their struct and aligned.\<close>

lemma header_offsets:
  "offset_of struct_inode ''i_ino'' = 64 \<and> offset_of struct_inode ''i_sb'' = 40 \<and>
   offset_of struct_super_block ''s_dev'' = 16 \<and>
   offset_of struct_pt_regs ''di'' = 112 \<and> offset_of struct_pt_regs ''si'' = 104 \<and>
   offset_of struct_pt_regs ''dx'' = 96 \<and>
   size_of struct_inode = 632 \<and> size_of struct_pt_regs = 168"
  by (simp add: offset_of_def field_at_inode field_at_super_block field_at_pt_regs layout)

section \<open>Properties\<close>

text \<open>The members of a struct by name, empty for one without, with the byte each starts in.\<close>

fun offsets :: "bool \<Rightarrow> nat \<Rightarrow> cmember list \<Rightarrow> (string \<times> nat) list" where
  "offsets p pos [] = []"
| "offsets p pos (Fld n t # ms) = (n, fld_start p pos (align_of t) div 8) #
     offsets p (fld_start p pos (align_of t) + 8 * size_of t) ms"
| "offsets p pos (Bits n t w # ms) = (n, bits_start p pos (size_of t) w div 8) #
     offsets p (bits_start p pos (size_of t) w + w) ms"


text \<open>They are the places of \<open>C_Layout\<close>.\<close>

fun member_name :: "cmember \<Rightarrow> string" where
  "member_name (Fld n _) = n"
| "member_name (Bits n _ _) = n"

lemma offsets_placements: "offsets p pos ms = map (\<lambda>(b, m). (member_name m, b div 8)) (placements p pos ms)"
  by (induction p pos ms rule: offsets.induct) (simp_all add: Let_def)







end
