(* ===== verification/Tracer.thy ===== *)
theory Tracer
  imports Kernel_Objects
begin

text \<open>
  The eBPF program \<open>ebpf/tracer.bpf.c\<close>: two kprobes on \<open>inode_permission\<close>, for kernels before and
  from 5.12, which look the accessed inode up in the map of traced inodes and send a record to
  the ring buffer when it is there.  The BPF helpers and the macros of libbpf are the fields of
  an environment record; the two maps are a state of any types.  Both probes meet the contract
  of the locale \<open>inode_probe\<close>, at different arguments of the probed function.
\<close>

section \<open>Sections\<close>

text \<open>The strings the program puts into the sections of its object file.\<close>

definition LICENSE :: string where "LICENSE = ''Dual MIT/GPL''"

definition probe_section :: string where "probe_section = ''kprobe/inode_permission''"

section \<open>Environment and state\<close>

record pt_regs =
  pr_r15 :: u64  pr_r14 :: u64  pr_r13 :: u64  pr_r12 :: u64
  pr_bp :: u64  pr_bx :: u64
  pr_r11 :: u64  pr_r10 :: u64  pr_r9 :: u64  pr_r8 :: u64
  pr_ax :: u64  pr_cx :: u64  pr_dx :: u64  pr_si :: u64  pr_di :: u64
  pr_orig_ax :: u64  pr_ip :: u64  pr_csx :: u64
  pr_flags :: u64  pr_sp :: u64  pr_ssx :: u64

text \<open>
  \<open>be_parm n\<close> is \<open>PT_REGS_PARMn\<close>, \<open>be_core_read\<close> is \<open>BPF_CORE_READ\<close> (source pointer, path of
  struct tags and members, size of the result); then \<open>bpf_get_current_pid_tgid\<close>,
  \<open>bpf_get_current_uid_gid\<close>, \<open>bpf_get_current_comm\<close> (what it leaves in a buffer of a size),
  \<open>bpf_map_lookup_elem\<close> (\<open>None\<close> for a null pointer) and \<open>bpf_ringbuf_output\<close>.
\<close>

record ('m, 'r) bpf_env =
  be_parm :: "nat \<Rightarrow> pt_regs \<Rightarrow> u64"
  be_core_read :: "u64 \<Rightarrow> (string \<times> string) list \<Rightarrow> nat \<Rightarrow> u8 list"
  be_pid_tgid :: u64
  be_uid_gid :: u64
  be_comm :: "nat \<Rightarrow> u8 list"
  be_lookup :: "'m \<Rightarrow> u8 list \<Rightarrow> u8 option"
  be_output :: "'r \<Rightarrow> u8 list \<Rightarrow> 'r"

record ('m, 'r) bpf_maps =
  traced_inodes :: 'm
  rb :: 'r

section \<open>The program\<close>

definition kprobe_output ::
  "('m, 'r) bpf_env \<Rightarrow> u64 \<Rightarrow> u32 \<Rightarrow> u32 \<Rightarrow> ('m, 'r) bpf_maps \<Rightarrow> ('m, 'r) bpf_maps" where
  "kprobe_output env inode dev msk st =
    (let data = replicate (size_of struct_log_data) 0;
         pid_tgid = be_pid_tgid env;
         uid_gid = be_uid_gid env;
         data = put_field struct_log_data ''tgid'' (le_bytes 4 (ucast (drop_bit 32 pid_tgid) :: u32)) data;
         data = put_field struct_log_data ''pid'' (le_bytes 4 (ucast pid_tgid :: u32)) data;
         data = put_field struct_log_data ''gid'' (le_bytes 4 (ucast (drop_bit 32 uid_gid) :: u32)) data;
         data = put_field struct_log_data ''uid'' (le_bytes 4 (ucast uid_gid :: u32)) data;
         data = put_field struct_log_data ''ino'' (le_bytes 8 inode) data;
         data = put_field struct_log_data ''dev'' (le_bytes 4 dev) data;
         data = put_field struct_log_data ''mask'' (le_bytes 4 msk) data;
         data = put_field struct_log_data ''comm'' (be_comm env TASK_COMM_LEN) data
     in st\<lparr>rb := be_output env (rb st) data\<rparr>)"

text \<open>For kernels before 5.12: \<open>inode_permission(inode, mask)\<close>.\<close>

definition kprobe_inode_permission_old ::
  "('m, 'r) bpf_env \<Rightarrow> pt_regs \<Rightarrow> ('m, 'r) bpf_maps \<Rightarrow> int \<times> ('m, 'r) bpf_maps" where
  "kprobe_inode_permission_old env ctx st =
    (let inode = be_parm env 1 ctx;
         msk = ucast (be_parm env 2 ctx) :: u32
     in if inode = 0 then (0, st)
        else let ino = le_word (be_core_read env inode [(''inode'', ''i_ino'')] 8) :: u64;
                 dev = le_word (be_core_read env inode
                         [(''inode'', ''i_sb''), (''super_block'', ''s_dev'')] 4) :: u32;
                 key = replicate (size_of struct_map_key) 0;
                 key = put_field struct_map_key ''inode'' (le_bytes 8 ino) key;
                 key = put_field struct_map_key ''dev'' (le_bytes 4 dev) key
             in if be_lookup env (traced_inodes st) key \<noteq> None
                then (0, kprobe_output env ino dev msk st)
                else (0, st))"

text \<open>From 5.12: \<open>inode_permission(idmap, inode, mask)\<close>.\<close>

definition kprobe_inode_permission_new ::
  "('m, 'r) bpf_env \<Rightarrow> pt_regs \<Rightarrow> ('m, 'r) bpf_maps \<Rightarrow> int \<times> ('m, 'r) bpf_maps" where
  "kprobe_inode_permission_new env ctx st =
    (let inode = be_parm env 2 ctx;
         msk = ucast (be_parm env 3 ctx) :: u32
     in if inode = 0 then (0, st)
        else let ino = le_word (be_core_read env inode [(''inode'', ''i_ino'')] 8) :: u64;
                 dev = le_word (be_core_read env inode
                         [(''inode'', ''i_sb''), (''super_block'', ''s_dev'')] 4) :: u32;
                 key = replicate (size_of struct_map_key) 0;
                 key = put_field struct_map_key ''inode'' (le_bytes 8 ino) key;
                 key = put_field struct_map_key ''dev'' (le_bytes 4 dev) key
             in if be_lookup env (traced_inodes st) key \<noteq> None
                then (0, kprobe_output env ino dev msk st)
                else (0, st))"

section \<open>What the environment promises\<close>

text \<open>\<open>PT_REGS_PARM1\<close> to \<open>3\<close> on x86-64, the calling convention's first three registers.\<close>

definition parms_x86_64 :: "('m, 'r) bpf_env \<Rightarrow> bool" where
  "parms_x86_64 env \<longleftrightarrow>
     be_parm env 1 = pr_di \<and> be_parm env 2 = pr_si \<and> be_parm env 3 = pr_dx"

text \<open>\<open>BPF_CORE_READ\<close> over a memory and the types of the running kernel.\<close>

definition core_reads :: "('m, 'r) bpf_env \<Rightarrow> kmem \<Rightarrow> btf \<Rightarrow> bool" where
  "core_reads env mem K \<longleftrightarrow>
     (\<forall>a path n. path \<noteq> [] \<longrightarrow> be_core_read env a path n = core_chain mem K path n a)"

definition comm_fills :: "('m, 'r) bpf_env \<Rightarrow> bool" where
  "comm_fills env \<longleftrightarrow> length (be_comm env TASK_COMM_LEN) = TASK_COMM_LEN"

text \<open>The id helpers pack two members of the current task, and of its credentials, in a word.\<close>

definition current_task ::
  "('m, 'r) bpf_env \<Rightarrow> kmem \<Rightarrow> btf \<Rightarrow> u64 \<Rightarrow> u32 \<Rightarrow> u32 \<Rightarrow> u32 \<Rightarrow> u32 \<Rightarrow> u8 list \<Rightarrow> bool" where
  "current_task env mem K task tid tgrp user grp name \<longleftrightarrow>
     task_object mem K task tid tgrp user grp name \<and> length name = TASK_COMM_LEN \<and>
     be_pid_tgid env = push_bit 32 (ucast tgrp) OR ucast tid \<and>
     be_uid_gid env = push_bit 32 (ucast grp) OR ucast user \<and>
     be_comm env TASK_COMM_LEN = name"

section \<open>The record of an access\<close>

definition log_entry :: "('m, 'r) bpf_env \<Rightarrow> u64 \<Rightarrow> u32 \<Rightarrow> u32 \<Rightarrow> bpfLogData" where
  "log_entry env ino dev msk =
     \<lparr>ld_Pid = ucast (be_pid_tgid env), ld_Tgid = ucast (drop_bit 32 (be_pid_tgid env)),
      ld_Uid = ucast (be_uid_gid env), ld_Gid = ucast (drop_bit 32 (be_uid_gid env)),
      ld_Dev = dev, ld_Ino = ino, ld_Mask = msk, ld_Comm = be_comm env TASK_COMM_LEN\<rparr>"

lemma wf_log_entry [simp]: "comm_fills env \<Longrightarrow> wf_log_data (log_entry env ino dev msk)"
  by (simp add: wf_log_data_def log_entry_def comm_fills_def)

lemma kprobe_output_record:
  assumes "comm_fills env"
  shows "kprobe_output env ino dev msk st =
     st\<lparr>rb := be_output env (rb st) (bytes_log_data (log_entry env ino dev msk))\<rparr>"
  using stores_log_data [OF wf_log_entry [OF assms], of ino dev msk]
  by (simp add: kprobe_output_def Let_def layout log_entry_def put_field_def)

text \<open>The two halves of a packed pair of ids.\<close>

lemma unpack_ids:
  "ucast (push_bit 32 (ucast hi) OR ucast lo :: u64) = (lo :: u32)"
  "ucast (drop_bit 32 (push_bit 32 (ucast hi)) OR drop_bit 32 (ucast lo :: u64)) = (hi :: u32)"
proof -
  have "\<not> bit lo (32 + n)" for n
    using bit_imp_le_length [of lo "32 + n"] by auto
  then show "ucast (push_bit 32 (ucast hi) OR ucast lo :: u64) = lo"
    "ucast (drop_bit 32 (push_bit 32 (ucast hi)) OR drop_bit 32 (ucast lo :: u64)) = hi"
    by (auto intro!: bit_word_eqI simp: bit_simps)
qed

lemma log_entry_of_task:
  assumes "current_task env mem K task tid tgrp user grp name"
  shows "log_entry env ino dev msk =
    \<lparr>ld_Pid = tid, ld_Tgid = tgrp, ld_Uid = user, ld_Gid = grp, ld_Dev = dev, ld_Ino = ino,
     ld_Mask = msk, ld_Comm = name\<rparr>"
  using assms by (simp add: log_entry_def current_task_def unpack_ids)

lemma current_task_comm:
  "current_task env mem K task tid tgrp user grp name \<Longrightarrow> comm_fills env"
  by (simp add: current_task_def comm_fills_def)

section \<open>The inode of an access\<close>

definition read_ino :: "('m, 'r) bpf_env \<Rightarrow> u64 \<Rightarrow> u64" where
  "read_ino env inode = le_word (be_core_read env inode [(''inode'', ''i_ino'')] 8)"

definition read_dev :: "('m, 'r) bpf_env \<Rightarrow> u64 \<Rightarrow> u32" where
  "read_dev env inode = le_word (be_core_read env inode
     [(''inode'', ''i_sb''), (''super_block'', ''s_dev'')] 4)"

lemma read_object:
  assumes "core_reads env mem K" and "inode_object mem K a ino dev"
  shows "read_ino env a = ino" and "read_dev env a = dev"
proof -
  from assms(2) obtain sb where
      i: "holds_field mem K ''inode'' a ''i_ino'' (le_bytes 8 ino)"
    and s: "holds_field mem K ''inode'' a ''i_sb'' (le_bytes 8 sb)"
    and d: "holds_field mem K ''super_block'' sb ''s_dev'' (le_bytes 4 dev)"
    by (auto simp: inode_object_def)
  from core_chain_last [OF i] have "core_chain mem K [(''inode'', ''i_ino'')] 8 a = le_bytes 8 ino"
    by simp
  with assms(1) show "read_ino env a = ino" by (simp add: read_ino_def core_reads_def)
  from core_chain_last [OF d] core_chain_step [OF s]
  have "core_chain mem K [(''inode'', ''i_sb''), (''super_block'', ''s_dev'')] 4 a = le_bytes 4 dev"
    by simp
  with assms(1) show "read_dev env a = dev" by (simp add: read_dev_def core_reads_def)
qed

section \<open>The contract of a probe\<close>

locale inode_probe =
  fixes prog :: "('m, 'r) bpf_env \<Rightarrow> pt_regs \<Rightarrow> ('m, 'r) bpf_maps \<Rightarrow> int \<times> ('m, 'r) bpf_maps"
    and arg :: nat and mask_arg :: nat
  assumes null_inode: "be_parm env arg ctx = 0 \<Longrightarrow> prog env ctx st = (0, st)"
    and untraced: "be_parm env arg ctx = a \<Longrightarrow> a \<noteq> 0 \<Longrightarrow>
      be_lookup env (traced_inodes st) (map_key_object (read_ino env a) (read_dev env a)) = None \<Longrightarrow>
      prog env ctx st = (0, st)"
    and traced: "be_parm env arg ctx = a \<Longrightarrow> a \<noteq> 0 \<Longrightarrow>
      be_lookup env (traced_inodes st) (map_key_object (read_ino env a) (read_dev env a)) \<noteq> None \<Longrightarrow>
      prog env ctx st =
        (0, kprobe_output env (read_ino env a) (read_dev env a) (ucast (be_parm env mask_arg ctx)) st)"
begin

lemma returns_zero: "fst (prog env ctx st) = 0"
  using null_inode untraced traced by (metis fst_conv)

lemma keeps_traced: "traced_inodes (snd (prog env ctx st)) = traced_inodes st"
proof (cases "be_parm env arg ctx = 0")
  case True
  then show ?thesis by (simp add: null_inode)
next
  case False
  let ?k = "map_key_object (read_ino env (be_parm env arg ctx)) (read_dev env (be_parm env arg ctx))"
  show ?thesis
  proof (cases "be_lookup env (traced_inodes st) ?k")
    case None
    with False show ?thesis by (simp add: untraced [OF refl])
  next
    case (Some v)
    with False traced [OF refl, of env ctx st] show ?thesis by (simp add: kprobe_output_def Let_def)
  qed
qed

lemma access:
  assumes "be_parm env arg ctx = a" and "a \<noteq> 0" and "core_reads env mem K"
    and "inode_object mem K a ino dev" and "comm_fills env"
  shows "prog env ctx st = (0,
     if be_lookup env (traced_inodes st) (map_key_object ino dev) = None then st
     else st\<lparr>rb := be_output env (rb st)
       (bytes_log_data (log_entry env ino dev (ucast (be_parm env mask_arg ctx))))\<rparr>)"
  using read_object [OF assms(3,4)] untraced [OF assms(1,2), of st] traced [OF assms(1,2), of st]
  by (simp add: kprobe_output_record [OF assms(5)])

end

interpretation old_probe: inode_probe kprobe_inode_permission_old 1 2
  by unfold_locales
    (simp_all add: kprobe_inode_permission_old_def Let_def map_key_object_def read_ino_def
      read_dev_def)

interpretation new_probe: inode_probe kprobe_inode_permission_new 2 3
  by unfold_locales
    (simp_all add: kprobe_inode_permission_new_def Let_def map_key_object_def read_ino_def
      read_dev_def)

section \<open>Properties\<close>

text \<open>Whatever the helpers and the kernel memory hold, both probes return 0 and leave the map of
  traced inodes as it is; a call with a null inode leaves everything as it is.\<close>

lemma probes_harmless:
  "fst (kprobe_inode_permission_old env ctx st) = 0 \<and>
   fst (kprobe_inode_permission_new env ctx st) = 0 \<and>
   traced_inodes (snd (kprobe_inode_permission_old env ctx st)) = traced_inodes st \<and>
   traced_inodes (snd (kprobe_inode_permission_new env ctx st)) = traced_inodes st \<and>
   kprobe_inode_permission_old (env\<lparr>be_parm := (be_parm env)(1 := \<lambda>_. 0)\<rparr>) ctx st = (0, st) \<and>
   kprobe_inode_permission_new (env\<lparr>be_parm := (be_parm env)(2 := \<lambda>_. 0)\<rparr>) ctx st = (0, st)"
  using old_probe.null_inode [of "env\<lparr>be_parm := (be_parm env)(1 := \<lambda>_. 0)\<rparr>" ctx st]
    new_probe.null_inode [of "env\<lparr>be_parm := (be_parm env)(2 := \<lambda>_. 0)\<rparr>" ctx st]
  by (simp add: old_probe.returns_zero new_probe.returns_zero old_probe.keeps_traced
      new_probe.keeps_traced)

end
