(* ===== verification/Go_Lib.thy ===== *)
theory Go_Lib
  imports Kive_Prelude "HOL-Library.Sublist"
begin

text \<open>
  The parts of Go's standard library the operator uses: \<open>strings\<close> (\<open>Split\<close>, \<open>SplitN\<close>, \<open>Join\<close>,
  \<open>HasPrefix\<close>, \<open>TrimPrefix\<close>, \<open>TrimSpace\<close>) and \<open>strconv\<close> (\<open>FormatUint\<close> in base 10, \<open>Atoi\<close>), on strings
  as lists of bytes.  \<open>outcome\<close> is a Go call that can also panic.
\<close>

datatype 'a outcome = Return 'a | Error string | Panic

fun bind_outcome :: "'a outcome \<Rightarrow> ('a \<Rightarrow> 'b outcome) \<Rightarrow> 'b outcome" where
  "bind_outcome (Return x) f = f x"
| "bind_outcome (Error e) f = Error e"
| "bind_outcome Panic f = Panic"

section \<open>strings\<close>

text \<open>\<open>strings.Split\<close> with a one-byte separator: always at least one part.\<close>

fun split_char :: "char \<Rightarrow> string \<Rightarrow> string list" where
  "split_char c [] = [[]]"
| "split_char c (x # xs) =
     (if x = c then [] # split_char c xs
      else case split_char c xs of [] \<Rightarrow> [[x]] | y # ys \<Rightarrow> (x # y) # ys)"

lemma split_char_ne [simp]: "split_char c xs \<noteq> []"
  by (induction xs) (auto split: list.splits)

lemma split_char_none [simp]: "c \<notin> set xs \<Longrightarrow> split_char c xs = [xs]"
  by (induction xs) auto

lemma split_char_append [simp]:
  "c \<notin> set xs \<Longrightarrow> split_char c (xs @ c # ys) = xs # split_char c ys"
  by (induction xs) auto

text \<open>\<open>strings.Join\<close>.\<close>

fun join_with :: "string \<Rightarrow> string list \<Rightarrow> string" where
  "join_with sep [] = []"
| "join_with sep [x] = x"
| "join_with sep (x # xs) = x @ sep @ join_with sep xs"

lemma join_split_char: "join_with [c] (split_char c xs) = xs"
proof (induction xs)
  case (Cons x xs)
  then show ?case
    by (cases "split_char c xs"; cases "tl (split_char c xs)") auto
qed simp

lemma split_char_parts: "p \<in> set (split_char c xs) \<Longrightarrow> c \<notin> set p"
  by (induction xs arbitrary: p) (auto split: list.splits if_splits)

text \<open>\<open>strings.SplitN(s, sep, 2)\<close> where the separator occurs: the parts around the first one.\<close>

fun cut_at :: "string \<Rightarrow> string \<Rightarrow> (string \<times> string) option" where
  "cut_at sep [] = (if sep = [] then Some ([], []) else None)"
| "cut_at sep (x # xs) =
     (if prefix sep (x # xs) then Some ([], drop (length sep) (x # xs))
      else map_option (\<lambda>(a, b). (x # a, b)) (cut_at sep xs))"

lemma cut_at_Some: "cut_at sep s = Some (a, b) \<Longrightarrow> s = a @ sep @ b"
proof (induction s arbitrary: a b)
  case (Cons x xs)
  then show ?case by (auto simp: prefix_def split: if_splits)
qed (simp split: if_splits)

lemma cut_at_None: "cut_at sep s = None \<longleftrightarrow> \<not> sublist sep s"
proof (induction s)
  case (Cons x xs)
  then show ?case by (auto simp: sublist_Cons_right)
qed simp

lemma cut_at_first:
  assumes "sep \<noteq> []" and "hd sep \<notin> set a"
  shows "cut_at sep (a @ sep @ b) = Some (a, b)"
  using assms(2)
proof (induction a)
  case Nil
  from assms(1) obtain y ys where "sep = y # ys" by (cases sep) auto
  then show ?case by simp
next
  case (Cons x xs)
  from assms(1) obtain y ys where "sep = y # ys" by (cases sep) auto
  with Cons show ?case by (auto simp: prefix_def)
qed

text \<open>\<open>strings.TrimPrefix\<close> and \<open>strings.TrimSpace\<close> (ASCII white space).\<close>

definition trim_prefix :: "string \<Rightarrow> string \<Rightarrow> string" where
  "trim_prefix s p = (if prefix p s then drop (length p) s else s)"

definition is_space :: "char \<Rightarrow> bool" where
  "is_space c \<longleftrightarrow> of_char c \<in> {9, 10, 11, 12, 13, 32 :: nat}"

definition trim_space :: "string \<Rightarrow> string" where
  "trim_space s = rev (dropWhile is_space (rev (dropWhile is_space s)))"

section \<open>strconv\<close>

definition digit_char :: "nat \<Rightarrow> char" where
  "digit_char d = char_of (48 + d)"

definition digit_val :: "char \<Rightarrow> nat" where
  "digit_val c = of_char c - 48"

definition is_digit :: "char \<Rightarrow> bool" where
  "is_digit c \<longleftrightarrow> of_char c \<in> {48..57 :: nat}"

text \<open>\<open>strconv.FormatUint(n, 10)\<close>.\<close>

fun format_uint :: "nat \<Rightarrow> string" where
  "format_uint n =
     (if n < 10 then [digit_char n] else format_uint (n div 10) @ [digit_char (n mod 10)])"

declare format_uint.simps [simp del]

definition digits_val :: "string \<Rightarrow> nat" where
  "digits_val s = foldl (\<lambda>v c. 10 * v + digit_val c) 0 s"

text \<open>\<open>strconv.Atoi\<close> on a 64-bit platform: an optional sign and decimal digits, in range.\<close>

definition atoi :: "string \<Rightarrow> int option" where
  "atoi s =
     (let neg = (s \<noteq> [] \<and> hd s = CHR ''-'');
          ds = (if s \<noteq> [] \<and> (hd s = CHR ''-'' \<or> hd s = CHR ''+'') then tl s else s);
          v = (if neg then - int (digits_val ds) else int (digits_val ds))
      in if ds = [] \<or> \<not> list_all is_digit ds \<or> v < - (2 ^ 63) \<or> 2 ^ 63 \<le> v then None else Some v)"

lemma of_char_digit [simp]: "d < 10 \<Longrightarrow> of_char (digit_char d) = 48 + d"
  by (simp add: digit_char_def)

lemma digit_val_char [simp]: "d < 10 \<Longrightarrow> digit_val (digit_char d) = d"
  by (simp add: digit_val_def)

lemma is_digit_char [simp]: "d < 10 \<Longrightarrow> is_digit (digit_char d)"
  by (simp add: is_digit_def)

lemma digits_val_snoc [simp]: "digits_val (s @ [c]) = 10 * digits_val s + digit_val c"
  by (simp add: digits_val_def)

lemma format_uint_digits: "list_all is_digit (format_uint n)"
  by (induction n rule: format_uint.induct) (subst format_uint.simps, simp)

lemma format_uint_ne [simp]: "format_uint n \<noteq> []"
  by (subst format_uint.simps) simp

lemma digits_val_format [simp]: "digits_val (format_uint n) = n"
proof (induction n rule: format_uint.induct)
  case (1 n)
  show ?case
  proof (cases "n < 10")
    case True
    then show ?thesis by (subst format_uint.simps) (simp add: digits_val_def)
  next
    case False
    with 1 show ?thesis by (subst format_uint.simps) simp
  qed
qed

lemma format_uint_inject [simp]: "format_uint m = format_uint n \<longleftrightarrow> m = n"
  by (metis digits_val_format)

lemma not_digit_format: "\<not> is_digit c \<Longrightarrow> c \<notin> set (format_uint n)"
  using format_uint_digits [of n] by (auto simp: list_all_iff)

lemma atoi_format: "n < 2 ^ 63 \<Longrightarrow> atoi (format_uint n) = Some (int n)"
proof -
  assume n: "n < 2 ^ 63"
  obtain c cs where f: "format_uint n = c # cs" by (cases "format_uint n") auto
  then have "is_digit c" using format_uint_digits [of n] by simp
  then have "c \<noteq> CHR ''-''" "c \<noteq> CHR ''+''" by (auto simp: is_digit_def)
  moreover have "int n < 2 ^ 63" using n by (metis of_nat_less_iff of_nat_numeral of_nat_power)
  ultimately show ?thesis
    using f format_uint_digits [of n] digits_val_format [of n]
    by (simp add: atoi_def Let_def)
qed

end
