(* ===== verification/Ebpf_Utils.thy ===== *)
theory Ebpf_Utils
  imports Log_Data Go_Lib
begin

text \<open>
  \<open>ebpf/utils.go\<close>: adding and removing an inode of the kernel map, the conversion of C character
  arrays, the split of a command line, and the check of the kernel's version.  The map
  operations of the library cilium/ebpf are a record of parameters; \<open>traced_map\<close> states what the
  kernel documents of a hash map, and \<open>hash_ops\<close> is such a map with its limit of entries.
\<close>

section \<open>The map of traced inodes\<close>

record 'm map_ops =
  mo_update :: "'m \<Rightarrow> bpfMapKey \<Rightarrow> u8 \<Rightarrow> string + 'm"
  mo_delete :: "'m \<Rightarrow> bpfMapKey \<Rightarrow> string + 'm"

definition AddInode :: "'m map_ops \<Rightarrow> bpfMapKey \<Rightarrow> 'm \<Rightarrow> string option \<times> 'm" where
  "AddInode ops mapKey m =
     (let one = 1 in
      case mo_update ops m mapKey one of
        Inl err \<Rightarrow> (Some (''AddInode Error: '' @ err), m)
      | Inr m' \<Rightarrow> (None, m'))"

definition RemoveInode :: "'m map_ops \<Rightarrow> bpfMapKey \<Rightarrow> 'm \<Rightarrow> string option \<times> 'm" where
  "RemoveInode ops mapKey m =
     (case mo_delete ops m mapKey of
        Inl err \<Rightarrow> (Some (''RemoveInode Error: '' @ err), m)
      | Inr m' \<Rightarrow> (None, m'))"

text \<open>
  The documented behaviour of \<open>BPF_MAP_TYPE_HASH\<close>, where \<open>look\<close> is what the kernel's
  \<open>bpf_map_lookup_elem\<close> finds under the bytes of a key: a successful update changes its key and
  no other, so does a successful delete, and a delete fails exactly when the key is absent.
\<close>

definition traced_map :: "('m \<Rightarrow> u8 list \<Rightarrow> u8 option) \<Rightarrow> 'm map_ops \<Rightarrow> bool" where
  "traced_map look ops \<longleftrightarrow>
     (\<forall>m k v m'. mo_update ops m k v = Inr m' \<longrightarrow> look m' = (look m)(bytes_bpfMapKey k \<mapsto> v)) \<and>
     (\<forall>m k m'. mo_delete ops m k = Inr m' \<longrightarrow> look m' = (look m)(bytes_bpfMapKey k := None)) \<and>
     (\<forall>m k. is_ok (mo_delete ops m k) \<longleftrightarrow> look m (bytes_bpfMapKey k) \<noteq> None)"

text \<open>The keys the map traces.\<close>

definition traced :: "('m \<Rightarrow> u8 list \<Rightarrow> u8 option) \<Rightarrow> 'm \<Rightarrow> bpfMapKey set" where
  "traced look m = {k. look m (bytes_bpfMapKey k) \<noteq> None}"

lemma traced_iff: "k \<in> traced look m \<longleftrightarrow> look m (bytes_bpfMapKey k) \<noteq> None"
  by (simp add: traced_def)

lemma AddInode_cases:
  assumes "traced_map look ops"
  shows "AddInode ops k m = (e, m') \<Longrightarrow>
     e = None \<and> traced look m' = insert k (traced look m) \<or> e \<noteq> None \<and> m' = m"
  using assms map_key.enc_eq_iff
  by (auto simp: AddInode_def traced_map_def traced_def Let_def split: sum.splits)

lemma RemoveInode_cases:
  assumes "traced_map look ops"
  shows "RemoveInode ops k m = (e, m') \<Longrightarrow>
     e = None \<and> k \<in> traced look m \<and> traced look m' = traced look m - {k} \<or>
     e \<noteq> None \<and> m' = m \<and> k \<notin> traced look m"
proof (cases "mo_delete ops m k")
  case (Inl err)
  moreover from assms have "\<not> is_ok (mo_delete ops m k) \<Longrightarrow> look m (bytes_bpfMapKey k) = None"
    by (auto simp: traced_map_def)
  moreover assume "RemoveInode ops k m = (e, m')"
  ultimately show ?thesis by (auto simp: RemoveInode_def traced_def)
next
  case (Inr n)
  moreover from assms have "is_ok (mo_delete ops m k) \<Longrightarrow> look m (bytes_bpfMapKey k) \<noteq> None"
    by (auto simp: traced_map_def)
  moreover assume "RemoveInode ops k m = (e, m')"
  ultimately show ?thesis using assms map_key.enc_eq_iff
    by (auto simp: RemoveInode_def traced_def traced_map_def)
qed

text \<open>An update is refused only when the map has no room for a further key.\<close>

definition has_room :: "('m \<Rightarrow> u8 list \<Rightarrow> u8 option) \<Rightarrow> 'm map_ops \<Rightarrow> nat \<Rightarrow> bool" where
  "has_room look ops n \<longleftrightarrow>
     (\<forall>m k v. card (insert k (traced look m)) \<le> n \<longrightarrow> is_ok (mo_update ops m k v))"

lemma AddInode_room:
  assumes "traced_map look ops" and "has_room look ops n" and "card (insert k (traced look m)) \<le> n"
  shows "fst (AddInode ops k m) = None \<and>
    traced look (snd (AddInode ops k m)) = insert k (traced look m)"
proof -
  from assms(2,3) have "is_ok (mo_update ops m k 1)" by (simp add: has_room_def)
  then have "fst (AddInode ops k m) = None" by (auto simp: AddInode_def is_ok_iff)
  with AddInode_cases [OF assms(1), of k m] show ?thesis
    by (metis prod.collapse)
qed

lemma RemoveInode_traced:
  "traced_map look ops \<Longrightarrow> traced look (snd (RemoveInode ops k m)) = traced look m - {k}"
  using RemoveInode_cases [of look ops k m] by (cases "RemoveInode ops k m") auto

text \<open>A hash map of at most \<open>MAP_MAX_ENTRIES\<close> keys, as the declaration in \<open>maps.h\<close> bounds it.\<close>

definition hash_look :: "(bpfMapKey \<times> u8) list \<Rightarrow> u8 list \<Rightarrow> u8 option" where
  "hash_look m = map_of (map (\<lambda>e. (bytes_bpfMapKey (fst e), snd e)) m)"

definition hash_ops :: "(bpfMapKey \<times> u8) list map_ops" where
  "hash_ops =
     \<lparr>mo_update = (\<lambda>m k v.
        if map_of m k = None \<and> md_max_entries traced_inodes_decl \<le> length (remdups (map fst m))
        then Inl ''argument list too long''
        else Inr ((k, v) # filter (\<lambda>e. fst e \<noteq> k) m)),
      mo_delete = (\<lambda>m k.
        if map_of m k = None then Inl ''key does not exist''
        else Inr (filter (\<lambda>e. fst e \<noteq> k) m))\<rparr>"

lemma hash_look_bytes [simp]: "hash_look m (bytes_bpfMapKey k) = map_of m k"
  using map_key.enc_eq_iff by (induction m) (auto simp: hash_look_def)

lemma hash_look_Cons [simp]: "hash_look ((k, v) # m) = (hash_look m)(bytes_bpfMapKey k \<mapsto> v)"
  by (simp add: hash_look_def)

lemma hash_look_filter:
  "hash_look (filter (\<lambda>e. fst e \<noteq> k) m) = (hash_look m)(bytes_bpfMapKey k := None)"
  using map_key.enc_eq_iff by (induction m) (auto simp: hash_look_def fun_upd_def)

lemma traced_map_hash: "traced_map hash_look hash_ops"
  by (auto simp: traced_map_def hash_ops_def hash_look_filter is_ok_iff split: if_splits)

lemma traced_hash: "traced hash_look m = fst ` set m"
  by (auto simp: traced_def map_of_eq_None_iff)

lemma has_room_hash: "has_room hash_look hash_ops MAP_MAX_ENTRIES"
  unfolding has_room_def
proof (intro allI impI)
  fix m :: "(bpfMapKey \<times> u8) list" and k v
  assume c: "card (insert k (traced hash_look m)) \<le> MAP_MAX_ENTRIES"
  show "is_ok (mo_update hash_ops m k v)"
  proof (cases "map_of m k")
    case None
    then have "k \<notin> fst ` set m" by (simp add: map_of_eq_None_iff)
    with c have "card (fst ` set m) < MAP_MAX_ENTRIES" by (simp add: traced_hash)
    then have "length (remdups (map fst m)) < MAP_MAX_ENTRIES"
      by (simp add: length_remdups_card_conv)
    then show ?thesis by (simp add: hash_ops_def traced_inodes_decl_def is_ok_iff)
  qed (simp add: hash_ops_def is_ok_iff)
qed

section \<open>Character arrays and command lines\<close>

text \<open>The elements are C characters, given by their bytes; the string ends at the first zero.\<close>

definition int8ArrayToString :: "u8 list \<Rightarrow> string" where
  "int8ArrayToString arr = map (\<lambda>b. char_of (unat b)) (takeWhile (\<lambda>b. b \<noteq> 0) arr)"

definition c_bytes :: "string \<Rightarrow> u8 list" where
  "c_bytes s = map (\<lambda>c. of_nat (of_char c)) s"

lemma c_bytes_nonzero:
  "CHR 0x00 \<notin> set s \<Longrightarrow> \<forall>b \<in> set (c_bytes s). b \<noteq> 0"
proof
  fix b assume nul: "CHR 0x00 \<notin> set s" and "b \<in> set (c_bytes s)"
  then obtain c where c: "c \<in> set s" "b = of_nat (of_char c)" by (auto simp: c_bytes_def)
  have "of_char c < (256::nat)" by simp
  with c(2) have "unat b = of_char c" by (simp add: unat_of_nat take_bit_eq_mod)
  moreover have "of_char c \<noteq> (0::nat)"
  proof
    assume "of_char c = (0::nat)"
    then have "char_of (of_char c :: nat) = char_of (0 :: nat)" by simp
    then have "c = char_of (0 :: nat)" by simp
    also have "\<dots> = CHR 0x00" by (simp add: char_of_def)
    finally have "c = CHR 0x00" .
    with nul c(1) show False by simp
  qed
  ultimately show "b \<noteq> 0" by auto
qed

lemma chars_c_bytes: "map (\<lambda>b. char_of (unat b)) (c_bytes s) = s"
proof -
  have "char_of (unat (of_nat (of_char c) :: u8)) = c" for c
  proof -
    have "of_char c < (256::nat)" by simp
    then have "unat (of_nat (of_char c) :: u8) = of_char c" by (simp add: unat_of_nat take_bit_eq_mod)
    then show ?thesis by simp
  qed
  then show ?thesis by (simp add: c_bytes_def o_def)
qed

lemma int8ArrayToString_c_string:
  assumes "CHR 0x00 \<notin> set s"
  shows "int8ArrayToString (c_bytes s @ 0 # rest) = s"
    and "int8ArrayToString (c_bytes s) = s"
  using c_bytes_nonzero [OF assms] chars_c_bytes [of s]
  by (simp_all add: int8ArrayToString_def takeWhile_append2 takeWhile_eq_all_conv [THEN iffD2])

definition parseCmdline :: "string \<Rightarrow> string \<times> string" where
  "parseCmdline cmdline =
     (let parts = split_char (CHR 0x00) cmdline;
          cleaned = filter (\<lambda>part. part \<noteq> []) parts
      in case cleaned of
           [] \<Rightarrow> ([], [])
         | b # args \<Rightarrow> (b, if args \<noteq> [] then join_with '' '' args else []))"

text \<open>What \<open>/proc/<pid>/cmdline\<close> holds: each argument followed by a zero byte.\<close>

definition cmdline_of :: "string list \<Rightarrow> string" where
  "cmdline_of argv = concat (map (\<lambda>a. a @ [CHR 0x00]) argv)"

lemma split_cmdline:
  "\<forall>a \<in> set argv. CHR 0x00 \<notin> set a \<Longrightarrow>
   split_char (CHR 0x00) (cmdline_of argv) = argv @ [[]]"
  by (induction argv) (simp_all add: cmdline_of_def)

lemma parseCmdline_argv:
  assumes "\<forall>a \<in> set (b # argv). CHR 0x00 \<notin> set a \<and> a \<noteq> []"
  shows "parseCmdline (cmdline_of (b # argv)) = (b, join_with '' '' argv)"
proof -
  from assms have "filter (\<lambda>part. part \<noteq> []) argv = argv" by (simp add: filter_id_conv)
  with assms split_cmdline [of "b # argv"] show ?thesis by (simp add: parseCmdline_def)
qed

section \<open>The kernel's version\<close>

text \<open>
  \<open>uname\<close> is the result of the system call: the release field, or an error.  An index out of the
  range of the split release panics.
\<close>

definition go_index :: "'a list \<Rightarrow> nat \<Rightarrow> 'a outcome" where
  "go_index xs i = (if i < length xs then Return (xs ! i) else Panic)"

definition go_atoi :: "string \<Rightarrow> string \<Rightarrow> int outcome" where
  "go_atoi msg s = (case atoi s of Some v \<Rightarrow> Return v | None \<Rightarrow> Error msg)"

definition isKernelOld :: "string + u8 list \<Rightarrow> bool outcome" where
  "isKernelOld uname =
    (case uname of
       Inl err \<Rightarrow> Error (''isKernelOld Error Syscall Uname: '' @ err)
     | Inr release_field \<Rightarrow>
         (let release = int8ArrayToString release_field in
          bind_outcome (go_index (split_char (CHR ''.'') release) 0) (\<lambda>s0.
          bind_outcome (go_atoi
              ''isKernelOld Error Conversion to integer of major kernel version'' s0) (\<lambda>major.
          bind_outcome (go_index (split_char (CHR ''.'') release) 1) (\<lambda>s1.
          bind_outcome (go_atoi
              ''isKernelOld Error Conversion to integer of minor kernel version'' s1) (\<lambda>minor.
          Return (major < 5 \<or> major = 5 \<and> minor \<le> 11)))))))"

text \<open>A version is older than 5.12 in the usual order of versions.\<close>

definition before_5_12 :: "nat \<times> nat \<Rightarrow> bool" where
  "before_5_12 v \<longleftrightarrow> fst v < 5 \<or> fst v = 5 \<and> snd v < 12"

text \<open>The release field of a kernel: a version, anything after a further dot, zeros.\<close>

definition release_field :: "nat \<times> nat \<Rightarrow> string \<Rightarrow> u8 list" where
  "release_field v suf =
     c_bytes (format_uint (fst v) @ ''.'' @ format_uint (snd v) @ suf) @ [0]"

lemma no_dot_format [simp]: "CHR ''.'' \<notin> set (format_uint n)"
  by (rule not_digit_format) (simp add: is_digit_def)

lemma no_nul_format [simp]: "CHR 0x00 \<notin> set (format_uint n)"
  by (rule not_digit_format) (simp add: is_digit_def)

lemma split_release:
  assumes "suf = [] \<or> hd suf = CHR ''.''"
  shows "\<exists>rest. split_char (CHR ''.'') (format_uint a @ CHR ''.'' # format_uint b @ suf) =
    format_uint a # format_uint b # rest"
  using assms by (cases suf) auto

lemma isKernelOld_release:
  assumes "fst v < 2 ^ 63" and "snd v < 2 ^ 63"
    and "suf = [] \<or> hd suf = CHR ''.''" and "CHR 0x00 \<notin> set suf"
  shows "isKernelOld (Inr (release_field v suf)) = Return (before_5_12 v)"
proof -
  let ?s = "format_uint (fst v) @ CHR ''.'' # format_uint (snd v) @ suf"
  have "CHR 0x00 \<notin> set ?s" using assms(4) by auto
  then have "int8ArrayToString (release_field v suf) = ?s"
    by (simp add: release_field_def int8ArrayToString_c_string)
  moreover obtain rest where
    "split_char (CHR ''.'') ?s = format_uint (fst v) # format_uint (snd v) # rest"
    using split_release [OF assms(3)] by blast
  moreover have "int (fst v) < 5 \<longleftrightarrow> fst v < 5" "int (fst v) = 5 \<longleftrightarrow> fst v = 5"
    "int (snd v) \<le> 11 \<longleftrightarrow> snd v < 12" by linarith+
  ultimately show ?thesis
    by (simp add: isKernelOld_def go_index_def go_atoi_def atoi_format [OF assms(1)] atoi_format [OF assms(2)]
        before_5_12_def)
qed

text \<open>A release without a dot is an index out of range.\<close>

lemma isKernelOld_no_dot:
  assumes "n < 2 ^ 63"
  shows "isKernelOld (Inr (c_bytes (format_uint n) @ [0])) = Panic"
  using assms
  by (simp add: isKernelOld_def int8ArrayToString_c_string go_index_def go_atoi_def
      atoi_format [OF assms])

section \<open>Properties\<close>

text \<open>C30: \<open>AddInode\<close> and \<open>RemoveInode\<close> either fail and change nothing or add, respectively remove,
  exactly the given key; a removal fails exactly when the key is not traced, and an addition does
  not fail while the map has room.\<close>

lemma map_operations:
  assumes "traced_map look ops" and "has_room look ops n"
  shows "(case AddInode ops k m of
      (None, m') \<Rightarrow> traced look m' = insert k (traced look m)
    | (Some e, m') \<Rightarrow> m' = m \<and> n < card (insert k (traced look m))) \<and>
    (case RemoveInode ops k m of
      (None, m') \<Rightarrow> k \<in> traced look m \<and> traced look m' = traced look m - {k}
    | (Some e, m') \<Rightarrow> m' = m \<and> k \<notin> traced look m)"
proof
  obtain e m' where a: "AddInode ops k m = (e, m')" by fastforce
  have "n < card (insert k (traced look m))" if "e \<noteq> None"
    using AddInode_room [OF assms, of k m] that a by (auto simp: not_le [symmetric])
  with AddInode_cases [OF assms(1) a] a
  show "case AddInode ops k m of
      (None, m') \<Rightarrow> traced look m' = insert k (traced look m)
    | (Some e, m') \<Rightarrow> m' = m \<and> n < card (insert k (traced look m))"
    by (auto split: option.split)
  obtain e m' where "RemoveInode ops k m = (e, m')" by fastforce
  with RemoveInode_cases [OF assms(1) this]
  show "case RemoveInode ops k m of
      (None, m') \<Rightarrow> k \<in> traced look m \<and> traced look m' = traced look m - {k}
    | (Some e, m') \<Rightarrow> m' = m \<and> k \<notin> traced look m"
    by (auto split: option.split)
qed


text \<open>C31: on a release of the form \<open>major.minor\<close>, with anything after a further dot, the kernel is
  old exactly when its version is before 5.12.\<close>

theorem kernel_version_check:
  assumes "fst v < 2 ^ 63" and "snd v < 2 ^ 63"
    and "suf = [] \<or> hd suf = CHR ''.''" and "CHR 0x00 \<notin> set suf"
  shows "isKernelOld (Inr (release_field v suf)) = Return (fst v < 5 \<or> fst v = 5 \<and> snd v < 12)"
  using isKernelOld_release [OF assms] by (simp add: before_5_12_def)

theorem kernel_version_check_witness:
  "isKernelOld (Inr (release_field (5, 11) ''.0-generic'')) = Return True \<and>
   isKernelOld (Inr (release_field (6, 1) [])) = Return False"
  using kernel_version_check [of "(5, 11)" "''.0-generic''"] kernel_version_check [of "(6, 1)" "[]"]
  by simp

text \<open>A release that is a number without a dot makes the check panic, on the index of the minor
  version, instead of returning an error.\<close>

lemma kernel_version_panics:
  assumes "n < 2 ^ 63"
  shows "isKernelOld (Inr (c_bytes (format_uint n) @ [0])) = Panic"
  using assms by (rule isKernelOld_no_dot)


text \<open>The command line of a process is split into its program and its arguments joined by
  spaces, and a C string in a character array is read up to its terminating zero.\<close>

lemma command_line_and_names:
  assumes "\<forall>a \<in> set (b # argv). CHR 0x00 \<notin> set a \<and> a \<noteq> []"
  shows "parseCmdline (cmdline_of (b # argv)) = (b, join_with '' '' argv) \<and>
    int8ArrayToString (c_bytes b @ 0 # rest) = b \<and> int8ArrayToString (c_bytes b) = b"
  using parseCmdline_argv [OF assms] int8ArrayToString_c_string(1) [of b rest]
    int8ArrayToString_c_string(2) [of b] assms
  by simp


end
