(* ===== verification/Go_Monad.thy ===== *)
theory Go_Monad
  imports Go_Lib
begin

text \<open>
  Go functions that change package state, may return an error and may panic: functions from a
  state to an outcome and a state.  Sequencing stops at the first error, as the code's
  \<open>if err != nil { return ... }\<close> does.  \<open>go_steps\<close> and \<open>go_errs\<close> relate the states before and
  after, for proofs that do not look at the outcome.
\<close>

section \<open>Functions that can fail and change the state\<close>

type_synonym ('s, 'a) go = "'s \<Rightarrow> 'a outcome \<times> 's"

definition go_return :: "'a \<Rightarrow> ('s, 'a) go" where
  "go_return x s = (Return x, s)"

definition go_bind :: "('s, 'a) go \<Rightarrow> ('a \<Rightarrow> ('s, 'b) go) \<Rightarrow> ('s, 'b) go" where
  "go_bind m f s =
     (case m s of (Return x, t) \<Rightarrow> f x t | (Error e, t) \<Rightarrow> (Error e, t) | (Panic, t) \<Rightarrow> (Panic, t))"

text \<open>\<open>fmt.Errorf\<close> around the error of a call.\<close>

definition go_wrap :: "string \<Rightarrow> ('s, 'a) go \<Rightarrow> ('s, 'a) go" where
  "go_wrap msg m s = (case m s of (Error e, t) \<Rightarrow> (Error (msg @ e), t) | r \<Rightarrow> r)"

definition go_check :: "string option \<Rightarrow> 's \<Rightarrow> unit outcome \<times> 's" where
  "go_check err s = (case err of None \<Rightarrow> (Return (), s) | Some e \<Rightarrow> (Error e, s))"

lemma go_bind_split:
  "go_bind m f s = (r, t) \<longleftrightarrow>
     (\<exists>x u. m s = (Return x, u) \<and> f x u = (r, t)) \<or>
     (\<exists>e. m s = (Error e, t) \<and> r = Error e) \<or> (m s = (Panic, t) \<and> r = Panic)"
  by (cases "m s"; cases "fst (m s)") (auto simp: go_bind_def split: outcome.splits prod.splits)

lemma go_bind_Return:
  "go_bind m f s = (Return y, t) \<longleftrightarrow> (\<exists>x u. m s = (Return x, u) \<and> f x u = (Return y, t))"
  by (auto simp: go_bind_split)

lemma go_wrap_Return [simp]: "go_wrap msg m s = (Return x, t) \<longleftrightarrow> m s = (Return x, t)"
  by (auto simp: go_wrap_def split: prod.splits outcome.splits)

lemma snd_go_wrap [simp]: "snd (go_wrap msg m s) = snd (m s)"
  by (auto simp: go_wrap_def split: prod.splits outcome.splits)

lemma go_check_Return [simp]: "go_check err s = (Return x, t) \<longleftrightarrow> err = None \<and> t = s"
  by (auto simp: go_check_def split: option.splits)

lemma snd_go_check [simp]: "snd (go_check err s) = s"
  by (simp add: go_check_def split: option.splits)

section \<open>Steps whatever the outcome\<close>

text \<open>
  \<open>go_steps R m\<close>: \<open>m\<close> takes a state to one related by \<open>R\<close>, however it ends; \<open>go_errs R m\<close>: when it
  does not return normally.
\<close>

definition go_steps :: "('s \<Rightarrow> 's \<Rightarrow> bool) \<Rightarrow> ('s, 'a) go \<Rightarrow> bool" where
  "go_steps R m \<longleftrightarrow> (\<forall>s. R s (snd (m s)))"

definition go_errs :: "('s \<Rightarrow> 's \<Rightarrow> bool) \<Rightarrow> ('s, 'a) go \<Rightarrow> bool" where
  "go_errs R m \<longleftrightarrow> (\<forall>s r t. m s = (r, t) \<longrightarrow> (\<forall>x. r \<noteq> Return x) \<longrightarrow> R s t)"

lemma go_stepsD: "go_steps R m \<Longrightarrow> m s = (r, t) \<Longrightarrow> R s t"
  unfolding go_steps_def by (metis snd_conv)

lemma go_steps_bind:
  assumes "transp R" and "go_steps R m" and "\<And>x. go_steps R (f x)"
  shows "go_steps R (go_bind m f)"
  unfolding go_steps_def
proof
  fix s
  obtain r t where m: "m s = (r, t)" by (cases "m s") auto
  with assms(2) have st: "R s t" by (auto simp: go_steps_def dest: spec [of _ s])
  show "R s (snd (go_bind m f s))"
  proof (cases r)
    case (Return x)
    from assms(3) have "R t (snd (f x t))" by (simp add: go_steps_def)
    with st have "R s (snd (f x t))" by (rule transpD [OF assms(1)])
    with m Return show ?thesis by (simp add: go_bind_def)
  qed (use m st in \<open>simp_all add: go_bind_def\<close>)
qed

lemma go_steps_wrap [simp]: "go_steps R (go_wrap msg m) \<longleftrightarrow> go_steps R m"
  by (simp add: go_steps_def)

lemma go_errs_bind:
  assumes "transp R" and "go_steps R m" and "\<And>x. go_errs R (f x)"
  shows "go_errs R (go_bind m f)"
  unfolding go_errs_def
proof (intro allI impI)
  fix s r t
  assume b: "go_bind m f s = (r, t)" and ne: "\<forall>x. r \<noteq> Return x"
  obtain q u where m: "m s = (q, u)" by (cases "m s") auto
  with assms(2) have su: "R s u" by (auto simp: go_steps_def dest: spec [of _ s])
  from b m ne consider "t = u" | x where "f x u = (r, t)"
    by (cases q) (auto simp: go_bind_def)
  then show "R s t"
  proof cases
    case 2
    with assms(3) ne have "R u t" by (auto simp: go_errs_def)
    with su show ?thesis by (rule transpD [OF assms(1)])
  qed (use su in simp)
qed

lemma go_errs_Return [simp]: "go_errs R (\<lambda>s. (Return x, g s))"
  by (simp add: go_errs_def)

end
