(* ===== verification/Ebpf_Loader.thy ===== *)
theory Ebpf_Loader
  imports Tracer Ebpf_Utils Go_Monad
begin

text \<open>
  \<open>ebpf/ebpf.go\<close>: loading the eBPF objects, attaching the probe that fits the running kernel,
  opening the ring buffer, unloading, and reading a record.  The package's global variables are
  the state.  The calls of cilium/ebpf and of the system are parameters, functions of the calls
  made so far (so that they may fail at any point); the state carries that history, which the
  properties speak of.
\<close>

section \<open>State and environment\<close>

type_synonym handle = nat

text \<open>\<open>bpfObjects\<close>: the programs and maps, nil before they are loaded.\<close>

record bpfObjects =
  KprobeInodePermissionNew :: "handle option"
  KprobeInodePermissionOld :: "handle option"
  Rb :: "handle option"
  TracedInodes :: "handle option"

text \<open>The calls that leave the package.\<close>

datatype ext_call =
    RemoveMemlock
  | LoadSpec
  | LoadAndAssign
  | Uname
  | LinkKprobe string "handle option"
  | NewReader "handle option"
  | CloseLink handle
  | CloseProgram "handle option"
  | CloseMap "handle option"
  | CloseReader handle
  | ReadRing handle

datatype read_error = ErrClosed | OtherError string

record ebpf_env =
  ee_call :: "ext_call list \<Rightarrow> ext_call \<Rightarrow> string option"
  ee_assign :: "ext_call list \<Rightarrow> bpfObjects"
  ee_uname :: "ext_call list \<Rightarrow> string + u8 list"
  ee_handle :: "ext_call list \<Rightarrow> ext_call \<Rightarrow> handle option"
  ee_read :: "ext_call list \<Rightarrow> handle \<Rightarrow> u8 list \<times> read_error option"

record ebpf_state =
  RingbuffReader :: "handle option"
  Objs :: bpfObjects
  Kprobe :: "handle option"
  Loaded :: bool
  history :: "ext_call list"

definition KprobedFunc :: string where "KprobedFunc = ''inode_permission''"

text \<open>The function the loader attaches to is the one of the programs' section.\<close>

lemma section_of_KprobedFunc: "probe_section = ''kprobe/'' @ KprobedFunc"
  by (simp add: probe_section_def KprobedFunc_def)

definition ebpf_init :: ebpf_state where
  "ebpf_init = \<lparr>RingbuffReader = None,
     Objs = \<lparr>KprobeInodePermissionNew = None, KprobeInodePermissionOld = None, Rb = None,
       TracedInodes = None\<rparr>,
     Kprobe = None, Loaded = False, history = []\<rparr>"

text \<open>A call that returns only an error, and one that returns a handle and an error.\<close>

definition made :: "ext_call \<Rightarrow> ebpf_state \<Rightarrow> ebpf_state" where
  "made c s = s\<lparr>history := history s @ [c]\<rparr>"

definition call_err :: "ebpf_env \<Rightarrow> ext_call \<Rightarrow> (ebpf_state, unit) go" where
  "call_err env c s = go_check (ee_call env (history s) c) (made c s)"

section \<open>Loading\<close>

definition loadBpf :: "ebpf_env \<Rightarrow> (ebpf_state, unit) go" where
  "loadBpf env = go_wrap ''can't load bpf: '' (call_err env LoadSpec)"

definition loadBpfObjects :: "ebpf_env \<Rightarrow> (ebpf_state, unit) go" where
  "loadBpfObjects env =
     go_bind (loadBpf env) (\<lambda>_ s.
       (case ee_call env (history s) LoadAndAssign of
          None \<Rightarrow> (Return (), made LoadAndAssign s\<lparr>Objs := ee_assign env (history s)\<rparr>)
        | Some e \<Rightarrow> (Error e, made LoadAndAssign s)))"

definition check_kernel :: "ebpf_env \<Rightarrow> (ebpf_state, bool) go" where
  "check_kernel env s = (isKernelOld (ee_uname env (history s)), made Uname s)"

definition open_kprobe :: "ebpf_env \<Rightarrow> handle option \<Rightarrow> (ebpf_state, unit) go" where
  "open_kprobe env prog s =
     (let c = LinkKprobe KprobedFunc prog in
      go_check (ee_call env (history s) c)
        (made c s\<lparr>Kprobe := ee_handle env (history s) c\<rparr>))"

definition open_reader :: "ebpf_env \<Rightarrow> (ebpf_state, unit) go" where
  "open_reader env s =
     (let c = NewReader (Rb (Objs s)) in
      go_check (ee_call env (history s) c)
        (made c s\<lparr>RingbuffReader := ee_handle env (history s) c\<rparr>))"

definition LoadEbpf :: "ebpf_env \<Rightarrow> (ebpf_state, unit) go" where
  "LoadEbpf env =
     go_bind (go_wrap ''LoadEbpf Error Remove memlock: '' (call_err env RemoveMemlock)) (\<lambda>_.
     go_bind (go_wrap ''LoadEbpf Error Load eBPF objects: '' (loadBpfObjects env)) (\<lambda>_.
     go_bind (go_wrap ''LoadEbpf Error Check kernel version: '' (check_kernel env)) (\<lambda>kernelIsOld.
     go_bind (if kernelIsOld
        then (\<lambda>s. go_wrap ''LoadEbpf Error Open kprobe (old kernel): ''
                    (open_kprobe env (KprobeInodePermissionOld (Objs s))) s)
        else (\<lambda>s. go_wrap ''LoadEbpf Error Open kprobe: ''
                    (open_kprobe env (KprobeInodePermissionNew (Objs s))) s)) (\<lambda>_.
     go_bind (go_wrap ''LoadEbpf Error Open ringbuf reader: '' (open_reader env)) (\<lambda>_ s.
     (Return (), s\<lparr>Loaded := True\<rparr>))))))"

section \<open>Unloading\<close>

text \<open>\<open>_BpfClose\<close>: closes in order, and stops at the first error.\<close>

fun BpfClose :: "(ebpf_state, unit) go list \<Rightarrow> (ebpf_state, unit) go" where
  "BpfClose [] = go_return ()"
| "BpfClose (closer # closers) = go_bind closer (\<lambda>_. BpfClose closers)"

definition close_programs :: "ebpf_env \<Rightarrow> bpfObjects \<Rightarrow> (ebpf_state, unit) go" where
  "close_programs env p =
     BpfClose [call_err env (CloseProgram (KprobeInodePermissionNew p)),
               call_err env (CloseProgram (KprobeInodePermissionOld p))]"

definition close_maps :: "ebpf_env \<Rightarrow> bpfObjects \<Rightarrow> (ebpf_state, unit) go" where
  "close_maps env m =
     BpfClose [call_err env (CloseMap (Rb m)), call_err env (CloseMap (TracedInodes m))]"

definition close_objects :: "ebpf_env \<Rightarrow> bpfObjects \<Rightarrow> (ebpf_state, unit) go" where
  "close_objects env ob = BpfClose [close_programs env ob, close_maps env ob]"

definition UnloadEbpf :: "ebpf_env \<Rightarrow> (ebpf_state, unit) go" where
  "UnloadEbpf env s =
    (case Kprobe s of
       None \<Rightarrow> (Return (), s)
     | Some k \<Rightarrow>
         go_bind (go_wrap ''UnloadEbpf Error Failed to close ebpf program: ''
           (call_err env (CloseLink k))) (\<lambda>_.
         go_bind (go_wrap ''UnloadEbpf Error Failed to close eBPF map: ''
           (\<lambda>s. call_err env (CloseMap (TracedInodes (Objs s))) s)) (\<lambda>_.
         go_bind (go_wrap ''UnloadEbpf Error Failed to close eBPF objects: ''
           (\<lambda>s. close_objects env (Objs s) s)) (\<lambda>_.
         go_bind (\<lambda>s. case RingbuffReader s of
             None \<Rightarrow> (Return (), s)
           | Some r \<Rightarrow> go_wrap ''UnloadEbpf Error failed to close the Rinbuffer Reader: ''
               (call_err env (CloseReader r)) s) (\<lambda>_ s.
         (Return (), s\<lparr>Loaded := False\<rparr>))))) s)"

section \<open>Reading a record\<close>

definition ReadEbpfData :: "ebpf_env \<Rightarrow> (ebpf_state, bpfLogData) go" where
  "ReadEbpfData env s =
    (case RingbuffReader s of
       None \<Rightarrow> (Panic, s)
     | Some r \<Rightarrow>
         (let (raw, err) = ee_read env (history s) r; s' = made (ReadRing r) s in
          if err = Some ErrClosed then (Error ''ReadAlert Error Buffer closed.'', s')
          else case read_bpfLogData raw of
            None \<Rightarrow> (Error ''ReadAlert Error Parse ringbuf data'', s')
          | Some data \<Rightarrow> (Return data, s')))"

section \<open>What loading does\<close>

lemma made_simps [simp]:
  "history (made c s) = history s @ [c]" "Loaded (made c s) = Loaded s"
  "Kprobe (made c s) = Kprobe s" "RingbuffReader (made c s) = RingbuffReader s"
  "Objs (made c s) = Objs s"
  by (simp_all add: made_def)

lemma call_err_Return [simp]:
  "call_err env c s = (Return x, t) \<longleftrightarrow> ee_call env (history s) c = None \<and> t = made c s"
  by (simp add: call_err_def)

lemma snd_call_err [simp]: "snd (call_err env c s) = made c s"
  by (simp add: call_err_def)

text \<open>When each step of a load succeeds, and the state it leaves.\<close>

lemma loadBpfObjects_Return:
  "loadBpfObjects env s = (Return (), t) \<longleftrightarrow>
     ee_call env (history s) LoadSpec = None \<and>
     ee_call env (history s @ [LoadSpec]) LoadAndAssign = None \<and>
     t = s\<lparr>Objs := ee_assign env (history s @ [LoadSpec]),
       history := history s @ [LoadSpec, LoadAndAssign]\<rparr>"
  by (auto simp: loadBpfObjects_def loadBpf_def go_bind_Return made_def split: option.splits)

lemma check_kernel_Return:
  "check_kernel env s = (Return old, t) \<longleftrightarrow>
     isKernelOld (ee_uname env (history s)) = Return old \<and>
     t = s\<lparr>history := history s @ [Uname]\<rparr>"
  by (auto simp: check_kernel_def made_def)

lemma open_kprobe_Return:
  "open_kprobe env prog s = (Return (), t) \<longleftrightarrow>
     ee_call env (history s) (LinkKprobe KprobedFunc prog) = None \<and>
     t = s\<lparr>Kprobe := ee_handle env (history s) (LinkKprobe KprobedFunc prog),
       history := history s @ [LinkKprobe KprobedFunc prog]\<rparr>"
  by (auto simp: open_kprobe_def Let_def made_def)

lemma open_reader_Return:
  "open_reader env s = (Return (), t) \<longleftrightarrow>
     ee_call env (history s) (NewReader (Rb (Objs s))) = None \<and>
     t = s\<lparr>RingbuffReader := ee_handle env (history s) (NewReader (Rb (Objs s))),
       history := history s @ [NewReader (Rb (Objs s))]\<rparr>"
  by (auto simp: open_reader_def Let_def made_def)

lemmas load_steps = loadBpfObjects_Return check_kernel_Return open_kprobe_Return
  open_reader_Return

text \<open>The calls of a load, the program it attaches, and the state it leaves.\<close>

definition load_program :: "bpfObjects \<Rightarrow> bool \<Rightarrow> handle option" where
  "load_program ob old = (if old then KprobeInodePermissionOld ob else KprobeInodePermissionNew ob)"

definition load_calls :: "bpfObjects \<Rightarrow> bool \<Rightarrow> ext_call list" where
  "load_calls ob old =
     [RemoveMemlock, LoadSpec, LoadAndAssign, Uname, LinkKprobe KprobedFunc (load_program ob old),
      NewReader (Rb ob)]"

text \<open>Call number \<open>n\<close> of the list was made without an error after the calls before it.\<close>

definition calls_ok :: "ebpf_env \<Rightarrow> ext_call list \<Rightarrow> ext_call list \<Rightarrow> bool" where
  "calls_ok env h cs \<longleftrightarrow>
     (\<forall>n < length cs. cs ! n \<noteq> Uname \<longrightarrow> ee_call env (h @ take n cs) (cs ! n) = None)"

lemma calls_ok_Nil [simp]: "calls_ok env h []"
  by (simp add: calls_ok_def)

lemma calls_ok_Cons [simp]:
  "calls_ok env h (c # cs) \<longleftrightarrow>
     (c \<noteq> Uname \<longrightarrow> ee_call env h c = None) \<and> calls_ok env (h @ [c]) cs"
  by (auto simp: calls_ok_def less_Suc_eq_0_disj all_conj_distrib)

lemma LoadEbpf_iff:
  "LoadEbpf env s = (Return (), t) \<longleftrightarrow>
     (\<exists>old ob. ob = ee_assign env (history s @ [RemoveMemlock, LoadSpec]) \<and>
        isKernelOld (ee_uname env (history s @ take 3 (load_calls ob old))) = Return old \<and>
        calls_ok env (history s) (load_calls ob old) \<and>
        t = s\<lparr>Objs := ob,
          Kprobe := ee_handle env (history s @ take 4 (load_calls ob old)) (load_calls ob old ! 4),
          RingbuffReader :=
            ee_handle env (history s @ take 5 (load_calls ob old)) (load_calls ob old ! 5),
          history := history s @ load_calls ob old, Loaded := True\<rparr>)"
  (is "?l \<longleftrightarrow> ?r")
proof -
  have kprobe: "(if old then (\<lambda>s. go_wrap m1 (open_kprobe env (KprobeInodePermissionOld (Objs s))) s)
      else (\<lambda>s. go_wrap m2 (open_kprobe env (KprobeInodePermissionNew (Objs s))) s)) u = (Return x, t)
    \<longleftrightarrow> open_kprobe env (load_program (Objs u) old) u = (Return x, t)" for old m1 m2 u x t
    by (simp add: load_program_def)
  show ?thesis
    unfolding LoadEbpf_def go_bind_Return go_wrap_Return kprobe
    by (simp add: load_steps load_calls_def made_def) (rule iffI; elim conjE exE; simp)
qed

section \<open>Loading whatever the outcome\<close>

text \<open>The steps of a load, for a relation that allows its calls and stores.\<close>

lemma steps_loadBpfObjects:
  assumes "transp R" and "\<And>s. R s (made LoadSpec s)"
    and "\<And>s ob. R s (made LoadAndAssign s\<lparr>Objs := ob\<rparr>)" and "\<And>s. R s (made LoadAndAssign s)"
  shows "go_steps R (loadBpfObjects env)"
  unfolding loadBpfObjects_def loadBpf_def
  by (rule go_steps_bind [OF assms(1)]) (use assms in \<open>auto simp: go_steps_def split: option.split\<close>)

lemma steps_open_kprobe:
  assumes "\<And>c k s. c = LinkKprobe KprobedFunc prog \<Longrightarrow> R s (made c s\<lparr>Kprobe := k\<rparr>)"
  shows "go_steps R (open_kprobe env prog)"
  using assms by (simp add: go_steps_def open_kprobe_def Let_def)

lemma steps_open_reader:
  assumes "\<And>c r s. c = NewReader (Rb (Objs s)) \<Longrightarrow> R s (made c s\<lparr>RingbuffReader := r\<rparr>)"
  shows "go_steps R (open_reader env)"
  using assms by (simp add: go_steps_def open_reader_def Let_def)

definition keeps_Loaded :: "ebpf_state \<Rightarrow> ebpf_state \<Rightarrow> bool" where
  "keeps_Loaded s t \<longleftrightarrow> Loaded t = Loaded s"

fun closes :: "ext_call \<Rightarrow> bool" where
  "closes (CloseLink _) = True"
| "closes (CloseProgram _) = True"
| "closes (CloseMap _) = True"
| "closes (CloseReader _) = True"
| "closes _ = False"

text \<open>The closes of the library do not fail.\<close>

definition closes_ok :: "ebpf_env \<Rightarrow> bool" where
  "closes_ok env \<longleftrightarrow> (\<forall>h c. closes c \<longrightarrow> ee_call env h c = None)"

definition only_opens :: "ebpf_state \<Rightarrow> ebpf_state \<Rightarrow> bool" where
  "only_opens s t \<longleftrightarrow> (\<exists>cs. history t = history s @ cs \<and> \<not> list_ex closes cs)"

lemma trans_step_relations: "transp keeps_Loaded" "transp only_opens"
proof -
  show "transp keeps_Loaded" by (simp add: transp_def keeps_Loaded_def)
  show "transp only_opens"
    unfolding transp_def only_opens_def by (metis append_assoc list_ex_append)
qed

lemma LoadEbpf_steps:
  "go_errs keeps_Loaded (LoadEbpf env)" "go_steps only_opens (LoadEbpf env)"
proof -
  have prog: "go_steps R (if old
       then (\<lambda>s. go_wrap m1 (open_kprobe env (KprobeInodePermissionOld (Objs s))) s)
       else (\<lambda>s. go_wrap m2 (open_kprobe env (KprobeInodePermissionNew (Objs s))) s))"
    if "\<And>prog. go_steps R (open_kprobe env prog)" for R old m1 m2
    using that by (simp add: go_steps_def)
  show "go_errs keeps_Loaded (LoadEbpf env)"
    unfolding LoadEbpf_def
    by (intro go_errs_bind trans_step_relations prog go_errs_Return
        steps_loadBpfObjects steps_open_kprobe steps_open_reader
        go_steps_wrap [THEN iffD2])
      (simp_all add: keeps_Loaded_def go_steps_def check_kernel_def)
  show "go_steps only_opens (LoadEbpf env)"
    unfolding LoadEbpf_def
    by (intro go_steps_bind trans_step_relations prog
        steps_loadBpfObjects steps_open_kprobe steps_open_reader
        go_steps_wrap [THEN iffD2])
      (simp_all add: only_opens_def go_steps_def check_kernel_def)
qed

section \<open>What unloading does\<close>

definition unload_calls :: "ebpf_state \<Rightarrow> ext_call list" where
  "unload_calls s =
     (case Kprobe s of
        None \<Rightarrow> []
      | Some k \<Rightarrow>
          [CloseLink k, CloseMap (TracedInodes (Objs s)),
           CloseProgram (KprobeInodePermissionNew (Objs s)),
           CloseProgram (KprobeInodePermissionOld (Objs s)),
           CloseMap (Rb (Objs s)), CloseMap (TracedInodes (Objs s))] @
          (case RingbuffReader s of None \<Rightarrow> [] | Some r \<Rightarrow> [CloseReader r]))"

lemma BpfClose_append:
  "BpfClose (xs @ ys) s = (Return (), t) \<longleftrightarrow>
     (\<exists>u. BpfClose xs s = (Return (), u) \<and> BpfClose ys u = (Return (), t))"
  by (induction xs arbitrary: s) (auto simp: go_bind_Return go_return_def)

lemma close_objects_Return:
  "close_objects env ob s = (Return (), t) \<longleftrightarrow>
     (let cs = [CloseProgram (KprobeInodePermissionNew ob), CloseProgram (KprobeInodePermissionOld ob),
        CloseMap (Rb ob), CloseMap (TracedInodes ob)]
      in calls_ok env (history s) cs \<and> t = s\<lparr>history := history s @ cs\<rparr>)"
  by (auto simp: close_objects_def close_programs_def close_maps_def go_bind_Return go_return_def
      made_def Let_def)

lemma UnloadEbpf_iff:
  "UnloadEbpf env s = (Return (), t) \<longleftrightarrow>
     calls_ok env (history s) (unload_calls s) \<and>
     t = s\<lparr>history := history s @ unload_calls s, Loaded := (Kprobe s = None \<and> Loaded s)\<rparr>"
proof (cases "Kprobe s")
  case None
  then show ?thesis by (auto simp: UnloadEbpf_def unload_calls_def)
next
  case (Some k)
  then show ?thesis
    by (cases "RingbuffReader s")
      (simp_all add: UnloadEbpf_def go_bind_Return close_objects_Return Let_def unload_calls_def
        made_def eq_commute [of t])
qed

section \<open>The life of the loader\<close>

text \<open>
  What the operator does with the package: the KiveData reconciler loads it when it is not
  loaded, the main program unloads it, and the output loop reads records.
\<close>

definition ensure_loaded :: "ebpf_env \<Rightarrow> (ebpf_state, unit) go" where
  "ensure_loaded env s =
     (if \<not> Loaded s then go_wrap ''Reconcile Error Load eBPF program: '' (LoadEbpf env) s
      else (Return (), s))"

inductive loader_step :: "ebpf_env \<Rightarrow> ebpf_state \<Rightarrow> ebpf_state \<Rightarrow> bool" for env where
  ensure: "loader_step env s (snd (ensure_loaded env s))"
| unload: "loader_step env s (snd (UnloadEbpf env s))"
| read: "loader_step env s (snd (ReadEbpfData env s))"

inductive_cases loader_stepE: "loader_step env s t"

definition loader_reachable :: "ebpf_env \<Rightarrow> ebpf_state \<Rightarrow> bool" where
  "loader_reachable env s \<longleftrightarrow> (loader_step env)\<^sup>*\<^sup>* ebpf_init s"

text \<open>A call of the library that reports no error returns a handle.\<close>

definition handles_ok :: "ebpf_env \<Rightarrow> bool" where
  "handles_ok env \<longleftrightarrow> (\<forall>h c. ee_call env h c = None \<longrightarrow> ee_handle env h c \<noteq> None)"

definition loader_inv :: "ebpf_state \<Rightarrow> bool" where
  "loader_inv s \<longleftrightarrow> (Loaded s \<longrightarrow> Kprobe s \<noteq> None \<and> RingbuffReader s \<noteq> None)"

lemma LoadEbpf_inv:
  assumes "handles_ok env" and "\<not> Loaded s" and "LoadEbpf env s = (r, t)"
  shows "loader_inv t"
proof (cases "\<exists>x. r = Return x")
  case True
  with assms(3) have "LoadEbpf env s = (Return (), t)" by auto
  with assms(1) show ?thesis
    by (auto simp: LoadEbpf_iff load_calls_def handles_ok_def loader_inv_def)
next
  case False
  with LoadEbpf_steps(1) assms(3) have "keeps_Loaded s t" unfolding go_errs_def by blast
  with assms(2) show ?thesis by (simp add: keeps_Loaded_def loader_inv_def)
qed

definition keeps_handles :: "ebpf_state \<Rightarrow> ebpf_state \<Rightarrow> bool" where
  "keeps_handles s t \<longleftrightarrow>
     Kprobe t = Kprobe s \<and> RingbuffReader t = RingbuffReader s \<and> Objs t = Objs s \<and>
     (Loaded t \<longrightarrow> Loaded s)"

lemma keeps_handles_trans: "transp keeps_handles"
  by (simp add: transp_def keeps_handles_def)

lemma steps_call_err: "(\<And>s. R s (made c s)) \<Longrightarrow> go_steps R (call_err env c)"
  by (simp add: go_steps_def)

lemma steps_BpfClose:
  assumes "transp R" and "reflp R" and "\<forall>m \<in> set ms. go_steps R m"
  shows "go_steps R (BpfClose ms)"
  using assms(3)
proof (induction ms)
  case Nil
  then show ?case using assms(2) by (simp add: go_steps_def go_return_def reflp_def)
next
  case (Cons m ms)
  then show ?case by (simp add: go_steps_bind [OF assms(1)])
qed

text \<open>The steps of an unload, for a relation that allows its calls and clearing \<open>Loaded\<close>.\<close>

lemma UnloadEbpf_rel:
  assumes "transp R" and "reflp R" and "\<And>c s. R s (made c s)" and "\<And>s. R s (s\<lparr>Loaded := False\<rparr>)"
  shows "R s (snd (UnloadEbpf env s))"
proof (cases "Kprobe s")
  case None
  then show ?thesis using assms(2) by (simp add: UnloadEbpf_def reflp_def)
next
  case (Some k)
  have call: "go_steps R (call_err env c)" for c by (rule steps_call_err) (rule assms(3))
  have objs: "go_steps R (close_objects env ob)" for ob
    unfolding close_objects_def close_programs_def close_maps_def
    by (simp add: steps_BpfClose assms(1,2) call del: BpfClose.simps)
  let ?rest = "go_bind (go_wrap ''UnloadEbpf Error Failed to close ebpf program: ''
           (call_err env (CloseLink k))) (\<lambda>_.
         go_bind (go_wrap ''UnloadEbpf Error Failed to close eBPF map: ''
           (\<lambda>s. call_err env (CloseMap (TracedInodes (Objs s))) s)) (\<lambda>_.
         go_bind (go_wrap ''UnloadEbpf Error Failed to close eBPF objects: ''
           (\<lambda>s. close_objects env (Objs s) s)) (\<lambda>_.
         go_bind (\<lambda>s. case RingbuffReader s of
             None \<Rightarrow> (Return (), s)
           | Some r \<Rightarrow> go_wrap ''UnloadEbpf Error failed to close the Rinbuffer Reader: ''
               (call_err env (CloseReader r)) s) (\<lambda>_ s.
         (Return (), s\<lparr>Loaded := False\<rparr>)))))"
  have "go_steps R ?rest"
    by (intro go_steps_bind assms(1) go_steps_wrap [THEN iffD2] call)
      (use call objs assms(2-4) in \<open>auto simp: go_steps_def reflp_def split: option.split\<close>)
  with Some show ?thesis by (simp add: UnloadEbpf_def go_steps_def)
qed

lemma UnloadEbpf_keeps: "keeps_handles s (snd (UnloadEbpf env s))"
  by (rule UnloadEbpf_rel) (simp_all add: transp_def reflp_def keeps_handles_def)

lemma UnloadEbpf_adds: "prefix (history s) (history (snd (UnloadEbpf env s)))"
  by (rule UnloadEbpf_rel [where R = "\<lambda>s t. prefix (history s) (history t)"])
    (auto simp: transp_def reflp_def intro: prefix_order.trans)

lemma UnloadEbpf_closes_ok:
  assumes "closes_ok env"
  shows "UnloadEbpf env s = (Return (), s\<lparr>history := history s @ unload_calls s,
    Loaded := (Kprobe s = None \<and> Loaded s)\<rparr>)"
proof -
  have "\<forall>c \<in> set (unload_calls s). closes c" by (auto simp: unload_calls_def split: option.splits)
  then have "calls_ok env (history s) (unload_calls s)"
    using assms by (simp add: calls_ok_def closes_ok_def)
  then show ?thesis by (simp add: UnloadEbpf_iff)
qed

lemma ReadEbpfData_keeps:
  "Loaded (snd (ReadEbpfData env s)) = Loaded s \<and> Kprobe (snd (ReadEbpfData env s)) = Kprobe s \<and>
   RingbuffReader (snd (ReadEbpfData env s)) = RingbuffReader s"
  by (auto simp: ReadEbpfData_def Let_def split: option.split prod.split)

lemma ReadEbpfData_panic: "fst (ReadEbpfData env s) = Panic \<longleftrightarrow> RingbuffReader s = None"
  by (auto simp: ReadEbpfData_def Let_def split: option.split prod.split)

lemma ReadEbpfData_history:
  "history (snd (ReadEbpfData env s)) = history s @ (case RingbuffReader s of None \<Rightarrow> [] | Some r \<Rightarrow> [ReadRing r]) \<and>
   Objs (snd (ReadEbpfData env s)) = Objs s"
  by (auto simp: ReadEbpfData_def Let_def split: option.split prod.split)

lemma ReadEbpfData_no_panic:
  "RingbuffReader s \<noteq> None \<Longrightarrow> fst (ReadEbpfData env s) \<noteq> Panic"
  by (auto simp: ReadEbpfData_def Let_def split: option.split prod.split)

lemma loader_step_inv:
  assumes "handles_ok env" and "loader_step env s t" and "loader_inv s"
  shows "loader_inv t"
proof -
  from assms(2) consider "t = snd (ensure_loaded env s)" | "t = snd (UnloadEbpf env s)"
    | "t = snd (ReadEbpfData env s)" by (rule loader_stepE)
  then show ?thesis
  proof cases
    case 1
    show ?thesis
    proof (cases "Loaded s")
      case False
      then have "t = snd (LoadEbpf env s)" using 1 by (simp add: ensure_loaded_def)
      with LoadEbpf_inv [OF assms(1) False] show ?thesis by (metis prod.collapse)
    qed (use 1 assms(3) in \<open>simp add: ensure_loaded_def\<close>)
  next
    case 2
    with assms(3) UnloadEbpf_keeps [of s env] show ?thesis
      by (simp add: keeps_handles_def loader_inv_def)
  next
    case 3
    with assms(3) ReadEbpfData_keeps [of env s] show ?thesis by (simp add: loader_inv_def)
  qed
qed

lemma loader_reachable_inv:
  assumes "handles_ok env" and "loader_reachable env s"
  shows "loader_inv s"
  using assms(2) unfolding loader_reachable_def
proof (induction rule: rtranclp_induct)
  case base
  then show ?case by (simp add: loader_inv_def ebpf_init_def)
next
  case (step s t)
  then show ?case using loader_step_inv [OF assms(1)] by blast
qed

text \<open>
  A load that returned normally left the handles of \<open>s\<close>; if closing does not fail, nothing was closed
  since.
\<close>

definition loaded_since :: "ebpf_env \<Rightarrow> ebpf_state \<Rightarrow> bool" where
  "loaded_since env s \<longleftrightarrow> (\<exists>u v post. loader_reachable env u \<and> LoadEbpf env u = (Return (), v) \<and>
     Kprobe s = Kprobe v \<and> RingbuffReader s = RingbuffReader v \<and> Objs s = Objs v \<and>
     history s = history v @ post \<and> (closes_ok env \<longrightarrow> \<not> list_ex closes post))"

lemma loaded_since_more:
  assumes "loaded_since env s" and "keeps_handles s t" and "history t = history s @ cs"
    and "closes_ok env \<Longrightarrow> \<not> list_ex closes cs"
  shows "loaded_since env t"
proof -
  from assms(1) obtain u v post where l: "loader_reachable env u" "LoadEbpf env u = (Return (), v)"
    "Kprobe s = Kprobe v" "RingbuffReader s = RingbuffReader v" "Objs s = Objs v"
    "history s = history v @ post" "closes_ok env \<longrightarrow> \<not> list_ex closes post"
    unfolding loaded_since_def by blast
  have "history t = history v @ (post @ cs)" using assms(3) l(6) by simp
  moreover have "closes_ok env \<longrightarrow> \<not> list_ex closes (post @ cs)" using assms(4) l(7) by auto
  ultimately show ?thesis
    using l(1-5) assms(2) unfolding loaded_since_def keeps_handles_def by metis
qed

lemma loader_step_since:
  assumes "loader_reachable env s" and "loader_step env s t" and "Loaded s \<Longrightarrow> loaded_since env s" and "Loaded t"
  shows "loaded_since env t"
proof -
  from assms(2) consider "t = snd (ensure_loaded env s)" | "t = snd (UnloadEbpf env s)"
    | "t = snd (ReadEbpfData env s)" by (rule loader_stepE)
  then show ?thesis
  proof cases
    case 1
    show ?thesis
    proof (cases "Loaded s")
      case True
      with 1 assms(3) show ?thesis by (simp add: ensure_loaded_def)
    next
      case False
      obtain r where r: "LoadEbpf env s = (r, t)" using 1 False by (cases "LoadEbpf env s") (simp add: ensure_loaded_def)
      have "\<not> (\<forall>x. r \<noteq> Return x)"
        using LoadEbpf_steps(1) [of env] r False assms(4) unfolding go_errs_def keeps_Loaded_def by metis
      with r have "LoadEbpf env s = (Return (), t)" by auto
      with assms(1) show ?thesis
        unfolding loaded_since_def by (intro exI [of _ s] exI [of _ t] exI [of _ "[]"]) simp
    qed
  next
    case 2
    note keep = UnloadEbpf_keeps [of s env]
    with 2 assms(4) have "Loaded s" by (simp add: keeps_handles_def)
    moreover obtain cs where cs: "history t = history s @ cs"
      using UnloadEbpf_adds [of s env] 2 by (auto simp: prefix_def)
    moreover have "\<not> list_ex closes cs" if "closes_ok env"
    proof -
      from UnloadEbpf_closes_ok [OF that, of s] 2 assms(4) have "Kprobe s = None" by simp
      with 2 cs have "cs = []" by (simp add: UnloadEbpf_def)
      then show ?thesis by simp
    qed
    ultimately show ?thesis using loaded_since_more assms(3) keep 2 by metis
  next
    case 3
    with assms(4) ReadEbpfData_keeps [of env s] have "Loaded s" by simp
    moreover have "keeps_handles s t"
      using 3 ReadEbpfData_keeps [of env s] ReadEbpfData_history [of env s] by (simp add: keeps_handles_def)
    ultimately show ?thesis
      using loaded_since_more [OF assms(3)] 3 ReadEbpfData_history [of env s]
      by (cases "RingbuffReader s") auto
  qed
qed

lemma loader_reachable_since:
  assumes "loader_reachable env s" and "Loaded s"
  shows "loaded_since env s"
proof -
  have "(loader_step env)\<^sup>*\<^sup>* ebpf_init s" using assms(1) by (simp add: loader_reachable_def)
  then have "Loaded s \<longrightarrow> loaded_since env s"
  proof (induction rule: rtranclp_induct)
    case base
    then show ?case by (simp add: ebpf_init_def)
  next
    case (step s t)
    then show ?case using loader_step_since [of env s t] by (simp add: loader_reachable_def)
  qed
  with assms(2) show ?thesis by simp
qed

lemma ReadEbpfData_record:
  assumes "RingbuffReader s = Some r" and "ee_read env (history s) r = (bytes_log_data d, None)"
    and "wf_log_data d"
  shows "ReadEbpfData env s = (Return d, made (ReadRing r) s)"
  using assms by (simp add: ReadEbpfData_def log_data.dec_enc_exact)

lemma ReadEbpfData_error:
  assumes "RingbuffReader s = Some r" and "ee_read env (history s) r = (raw, err)"
    and "err = Some ErrClosed \<or> length raw < 56"
  shows "\<exists>e. ReadEbpfData env s = (Error e, made (ReadRing r) s)"
  using assms by (auto simp: ReadEbpfData_def Let_def log_data.dec_short)

section \<open>Properties\<close>

text \<open>C23: \<open>LoadEbpf\<close> returns normally exactly when the kernel's version can be read and none of its
  calls fails: removing the memory limit, loading the objects, attaching to \<open>inode_permission\<close> the
  program for old kernels if the kernel is old and the one for new kernels otherwise, and opening
  the reader, in this order; it then has stored the objects, the probe and the reader and is
  loaded.\<close>

theorem load_succeeds_iff:
  "LoadEbpf env s = (Return (), t) \<longleftrightarrow>
     (\<exists>old ob cs. ob = ee_assign env (history s @ [RemoveMemlock, LoadSpec]) \<and>
        cs = [RemoveMemlock, LoadSpec, LoadAndAssign, Uname,
          LinkKprobe ''inode_permission''
            (if old then KprobeInodePermissionOld ob else KprobeInodePermissionNew ob),
          NewReader (Rb ob)] \<and>
        isKernelOld (ee_uname env (history s @ take 3 cs)) = Return old \<and>
        calls_ok env (history s) cs \<and>
        t = s\<lparr>Objs := ob, Kprobe := ee_handle env (history s @ take 4 cs) (cs ! 4),
          RingbuffReader := ee_handle env (history s @ take 5 cs) (cs ! 5),
          history := history s @ cs, Loaded := True\<rparr>)"
  unfolding LoadEbpf_iff by (simp add: load_calls_def load_program_def KprobedFunc_def)

text \<open>A load that fails, or panics, leaves the package as loaded as it was, and no load, however
  it ends, closes anything: what a failed load has opened stays open.\<close>

lemma load_failure:
  "(case LoadEbpf env s of (Return _, t) \<Rightarrow> Loaded t | (_, t) \<Rightarrow> Loaded t = Loaded s) \<and>
   (\<exists>cs. history (snd (LoadEbpf env s)) = history s @ cs \<and> \<not> list_ex closes cs)"
proof
  show "case LoadEbpf env s of (Return _, t) \<Rightarrow> Loaded t | (_, t) \<Rightarrow> Loaded t = Loaded s"
    using LoadEbpf_steps(1) [of env] LoadEbpf_iff [of env s]
    by (auto simp: go_errs_def keeps_Loaded_def split: prod.split outcome.split)
  show "\<exists>cs. history (snd (LoadEbpf env s)) = history s @ cs \<and> \<not> list_ex closes cs"
    using LoadEbpf_steps(2) [of env] by (simp add: go_steps_def only_opens_def)
qed

text \<open>C30: \<open>UnloadEbpf\<close> does nothing when no probe was attached, and otherwise returns normally
  exactly when closing the probe, the map of inodes, the programs, the maps and the reader, in
  this order, all succeed; the handles stay in the package's variables.\<close>

lemma unload_succeeds_iff:
  "UnloadEbpf env s = (Return (), t) \<longleftrightarrow>
     (case Kprobe s of
        None \<Rightarrow> t = s
      | Some k \<Rightarrow>
          calls_ok env (history s) (unload_calls s) \<and>
          t = s\<lparr>history := history s @ unload_calls s, Loaded := False\<rparr>)"
  unfolding UnloadEbpf_iff by (auto simp: unload_calls_def split: option.split)

text \<open>C24: whatever sequence of guarded loads, unloads and reads is executed from the start, and
  however the calls fail: reading a record panics exactly while the variable of the reader is nil,
  which it is not while the package counts as loaded; then the variables hold the probe, the reader
  and the objects of a load that succeeded, and as long as closing does not fail nothing has been
  closed since, so that the probe is attached and the reader open.\<close>

theorem loader_invariant:
  assumes "handles_ok env" and "loader_reachable env s"
  shows "(fst (ReadEbpfData env s) = Panic \<longleftrightarrow> RingbuffReader s = None) \<and>
    (Loaded s \<longrightarrow> Kprobe s \<noteq> None \<and> RingbuffReader s \<noteq> None \<and>
      (\<exists>u v post. loader_reachable env u \<and> LoadEbpf env u = (Return (), v) \<and>
        Kprobe s = Kprobe v \<and> RingbuffReader s = RingbuffReader v \<and> Objs s = Objs v \<and>
        history s = history v @ post \<and> (closes_ok env \<longrightarrow> \<not> list_ex closes post)))"
  using loader_reachable_inv [OF assms] loader_reachable_since [OF assms(2)] ReadEbpfData_panic [of env s]
  unfolding loader_inv_def loaded_since_def by blast

text \<open>An unload that fails after the probe was closed leaves the package counting as loaded: what
  holds its variables need not be open.\<close>

lemma half_unloaded:
  assumes "Kprobe s = Some k" and "ee_call env (history s) (CloseLink k) = None"
    and "ee_call env (history s @ [CloseLink k]) (CloseMap (TracedInodes (Objs s))) = Some e"
  shows "\<exists>m. UnloadEbpf env s = (Error m, s\<lparr>history := history s @ [CloseLink k, CloseMap (TracedInodes (Objs s))]\<rparr>)"
  using assms by (simp add: UnloadEbpf_def go_bind_def go_wrap_def call_err_def go_check_def made_def)

text \<open>An environment in which every call succeeds, on a kernel of a version.\<close>

definition ex_loader :: "nat \<times> nat \<Rightarrow> ebpf_env" where
  "ex_loader v = \<lparr>ee_call = (\<lambda>_ _. None),
     ee_assign = (\<lambda>_. \<lparr>KprobeInodePermissionNew = Some 1, KprobeInodePermissionOld = Some 2,
       Rb = Some 3, TracedInodes = Some 4\<rparr>),
     ee_uname = (\<lambda>_. Inr (release_field v [])),
     ee_handle = (\<lambda>h _. Some (10 + length h)),
     ee_read = (\<lambda>_ _. (replicate 56 0, None))\<rparr>"

lemma ex_loader_load:
  assumes "fst v < 2 ^ 63" and "snd v < 2 ^ 63"
  shows "\<exists>t. LoadEbpf (ex_loader v) s = (Return (), t)"
  unfolding LoadEbpf_iff
  using isKernelOld_release [OF assms, of "[]"]
  by (simp add: ex_loader_def calls_ok_def)

theorem loader_invariant_witness:
  "\<exists>s. loader_reachable (ex_loader (6, 1)) s \<and> Loaded s \<and>
     fst (ReadEbpfData (ex_loader (6, 1)) s) \<noteq> Panic"
proof -
  obtain t where t: "LoadEbpf (ex_loader (6, 1)) ebpf_init = (Return (), t)"
    using ex_loader_load [of "(6, 1)"] by auto
  then have "snd (ensure_loaded (ex_loader (6, 1)) ebpf_init) = t"
    by (simp add: ensure_loaded_def ebpf_init_def)
  with loader_step.ensure [of "ex_loader (6, 1)" ebpf_init]
  have "loader_reachable (ex_loader (6, 1)) t" by (simp add: loader_reachable_def)
  moreover have "Loaded t" using t by (auto simp: LoadEbpf_iff)
  moreover have "handles_ok (ex_loader (6, 1))" by (simp add: handles_ok_def ex_loader_def)
  ultimately show ?thesis using loader_invariant [of "ex_loader (6, 1)" t] by auto
qed

end
