(* ===== verification/Example_Kernel.thy ===== *)
theory Example_Kernel
  imports Tracer Ebpf_Utils
begin

text \<open>
  A concrete kernel for the witnesses: a memory that holds one inode, its super block, a task and
  its credentials, laid out by the types of the header, and an environment whose helpers read
  that memory, look keys up in the bounded hash map and append to a list of records.
\<close>

definition poke :: "u64 \<Rightarrow> u8 list \<Rightarrow> (u64 \<times> u8) list" where
  "poke a bs = zip (map (\<lambda>i. a + of_nat i) [0..<length bs]) bs"

definition ex_inode :: u64 where "ex_inode = 0x1000"
definition ex_super :: u64 where "ex_super = 0x2000"
definition ex_task :: u64 where "ex_task = 0x3000"
definition ex_cred :: u64 where "ex_cred = 0x4000"
definition ex_ino :: u64 where "ex_ino = 1234"
definition ex_dev :: u32 where "ex_dev = 0x800001"
definition ex_comm :: "u8 list" where "ex_comm = [99, 97, 116] @ replicate 13 0"

definition ex_mem :: kmem where
  "ex_mem = map_of
     (poke (ex_inode + 64) (le_bytes 8 ex_ino) @ poke (ex_inode + 40) (le_bytes 8 ex_super) @
      poke (ex_super + 16) (le_bytes 4 ex_dev) @
      poke (ex_task + 2496) (le_bytes 4 (101 :: u32)) @ poke (ex_task + 2500) (le_bytes 4 (100 :: u32)) @
      poke (ex_task + 3040) ex_comm @ poke (ex_task + 3024) (le_bytes 8 ex_cred) @
      poke (ex_cred + 8) (le_bytes 4 (1000 :: u32)) @ poke (ex_cred + 12) (le_bytes 4 (1001 :: u32)))"

definition ex_env :: "((bpfMapKey \<times> u8) list, u8 list list) bpf_env" where
  "ex_env = \<lparr>be_parm = (\<lambda>n ctx. if n = 1 then pr_di ctx else if n = 2 then pr_si ctx else pr_dx ctx),
     be_core_read = (\<lambda>a path n. core_chain ex_mem vmlinux_btf path n a),
     be_pid_tgid = push_bit 32 100 OR 101, be_uid_gid = push_bit 32 1001 OR 1000,
     be_comm = (\<lambda>n. take n ex_comm), be_lookup = hash_look, be_output = (\<lambda>r bs. r @ [bs])\<rparr>"

text \<open>The registers at a call of \<open>inode_permission\<close>, with the id map first or without it.\<close>

definition ex_regs :: "u64 \<Rightarrow> u64 \<Rightarrow> u64 \<Rightarrow> pt_regs" where
  "ex_regs di si dx = \<lparr>pr_r15 = 0, pr_r14 = 0, pr_r13 = 0, pr_r12 = 0, pr_bp = 0, pr_bx = 0,
     pr_r11 = 0, pr_r10 = 0, pr_r9 = 0, pr_r8 = 0, pr_ax = 0, pr_cx = 0, pr_dx = dx, pr_si = si,
     pr_di = di, pr_orig_ax = 0, pr_ip = 0, pr_csx = 0, pr_flags = 0, pr_sp = 0, pr_ssx = 0\<rparr>"

lemmas ex_consts = ex_inode_def ex_super_def ex_task_def ex_cred_def ex_ino_def ex_dev_def

text \<open>What is poked is what is loaded, when the addresses are distinct.\<close>

lemma ex_load:
  "load ex_mem 8 (ex_inode + 64) = Some (le_bytes 8 ex_ino)"
  "load ex_mem 8 (ex_inode + 40) = Some (le_bytes 8 ex_super)"
  "load ex_mem 4 (ex_super + 16) = Some (le_bytes 4 ex_dev)"
  "load ex_mem 4 (ex_task + 2496) = Some (le_bytes 4 (101 :: u32))"
  "load ex_mem 4 (ex_task + 2500) = Some (le_bytes 4 (100 :: u32))"
  "load ex_mem 16 (ex_task + 3040) = Some ex_comm"
  "load ex_mem 8 (ex_task + 3024) = Some (le_bytes 8 ex_cred)"
  "load ex_mem 4 (ex_cred + 8) = Some (le_bytes 4 (1000 :: u32))"
  "load ex_mem 4 (ex_cred + 12) = Some (le_bytes 4 (1001 :: u32))"
  by code_simp+

lemma ex_inode_object: "inode_object ex_mem vmlinux_btf ex_inode ex_ino ex_dev"
  unfolding inode_object_def holds_field_def
  by (rule exI [of _ ex_super]) (simp add: layout ex_load)

lemma ex_task_object: "task_object ex_mem vmlinux_btf ex_task 101 100 1000 1001 ex_comm"
  unfolding task_object_def holds_field_def
  by (rule exI [of _ ex_cred]) (simp add: layout ex_load)

lemma ex_parms: "parms_x86_64 ex_env"
  by (simp add: parms_x86_64_def ex_env_def)

lemma ex_core_reads: "core_reads ex_env ex_mem vmlinux_btf"
  by (simp add: core_reads_def ex_env_def)

lemma ex_comm_length [simp]: "length ex_comm = TASK_COMM_LEN"
  by (simp add: ex_comm_def TASK_COMM_LEN_def)

lemma ex_comm_fills: "comm_fills ex_env"
  by (simp add: comm_fills_def ex_env_def)

lemma ex_current: "current_task ex_env ex_mem vmlinux_btf ex_task 101 100 1000 1001 ex_comm"
  using ex_task_object by (simp add: current_task_def ex_env_def)

lemma ex_traced: "traced_map (be_lookup ex_env) hash_ops"
  by (simp add: ex_env_def traced_map_hash)

end
