(* ===== verification/Monitor.thy ===== *)
theory Monitor
  imports Ebpf_Loader Example_Kernel
begin

text \<open>
  The monitor as a whole: what the operator gets out of the ring buffer when it adds and removes
  inodes while processes access files.  The abstract monitor is a set of traced files and a list
  of records; the concrete one runs \<open>AddInode\<close>, \<open>RemoveInode\<close> and the attached probe on the two
  maps.  The simulation lemmas say that every concrete step is a step of the abstract monitor,
  with the program the loader attaches to the running kernel.
\<close>

section \<open>The abstract monitor\<close>

record monitor =
  mn_traced :: "bpfMapKey set"
  mn_records :: "bpfLogData list"

datatype mon_op =
    MAdd bpfMapKey
  | MRemove bpfMapKey
  | MAccess bpfLogData      \<comment> \<open>an access, with the record it would have\<close>
  | MOther                  \<comment> \<open>a call without an inode\<close>

definition record_key :: "bpfLogData \<Rightarrow> bpfMapKey" where
  "record_key d = \<lparr>mk_Inode = ld_Ino d, mk_Dev = ld_Dev d\<rparr>"

text \<open>An add can be refused and a record dropped, when the map or the ring buffer is full.\<close>

inductive mon_step :: "monitor \<Rightarrow> mon_op \<Rightarrow> monitor \<Rightarrow> bool" where
  added: "mon_step m (MAdd k) (m\<lparr>mn_traced := insert k (mn_traced m)\<rparr>)"
| refused: "mon_step m (MAdd k) m"
| removed: "mon_step m (MRemove k) (m\<lparr>mn_traced := mn_traced m - {k}\<rparr>)"
| reported: "record_key d \<in> mn_traced m \<Longrightarrow>
    mon_step m (MAccess d) (m\<lparr>mn_records := mn_records m @ [d]\<rparr>)"
| dropped: "record_key d \<in> mn_traced m \<Longrightarrow> mon_step m (MAccess d) m"
| ignored: "record_key d \<notin> mn_traced m \<Longrightarrow> mon_step m (MAccess d) m"
| other: "mon_step m MOther m"

inductive_cases mon_addE: "mon_step m (MAdd k) n"
inductive_cases mon_removeE: "mon_step m (MRemove k) n"
inductive_cases mon_accessE: "mon_step m (MAccess d) n"
inductive_cases mon_otherE: "mon_step m MOther n"

inductive mon_run :: "monitor \<Rightarrow> mon_op list \<Rightarrow> monitor \<Rightarrow> bool" where
  finish: "mon_run m [] m"
| step: "mon_step m p n \<Longrightarrow> mon_run n ps q \<Longrightarrow> mon_run m (p # ps) q"

inductive_simps mon_run_Nil [simp]: "mon_run m [] q"
inductive_simps mon_run_Cons: "mon_run m (p # ps) q"

fun accesses :: "mon_op list \<Rightarrow> bpfLogData list" where
  "accesses [] = []"
| "accesses (MAccess d # ps) = d # accesses ps"
| "accesses (_ # ps) = accesses ps"

text \<open>The records of a run are accesses of the run, in their order.\<close>

lemma mon_run_records:
  assumes "mon_run m ps q"
  shows "\<exists>ds. mn_records q = mn_records m @ ds \<and> subseq ds (accesses ps)"
  using assms
proof (induction m ps q rule: mon_run.induct)
  case (finish m)
  then show ?case by simp
next
  case (step m p n ps q)
  then obtain ds where ds: "mn_records q = mn_records n @ ds" "subseq ds (accesses ps)" by blast
  have "mn_records q = mn_records m @ es \<and> subseq es (accesses (p # ps)) \<Longrightarrow> ?case" for es
    by blast
  from step.hyps(1) show ?case
  proof cases
    case (reported d)
    with ds show ?thesis by (intro exI [of _ "d # ds"]) simp
  qed (use ds in \<open>auto intro: exI [of _ ds]\<close>)
qed

text \<open>A file that is not traced before the run and not added by it has no record in it.\<close>

lemma mon_run_untraced:
  assumes "mon_run m ps q" and "k \<notin> mn_traced m" and "MAdd k \<notin> set ps"
  shows "k \<notin> mn_traced q \<and> filter (\<lambda>d. record_key d = k) (mn_records q) =
    filter (\<lambda>d. record_key d = k) (mn_records m)"
  using assms
proof (induction m ps q rule: mon_run.induct)
  case (step m p n ps q)
  from step.hyps(1) step.prems
  have "k \<notin> mn_traced n \<and> filter (\<lambda>d. record_key d = k) (mn_records n) =
    filter (\<lambda>d. record_key d = k) (mn_records m)"
    by cases auto
  with step.IH step.prems show ?case by simp
qed simp

section \<open>The concrete monitor\<close>

datatype ('m, 'r) op =
    OpAdd bpfMapKey
  | OpRemove bpfMapKey
  | OpCall "('m, 'r) bpf_env" pt_regs   \<comment> \<open>a call of the probed function\<close>

type_synonym ('m, 'r) bpf_prog =
  "('m, 'r) bpf_env \<Rightarrow> pt_regs \<Rightarrow> ('m, 'r) bpf_maps \<Rightarrow> int \<times> ('m, 'r) bpf_maps"

fun op_step ::
  "('m, 'r) bpf_prog \<Rightarrow> 'm map_ops \<Rightarrow> ('m, 'r) op \<Rightarrow> ('m, 'r) bpf_maps \<Rightarrow> ('m, 'r) bpf_maps" where
  "op_step prog ops (OpAdd k) st = st\<lparr>traced_inodes := snd (AddInode ops k (traced_inodes st))\<rparr>"
| "op_step prog ops (OpRemove k) st = st\<lparr>traced_inodes := snd (RemoveInode ops k (traced_inodes st))\<rparr>"
| "op_step prog ops (OpCall env ctx) st = snd (prog env ctx st)"

fun op_run ::
  "('m, 'r) bpf_prog \<Rightarrow> 'm map_ops \<Rightarrow> ('m, 'r) op list \<Rightarrow> ('m, 'r) bpf_maps \<Rightarrow> ('m, 'r) bpf_maps" where
  "op_run prog ops [] st = st"
| "op_run prog ops (p # ps) st = op_run prog ops ps (op_step prog ops p st)"

text \<open>
  The documented behaviour of the ring buffer, where \<open>pend\<close> are the records not yet read: a new
  record is appended, or dropped when there is no room.
\<close>

definition ring_buffer :: "('r \<Rightarrow> u8 list \<Rightarrow> 'r) \<Rightarrow> ('r \<Rightarrow> u8 list list) \<Rightarrow> bool" where
  "ring_buffer out pend \<longleftrightarrow> (\<forall>r bs. pend (out r bs) = pend r @ [bs] \<or> pend (out r bs) = pend r)"

text \<open>
  How the kernel of version \<open>v\<close> calls \<open>inode_permission\<close>: the inode and the mask are the first two
  arguments before 5.12, and follow the id map from 5.12.
\<close>

definition calls_inode_permission :: "nat \<times> nat \<Rightarrow> pt_regs \<Rightarrow> u64 \<Rightarrow> u64 \<Rightarrow> bool" where
  "calls_inode_permission v ctx inode msk \<longleftrightarrow>
     (if before_5_12 v then pr_di ctx = inode \<and> pr_si ctx = msk
      else pr_si ctx = inode \<and> pr_dx ctx = msk)"

text \<open>What an operation means to the abstract monitor.\<close>

inductive means ::
  "nat \<times> nat \<Rightarrow> ('m \<Rightarrow> u8 list \<Rightarrow> u8 option) \<Rightarrow> ('r \<Rightarrow> u8 list \<Rightarrow> 'r) \<Rightarrow> ('m, 'r) op \<Rightarrow> mon_op \<Rightarrow> bool"
  for v look out where
  add: "means v look out (OpAdd k) (MAdd k)"
| remove: "means v look out (OpRemove k) (MRemove k)"
| access: "be_lookup env = look \<Longrightarrow> be_output env = out \<Longrightarrow> parms_x86_64 env \<Longrightarrow>
    core_reads env mem K \<Longrightarrow> comm_fills env \<Longrightarrow> calls_inode_permission v ctx a msk \<Longrightarrow> a \<noteq> 0 \<Longrightarrow>
    inode_object mem K a ino dev \<Longrightarrow>
    means v look out (OpCall env ctx) (MAccess (log_entry env ino dev (ucast msk)))"
| null: "parms_x86_64 env \<Longrightarrow> calls_inode_permission v ctx 0 msk \<Longrightarrow>
    means v look out (OpCall env ctx) MOther"

definition bpf_program :: "bool \<Rightarrow> ('m, 'r) bpf_prog" where
  "bpf_program old = (if old then kprobe_inode_permission_old else kprobe_inode_permission_new)"

definition mon_of ::
  "('m \<Rightarrow> u8 list \<Rightarrow> u8 option) \<Rightarrow> ('r \<Rightarrow> u8 list list) \<Rightarrow> ('m, 'r) bpf_maps \<Rightarrow> monitor" where
  "mon_of look pend st =
     \<lparr>mn_traced = traced look (traced_inodes st),
      mn_records = List.map_filter read_bpfLogData (pend (rb st))\<rparr>"

section \<open>Every concrete step is an abstract step\<close>

lemma record_key_entry [simp]:
  "record_key (log_entry env ino dev msk) = \<lparr>mk_Inode = ino, mk_Dev = dev\<rparr>"
  by (simp add: record_key_def log_entry_def)

lemma program_access:
  assumes "parms_x86_64 env" and "core_reads env mem K" and "comm_fills env"
    and "calls_inode_permission v ctx a msk" and "a \<noteq> 0" and "inode_object mem K a ino dev"
  shows "bpf_program (before_5_12 v) env ctx st = (0,
    if be_lookup env (traced_inodes st) (map_key_object ino dev) = None then st
    else st\<lparr>rb := be_output env (rb st) (bytes_log_data (log_entry env ino dev (ucast msk)))\<rparr>)"
proof (cases "before_5_12 v")
  case True
  with assms(1,4) have "be_parm env 1 ctx = a" "be_parm env 2 ctx = msk"
    by (simp_all add: parms_x86_64_def calls_inode_permission_def)
  with True old_probe.access [OF _ assms(5,2,6,3), of ctx st] show ?thesis
    by (simp add: bpf_program_def)
next
  case False
  with assms(1,4) have "be_parm env 2 ctx = a" "be_parm env 3 ctx = msk"
    by (simp_all add: parms_x86_64_def calls_inode_permission_def)
  with False new_probe.access [OF _ assms(5,2,6,3), of ctx st] show ?thesis
    by (simp add: bpf_program_def)
qed

lemma program_null:
  assumes "parms_x86_64 env" and "calls_inode_permission v ctx 0 msk"
  shows "bpf_program (before_5_12 v) env ctx st = (0, st)"
  using assms old_probe.null_inode [of env ctx st] new_probe.null_inode [of env ctx st]
  by (simp add: bpf_program_def parms_x86_64_def calls_inode_permission_def split: if_splits)

lemma map_filter_snoc:
  "List.map_filter f (xs @ [x]) =
     List.map_filter f xs @ (case f x of None \<Rightarrow> [] | Some y \<Rightarrow> [y])"
  by (simp add: List.map_filter_def split: option.split)

lemma step_simulates:
  assumes "means v look out p q" and "traced_map look ops" and "ring_buffer out pend"
  shows "mon_step (mon_of look pend st) q
    (mon_of look pend (op_step (bpf_program (before_5_12 v)) ops p st))"
  using assms(1)
proof cases
  case (add k)
  obtain e m where m: "AddInode ops k (traced_inodes st) = (e, m)" by fastforce
  with AddInode_cases [OF assms(2) m]
  have "traced look m = insert k (traced look (traced_inodes st)) \<or> m = traced_inodes st" by auto
  with added [of "mon_of look pend st" k] refused [of "mon_of look pend st" k] add m
  show ?thesis by (elim disjE) (simp_all add: mon_of_def)
next
  case (remove k)
  obtain e m where m: "RemoveInode ops k (traced_inodes st) = (e, m)" by fastforce
  with RemoveInode_cases [OF assms(2) m]
  have "traced look m = traced look (traced_inodes st) - {k}" by auto
  with removed [of "mon_of look pend st" k] remove m show ?thesis by (simp add: mon_of_def)
next
  case (access env mem K ctx a msk ino dev)
  note prog = program_access [OF access(5,6,7,8,9,10), of st]
  let ?d = "log_entry env ino dev (ucast msk)"
  have dec: "read_bpfLogData (bytes_log_data ?d) = Some ?d"
    using access(7) by (simp add: log_data.dec_enc_exact)
  show ?thesis
  proof (cases "look (traced_inodes st) (map_key_object ino dev)")
    case None
    then have "record_key ?d \<notin> mn_traced (mon_of look pend st)"
      by (simp add: mon_of_def traced_iff map_key_object_go)
    from ignored [OF this] None prog access(1-3) show ?thesis by simp
  next
    case (Some x)
    then have key: "record_key ?d \<in> mn_traced (mon_of look pend st)"
      by (simp add: mon_of_def traced_iff map_key_object_go)
    from assms(3) have "pend (out (rb st) (bytes_log_data ?d)) = pend (rb st) @ [bytes_log_data ?d] \<or>
        pend (out (rb st) (bytes_log_data ?d)) = pend (rb st)"
      by (simp add: ring_buffer_def)
    with reported [OF key] dropped [OF key] Some prog access(1-4) dec show ?thesis
      by (auto simp: mon_of_def map_filter_snoc)
  qed
next
  case (null env ctx msk)
  with program_null [OF null(3,4), of st] other [of "mon_of look pend st"] show ?thesis by simp
qed

lemma run_simulates:
  assumes "list_all2 (means v look out) ps qs" and "traced_map look ops" and "ring_buffer out pend"
  shows "mon_run (mon_of look pend st) qs
    (mon_of look pend (op_run (bpf_program (before_5_12 v)) ops ps st))"
  using assms(1)
proof (induction ps qs arbitrary: st rule: list_all2_induct)
  case Nil
  then show ?case by simp
next
  case (Cons p ps q qs)
  then show ?case
    using step_simulates [OF Cons(1) assms(2,3), of st] by (auto simp: mon_run_Cons)
qed

section \<open>Nothing is lost while there is room\<close>

text \<open>The records an ideal monitor reports, from a set of traced files on.\<close>

fun expected :: "bpfMapKey set \<Rightarrow> mon_op list \<Rightarrow> bpfLogData list" where
  "expected T [] = []"
| "expected T (MAdd k # ps) = expected (insert k T) ps"
| "expected T (MRemove k # ps) = expected (T - {k}) ps"
| "expected T (MAccess d # ps) = (if record_key d \<in> T then d # expected T ps else expected T ps)"
| "expected T (MOther # ps) = expected T ps"

fun added_keys :: "mon_op list \<Rightarrow> bpfMapKey set" where
  "added_keys [] = {}"
| "added_keys (MAdd k # ps) = insert k (added_keys ps)"
| "added_keys (_ # ps) = added_keys ps"

definition lossless_ring :: "('r \<Rightarrow> u8 list \<Rightarrow> 'r) \<Rightarrow> ('r \<Rightarrow> u8 list list) \<Rightarrow> bool" where
  "lossless_ring out pend \<longleftrightarrow> (\<forall>r bs. pend (out r bs) = pend r @ [bs])"

lemma finite_added [simp]: "finite (added_keys qs)"
  by (induction qs rule: added_keys.induct) simp_all

lemma run_exact:
  assumes "list_all2 (means v look out) ps qs" and "traced_map look ops" and "has_room look ops n"
    and "lossless_ring out pend" and "finite (traced look (traced_inodes st))"
    and "card (traced look (traced_inodes st) \<union> added_keys qs) \<le> n"
  shows "mn_records (mon_of look pend (op_run (bpf_program (before_5_12 v)) ops ps st)) =
    mn_records (mon_of look pend st) @ expected (traced look (traced_inodes st)) qs"
  using assms(1,5,6)
proof (induction ps qs arbitrary: st rule: list_all2_induct)
  case Nil
  then show ?case by simp
next
  case (Cons p ps q qs)
  let ?T = "traced look (traced_inodes st)"
  have smaller: "card (S \<union> added_keys qs) \<le> n" if "S \<union> added_keys qs \<subseteq> ?T \<union> added_keys (q # qs)" for S
    using card_mono [OF _ that] Cons.prems by simp
  have key: "added_keys qs \<subseteq> added_keys (q # qs)" by (cases q) auto
  from Cons(1) show ?case
  proof cases
    case (add k)
    then have "insert k ?T \<subseteq> ?T \<union> added_keys (q # qs)" by auto
    from card_mono [OF _ this] Cons.prems have "card (insert k ?T) \<le> n" by simp
    note AddInode_room [OF assms(2,3) this]
    with Cons.IH [of "op_step (bpf_program (before_5_12 v)) ops p st"] smaller [of "insert k ?T"]
      Cons.prems add
    show ?thesis by (auto simp: mon_of_def)
  next
    case (remove k)
    with Cons.IH [of "op_step (bpf_program (before_5_12 v)) ops p st"] smaller [of "?T - {k}"]
      Cons.prems RemoveInode_traced [OF assms(2), of k "traced_inodes st"]
    show ?thesis by (auto simp: mon_of_def)
  next
    case (access env mem K ctx a msk ino dev)
    note prog = program_access [OF access(5,6,7,8,9,10), of st]
    let ?d = "log_entry env ino dev (ucast msk)"
    have dec: "read_bpfLogData (bytes_log_data ?d) = Some ?d"
      using access(7) by (simp add: log_data.dec_enc_exact)
    have "record_key ?d \<in> ?T \<longleftrightarrow> look (traced_inodes st) (map_key_object ino dev) \<noteq> None"
      by (simp add: traced_iff map_key_object_go)
    with Cons.IH [of "op_step (bpf_program (before_5_12 v)) ops p st"] smaller [of ?T]
      Cons.prems key access(1-4) prog dec assms(4)
    show ?thesis
      by (auto simp: mon_of_def lossless_ring_def map_filter_snoc split: if_splits)
  next
    case (null env ctx msk)
    with Cons.IH [of st] Cons.prems program_null [OF null(3,4), of st] show ?thesis by simp
  qed
qed

section \<open>The program the loader attaches\<close>

text \<open>The program behind a handle of the loaded objects.\<close>

definition program_at :: "bpfObjects \<Rightarrow> handle option \<Rightarrow> ('m, 'r) bpf_prog \<Rightarrow> bool" where
  "program_at ob h prog \<longleftrightarrow>
     h = KprobeInodePermissionOld ob \<and> prog = bpf_program True \<or>
     h = KprobeInodePermissionNew ob \<and> prog = bpf_program False"

lemma attached_program:
  assumes "LoadEbpf env s = (Return (), t)" and "\<And>h. ee_uname env h = Inr (release_field v suf)"
    and "fst v < 2 ^ 63" and "snd v < 2 ^ 63"
    and "suf = [] \<or> hd suf = CHR ''.''" and "CHR 0x00 \<notin> set suf"
  shows "\<exists>h. LinkKprobe KprobedFunc h \<in> set (history t) \<and>
    program_at (Objs t) h (bpf_program (before_5_12 v))"
proof -
  from assms(1) obtain old where
      "isKernelOld (ee_uname env (history s @ take 3 (load_calls (Objs t) old))) = Return old"
    and t: "history t = history s @ load_calls (Objs t) old"
    by (auto simp: LoadEbpf_iff)
  with isKernelOld_release [OF assms(3-6)] assms(2) have "old = before_5_12 v" by simp
  with t show ?thesis
    by (intro exI [of _ "load_program (Objs t) old"])
      (auto simp: load_calls_def load_program_def program_at_def)
qed

section \<open>Properties\<close>

text \<open>C3: on a kernel of any version, for which it was loaded and whose files and processes are what
  the kernel's memory holds, the operator's monitor is exact as long as its map has room and the
  ring buffer keeps every record: the records to be read after any interleaving of additions,
  removals and accesses are those of the accesses to files traced at the time, one each, in
  order, with the process, the inode, the device and the mask of the access.\<close>

theorem loaded_monitor_exact:
  assumes "LoadEbpf lenv s = (Return (), t)" and "\<And>h. ee_uname lenv h = Inr (release_field v suf)"
    and "fst v < 2 ^ 63" and "snd v < 2 ^ 63"
    and "suf = [] \<or> hd suf = CHR ''.''" and "CHR 0x00 \<notin> set suf"
    and "list_all2 (means v look out) ps qs"
    and "traced_map look ops" and "has_room look ops n" and "lossless_ring out pend"
    and "finite (traced look (traced_inodes st))"
    and "card (traced look (traced_inodes st) \<union> added_keys qs) \<le> n"
  shows "\<exists>h prog. LinkKprobe KprobedFunc h \<in> set (history t) \<and> program_at (Objs t) h prog \<and>
    mn_records (mon_of look pend (op_run prog ops ps st)) =
      mn_records (mon_of look pend st) @ expected (traced look (traced_inodes st)) qs"
  using attached_program [OF assms(1-6)] run_exact [OF assms(7-12)] by blast

text \<open>C13: every step of the concrete monitor, with the program for the running kernel, is a step of
  the abstract one, also when the map refuses a key or the ring buffer drops a record; so is
  every run.\<close>

theorem monitor_refines:
  assumes "list_all2 (means v look out) ps qs" and "traced_map look ops" and "ring_buffer out pend"
  shows "mon_run (mon_of look pend st) qs
    (mon_of look pend (op_run (bpf_program (before_5_12 v)) ops ps st))"
  using assms by (rule run_simulates)

text \<open>A file that is not traced when a run starts and that the run does not add gets no record
  in the run and is not traced after it, and every record of the run is that of one of its
  accesses, in the order of the accesses.\<close>

lemma only_traced_files_reported:
  assumes "list_all2 (means v look out) ps qs" and "traced_map look ops" and "ring_buffer out pend"
    and "k \<notin> traced look (traced_inodes st)" and "MAdd k \<notin> set qs"
    and "final = mon_of look pend (op_run (bpf_program (before_5_12 v)) ops ps st)"
  shows "k \<notin> mn_traced final \<and>
    (\<exists>ds. mn_records final = mn_records (mon_of look pend st) @ ds \<and> subseq ds (accesses qs) \<and>
       (\<forall>d \<in> set ds. record_key d \<noteq> k))"
proof -
  note run = run_simulates [OF assms(1-3), of st]
  from assms(4) have k: "k \<notin> mn_traced (mon_of look pend st)" by (simp add: mon_of_def)
  from mon_run_records [OF run] assms(6)
  obtain ds where ds: "mn_records final = mn_records (mon_of look pend st) @ ds"
    "subseq ds (accesses qs)" by blast
  have "k \<notin> mn_traced final" "filter (\<lambda>d. record_key d = k) ds = []"
    using mon_run_untraced [OF run k assms(5)] ds(1) assms(6) by simp_all
  with ds show ?thesis by (auto simp: filter_empty_conv)
qed

text \<open>C21: a call of \<open>inode_permission\<close> on a traced inode, on a kernel of any version, appends to the
  ring buffer the record with the thread and process id, the user and group, and the name of the
  current task, and the inode number, device and mask of the call, and nothing on any other
  inode; the kernel's memory is read at the offsets of its own types.\<close>

theorem access_recorded:
  assumes "parms_x86_64 env" and "core_reads env mem K"
    and "current_task env mem K task tid tgrp user grp name"
    and "calls_inode_permission v ctx a msk" and "a \<noteq> 0" and "inode_object mem K a ino dev"
  shows "bpf_program (before_5_12 v) env ctx st = (0,
    if be_lookup env (traced_inodes st) (bytes_bpfMapKey \<lparr>mk_Inode = ino, mk_Dev = dev\<rparr>) = None
    then st
    else st\<lparr>rb := be_output env (rb st) (bytes_log_data
      \<lparr>ld_Pid = tid, ld_Tgid = tgrp, ld_Uid = user, ld_Gid = grp, ld_Dev = dev, ld_Ino = ino,
       ld_Mask = ucast msk, ld_Comm = name\<rparr>)\<rparr>)"
  using program_access [OF assms(1,2) current_task_comm [OF assms(3)] assms(4-6), of st]
  by (simp add: log_entry_of_task [OF assms(3)] map_key_object_go)

text \<open>The concrete kernel of \<open>Example_Kernel\<close>, in a version from and one before 5.12.\<close>

definition ex_key :: bpfMapKey where "ex_key = \<lparr>mk_Inode = ex_ino, mk_Dev = ex_dev\<rparr>"

definition ex_maps :: "((bpfMapKey \<times> u8) list, u8 list list) bpf_maps" where
  "ex_maps = \<lparr>traced_inodes = [], rb = []\<rparr>"

definition ex_ops :: "((bpfMapKey \<times> u8) list, u8 list list) op list" where
  "ex_ops = [OpCall ex_env (ex_regs 0 ex_inode 4), OpAdd ex_key, OpCall ex_env (ex_regs 0 ex_inode 4),
     OpCall ex_env (ex_regs 0 0 4), OpRemove ex_key, OpCall ex_env (ex_regs 0 ex_inode 4)]"

definition ex_entry :: bpfLogData where
  "ex_entry = log_entry ex_env ex_ino ex_dev (ucast (4 :: u64))"

definition ex_mon_ops :: "mon_op list" where
  "ex_mon_ops = [MAccess ex_entry, MAdd ex_key, MAccess ex_entry, MOther, MRemove ex_key,
     MAccess ex_entry]"

lemma ex_call: "means (6, 8) hash_look (\<lambda>r bs. r @ [bs]) (OpCall ex_env (ex_regs 0 ex_inode 4))
    (MAccess ex_entry)"
  unfolding ex_entry_def
  by (rule means.access [OF _ _ ex_parms ex_core_reads ex_comm_fills _ _ ex_inode_object])
    (simp_all add: ex_env_def ex_regs_def calls_inode_permission_def before_5_12_def ex_inode_def)

lemma ex_null: "means (6, 8) hash_look (\<lambda>r bs. r @ [bs]) (OpCall ex_env (ex_regs 0 0 4)) MOther"
  by (rule means.null [OF ex_parms, of _ _ 4])
    (simp add: ex_regs_def calls_inode_permission_def before_5_12_def)

lemma ex_means: "list_all2 (means (6, 8) hash_look (\<lambda>r bs. r @ [bs])) ex_ops ex_mon_ops"
  by (simp add: ex_ops_def ex_mon_ops_def ex_call ex_null means.add means.remove)

lemma ex_expected: "expected {} ex_mon_ops = [ex_entry]"
  by (simp add: ex_mon_ops_def ex_key_def ex_entry_def)

theorem loaded_monitor_exact_witness:
  "\<exists>h prog t. LoadEbpf (ex_loader (6, 8)) ebpf_init = (Return (), t) \<and>
     program_at (Objs t) h prog \<and>
     mn_records (mon_of hash_look id (op_run prog hash_ops ex_ops ex_maps)) = [ex_entry]"
proof -
  obtain t where t: "LoadEbpf (ex_loader (6, 8)) ebpf_init = (Return (), t)"
    using ex_loader_load [of "(6, 8)"] by auto
  have keys: "card (traced hash_look (traced_inodes ex_maps) \<union> added_keys ex_mon_ops) \<le> MAP_MAX_ENTRIES"
    by (simp add: ex_maps_def traced_hash ex_mon_ops_def MAP_MAX_ENTRIES_def)
  have "lossless_ring (\<lambda>r bs. r @ [bs]) id" by (simp add: lossless_ring_def)
  from loaded_monitor_exact [OF t, of "(6, 8)" "[]", OF _ _ _ _ _ ex_means traced_map_hash
      has_room_hash this _ keys]
  show ?thesis using t
    by (auto simp: ex_loader_def ex_maps_def traced_hash mon_of_def ex_expected)
qed

theorem monitor_refines_witness:
  "mon_run (mon_of hash_look id ex_maps) ex_mon_ops
    (mon_of hash_look id (op_run (bpf_program (before_5_12 (6, 8))) hash_ops ex_ops ex_maps))"
  by (rule monitor_refines [OF ex_means traced_map_hash]) (simp add: ring_buffer_def)


theorem access_recorded_witness:
  "bpf_program (before_5_12 (5, 4)) ex_env (ex_regs ex_inode 4 0) (ex_maps\<lparr>traced_inodes := [(ex_key, 1)]\<rparr>) =
    (0, \<lparr>traced_inodes = [(ex_key, 1)], rb = [bytes_log_data
      \<lparr>ld_Pid = 101, ld_Tgid = 100, ld_Uid = 1000, ld_Gid = 1001, ld_Dev = ex_dev, ld_Ino = ex_ino,
       ld_Mask = 4, ld_Comm = ex_comm\<rparr>]\<rparr>)"
  using access_recorded [OF ex_parms ex_core_reads ex_current _ _ ex_inode_object,
      of "(5, 4)" "ex_regs ex_inode 4 0" 4 "ex_maps\<lparr>traced_inodes := [(ex_key, 1)]\<rparr>"]
  by (simp add: calls_inode_permission_def before_5_12_def ex_regs_def ex_env_def ex_maps_def
      ex_key_def ex_inode_def)

end
