(* ===== verification/Container_Utils.thy ===== *)
theory Container_Utils
  imports Go_Lib
begin

text \<open>
  \<open>container/utils.go\<close>: the split of a container status's id into the runtime's name and the
  container's id, and the conversion of a device number from the encoding \<open>stat\<close> reports to the
  kernel's own \<open>dev_t\<close>, which is what the eBPF program reads from a super block.
\<close>

section \<open>Container ids\<close>

definition SplitContainerRuntimeID :: "string \<Rightarrow> string + string \<times> string" where
  "SplitContainerRuntimeID input =
     (let split = (case cut_at ''://'' input of Some (a, b) \<Rightarrow> [a, b] | None \<Rightarrow> [input]) in
      if length split \<noteq> 2 then Inl ''Error parsing containerID''
      else Inr (split ! 0, split ! 1))"

lemma Split_Some:
  "SplitContainerRuntimeID input = Inr (rt, i) \<longleftrightarrow> cut_at ''://'' input = Some (rt, i)"
  by (auto simp: SplitContainerRuntimeID_def split: option.splits)

lemma Split_None: "is_ok (SplitContainerRuntimeID input) \<longleftrightarrow> sublist ''://'' input"
  using cut_at_None [of "''://''" input] by (auto simp: SplitContainerRuntimeID_def split: option.splits)

lemma Split_join: "SplitContainerRuntimeID input = Inr (rt, i) \<Longrightarrow> input = rt @ ''://'' @ i"
  by (simp only: Split_Some cut_at_Some)

lemma Split_runtime:
  "CHR '':'' \<notin> set rt \<Longrightarrow> SplitContainerRuntimeID (rt @ ''://'' @ i) = Inr (rt, i)"
  unfolding Split_Some by (rule cut_at_first) simp_all

section \<open>Device numbers\<close>

definition MINORBITS :: nat where "MINORBITS = 20"

definition MINORMASK :: nat where "MINORMASK = 2 ^ MINORBITS - 1"

definition UserDevToKernelDev :: "u64 \<Rightarrow> u32" where
  "UserDevToKernelDev userdev =
     (let major = drop_bit 8 (userdev AND 0x00000000000fff00) OR
                  drop_bit 32 (userdev AND 0xfffff00000000000);
          minor = (userdev AND 0x00000000000000ff) OR
                  drop_bit 12 (userdev AND 0x00000ffffff00000)
      in ucast (push_bit 20 major OR minor))"

text \<open>
  The kernel's side: \<open>MKDEV\<close> builds a \<open>dev_t\<close> of a 12-bit major and a 20-bit minor number, and
  \<open>new_encode_dev\<close> is what \<open>stat\<close> puts in \<open>st_dev\<close> for it.
\<close>

definition kernel_dev :: "u32 \<Rightarrow> u32 \<Rightarrow> u32" where
  "kernel_dev major minor = push_bit MINORBITS major OR minor"

definition new_encode_dev :: "u32 \<Rightarrow> u32" where
  "new_encode_dev dev =
     (let major = drop_bit MINORBITS dev; minor = dev AND of_nat MINORMASK
      in (minor AND 0xff) OR push_bit 8 major OR push_bit 12 (minor AND NOT 0xff))"

lemma word_eq_by_bits:
  fixes v w :: "32 word"
  assumes "list_all (\<lambda>i. bit v i = bit w i) [0..<32]"
  shows "v = w"
  using assms by (intro bit_word_eqI) (simp add: list_all_iff)

lemma bit_above_32: "32 \<le> n \<Longrightarrow> \<not> bit (v :: 32 word) n"
  using bit_imp_le_length [of v n] by auto

lemma UserDev_new_encode: "UserDevToKernelDev (ucast (new_encode_dev dev)) = dev"
  by (rule word_eq_by_bits)
    (simp add: bit_above_32 UserDevToKernelDev_def new_encode_dev_def MINORBITS_def MINORMASK_def Let_def
      upt_conv_Cons bit_simps, simp add: eval_nat_numeral)

section \<open>Properties\<close>

text \<open>The conversion undoes the kernel's encoding of device numbers in \<open>stat\<close>: from the
  \<open>st_dev\<close> of any 12-bit major and 20-bit minor number it gets back the kernel's own \<open>dev_t\<close>, so
  that the device stored with a traced file is the one the eBPF program compares with.\<close>

lemma device_round_trip:
  "UserDevToKernelDev (ucast (new_encode_dev dev)) = dev"
  by (rule UserDev_new_encode)

text \<open>A container id is split at its first \<open>://\<close> and rejoining the parts gives the id back; an
  id without \<open>://\<close>, and only such an id, is an error.\<close>

lemma container_id_split:
  "(case SplitContainerRuntimeID input of
      Inl _ \<Rightarrow> \<not> sublist ''://'' input
    | Inr (rt, i) \<Rightarrow> input = rt @ ''://'' @ i \<and> sublist ''://'' input) \<and>
   SplitContainerRuntimeID (''containerd://'' @ i) = Inr (''containerd'', i)"
proof
  show "case SplitContainerRuntimeID input of
      Inl _ \<Rightarrow> \<not> sublist ''://'' input
    | Inr (rt, i) \<Rightarrow> input = rt @ ''://'' @ i \<and> sublist ''://'' input"
    using Split_None [of input] Split_join [of input] by (auto split: sum.split)
  show "SplitContainerRuntimeID (''containerd://'' @ i) = Inr (''containerd'', i)"
    using Split_runtime [of "''containerd''" i] by simp
qed

end
