(* ===== verification/Kive_Api.thy ===== *)
theory Kive_Api
  imports Go_Lib "HOL-Library.AList"
begin

text \<open>
  The custom resources of \<open>api/\<close>: \<open>KiveTrap\<close>, \<open>KivePolicy\<close>, \<open>KiveData\<close> and \<open>KiveAlert\<close> of the hub
  version v2alpha1, the same resources of version v1, and the conversions between the two.
  A Go map is an association list with distinct keys, in the order a loop ranges over it; a nil
  map reads as the empty one.  \<open>TypeMeta\<close> and \<open>ObjectMeta\<close> are Kubernetes' types, with the fields
  the operator reads and writes.
\<close>

section \<open>Go maps of strings\<close>

type_synonym strmap = "(string \<times> string) list"

definition wf_map :: "strmap \<Rightarrow> bool" where
  "wf_map m \<longleftrightarrow> distinct (map fst m)"

text \<open>\<open>m[k]\<close>: the zero value for an absent key.\<close>

definition map_get :: "strmap \<Rightarrow> string \<Rightarrow> string" where
  "map_get m k = (case map_of m k of Some v \<Rightarrow> v | None \<Rightarrow> [])"

text \<open>\<open>for key, value := range m { dst[key] = value }\<close>\<close>

fun map_copy :: "strmap \<Rightarrow> strmap \<Rightarrow> strmap" where
  "map_copy [] dst = dst"
| "map_copy ((k, v) # m) dst = map_copy m (AList.update k v dst)"

lemma update_fresh: "k \<notin> fst ` set m \<Longrightarrow> AList.update k v m = m @ [(k, v)]"
  by (induction m) auto

lemma map_copy_append:
  "distinct (map fst (dst @ m)) \<Longrightarrow> map_copy m dst = dst @ m"
proof (induction m arbitrary: dst)
  case (Cons e m)
  obtain k v where e: "e = (k, v)" by (cases e)
  with Cons.prems have "k \<notin> fst ` set dst" by auto
  with Cons e show ?case by (simp add: update_fresh)
qed simp

lemma map_copy_id [simp]: "wf_map m \<Longrightarrow> map_copy m [] = m"
  by (simp add: wf_map_def map_copy_append)

section \<open>Object metadata\<close>

record TypeMeta =
  tm_Kind :: string
  tm_APIVersion :: string

record ObjectMeta =
  om_Name :: string
  om_Namespace :: string
  om_Labels :: strmap
  om_Annotations :: strmap
  om_Finalizers :: "string list"
  om_DeletionTimestamp :: "string option"

section \<open>Version v2alpha1\<close>

record KiveTrapMatch =
  km_PodName :: string
  km_ContainerName :: string
  km_Namespace :: string
  km_IP :: string
  km_MatchLabels :: strmap

record KiveTrap =
  kt_Path :: string
  kt_Create :: bool
  kt_Mode :: u32
  kt_Callback :: string
  kt_Metadata :: strmap
  kt_MatchAny :: "KiveTrapMatch list"

record KivePolicySpec =
  ps_AlertVersion :: string
  ps_Traps :: "KiveTrap list"

record KivePolicy =
  kp_TypeMeta :: TypeMeta
  kp_ObjectMeta :: ObjectMeta
  kp_Spec :: KivePolicySpec

record KiveDataSpec =
  ds_InodeNo :: u64
  ds_DevID :: u32
  ds_Metadata :: strmap

record KiveData =
  kd_TypeMeta :: TypeMeta
  kd_ObjectMeta :: ObjectMeta
  kd_Spec :: KiveDataSpec

definition SupportedKiveAlertVersions :: "string list" where
  "SupportedKiveAlertVersions = [''v1'', ''v2alpha1'']"

record ContainerMetadata =
  cm_Id :: string
  cm_Name :: string

record PodMetadata =
  pm_Name :: string
  pm_Namespace :: string
  pm_Ip :: string
  pm_Container :: ContainerMetadata

record NodeMetadata =
  nm_Name :: string

record ProcessMetadata =
  pr_Pid :: u32
  pr_Tgid :: u32
  pr_Uid :: u32
  pr_Gid :: u32
  pr_Binary :: string
  pr_Cwd :: string
  pr_Arguments :: string

record KiveAlertMetadata =
  am_Path :: string
  am_Inode :: u64
  am_Mask :: u32
  am_KernelID :: string
  am_Callback :: string

record KiveAlert =
  ka_AlertVersion :: string
  ka_PolicyName :: string
  ka_Timestamp :: string
  ka_Metadata :: KiveAlertMetadata
  ka_CustomMetadata :: strmap
  ka_Pod :: PodMetadata
  ka_Node :: NodeMetadata
  ka_Process :: ProcessMetadata

text \<open>The label of the kernel's id (\<open>comm.go\<close>), and an annotation of a \<open>KiveData\<close>.\<close>

definition KernelIDLabel :: string where "KernelIDLabel = ''kernel-id''"

definition data_annotation :: "KiveData \<Rightarrow> string \<Rightarrow> string" where
  "data_annotation kd k = map_get (om_Annotations (kd_ObjectMeta kd)) k"

section \<open>Version v1\<close>

record V1KiveTrapMatch =
  v1m_PodName :: string
  v1m_ContainerName :: string
  v1m_Namespace :: string
  v1m_IP :: string
  v1m_MatchLabels :: strmap

record V1KiveTrap =
  v1t_Path :: string
  v1t_Create :: bool
  v1t_Mode :: u32
  v1t_Callback :: string
  v1t_Metadata :: strmap
  v1t_MatchAny :: "V1KiveTrapMatch list"

record V1KivePolicySpec =
  v1s_AlertVersion :: string
  v1s_Traps :: "V1KiveTrap list"

record V1KivePolicy =
  v1p_TypeMeta :: TypeMeta
  v1p_ObjectMeta :: ObjectMeta
  v1p_Spec :: V1KivePolicySpec

record V1KiveDataSpec =
  v1ds_InodeNo :: u64
  v1ds_DevID :: u32
  v1ds_Metadata :: strmap

record V1KiveData =
  v1d_TypeMeta :: TypeMeta
  v1d_ObjectMeta :: ObjectMeta
  v1d_Spec :: V1KiveDataSpec

section \<open>Conversions\<close>

text \<open>The loops append to slices: the accumulator is the slice built so far.\<close>

fun matches_to :: "V1KiveTrapMatch list \<Rightarrow> KiveTrapMatch list \<Rightarrow> KiveTrapMatch list" where
  "matches_to [] acc = acc"
| "matches_to (m # ms) acc =
     matches_to ms (acc @ [\<lparr>km_PodName = v1m_PodName m, km_ContainerName = v1m_ContainerName m,
       km_Namespace = v1m_Namespace m, km_IP = v1m_IP m, km_MatchLabels = v1m_MatchLabels m\<rparr>])"

fun traps_to :: "V1KiveTrap list \<Rightarrow> KiveTrap list \<Rightarrow> KiveTrap list" where
  "traps_to [] acc = acc"
| "traps_to (t # ts) acc =
     traps_to ts (acc @ [\<lparr>kt_Path = v1t_Path t, kt_Create = v1t_Create t, kt_Mode = v1t_Mode t,
       kt_Callback = v1t_Callback t, kt_Metadata = map_copy (v1t_Metadata t) [],
       kt_MatchAny = matches_to (v1t_MatchAny t) []\<rparr>])"

definition KivePolicy_ConvertTo :: "V1KivePolicy \<Rightarrow> KivePolicy \<Rightarrow> KivePolicy" where
  "KivePolicy_ConvertTo src dst =
     dst\<lparr>kp_ObjectMeta := v1p_ObjectMeta src,
       kp_Spec := (kp_Spec dst)\<lparr>ps_AlertVersion := v1s_AlertVersion (v1p_Spec src),
         ps_Traps := traps_to (v1s_Traps (v1p_Spec src)) []\<rparr>\<rparr>"

fun matches_from :: "KiveTrapMatch list \<Rightarrow> V1KiveTrapMatch list \<Rightarrow> V1KiveTrapMatch list" where
  "matches_from [] acc = acc"
| "matches_from (m # ms) acc =
     matches_from ms (acc @ [\<lparr>v1m_PodName = km_PodName m, v1m_ContainerName = km_ContainerName m,
       v1m_Namespace = km_Namespace m, v1m_IP = km_IP m, v1m_MatchLabels = km_MatchLabels m\<rparr>])"

fun traps_from :: "KiveTrap list \<Rightarrow> V1KiveTrap list \<Rightarrow> V1KiveTrap list" where
  "traps_from [] acc = acc"
| "traps_from (t # ts) acc =
     traps_from ts (acc @ [\<lparr>v1t_Path = kt_Path t, v1t_Create = kt_Create t, v1t_Mode = kt_Mode t,
       v1t_Callback = kt_Callback t, v1t_Metadata = map_copy (kt_Metadata t) [],
       v1t_MatchAny = matches_from (kt_MatchAny t) []\<rparr>])"

definition KivePolicy_ConvertFrom :: "KivePolicy \<Rightarrow> V1KivePolicy \<Rightarrow> V1KivePolicy" where
  "KivePolicy_ConvertFrom src dst =
     dst\<lparr>v1p_ObjectMeta := kp_ObjectMeta src,
       v1p_Spec := (v1p_Spec dst)\<lparr>v1s_AlertVersion := ps_AlertVersion (kp_Spec src),
         v1s_Traps := traps_from (ps_Traps (kp_Spec src)) []\<rparr>\<rparr>"

definition KiveData_ConvertTo :: "V1KiveData \<Rightarrow> KiveData \<Rightarrow> KiveData" where
  "KiveData_ConvertTo src dst =
     dst\<lparr>kd_ObjectMeta := v1d_ObjectMeta src,
       kd_Spec := (kd_Spec dst)\<lparr>ds_InodeNo := v1ds_InodeNo (v1d_Spec src),
         ds_DevID := v1ds_DevID (v1d_Spec src)\<rparr>\<rparr>"

definition KiveData_ConvertFrom :: "KiveData \<Rightarrow> V1KiveData \<Rightarrow> V1KiveData" where
  "KiveData_ConvertFrom src dst =
     dst\<lparr>v1d_ObjectMeta := kd_ObjectMeta src,
       v1d_Spec := (v1d_Spec dst)\<lparr>v1ds_InodeNo := ds_InodeNo (kd_Spec src),
         v1ds_DevID := ds_DevID (kd_Spec src)\<rparr>\<rparr>"

section \<open>Conversions are inverse to each other\<close>

text \<open>
  Two conversions between types with the loss of nothing: the law a pair of converters promises
  on the objects that are well-formed.
\<close>

locale lossless =
  fixes convert :: "'a \<Rightarrow> 'b" and revert :: "'b \<Rightarrow> 'a" and good :: "'a \<Rightarrow> bool"
  assumes revert_convert: "good x \<Longrightarrow> revert (convert x) = x"
begin

lemma convert_inject: "good x \<Longrightarrow> good y \<Longrightarrow> convert x = convert y \<longleftrightarrow> x = y"
  using revert_convert by metis

lemma map_revert_convert: "\<forall>x \<in> set xs. good x \<Longrightarrow> map revert (map convert xs) = xs"
  by (induction xs) (simp_all add: revert_convert)

end

definition match_to :: "V1KiveTrapMatch \<Rightarrow> KiveTrapMatch" where
  "match_to m = \<lparr>km_PodName = v1m_PodName m, km_ContainerName = v1m_ContainerName m,
     km_Namespace = v1m_Namespace m, km_IP = v1m_IP m, km_MatchLabels = v1m_MatchLabels m\<rparr>"

definition match_from :: "KiveTrapMatch \<Rightarrow> V1KiveTrapMatch" where
  "match_from m = \<lparr>v1m_PodName = km_PodName m, v1m_ContainerName = km_ContainerName m,
     v1m_Namespace = km_Namespace m, v1m_IP = km_IP m, v1m_MatchLabels = km_MatchLabels m\<rparr>"

definition trap_to :: "V1KiveTrap \<Rightarrow> KiveTrap" where
  "trap_to t = \<lparr>kt_Path = v1t_Path t, kt_Create = v1t_Create t, kt_Mode = v1t_Mode t,
     kt_Callback = v1t_Callback t, kt_Metadata = map_copy (v1t_Metadata t) [],
     kt_MatchAny = map match_to (v1t_MatchAny t)\<rparr>"

definition trap_from :: "KiveTrap \<Rightarrow> V1KiveTrap" where
  "trap_from t = \<lparr>v1t_Path = kt_Path t, v1t_Create = kt_Create t, v1t_Mode = kt_Mode t,
     v1t_Callback = kt_Callback t, v1t_Metadata = map_copy (kt_Metadata t) [],
     v1t_MatchAny = map match_from (kt_MatchAny t)\<rparr>"

lemma loops_are_maps:
  "matches_to ms acc = acc @ map match_to ms" "matches_from ns bcc = bcc @ map match_from ns"
  "traps_to ts ccc = ccc @ map trap_to ts" "traps_from us dcc = dcc @ map trap_from us"
proof -
  show m: "matches_to ms acc = acc @ map match_to ms" for ms acc
    by (induction ms acc rule: matches_to.induct) (simp_all add: match_to_def)
  show n: "matches_from ns bcc = bcc @ map match_from ns" for ns bcc
    by (induction ns bcc rule: matches_from.induct) (simp_all add: match_from_def)
  show "traps_to ts ccc = ccc @ map trap_to ts"
    by (induction ts ccc rule: traps_to.induct) (simp_all add: trap_to_def m)
  show "traps_from us dcc = dcc @ map trap_from us"
    by (induction us dcc rule: traps_from.induct) (simp_all add: trap_from_def n)
qed

interpretation match_v1: lossless match_to match_from "\<lambda>_. True"
  by unfold_locales (simp add: match_to_def match_from_def)

interpretation match_v2: lossless match_from match_to "\<lambda>_. True"
  by unfold_locales (simp add: match_to_def match_from_def)

interpretation trap_v1: lossless trap_to trap_from "\<lambda>t. wf_map (v1t_Metadata t)"
  by unfold_locales (simp add: trap_to_def trap_from_def o_def match_v1.revert_convert)

interpretation trap_v2: lossless trap_from trap_to "\<lambda>t. wf_map (kt_Metadata t)"
  by unfold_locales (simp add: trap_to_def trap_from_def o_def match_v2.revert_convert)

definition wf_v1_policy :: "V1KivePolicy \<Rightarrow> bool" where
  "wf_v1_policy p \<longleftrightarrow> (\<forall>t \<in> set (v1s_Traps (v1p_Spec p)). wf_map (v1t_Metadata t))"

definition wf_policy :: "KivePolicy \<Rightarrow> bool" where
  "wf_policy p \<longleftrightarrow> (\<forall>t \<in> set (ps_Traps (kp_Spec p)). wf_map (kt_Metadata t))"

lemmas policy_conversions = KivePolicy_ConvertTo_def KivePolicy_ConvertFrom_def loops_are_maps

lemma policy_there_back:
  assumes "wf_v1_policy p" and "v1p_TypeMeta d1 = v1p_TypeMeta p"
  shows "KivePolicy_ConvertFrom (KivePolicy_ConvertTo p d2) d1 = p"
  using assms trap_v1.map_revert_convert [of "v1s_Traps (v1p_Spec p)"]
  by (simp add: policy_conversions wf_v1_policy_def)

lemma policy_back_there:
  assumes "wf_policy p" and "kp_TypeMeta d2 = kp_TypeMeta p"
  shows "KivePolicy_ConvertTo (KivePolicy_ConvertFrom p d1) d2 = p"
  using assms trap_v2.map_revert_convert [of "ps_Traps (kp_Spec p)"]
  by (simp add: policy_conversions wf_policy_def)

text \<open>The metadata of a \<open>KiveData\<close> is not converted: what the target had remains.\<close>

lemma data_there_back:
  assumes "v1d_TypeMeta d1 = v1d_TypeMeta d"
  shows "KiveData_ConvertFrom (KiveData_ConvertTo d d2) d1 =
    d\<lparr>v1d_Spec := (v1d_Spec d)\<lparr>v1ds_Metadata := v1ds_Metadata (v1d_Spec d1)\<rparr>\<rparr>"
  using assms by (simp add: KiveData_ConvertTo_def KiveData_ConvertFrom_def)

lemma data_back_there:
  assumes "kd_TypeMeta d2 = kd_TypeMeta d"
  shows "KiveData_ConvertTo (KiveData_ConvertFrom d d1) d2 =
    d\<lparr>kd_Spec := (kd_Spec d)\<lparr>ds_Metadata := ds_Metadata (kd_Spec d2)\<rparr>\<rparr>"
  using assms by (simp add: KiveData_ConvertTo_def KiveData_ConvertFrom_def)

section \<open>Properties\<close>

text \<open>C35: converting a policy to the other version and back gives the policy, in both directions,
  into any target object with the type of the source: no trap, match or field is lost.\<close>

theorem policy_conversion_round_trip:
  assumes "wf_v1_policy p" and "wf_policy q"
  shows "KivePolicy_ConvertFrom (KivePolicy_ConvertTo p d2) (d1\<lparr>v1p_TypeMeta := v1p_TypeMeta p\<rparr>) = p \<and>
    KivePolicy_ConvertTo (KivePolicy_ConvertFrom q d1) (d2\<lparr>kp_TypeMeta := kp_TypeMeta q\<rparr>) = q"
  using policy_there_back [OF assms(1), of "d1\<lparr>v1p_TypeMeta := v1p_TypeMeta p\<rparr>" d2]
    policy_back_there [OF assms(2), of "d2\<lparr>kp_TypeMeta := kp_TypeMeta q\<rparr>" d1]
  by simp

definition ex_meta :: ObjectMeta where
  "ex_meta = \<lparr>om_Name = ''p'', om_Namespace = ''kivebpf-system'', om_Labels = [],
     om_Annotations = [], om_Finalizers = [], om_DeletionTimestamp = None\<rparr>"

definition ex_v1_policy :: V1KivePolicy where
  "ex_v1_policy = \<lparr>v1p_TypeMeta = \<lparr>tm_Kind = ''KivePolicy'', tm_APIVersion = ''v1''\<rparr>,
     v1p_ObjectMeta = ex_meta,
     v1p_Spec = \<lparr>v1s_AlertVersion = ''v1'', v1s_Traps = [\<lparr>v1t_Path = ''/etc/passwd'',
       v1t_Create = True, v1t_Mode = 292, v1t_Callback = ''http://cb'',
       v1t_Metadata = [(''k'', ''v''), (''l'', ''w'')], v1t_MatchAny = [\<lparr>v1m_PodName = ''web'',
         v1m_ContainerName = [], v1m_Namespace = [], v1m_IP = [], v1m_MatchLabels = []\<rparr>]\<rparr>]\<rparr>\<rparr>"

theorem policy_conversion_round_trip_witness:
  "\<exists>d1 d2. KivePolicy_ConvertFrom (KivePolicy_ConvertTo ex_v1_policy d2) d1 = ex_v1_policy"
proof -
  have "wf_v1_policy ex_v1_policy"
    by (simp add: wf_v1_policy_def ex_v1_policy_def wf_map_def)
  moreover have "wf_policy (q\<lparr>kp_Spec := \<lparr>ps_AlertVersion = a, ps_Traps = []\<rparr>\<rparr>)" for q a
    by (simp add: wf_policy_def)
  ultimately show ?thesis using policy_conversion_round_trip by blast
qed

text \<open>Converting a \<open>KiveData\<close> to the hub version and back keeps its name, labels, annotations,
  inode and device but not its metadata, which becomes that of the target object; the converted
  object too has the metadata of the object it is written into.\<close>

lemma data_conversion_drops_metadata:
  "KiveData_ConvertFrom (KiveData_ConvertTo d d2) (d1\<lparr>v1d_TypeMeta := v1d_TypeMeta d\<rparr>) =
     d\<lparr>v1d_Spec := (v1d_Spec d)\<lparr>v1ds_Metadata := v1ds_Metadata (v1d_Spec d1)\<rparr>\<rparr> \<and>
   ds_Metadata (kd_Spec (KiveData_ConvertTo d d2)) = ds_Metadata (kd_Spec d2)"
  using data_there_back [of "d1\<lparr>v1d_TypeMeta := v1d_TypeMeta d\<rparr>" d d2]
  by (simp add: KiveData_ConvertTo_def)

end
