(* ===== verification/Container.thy ===== *)
theory Container
  imports Container_Utils Go_Monad Kive_Api
begin

text \<open>
  \<open>container/container.go\<close> and \<open>container/containerd.go\<close>: from the status of a container and a
  trap to the inode and device of the traced file inside the container.  The interface
  \<open>Runtime\<close> is a record of operations and the locale \<open>container_runtime\<close> its contract; the
  implementation over containerd is the interpretation.  The containerd client and the system
  calls are parameters, functions of the calls made so far.
\<close>

section \<open>Data\<close>

record ContainerData =
  cd_Ino :: u64
  cd_DevID :: u32
  cd_ID :: string
  cd_Name :: string
  cd_ShouldRequeue :: bool
  cd_IsFound :: bool

definition empty_ContainerData :: ContainerData where
  "empty_ContainerData = \<lparr>cd_Ino = 0, cd_DevID = 0, cd_ID = [], cd_Name = [],
     cd_ShouldRequeue = False, cd_IsFound = False\<rparr>"

text \<open>The fields of Kubernetes' \<open>ContainerStatus\<close> the operator reads.\<close>

record ContainerStatus =
  cs_Name :: string
  cs_ContainerID :: string
  cs_Ready :: bool

text \<open>The interface \<open>Runtime\<close>, on a state of any type.\<close>

record 's runtime =
  rt_IsConnected :: "'s \<Rightarrow> bool"
  rt_Connect :: "('s, unit) go"
  rt_Disconnect :: "('s, unit) go"
  rt_GetContainerData :: "string \<Rightarrow> KiveTrap \<Rightarrow> ('s, ContainerData) go"

section \<open>The package's functions\<close>

definition IsContainerRuntimeSupported :: "(string \<times> 's runtime) list \<Rightarrow> string \<Rightarrow> bool" where
  "IsContainerRuntimeSupported runtimes name =
     list_ex (\<lambda>(containerName, _). name = containerName) runtimes"

definition GetContainerData ::
  "(string \<times> 's runtime) list \<Rightarrow> ContainerStatus \<Rightarrow> KiveTrap \<Rightarrow> ('s, ContainerData) go" where
  "GetContainerData runtimes status trap s =
    (if \<not> cs_Ready status then (Return (empty_ContainerData\<lparr>cd_ShouldRequeue := True\<rparr>), s)
     else case SplitContainerRuntimeID (cs_ContainerID status) of
       Inl err \<Rightarrow> (Error err, s)
     | Inr (runtimeName, containerId) \<Rightarrow>
         (if \<not> IsContainerRuntimeSupported runtimes runtimeName
          then (Error (''GetContainerData Error: Container runtime '' @ runtimeName @
                  '' is not supported.''), s)
          else case map_of runtimes runtimeName of
            None \<Rightarrow> (Panic, s)
          | Some runtime \<Rightarrow>
              go_bind (if \<not> rt_IsConnected runtime s
                  then go_wrap ''GetContainerData Error Connect: '' (rt_Connect runtime)
                  else go_return ()) (\<lambda>_ s.
                (case rt_GetContainerData runtime containerId trap s of
                   (Return d, t) \<Rightarrow>
                     (Return (d\<lparr>cd_ID := cs_ContainerID status, cd_Name := cs_Name status\<rparr>), t)
                 | (Error e, t) \<Rightarrow> (Return empty_ContainerData, t)
                 | (Panic, t) \<Rightarrow> (Panic, t))) s))"

fun CloseConnections :: "(string \<times> 's runtime) list \<Rightarrow> ('s, unit) go" where
  "CloseConnections [] s = (Return (), s)"
| "CloseConnections ((n, runtime) # rest) s =
     (if \<not> rt_IsConnected runtime s then CloseConnections rest s
      else go_bind (go_wrap ''Container CloseConnections Error: '' (rt_Disconnect runtime))
             (\<lambda>_. CloseConnections rest) s)"

section \<open>The contract of a runtime\<close>

locale container_runtime =
  fixes rt :: "'s runtime"
  assumes connected: "rt_Connect rt s = (Return (), t) \<Longrightarrow> rt_IsConnected rt t"
    and disconnected: "rt_Disconnect rt s = (Return (), t) \<Longrightarrow> \<not> rt_IsConnected rt t"
    and data_keeps: "rt_GetContainerData rt i trap s = (r, t) \<Longrightarrow>
      rt_IsConnected rt t = rt_IsConnected rt s"
    and data_found: "rt_GetContainerData rt i trap s = (Return d, t) \<Longrightarrow>
      cd_IsFound d \<and> \<not> cd_ShouldRequeue d"
begin

lemma close_disconnects:
  "CloseConnections [(name, rt)] s = (Return (), t) \<Longrightarrow> \<not> rt_IsConnected rt t"
  by (auto simp: go_bind_Return split: if_splits dest: disconnected)

lemma close_idle: "\<not> rt_IsConnected rt s \<Longrightarrow> CloseConnections [(name, rt)] s = (Return (), s)"
  by simp

lemma not_ready:
  "\<not> cs_Ready st \<Longrightarrow>
   GetContainerData [(name, rt)] st trap s = (Return (empty_ContainerData\<lparr>cd_ShouldRequeue := True\<rparr>), s)"
  by (simp add: GetContainerData_def)

lemma data_cases:
  assumes "GetContainerData [(name, rt)] st trap s = (Return d, t)" and "cs_Ready st"
  shows "rt_IsConnected rt t \<and> \<not> cd_ShouldRequeue d \<and>
    (d = empty_ContainerData \<or>
     cd_IsFound d \<and> cd_ID d = cs_ContainerID st \<and> cd_Name d = cs_Name st)"
proof -
  from assms obtain i where
    "SplitContainerRuntimeID (cs_ContainerID st) = Inr (name, i)"
    and b: "go_bind (if \<not> rt_IsConnected rt s
        then go_wrap ''GetContainerData Error Connect: '' (rt_Connect rt) else go_return ())
      (\<lambda>_ s. case rt_GetContainerData rt i trap s of
           (Return d, t) \<Rightarrow> (Return (d\<lparr>cd_ID := cs_ContainerID st, cd_Name := cs_Name st\<rparr>), t)
         | (Error e, t) \<Rightarrow> (Return empty_ContainerData, t)
         | (Panic, t) \<Rightarrow> (Panic, t)) s = (Return d, t)"
    by (auto simp: GetContainerData_def IsContainerRuntimeSupported_def split: sum.splits if_splits)
  from b obtain u where u: "rt_IsConnected rt u"
    and d: "(case rt_GetContainerData rt i trap u of
           (Return d, t) \<Rightarrow> (Return (d\<lparr>cd_ID := cs_ContainerID st, cd_Name := cs_Name st\<rparr>), t)
         | (Error e, t) \<Rightarrow> (Return empty_ContainerData, t)
         | (Panic, t) \<Rightarrow> (Panic, t)) = (Return d, t)"
    by (auto simp: go_bind_Return go_return_def split: if_splits dest: connected)
  obtain r v where r: "rt_GetContainerData rt i trap u = (r, v)" by fastforce
  with data_keeps [OF r] u d show ?thesis
    by (cases r) (auto simp: empty_ContainerData_def dest: data_found)
qed

end

section \<open>Containerd\<close>

definition ProcMountpoint :: string where "ProcMountpoint = ''/host/proc''"
definition containerdAddress :: string where
  "containerdAddress = ''/run/containerd/containerd.sock''"
definition separator :: string where "separator = ''/''"
definition containerd_namespace :: string where "containerd_namespace = ''k8s.io''"

text \<open>The calls that leave the package; containers and clients are handles.\<close>

datatype ct_call =
    IsServing nat
  | NewClient string string
  | CloseClient nat
  | ListContainers nat
  | GetTask nat
  | Creat string u32
  | CloseFd nat
  | Stat string

record ct_env =
  ce_serving :: "ct_call list \<Rightarrow> nat \<Rightarrow> string + bool"
  ce_new :: "ct_call list \<Rightarrow> string \<Rightarrow> string \<Rightarrow> string + nat"
  ce_close :: "ct_call list \<Rightarrow> nat \<Rightarrow> string option"
  ce_containers :: "ct_call list \<Rightarrow> nat \<Rightarrow> string + (nat \<times> string) list"
  ce_task :: "ct_call list \<Rightarrow> nat \<Rightarrow> string + u32"
  ce_creat :: "ct_call list \<Rightarrow> string \<Rightarrow> u32 \<Rightarrow> string + nat"
  ce_stat :: "ct_call list \<Rightarrow> string \<Rightarrow> string + u64 \<times> u64"

record Containerd =
  Client :: "nat option"
  isConnected :: bool
  ct_history :: "ct_call list"

definition ct_made :: "ct_call \<Rightarrow> Containerd \<Rightarrow> Containerd" where
  "ct_made c s = s\<lparr>ct_history := ct_history s @ [c]\<rparr>"

definition Containerd_Connect :: "ct_env \<Rightarrow> (Containerd, unit) go" where
  "Containerd_Connect env s =
    (case Client s of
       Some c \<Rightarrow>
         (case ce_serving env (ct_history s) c of
            Inl err \<Rightarrow> (Error (''Containerd Connect Error IsServing(): '' @ err), ct_made (IsServing c) s)
          | Inr serving \<Rightarrow>
              (if \<not> serving
               then (Error ''Containerd Connect Error IsServing(): %!w(<nil>)'', ct_made (IsServing c) s)
               else (Return (), ct_made (IsServing c) s\<lparr>isConnected := True\<rparr>)))
     | None \<Rightarrow>
         (let n = NewClient containerdAddress containerd_namespace in
          case ce_new env (ct_history s) containerdAddress containerd_namespace of
            Inl err \<Rightarrow> (Error (''Containerd Connect Error New connection: '' @ err),
                          ct_made n s\<lparr>Client := None\<rparr>)
          | Inr c \<Rightarrow> (Return (), ct_made n s\<lparr>Client := Some c, isConnected := True\<rparr>)))"

definition Containerd_Disconnect :: "ct_env \<Rightarrow> (Containerd, unit) go" where
  "Containerd_Disconnect env s =
    (case Client s of
       None \<Rightarrow> (Panic, s)
     | Some c \<Rightarrow>
         (case ce_close env (ct_history s) c of
            Some err \<Rightarrow> (Error (''Containerd Disconnect Error Close: '' @ err), ct_made (CloseClient c) s)
          | None \<Rightarrow> (Return (), ct_made (CloseClient c) s\<lparr>isConnected := False\<rparr>)))"

definition inode_target :: "u32 \<Rightarrow> string \<Rightarrow> string" where
  "inode_target pid path =
     ProcMountpoint @ separator @ format_uint (unat pid) @ separator @ ''root'' @ separator @ path"

definition getInodeDev ::
  "ct_env \<Rightarrow> u32 \<Rightarrow> string \<Rightarrow> bool \<Rightarrow> u32 \<Rightarrow> (Containerd, u64 \<times> u64) go" where
  "getInodeDev env pid path create mode =
    (let target = inode_target pid path in
     go_bind (\<lambda>s. if create
         then (case ce_creat env (ct_history s) target mode of
                 Inl err \<Rightarrow> (Error err, ct_made (Creat target mode) s)
               | Inr fd \<Rightarrow> (Return (), ct_made (CloseFd fd) (ct_made (Creat target mode) s)))
         else (Return (), s)) (\<lambda>_ s.
       (case ce_stat env (ct_history s) target of
          Inl err \<Rightarrow> (Error err, ct_made (Stat target) s)
        | Inr stat \<Rightarrow> (Return stat, ct_made (Stat target) s))))"

text \<open>The loop over the containers of the client.\<close>

fun search_containers ::
  "ct_env \<Rightarrow> string \<Rightarrow> KiveTrap \<Rightarrow> (nat \<times> string) list \<Rightarrow> (Containerd, ContainerData) go" where
  "search_containers env i trap [] s =
     (Error ''Containerd GetContainerData Inode not found'', s)"
| "search_containers env i trap ((container, cid) # rest) s =
     (if cid = i
      then (case ce_task env (ct_history s) container of
          Inl err \<Rightarrow> (Error err, ct_made (GetTask container) s)
        | Inr pid \<Rightarrow>
            go_bind (getInodeDev env pid (kt_Path trap) (kt_Create trap) (kt_Mode trap))
              (\<lambda>(inode, dev) s.
                (Return (empty_ContainerData\<lparr>cd_Ino := inode, cd_DevID := UserDevToKernelDev dev,
                   cd_IsFound := True\<rparr>), s)) (ct_made (GetTask container) s))
      else search_containers env i trap rest s)"

definition Containerd_GetContainerData ::
  "ct_env \<Rightarrow> string \<Rightarrow> KiveTrap \<Rightarrow> (Containerd, ContainerData) go" where
  "Containerd_GetContainerData env i trap s =
    (case Client s of
       None \<Rightarrow> (Panic, s)
     | Some c \<Rightarrow>
         (case ce_containers env (ct_history s) c of
            Inl err \<Rightarrow> (Error err, ct_made (ListContainers c) s)
          | Inr containers \<Rightarrow> search_containers env i trap containers (ct_made (ListContainers c) s)))"

definition Containerd_runtime :: "ct_env \<Rightarrow> Containerd runtime" where
  "Containerd_runtime env =
     \<lparr>rt_IsConnected = isConnected, rt_Connect = Containerd_Connect env,
      rt_Disconnect = Containerd_Disconnect env,
      rt_GetContainerData = Containerd_GetContainerData env\<rparr>"

definition ContainerRuntimes :: "ct_env \<Rightarrow> (string \<times> Containerd runtime) list" where
  "ContainerRuntimes env = [(''containerd'', Containerd_runtime env)]"

definition containerd_init :: Containerd where
  "containerd_init = \<lparr>Client = None, isConnected = False, ct_history = []\<rparr>"

section \<open>Containerd meets the contract\<close>

lemma ct_made_simps [simp]:
  "ct_history (ct_made c s) = ct_history s @ [c]" "Client (ct_made c s) = Client s"
  "isConnected (ct_made c s) = isConnected s"
  by (simp_all add: ct_made_def)

text \<open>Looking for data keeps the connection and only adds calls, none of which closes it.\<close>

definition same_connection :: "Containerd \<Rightarrow> Containerd \<Rightarrow> bool" where
  "same_connection s t \<longleftrightarrow> Client t = Client s \<and> isConnected t = isConnected s"

lemma same_connection_trans: "transp same_connection"
  by (simp add: transp_def same_connection_def)

lemma getInodeDev_steps: "go_steps same_connection (getInodeDev env pid path create mode)"
  unfolding getInodeDev_def Let_def
  by (rule go_steps_bind [OF same_connection_trans])
    (auto simp: go_steps_def same_connection_def split: sum.split)

lemma search_steps_rel:
  assumes "transp R" and "reflp R" and "\<And>c s. R s (ct_made (GetTask c) s)"
    and "\<And>pid. go_steps R (getInodeDev env pid (kt_Path trap) (kt_Create trap) (kt_Mode trap))"
  shows "R s (snd (search_containers env i trap cs s))"
proof (induction cs)
  case Nil
  then show ?case using assms(2) by (simp add: reflp_def)
next
  case (Cons k cs)
  obtain container cid where k: "k = (container, cid)" by (cases k)
  let ?m = "\<lambda>pid. go_bind (getInodeDev env pid (kt_Path trap) (kt_Create trap) (kt_Mode trap))
    (\<lambda>(inode, dev) s. (Return (empty_ContainerData\<lparr>cd_Ino := inode,
       cd_DevID := UserDevToKernelDev dev, cd_IsFound := True\<rparr>), s))"
  have "go_steps R (?m pid)" for pid
    by (intro go_steps_bind assms(1,4)) (use assms(2) in \<open>auto simp: go_steps_def reflp_def\<close>)
  then have "R s (snd (?m pid (ct_made (GetTask container) s)))" for pid
    unfolding go_steps_def using assms(1,3) by (meson transpD)
  with Cons assms(3) k show ?case by (auto split: sum.split)
qed

lemma search_steps: "go_steps same_connection (search_containers env i trap cs)"
  unfolding go_steps_def
  by (intro allI search_steps_rel [where R = same_connection] same_connection_trans getInodeDev_steps)
    (auto simp: same_connection_def reflp_def)

lemma Containerd_data_steps: "go_steps same_connection (Containerd_GetContainerData env i trap)"
  using search_steps [of env i trap]
  by (auto simp: go_steps_def Containerd_GetContainerData_def same_connection_def
      split: option.split sum.split)

lemma search_found:
  "search_containers env i trap cs s = (Return d, t) \<Longrightarrow> cd_IsFound d \<and> \<not> cd_ShouldRequeue d"
  by (induction env i trap cs s rule: search_containers.induct)
    (auto simp: go_bind_Return empty_ContainerData_def split: if_splits sum.splits)

lemmas runtime_defs = Containerd_runtime_def Containerd_Connect_def Containerd_Disconnect_def
  Let_def

interpretation containerd: container_runtime "Containerd_runtime env" for env
proof unfold_locales
  show "rt_IsConnected (Containerd_runtime env) t"
    if "rt_Connect (Containerd_runtime env) s = (Return (), t)" for s t
    using that by (auto simp: runtime_defs split: option.splits sum.splits if_splits)
  show "\<not> rt_IsConnected (Containerd_runtime env) t"
    if "rt_Disconnect (Containerd_runtime env) s = (Return (), t)" for s t
    using that by (auto simp: runtime_defs split: option.splits)
  show "rt_IsConnected (Containerd_runtime env) t = rt_IsConnected (Containerd_runtime env) s"
    if "rt_GetContainerData (Containerd_runtime env) i trap s = (r, t)" for i trap s r t
  proof -
    from that have "t = snd (Containerd_GetContainerData env i trap s)"
      by (simp add: Containerd_runtime_def)
    with Containerd_data_steps [of env i trap] have "same_connection s t" by (simp add: go_steps_def)
    then show ?thesis by (simp add: same_connection_def Containerd_runtime_def)
  qed
  show "cd_IsFound d \<and> \<not> cd_ShouldRequeue d"
    if "rt_GetContainerData (Containerd_runtime env) i trap s = (Return d, t)" for i trap s d t
    using that search_found
    by (auto simp: Containerd_runtime_def Containerd_GetContainerData_def
        split: option.splits sum.splits)
qed

section \<open>No call on a nil client\<close>

definition client_inv :: "Containerd \<Rightarrow> bool" where
  "client_inv s \<longleftrightarrow> (isConnected s \<longrightarrow> Client s \<noteq> None)"

lemma Connect_inv:
  assumes "client_inv s"
  shows "client_inv (snd (Containerd_Connect env s)) \<and> fst (Containerd_Connect env s) \<noteq> Panic"
  using assms
  by (auto simp: client_inv_def Containerd_Connect_def Let_def split: option.split sum.split)

lemma Disconnect_inv:
  assumes "client_inv s" and "isConnected s"
  shows "client_inv (snd (Containerd_Disconnect env s)) \<and> fst (Containerd_Disconnect env s) \<noteq> Panic"
  using assms
  by (auto simp: client_inv_def Containerd_Disconnect_def split: option.split)

lemma getInodeDev_no_panic: "fst (getInodeDev env pid path create mode s) \<noteq> Panic"
  by (auto simp: getInodeDev_def go_bind_def Let_def split: sum.split outcome.split prod.split)

lemma search_no_panic: "fst (search_containers env i trap cs s) \<noteq> Panic"
proof (induction env i trap cs s rule: search_containers.induct)
  case (2 env i trap container cid rest s)
  have "fst (go_bind (getInodeDev env pid p c m) (\<lambda>(x, y) s. (Return (f x y), s)) u) \<noteq> Panic"
    for pid p c m u and f :: "u64 \<Rightarrow> u64 \<Rightarrow> ContainerData"
    using getInodeDev_no_panic [of env pid p c m u]
    by (auto simp: go_bind_def split: outcome.splits prod.splits)
  with 2 show ?case by (auto split: sum.split)
qed simp

lemma data_inv:
  assumes "isConnected s" and "client_inv s"
  shows "client_inv (snd (Containerd_GetContainerData env i trap s))"
    and "fst (Containerd_GetContainerData env i trap s) \<noteq> Panic"
proof -
  from Containerd_data_steps [of env i trap] assms
  show "client_inv (snd (Containerd_GetContainerData env i trap s))"
    by (auto simp: go_steps_def same_connection_def client_inv_def)
  from assms show "fst (Containerd_GetContainerData env i trap s) \<noteq> Panic"
    using search_no_panic [of env i trap]
    by (auto simp: client_inv_def Containerd_GetContainerData_def split: sum.splits)
qed

lemma connect_first_inv:
  assumes "client_inv s"
    and "(if \<not> isConnected s then go_wrap msg (Containerd_Connect env) else go_return ()) s = (r, t)"
  shows "client_inv t" and "r \<noteq> Panic" and "r = Return () \<Longrightarrow> isConnected t"
proof -
  have "client_inv t \<and> r \<noteq> Panic \<and> (r = Return () \<longrightarrow> isConnected t)"
  proof (cases "isConnected s")
    case True
    with assms show ?thesis by (auto simp: go_return_def)
  next
    case False
    obtain q u where q: "Containerd_Connect env s = (q, u)" by fastforce
    with Connect_inv [OF assms(1), of env] have "client_inv u" "q \<noteq> Panic" by simp_all
    moreover from q containerd.connected [of env s u]
    have "q = Return () \<Longrightarrow> isConnected u" by (simp add: Containerd_runtime_def)
    ultimately show ?thesis using assms(2) False q
      by (auto simp: go_wrap_def split: outcome.splits)
  qed
  then show "client_inv t" and "r \<noteq> Panic" and "r = Return () \<Longrightarrow> isConnected t" by simp_all
qed

lemma GetContainerData_inv:
  assumes "client_inv s" and "GetContainerData (ContainerRuntimes env) st trap s = (r, t)"
  shows "client_inv t \<and> r \<noteq> Panic"
proof (cases "\<exists>i. cs_Ready st \<and> SplitContainerRuntimeID (cs_ContainerID st) = Inr (''containerd'', i)")
  case False
  with assms show ?thesis
    by (auto simp: GetContainerData_def IsContainerRuntimeSupported_def ContainerRuntimes_def
        split: if_splits sum.splits)
next
  case True
  then obtain i where ready: "cs_Ready st"
    and i: "SplitContainerRuntimeID (cs_ContainerID st) = Inr (''containerd'', i)" by blast
  obtain q u where q: "(if \<not> isConnected s then go_wrap ''GetContainerData Error Connect: ''
      (Containerd_Connect env) else go_return ()) s = (q, u)" by fastforce
  note u = connect_first_inv [OF assms(1) q]
  obtain p v where p: "Containerd_GetContainerData env i trap u = (p, v)" by fastforce
  have pv: "client_inv v" "p \<noteq> Panic" if "q = Return ()"
    using data_inv [OF u(3) u(1), of env i trap] that p by simp_all
  from ready i q p assms(2) u(1,2) pv show ?thesis
    by (cases q; cases p)
      (auto simp: GetContainerData_def IsContainerRuntimeSupported_def ContainerRuntimes_def
        Containerd_runtime_def go_bind_def cong: if_cong)
qed

lemma CloseConnections_inv:
  assumes "client_inv s" and "CloseConnections (ContainerRuntimes env) s = (r, t)"
  shows "client_inv t \<and> r \<noteq> Panic"
proof (cases "isConnected s")
  case False
  with assms show ?thesis by (auto simp: ContainerRuntimes_def Containerd_runtime_def)
next
  case True
  obtain q u where q: "Containerd_Disconnect env s = (q, u)" by fastforce
  with Disconnect_inv [OF assms(1) True, of env] have "client_inv u" "q \<noteq> Panic" by simp_all
  with assms(2) True q show ?thesis
    by (cases q) (auto simp: ContainerRuntimes_def Containerd_runtime_def go_bind_def go_wrap_def)
qed

section \<open>What a lookup returns\<close>

definition calls_before_stat :: "nat \<Rightarrow> nat \<Rightarrow> string \<Rightarrow> KiveTrap \<Rightarrow> nat \<Rightarrow> ct_call list" where
  "calls_before_stat c k target trap fd =
     [ListContainers c, GetTask k] @
     (if kt_Create trap then [Creat target (kt_Mode trap), CloseFd fd] else [])"

text \<open>
  The containers before the one asked for have other ids; its task has a process id; the file is
  found under that process's root, created first if the trap asks for it.
\<close>

definition file_found ::
  "ct_env \<Rightarrow> Containerd \<Rightarrow> string \<Rightarrow> KiveTrap \<Rightarrow> ct_call list \<Rightarrow> u64 \<Rightarrow> u64 \<Rightarrow> bool" where
  "file_found env s i trap cs ino st_dev \<longleftrightarrow>
     (\<exists>c before k after pid fd.
        Client s = Some c \<and>
        ce_containers env (ct_history s) c = Inr (before @ (k, i) # after) \<and>
        i \<notin> snd ` set before \<and>
        ce_task env (ct_history s @ [ListContainers c]) k = Inr pid \<and>
        (kt_Create trap \<longrightarrow>
           ce_creat env (ct_history s @ [ListContainers c, GetTask k])
             (inode_target pid (kt_Path trap)) (kt_Mode trap) = Inr fd) \<and>
        cs = calls_before_stat c k (inode_target pid (kt_Path trap)) trap fd @
          [Stat (inode_target pid (kt_Path trap))] \<and>
        ce_stat env (ct_history s @ calls_before_stat c k (inode_target pid (kt_Path trap)) trap fd)
          (inode_target pid (kt_Path trap)) = Inr (ino, st_dev))"

lemma search_skip:
  "i \<notin> snd ` set before \<Longrightarrow>
   search_containers env i trap (before @ cs) s = search_containers env i trap cs s"
  by (induction before) auto

lemma getInodeDev_Return:
  assumes "kt_Create trap \<longrightarrow> ce_creat env (ct_history s) (inode_target pid (kt_Path trap)) (kt_Mode trap) = Inr fd"
    and "cs = (if kt_Create trap
        then [Creat (inode_target pid (kt_Path trap)) (kt_Mode trap), CloseFd fd] else [])"
    and "ce_stat env (ct_history s @ cs) (inode_target pid (kt_Path trap)) = Inr st"
  shows "getInodeDev env pid (kt_Path trap) (kt_Create trap) (kt_Mode trap) s =
    (Return st, s\<lparr>ct_history := ct_history s @ cs @ [Stat (inode_target pid (kt_Path trap))]\<rparr>)"
  using assms by (cases "kt_Create trap") (simp_all add: getInodeDev_def go_bind_def Let_def ct_made_def)

lemma Containerd_data_found:
  assumes "file_found env s i trap cs ino st_dev"
  shows "Containerd_GetContainerData env i trap s =
    (Return \<lparr>cd_Ino = ino, cd_DevID = UserDevToKernelDev st_dev, cd_ID = [], cd_Name = [],
       cd_ShouldRequeue = False, cd_IsFound = True\<rparr>, s\<lparr>ct_history := ct_history s @ cs\<rparr>)"
proof -
  from assms obtain c before k after pid fd where f:
    "Client s = Some c" "ce_containers env (ct_history s) c = Inr (before @ (k, i) # after)"
    "i \<notin> snd ` set before" "ce_task env (ct_history s @ [ListContainers c]) k = Inr pid"
    "kt_Create trap \<longrightarrow> ce_creat env (ct_history s @ [ListContainers c, GetTask k])
       (inode_target pid (kt_Path trap)) (kt_Mode trap) = Inr fd"
    "cs = calls_before_stat c k (inode_target pid (kt_Path trap)) trap fd @
       [Stat (inode_target pid (kt_Path trap))]"
    "ce_stat env (ct_history s @ calls_before_stat c k (inode_target pid (kt_Path trap)) trap fd)
       (inode_target pid (kt_Path trap)) = Inr (ino, st_dev)"
    unfolding file_found_def by blast
  let ?s = "s\<lparr>ct_history := ct_history s @ [ListContainers c, GetTask k]\<rparr>"
  have "getInodeDev env pid (kt_Path trap) (kt_Create trap) (kt_Mode trap) ?s =
    (Return (ino, st_dev), s\<lparr>ct_history := ct_history s @ cs\<rparr>)"
    using f(5-7) getInodeDev_Return [of trap env ?s pid fd _ "(ino, st_dev)"]
    by (auto simp: calls_before_stat_def)
  with f(1-4) show ?thesis
    by (simp add: Containerd_GetContainerData_def search_skip ct_made_def go_bind_def
        empty_ContainerData_def)
qed

lemma GetContainerData_found:
  assumes "cs_Ready st" and "cs_ContainerID st = ''containerd://'' @ i" and "isConnected s"
    and "file_found env s i trap cs ino st_dev"
  shows "GetContainerData (ContainerRuntimes env) st trap s =
    (Return \<lparr>cd_Ino = ino, cd_DevID = UserDevToKernelDev st_dev, cd_ID = cs_ContainerID st,
       cd_Name = cs_Name st, cd_ShouldRequeue = False, cd_IsFound = True\<rparr>,
     s\<lparr>ct_history := ct_history s @ cs\<rparr>)"
proof -
  have "SplitContainerRuntimeID (cs_ContainerID st) = Inr (''containerd'', i)"
    using Split_runtime [of "''containerd''" i] assms(2) by simp
  with assms(1,3) Containerd_data_found [OF assms(4)] show ?thesis
    by (simp add: GetContainerData_def IsContainerRuntimeSupported_def ContainerRuntimes_def
        Containerd_runtime_def go_bind_def go_return_def)
qed

text \<open>A container of another runtime, or with an id of another form, is an error.\<close>

lemma GetContainerData_unsupported:
  assumes "cs_Ready st" and "\<nexists>i. SplitContainerRuntimeID (cs_ContainerID st) = Inr (''containerd'', i)"
  shows "\<exists>e. GetContainerData (ContainerRuntimes env) st trap s = (Error e, s)"
  using assms
  by (auto simp: GetContainerData_def IsContainerRuntimeSupported_def ContainerRuntimes_def
      split: sum.split)

text \<open>A failing runtime is reported as data that was not found.\<close>

lemma GetContainerData_swallows:
  assumes "cs_Ready st" and "cs_ContainerID st = ''containerd://'' @ i" and "isConnected s"
    and "Containerd_GetContainerData env i trap s = (Error e, t)"
  shows "GetContainerData (ContainerRuntimes env) st trap s = (Return empty_ContainerData, t)"
proof -
  have "SplitContainerRuntimeID (cs_ContainerID st) = Inr (''containerd'', i)"
    using Split_runtime [of "''containerd''" i] assms(2) by simp
  with assms(1,3,4) show ?thesis
    by (simp add: GetContainerData_def IsContainerRuntimeSupported_def ContainerRuntimes_def
        Containerd_runtime_def go_bind_def go_return_def)
qed

text \<open>A trap that does not create files makes no call that could.\<close>

fun creates :: "ct_call \<Rightarrow> bool" where
  "creates (Creat _ _) = True"
| "creates _ = False"

definition creates_nothing :: "Containerd \<Rightarrow> Containerd \<Rightarrow> bool" where
  "creates_nothing s t \<longleftrightarrow> (\<exists>cs. ct_history t = ct_history s @ cs \<and> \<not> list_ex creates cs)"

lemma creates_nothing_rel: "transp creates_nothing" "reflp creates_nothing"
  unfolding transp_def reflp_def creates_nothing_def
  by (metis append_assoc list_ex_append, simp)

lemma creates_nothing_made:
  "creates_nothing s s"
  "\<not> creates c \<Longrightarrow> creates_nothing s (ct_made c s)"
  "\<not> creates c \<Longrightarrow> creates_nothing s (ct_made c s\<lparr>Client := k, isConnected := b\<rparr>)"
  "\<not> creates c \<Longrightarrow> creates_nothing s (ct_made c s\<lparr>isConnected := b\<rparr>)"
  "\<not> creates c \<Longrightarrow> creates_nothing s (ct_made c s\<lparr>Client := k\<rparr>)"
  by (simp_all add: creates_nothing_def)

lemma getInodeDev_no_create: "go_steps creates_nothing (getInodeDev env pid path False mode)"
  by (auto simp: getInodeDev_def go_steps_def go_bind_def Let_def
      intro: creates_nothing_made split: sum.split)

lemma Containerd_no_create:
  assumes "\<not> kt_Create trap"
  shows "go_steps creates_nothing (Containerd_GetContainerData env i trap)"
    and "go_steps creates_nothing (Containerd_Connect env)"
proof -
  have "creates_nothing u (snd (search_containers env i trap cs u))" for cs u
    by (rule search_steps_rel [OF creates_nothing_rel])
      (use assms in \<open>simp_all add: getInodeDev_no_create creates_nothing_made\<close>)
  then have "creates_nothing u (snd (search_containers env i trap cs (ct_made (ListContainers c) u)))"
    for cs c u
    using creates_nothing_rel(1) creates_nothing_made(2) [of "ListContainers c" u]
    by (meson creates.simps transpD)
  then show "go_steps creates_nothing (Containerd_GetContainerData env i trap)"
    by (auto simp: go_steps_def Containerd_GetContainerData_def creates_nothing_made
        split: option.split sum.split)
  show "go_steps creates_nothing (Containerd_Connect env)"
    by (auto simp: go_steps_def Containerd_Connect_def Let_def creates_nothing_made
        split: option.split sum.split)
qed

lemma GetContainerData_no_create:
  assumes "\<not> kt_Create trap"
  shows "go_steps creates_nothing (GetContainerData (ContainerRuntimes env) st trap)"
proof -
  have step: "go_steps creates_nothing
    (go_bind (if b then go_wrap msg (Containerd_Connect env) else go_return ()) (\<lambda>_ s.
      (case Containerd_GetContainerData env i trap s of
         (Return d, t) \<Rightarrow> (Return (d\<lparr>cd_ID := cs_ContainerID st, cd_Name := cs_Name st\<rparr>), t)
       | (Error e, t) \<Rightarrow> (Return empty_ContainerData, t)
       | (Panic, t) \<Rightarrow> (Panic, t))))" for b msg i
    by (rule go_steps_bind [OF creates_nothing_rel(1)])
      (use Containerd_no_create(2) [of trap env] assms in \<open>auto simp: go_steps_def go_return_def
        creates_nothing_made split: prod.split outcome.split
        dest: go_stepsD [OF Containerd_no_create(1)]\<close>)
  show ?thesis
    using step [of True] step [of False]
    by (auto simp: go_steps_def GetContainerData_def IsContainerRuntimeSupported_def
        ContainerRuntimes_def Containerd_runtime_def creates_nothing_made split: sum.split)
qed

section \<open>Properties\<close>

text \<open>C25: for a ready container of containerd whose file is found, created first if the trap asks for
  it, the lookup returns the file's inode number and the kernel's device number of the file
  system it is on, with the id and the name of the container's status, after exactly the calls
  of that lookup.\<close>

theorem lookup_found:
  assumes "cs_Ready st" and "cs_ContainerID st = ''containerd://'' @ i" and "isConnected s"
    and "file_found env s i trap cs ino (ucast (new_encode_dev dev))"
  shows "GetContainerData (ContainerRuntimes env) st trap s =
    (Return \<lparr>cd_Ino = ino, cd_DevID = dev, cd_ID = cs_ContainerID st,
       cd_Name = cs_Name st, cd_ShouldRequeue = False, cd_IsFound = True\<rparr>,
     s\<lparr>ct_history := ct_history s @ cs\<rparr>)"
  using GetContainerData_found [OF assms] by (simp add: UserDev_new_encode)

definition ex_containers :: ct_env where
  "ex_containers = \<lparr>ce_serving = (\<lambda>_ _. Inr True), ce_new = (\<lambda>_ _ _. Inr 1),
     ce_close = (\<lambda>_ _. None), ce_containers = (\<lambda>_ _. Inr [(7, ''abc''), (8, ''def'')]),
     ce_task = (\<lambda>_ k. if k = 8 then Inr 4321 else Inl ''no task''),
     ce_creat = (\<lambda>_ _ _. Inr 3), ce_stat = (\<lambda>_ p. if p = ''/host/proc/4321/root//etc/passwd''
       then Inr (1234, ucast (new_encode_dev 0x800001)) else Inl ''no such file'')\<rparr>"

definition ex_trap :: KiveTrap where
  "ex_trap = \<lparr>kt_Path = ''/etc/passwd'', kt_Create = False, kt_Mode = 0, kt_Callback = [],
     kt_Metadata = [], kt_MatchAny = []\<rparr>"

definition ex_status :: ContainerStatus where
  "ex_status = \<lparr>cs_Name = ''web'', cs_ContainerID = ''containerd://def'', cs_Ready = True\<rparr>"

definition ex_connected :: Containerd where
  "ex_connected = \<lparr>Client = Some 1, isConnected = True, ct_history = []\<rparr>"

lemma ex_target: "inode_target 4321 ''/etc/passwd'' = ''/host/proc/4321/root//etc/passwd''"
proof -
  have "format_uint 4321 = ''4321''"
    by (simp add: format_uint.simps digit_char_def char_of_def bit_0)
  then show ?thesis by (simp add: inode_target_def ProcMountpoint_def separator_def)
qed

lemma ex_found:
  "file_found ex_containers ex_connected ''def'' ex_trap
     [ListContainers 1, GetTask 8, Stat ''/host/proc/4321/root//etc/passwd'']
     1234 (ucast (new_encode_dev 0x800001))"
  unfolding file_found_def
  by (rule exI [of _ 1], rule exI [of _ "[(7, ''abc'')]"], rule exI [of _ 8], rule exI [of _ "[]"],
      rule exI [of _ 4321], rule exI [of _ 3])
    (simp add: ex_containers_def ex_connected_def ex_trap_def ex_target calls_before_stat_def)

theorem lookup_found_witness:
  "fst (GetContainerData (ContainerRuntimes ex_containers) ex_status ex_trap ex_connected) =
    Return \<lparr>cd_Ino = 1234, cd_DevID = 0x800001, cd_ID = ''containerd://def'', cd_Name = ''web'',
      cd_ShouldRequeue = False, cd_IsFound = True\<rparr>"
  using lookup_found [OF _ _ _ ex_found, of ex_status]
  by (simp add: ex_status_def ex_connected_def)

text \<open>C26: a lookup that starts from a runtime connected only with a client ends in one and never
  dereferences a nil client, however the calls fail; when it returns for a ready container, the
  runtime is connected, and the data is empty or carries the id and the name of the status.\<close>

theorem lookup_safe:
  assumes "client_inv s" and "GetContainerData (ContainerRuntimes env) st trap s = (r, t)"
  shows "client_inv t \<and> r \<noteq> Panic \<and>
    (\<forall>d. r = Return d \<and> cs_Ready st \<longrightarrow> isConnected t \<and> \<not> cd_ShouldRequeue d \<and>
       (d = empty_ContainerData \<or>
        cd_IsFound d \<and> cd_ID d = cs_ContainerID st \<and> cd_Name d = cs_Name st)) \<and>
    (\<not> cs_Ready st \<longrightarrow> r = Return (empty_ContainerData\<lparr>cd_ShouldRequeue := True\<rparr>) \<and> t = s)"
  using GetContainerData_inv [OF assms] assms(2)
    containerd.data_cases [of "''containerd''" env st trap s _ t]
    containerd.not_ready [of st "''containerd''" env trap s]
  by (auto simp: ContainerRuntimes_def Containerd_runtime_def)

theorem lookup_safe_witness:
  "fst (GetContainerData (ContainerRuntimes ex_containers) ex_status ex_trap containerd_init) \<noteq> Panic"
  using lookup_safe [of containerd_init ex_containers ex_status ex_trap]
  by (cases "GetContainerData (ContainerRuntimes ex_containers) ex_status ex_trap containerd_init")
    (simp add: client_inv_def containerd_init_def)

text \<open>A lookup for a trap that does not ask for creation makes no call that creates a file.\<close>

lemma lookup_creates_nothing:
  assumes "\<not> kt_Create trap"
  shows "\<exists>cs. ct_history (snd (GetContainerData (ContainerRuntimes env) st trap s)) =
      ct_history s @ cs \<and> (\<forall>target mode. Creat target mode \<notin> set cs)"
  using GetContainerData_no_create [OF assms, of env st]
  by (fastforce simp: go_steps_def creates_nothing_def list_ex_iff)


text \<open>An error of the runtime (a listing, task, creation or stat that fails) is not reported by
  \<open>GetContainerData\<close>: it returns empty data that is not to be requested again, without an error.\<close>

lemma lookup_swallows_errors:
  assumes "cs_Ready st" and "cs_ContainerID st = ''containerd://'' @ i" and "isConnected s"
    and "Containerd_GetContainerData env i trap s = (Error e, t)"
  shows "GetContainerData (ContainerRuntimes env) st trap s = (Return empty_ContainerData, t) \<and>
    \<not> cd_IsFound empty_ContainerData \<and> \<not> cd_ShouldRequeue empty_ContainerData"
  using GetContainerData_swallows [OF assms] by (simp add: empty_ContainerData_def)


end
