(* ===== verification/Go_Json.thy ===== *)
theory Go_Json
  imports Kive_Api "HOL-Library.List_Lexorder" "HOL-Library.Char_ord"
begin

text \<open>
  \<open>encoding/json\<close> as far as the operator uses it: the text \<open>json.Marshal\<close> writes for the values it is
  given, objects with their members in a fixed order, arrays, strings, numbers and booleans; and
  that the text of a value determines it.  Strings are byte lists; a byte that is no part of
  valid UTF-8 is replaced, as the library does.
\<close>

section \<open>UTF-8\<close>

abbreviation byte :: "char \<Rightarrow> nat" where "byte c \<equiv> of_char c"

definition cont :: "char \<Rightarrow> bool" where "cont c \<longleftrightarrow> byte c \<in> {0x80..0xBF}"

text \<open>The length of the rune a string starts with, 0 for an invalid one (\<open>utf8.DecodeRune\<close>).\<close>

definition rune_len :: "string \<Rightarrow> nat" where
  "rune_len s =
    (case s of [] \<Rightarrow> 0
     | a # s1 \<Rightarrow>
       if byte a < 0x80 then 1
       else case s1 of [] \<Rightarrow> 0
       | b # s2 \<Rightarrow>
         if byte a \<in> {0xC2..0xDF} then (if cont b then 2 else 0)
         else case s2 of [] \<Rightarrow> 0
         | c # s3 \<Rightarrow>
           if byte a \<in> {0xE0..0xEF} then
             (if byte b \<in> (if byte a = 0xE0 then {0xA0..0xBF} else if byte a = 0xED then {0x80..0x9F}
                else {0x80..0xBF}) \<and> cont c then 3 else 0)
           else case s3 of [] \<Rightarrow> 0
           | d # _ \<Rightarrow>
             if byte a \<in> {0xF0..0xF4} then
               (if byte b \<in> (if byte a = 0xF0 then {0x90..0xBF} else if byte a = 0xF4 then {0x80..0x8F}
                  else {0x80..0xBF}) \<and> cont c \<and> cont d then 4 else 0)
             else 0)"

function valid_utf8 :: "string \<Rightarrow> bool" where
  "valid_utf8 [] = True"
| "valid_utf8 (c # s) =
     (if rune_len (c # s) = 0 then False else valid_utf8 (drop (rune_len (c # s)) (c # s)))"
  by pat_completeness auto
termination by (relation "measure length") auto

section \<open>Strings\<close>

definition quote :: char where "quote = CHR 0x22"
definition backslash :: char where "backslash = CHR 0x5C"

definition hex_digit :: "nat \<Rightarrow> char" where
  "hex_digit d = (if d < 10 then char_of (48 + d) else char_of (87 + d))"

text \<open>A byte below 128: the quote, the backslash, control characters and, for HTML, \<open><\<close>, \<open>>\<close> and \<open>&\<close>
  are escaped.\<close>

definition json_ascii :: "char \<Rightarrow> string" where
  "json_ascii c =
    (if c = quote \<or> c = backslash then [backslash, c]
     else if byte c = 8 then [backslash, CHR ''b'']
     else if byte c = 12 then [backslash, CHR ''f'']
     else if byte c = 10 then [backslash, CHR ''n'']
     else if byte c = 13 then [backslash, CHR ''r'']
     else if byte c = 9 then [backslash, CHR ''t'']
     else if byte c < 32 \<or> c \<in> {CHR ''<'', CHR ''>'', CHR ''&''}
     then [backslash, CHR ''u'', CHR ''0'', CHR ''0'', hex_digit (byte c div 16), hex_digit (byte c mod 16)]
     else [c])"

definition line_separator :: string where "line_separator = [CHR 0xE2, CHR 0x80, CHR 0xA8]"
definition paragraph_separator :: string where "paragraph_separator = [CHR 0xE2, CHR 0x80, CHR 0xA9]"

text \<open>A rune of several bytes is copied, but for two separators that JavaScript does not allow.\<close>

definition json_rune :: "string \<Rightarrow> string" where
  "json_rune r =
    (if r = line_separator then backslash # ''u2028''
     else if r = paragraph_separator then backslash # ''u2029'' else r)"

function json_chars :: "string \<Rightarrow> string" where
  "json_chars [] = []"
| "json_chars (c # s) =
     (if byte c < 0x80 then json_ascii c @ json_chars s
      else if rune_len (c # s) = 0 then backslash # ''ufffd'' @ json_chars s
      else json_rune (take (rune_len (c # s)) (c # s)) @ json_chars (drop (rune_len (c # s)) (c # s)))"
  by pat_completeness auto
termination by (relation "measure length") auto

definition json_string :: "string \<Rightarrow> string" where
  "json_string s = quote # json_chars s @ [quote]"

section \<open>Values\<close>

datatype json =
    JBool bool
  | JNum int
  | JStr string
  | JArr "json list"
  | JObj "(string \<times> json) list"

fun json_text :: "json \<Rightarrow> string" where
  "json_text (JBool b) = (if b then ''true'' else ''false'')"
| "json_text (JNum i) = (if i < 0 then CHR ''-'' # format_uint (nat (- i)) else format_uint (nat i))"
| "json_text (JStr s) = json_string s"
| "json_text (JArr xs) = ''['' @ join_with '','' (map json_text xs) @ '']''"
| "json_text (JObj ms) =
     ''{'' @ join_with '','' (map (\<lambda>(k, v). json_string k @ '':'' @ json_text v) ms) @ ''}''"

text \<open>The members of a map, sorted by key.\<close>

definition map_keys :: "strmap \<Rightarrow> string list" where
  "map_keys m = sort (remdups (map fst m))"

definition json_map :: "strmap \<Rightarrow> json" where
  "json_map m = JObj (map (\<lambda>k. (k, JStr (the (map_of m k)))) (map_keys m))"

section \<open>Reading a string back\<close>

definition hex_val :: "char \<Rightarrow> nat" where
  "hex_val c = (if byte c < 58 then byte c - 48 else byte c - 87)"

text \<open>The bytes of the escapes the encoder writes.\<close>

definition unescape :: "string \<Rightarrow> string" where
  "unescape h = (if h = ''2028'' then line_separator else if h = ''2029'' then paragraph_separator
     else [char_of (16 * hex_val (h ! 2) + hex_val (h ! 3))])"

definition unescape_char :: "char \<Rightarrow> char" where
  "unescape_char c = (if c = CHR ''b'' then char_of (8 :: nat) else if c = CHR ''f'' then char_of (12 :: nat)
     else if c = CHR ''n'' then char_of (10 :: nat) else if c = CHR ''r'' then char_of (13 :: nat)
     else if c = CHR ''t'' then char_of (9 :: nat) else c)"

text \<open>Up to the closing quote, from what follows the opening one.\<close>

function json_unchars :: "string \<Rightarrow> (string \<times> string) option" where
  "json_unchars [] = None"
| "json_unchars (c # s) =
     (if c = quote then Some ([], s)
      else if c \<noteq> backslash then map_option (apfst ((#) c)) (json_unchars s)
      else if s = [] then None
      else if hd s = CHR ''u'' then
        (if length s < 5 then None
         else map_option (apfst ((@) (unescape (take 4 (tl s))))) (json_unchars (drop 5 s)))
      else map_option (apfst ((#) (unescape_char (hd s)))) (json_unchars (tl s)))"
  by pat_completeness auto
termination by (relation "measure length") auto

lemma json_unchars_plain:
  "quote \<notin> set bs \<Longrightarrow> backslash \<notin> set bs \<Longrightarrow>
   json_unchars (bs @ s) = map_option (apfst ((@) bs)) (json_unchars s)"
  by (induction bs) (auto simp: option.map_comp comp_def apfst_def map_prod_def split_def option.map_ident)

lemma hex_val_digit: "d < 16 \<Longrightarrow> hex_val (hex_digit d) = d"
  by (auto simp: hex_val_def hex_digit_def)

lemma json_unchars_ascii:
  assumes "byte c < 0x80"
  shows "json_unchars (json_ascii c @ s) = map_option (apfst ((#) c)) (json_unchars s)"
proof (cases "c = quote \<or> c = backslash")
  case True
  then show ?thesis
    by (auto simp: json_ascii_def quote_def backslash_def unescape_char_def)
next
  case False
  show ?thesis
  proof (cases "byte c \<in> {8, 9, 10, 12, 13}")
    case True
    then have "c \<in> char_of ` {8, 9, 10, 12, 13 :: nat}"
      by (intro image_eqI [of _ _ "byte c"]) simp_all
    with False show ?thesis
      by (auto simp: json_ascii_def unescape_char_def quote_def backslash_def char_of_eq_iff)
  next
    case plain: False
    have "byte c div 16 < 16" "byte c mod 16 < 16" using assms by auto
    moreover have "char_of (16 * (byte c div 16) + byte c mod 16) = c" by simp
    moreover have "(@) [x] = (#) x" for x :: char by (simp add: fun_eq_iff)
    moreover have "take 4 (''00'' @ x # y # s) = [CHR ''0'', CHR ''0'', x, y]" for x y by simp
    ultimately show ?thesis using False plain
      by (auto simp: json_ascii_def unescape_def hex_val_digit quote_def backslash_def)
  qed
qed

lemma rune_bytes:
  "0x80 \<le> byte c \<Longrightarrow> x \<in> set (take (rune_len (c # s)) (c # s)) \<Longrightarrow> 0x80 \<le> byte x"
  by (cases s; cases "tl s"; cases "tl (tl s)")
    (auto simp: rune_len_def cont_def split: if_splits)

lemma json_unchars_rune:
  assumes "\<And>x. x \<in> set r \<Longrightarrow> 0x80 \<le> byte x"
  shows "json_unchars (json_rune r @ s) = map_option (apfst ((@) r)) (json_unchars s)"
proof -
  have "byte quote < 0x80" "byte backslash < 0x80" by (simp_all add: quote_def backslash_def)
  with assms have "quote \<notin> set r" "backslash \<notin> set r" by (metis not_le)+
  moreover have "backslash \<noteq> quote" by (simp add: quote_def backslash_def)
  ultimately show ?thesis
    by (auto simp: json_rune_def json_unchars_plain unescape_def)
qed

lemma rune_len_ascii: "byte c < 0x80 \<Longrightarrow> rune_len (c # s) = 1"
  by (simp add: rune_len_def)

declare valid_utf8.simps(2) [simp del] json_chars.simps(2) [simp del]

lemma valid_ascii [simp]: "byte c < 0x80 \<Longrightarrow> valid_utf8 (c # s) = valid_utf8 s"
  by (simp add: valid_utf8.simps(2) rune_len_ascii)

lemma json_chars_ascii [simp]: "byte c < 0x80 \<Longrightarrow> json_chars (c # s) = json_ascii c @ json_chars s"
  by (simp add: json_chars.simps(2))

text \<open>What a string is written as can be read back, whatever follows.\<close>

lemma json_unchars_chars:
  "valid_utf8 s \<Longrightarrow> json_unchars (json_chars s @ quote # t) = Some (s, t)"
proof (induction s rule: json_chars.induct)
  case (2 c s)
  show ?case
  proof (cases "byte c < 0x80")
    case True
    with 2 show ?thesis by (simp add: json_unchars_ascii)
  next
    case False
    let ?n = "rune_len (c # s)"
    from False 2(4) have "?n \<noteq> 0" "valid_utf8 (drop ?n (c # s))"
      by (simp_all add: valid_utf8.simps(2) split: if_splits)
    moreover have "json_unchars (json_rune (take ?n (c # s)) @ u) =
        map_option (apfst ((@) (take ?n (c # s)))) (json_unchars u)" for u
      using rune_bytes [of c _ s] False by (intro json_unchars_rune) auto
    ultimately show ?thesis using 2(3) False by (simp add: json_chars.simps(2))
  qed
qed simp

lemma json_string_inject:
  assumes "valid_utf8 s" and "valid_utf8 t" and "json_string s @ x = json_string t @ y"
  shows "s = t \<and> x = y"
proof -
  from assms(3) have "json_unchars (json_chars s @ quote # x) = json_unchars (json_chars t @ quote # y)"
    by (simp add: json_string_def)
  with assms(1,2) show ?thesis by (simp add: json_unchars_chars)
qed

section \<open>The text of a value determines it\<close>

text \<open>The strings of a value, keys and values.\<close>

fun json_ok :: "json \<Rightarrow> bool" where
  "json_ok (JStr s) = valid_utf8 s"
| "json_ok (JArr xs) = list_all json_ok xs"
| "json_ok (JObj ms) = list_all (\<lambda>(k, v). valid_utf8 k \<and> json_ok v) ms"
| "json_ok _ = True"

text \<open>What can follow a value: not a digit.\<close>

definition closed :: "string \<Rightarrow> bool" where
  "closed x \<longleftrightarrow> x = [] \<or> \<not> is_digit (hd x)"

lemma closed_simps [simp]: "closed []" "closed (c # x) \<longleftrightarrow> \<not> is_digit c"
  by (simp_all add: closed_def)

lemma takeWhile_format: "closed x \<Longrightarrow> takeWhile is_digit (format_uint n @ x) = format_uint n"
  using format_uint_digits [of n]
  by (cases x) (simp_all add: takeWhile_append list_all_iff)

lemma format_closed_inject:
  assumes "format_uint m @ x = format_uint n @ y" and "closed x" and "closed y"
  shows "m = n \<and> x = y"
proof -
  from assms have "format_uint m = format_uint n" by (metis takeWhile_format)
  with assms(1) show ?thesis by simp
qed

text \<open>The first character of a value's text tells its kind.\<close>

fun starts :: "json \<Rightarrow> char \<Rightarrow> bool" where
  "starts (JBool b) c \<longleftrightarrow> c = (if b then CHR ''t'' else CHR ''f'')"
| "starts (JNum i) c \<longleftrightarrow> (if i < 0 then c = CHR ''-'' else is_digit c)"
| "starts (JStr s) c \<longleftrightarrow> c = quote"
| "starts (JArr xs) c \<longleftrightarrow> c = CHR ''[''"
| "starts (JObj ms) c \<longleftrightarrow> c = CHR ''{''"

lemma json_text_starts: "\<exists>c s. json_text v = c # s \<and> starts v c"
proof (cases v)
  case (JNum i)
  have "\<exists>c s. format_uint n = c # s \<and> is_digit c" for n
    using format_uint_digits [of n] by (cases "format_uint n") auto
  with JNum show ?thesis by simp
qed (simp_all add: json_string_def)

text \<open>An encoding of \<open>a\<close> that no other one equals, up to what follows.\<close>

definition free_for :: "('a \<Rightarrow> string) \<Rightarrow> ('a \<Rightarrow> bool) \<Rightarrow> 'a \<Rightarrow> bool" where
  "free_for f P a \<longleftrightarrow>
     (\<forall>b x y. P b \<longrightarrow> closed x \<longrightarrow> closed y \<longrightarrow> f a @ x = f b @ y \<longrightarrow> a = b \<and> x = y)"

lemma free_forD:
  "free_for f P a \<Longrightarrow> f a @ x = f b @ y \<Longrightarrow> P b \<Longrightarrow> closed x \<Longrightarrow> closed y \<Longrightarrow> a = b \<and> x = y"
  unfolding free_for_def by blast

definition tail_text :: "('a \<Rightarrow> string) \<Rightarrow> 'a list \<Rightarrow> string" where
  "tail_text f xs = concat (map (\<lambda>a. CHR '','' # f a) xs)"

lemma join_tail: "join_with '','' (map f (x # xs)) = f x @ tail_text f xs"
  by (induction xs arbitrary: x) (simp_all add: tail_text_def)

lemma not_digit [simp]: "\<not> is_digit (CHR '','')" "\<not> is_digit (CHR '']'')" "\<not> is_digit (CHR ''}'')"
  "\<not> is_digit (CHR '':'')"
  by (simp_all add: is_digit_def)

lemma closed_tail: "\<not> is_digit c \<Longrightarrow> closed (tail_text f xs @ c # u)"
  by (cases xs) (simp_all add: tail_text_def)

lemma tail_inject:
  assumes "\<forall>a \<in> set xs. free_for f P a" and "list_all P ys" and "\<not> is_digit c" and "c \<noteq> CHR '',''"
    and "tail_text f xs @ c # u = tail_text f ys @ c # v"
  shows "xs = ys \<and> u = v"
  using assms
proof (induction xs arbitrary: ys)
  case Nil
  then show ?case by (cases ys) (auto simp: tail_text_def)
next
  case (Cons x xs)
  then obtain y ys' where ys: "ys = y # ys'" by (cases ys) (auto simp: tail_text_def)
  with Cons.prems have "f x @ (tail_text f xs @ c # u) = f y @ (tail_text f ys' @ c # v)"
    by (simp add: tail_text_def)
  with Cons.prems ys have eq: "x = y \<and> tail_text f xs @ c # u = tail_text f ys' @ c # v"
    using closed_tail [of c f] by (intro free_forD [of f P x]) auto
  have "xs = ys' \<and> u = v"
    using Cons.prems(1,2) ys eq by (intro Cons.IH Cons.prems(3,4)) auto
  with eq ys show ?case by simp
qed

lemma items_inject:
  assumes "\<forall>a \<in> set xs. free_for f P a" and "list_all P ys" and "\<not> is_digit c" and "c \<noteq> CHR '',''"
    and "\<And>a s. f a \<noteq> c # s" and "\<And>a. f a \<noteq> []"
    and "join_with '','' (map f xs) @ c # u = join_with '','' (map f ys) @ c # v"
  shows "xs = ys \<and> u = v"
proof (cases "xs = [] \<or> ys = []")
  case True
  have "f a @ s \<noteq> c # t" for a s t
    using assms(5) [of a] assms(6) [of a] by (cases "f a") auto
  then have "join_with '','' (map f (y # ys')) @ s \<noteq> c # t" for y ys' s t
    unfolding join_tail append_assoc .
  with True assms(7) have "xs = [] \<and> ys = []"
    by (metis append_Nil join_with.simps(1) list.exhaust list.simps(8))
  with assms(7) show ?thesis by simp
next
  case False
  then obtain x xs' y ys' where l: "xs = x # xs'" "ys = y # ys'" by (metis list.exhaust)
  with assms(7) have "f x @ (tail_text f xs' @ c # u) = f y @ (tail_text f ys' @ c # v)"
    by (simp only: join_tail append_assoc)
  with assms(1-3) l have "x = y \<and> tail_text f xs' @ c # u = tail_text f ys' @ c # v"
    using closed_tail [of c f] by (intro free_forD [of f P x]) auto
  with tail_inject [of xs' f P ys' c u v] assms(1-4) l show ?thesis by simp
qed

definition member_text :: "string \<times> json \<Rightarrow> string" where
  "member_text m = json_string (fst m) @ CHR '':'' # json_text (snd m)"

lemma json_text_obj: "json_text (JObj ms) = CHR ''{'' # join_with '','' (map member_text ms) @ ''}''"
proof -
  have "(\<lambda>(k, v). json_string k @ '':'' @ json_text v) = member_text"
    by (auto simp: member_text_def)
  then show ?thesis by simp
qed

lemma free_member:
  assumes "free_for json_text json_ok v" and "valid_utf8 k"
  shows "free_for member_text (\<lambda>(k, v). valid_utf8 k \<and> json_ok v) (k, v)"
  unfolding free_for_def
proof (intro allI impI)
  fix b :: "string \<times> json" and x y
  assume b: "case b of (k, v) \<Rightarrow> valid_utf8 k \<and> json_ok v" and c: "closed x" "closed y"
    and eq: "member_text (k, v) @ x = member_text b @ y"
  obtain l w where bl: "b = (l, w)" by (cases b)
  from eq bl b assms(2) have "k = l \<and> CHR '':'' # json_text v @ x = CHR '':'' # json_text w @ y"
    by (intro json_string_inject) (auto simp: member_text_def)
  with free_forD [OF assms(1), of x w y] b bl c show "(k, v) = b \<and> x = y" by simp
qed

lemma quote_not [simp]: "quote \<noteq> CHR '']''" "quote \<noteq> CHR ''}''" "\<not> is_digit quote"
  "quote \<noteq> CHR ''t''" "quote \<noteq> CHR ''f''" "quote \<noteq> CHR ''-''" "quote \<noteq> CHR ''[''" "quote \<noteq> CHR ''{''"
  by (simp_all add: quote_def is_digit_def)

text \<open>Texts that start alike are of values of one kind.\<close>

lemma starts_kind:
  assumes "starts v c" and "starts w c"
  shows "(case (v, w) of (JBool a, JBool b) \<Rightarrow> a = b | (JNum i, JNum j) \<Rightarrow> (i < 0) = (j < 0)
     | (JStr s, JStr t) \<Rightarrow> True | (JArr xs, JArr ys) \<Rightarrow> True | (JObj ms, JObj ns) \<Rightarrow> True | _ \<Rightarrow> False)"
  using assms by (cases v; cases w) (auto simp: quote_def is_digit_def split: if_splits)

lemma same_kind:
  assumes "json_text v @ x = json_text w @ y"
  shows "(case (v, w) of (JBool a, JBool b) \<Rightarrow> a = b | (JNum i, JNum j) \<Rightarrow> (i < 0) = (j < 0)
     | (JStr s, JStr t) \<Rightarrow> True | (JArr xs, JArr ys) \<Rightarrow> True | (JObj ms, JObj ns) \<Rightarrow> True | _ \<Rightarrow> False)"
proof -
  obtain c s d t where "json_text v = c # s" "starts v c" "json_text w = d # t" "starts w d"
    using json_text_starts by metis
  with assms starts_kind [of v c w] show ?thesis by simp
qed

lemma json_text_not_close:
  "json_text v \<noteq> []" "json_text v \<noteq> CHR '']'' # s" "json_text v \<noteq> CHR ''}'' # s"
proof -
  obtain c t where "json_text v = c # t" "starts v c" using json_text_starts by blast
  then show "json_text v \<noteq> []" "json_text v \<noteq> CHR '']'' # s" "json_text v \<noteq> CHR ''}'' # s"
    by (cases v; auto simp: is_digit_def quote_def split: if_splits)+
qed

lemma free_num: "free_for json_text json_ok (JNum i)"
  unfolding free_for_def
proof (intro allI impI)
  fix w x y
  assume c: "closed x" "closed y" and eq: "json_text (JNum i) @ x = json_text w @ y"
  from same_kind [OF eq] obtain j where w: "w = JNum j" "(i < 0) = (j < 0)"
    by (cases w) auto
  show "JNum i = w \<and> x = y"
  proof (cases "i < 0")
    case True
    with eq w c format_closed_inject [of "nat (- i)" x "nat (- j)" y] show ?thesis by auto
  next
    case False
    with eq w c format_closed_inject [of "nat i" x "nat j" y] show ?thesis by auto
  qed
qed

text \<open>An object's text ends with its own brace, so nothing has to follow.\<close>

lemma obj_prefix:
  assumes "\<forall>(k, v) \<in> set ms. valid_utf8 k \<and> free_for json_text json_ok v" and "json_ok (JObj ns)"
    and "json_text (JObj ms) @ x = json_text (JObj ns) @ y"
  shows "ms = ns \<and> x = y"
proof -
  have "\<forall>m \<in> set ms. free_for member_text (\<lambda>(k, v). valid_utf8 k \<and> json_ok v) m"
    using assms(1) by (auto intro!: free_member)
  moreover have "list_all (\<lambda>(k, v). valid_utf8 k \<and> json_ok v) ns" using assms(2) by simp
  moreover have "member_text m \<noteq> CHR ''}'' # s" "member_text m \<noteq> []" for m s
    by (simp_all add: member_text_def json_string_def)
  ultimately show ?thesis
    using assms(3) unfolding json_text_obj
    by (intro items_inject [of ms member_text "\<lambda>(k, v). valid_utf8 k \<and> json_ok v" ns "CHR ''}''"]) auto
qed

text \<open>Texts of values are equal, up to what follows, only for equal values.\<close>

lemma json_text_free: "json_ok v \<Longrightarrow> free_for json_text json_ok v"
proof (induction v rule: json_text.induct)
  case (1 b)
  show ?case unfolding free_for_def
  proof (intro allI impI)
    fix w x y assume eq: "json_text (JBool b) @ x = json_text w @ y"
    from same_kind [OF eq] have "w = JBool b" by (cases w) auto
    with eq show "JBool b = w \<and> x = y" by simp
  qed
next
  case (2 i)
  show ?case by (rule free_num)
next
  case (3 s)
  show ?case unfolding free_for_def
  proof (intro allI impI)
    fix w x y assume ok: "json_ok w" and eq: "json_text (JStr s) @ x = json_text w @ y"
    from same_kind [OF eq] obtain t where w: "w = JStr t" by (cases w) auto
    with eq ok 3 json_string_inject [of s t x y] show "JStr s = w \<and> x = y" by simp
  qed
next
  case (4 xs)
  show ?case unfolding free_for_def
  proof (intro allI impI)
    fix w x y assume ok: "json_ok w" and eq: "json_text (JArr xs) @ x = json_text w @ y"
    from same_kind [OF eq] obtain ys where w: "w = JArr ys" by (cases w) auto
    have "\<forall>a \<in> set xs. free_for json_text json_ok a" using 4 by (auto simp: list_all_iff)
    moreover have "list_all json_ok ys" using ok w by simp
    ultimately have "xs = ys \<and> x = y"
      using eq w json_text_not_close
      by (intro items_inject [of xs json_text json_ok ys "CHR '']''"]) auto
    with w show "JArr xs = w \<and> x = y" by simp
  qed
next
  case (5 ms)
  show ?case unfolding free_for_def
  proof (intro allI impI)
    fix w x y assume ok: "json_ok w" and eq: "json_text (JObj ms) @ x = json_text w @ y"
    from same_kind [OF eq] obtain ns where w: "w = JObj ns" by (cases w) auto
    have "\<forall>(k, v) \<in> set ms. valid_utf8 k \<and> free_for json_text json_ok v"
      using 5 by (auto simp: list_all_iff)
    with eq ok w have "ms = ns \<and> x = y" by (intro obj_prefix) auto
    with w show "JObj ms = w \<and> x = y" by simp
  qed
qed

lemma json_text_inject:
  assumes "json_ok v" and "json_ok w"
  shows "json_text v = json_text w \<longleftrightarrow> v = w"
  using free_forD [OF json_text_free [OF assms(1)], of "[]" w "[]"] assms(2) by auto

lemma json_obj_prefix:
  assumes "json_ok (JObj ms)" and "json_ok (JObj ns)"
    and "json_text (JObj ms) @ x = json_text (JObj ns) @ y"
  shows "ms = ns \<and> x = y"
  using assms by (intro obj_prefix) (auto simp: list_all_iff intro!: json_text_free)

lemma json_map_inject: "json_map m = json_map n \<longleftrightarrow> map_of m = map_of n"
proof
  assume eq: "json_map m = json_map n"
  have sel: "map_of (map (\<lambda>k. (k, JStr (the (map_of l k)))) (map_keys l)) = map_option JStr \<circ> map_of l"
    for l :: strmap
  proof
    fix k
    show "map_of (map (\<lambda>k. (k, JStr (the (map_of l k)))) (map_keys l)) k = (map_option JStr \<circ> map_of l) k"
      by (cases "map_of l k")
        (auto simp: map_of_map_restrict restrict_map_def map_keys_def map_of_eq_None_iff
          dest: map_of_SomeD intro!: image_eqI)
  qed
  from eq have "map_option JStr \<circ> map_of m = map_option JStr \<circ> map_of n"
    unfolding json_map_def by (metis sel json.inject(5))
  then show "map_of m = map_of n"
    by (metis fun_eq_iff comp_apply option.inj_map_strong json.inject(3))
next
  assume eq: "map_of m = map_of n"
  then have "dom (map_of m) = dom (map_of n)" by simp
  then have "map_keys m = map_keys n"
    by (simp add: map_keys_def dom_map_of_conv_image_fst sorted_list_of_set_sort_remdups [symmetric])
  with eq show "json_map m = json_map n" by (simp add: json_map_def)
qed

end
