(* ===== verification/Kive_Json.thy ===== *)
theory Kive_Json
  imports Go_Json
begin

text \<open>
  The JSON of a \<open>KiveTrap\<close> (\<open>kivetrap_type.go\<close>), of which \<open>KiveTrapHashID\<close> takes the hash, and of a
  \<open>KiveAlert\<close> (\<open>kivealert_type.go\<close>), which \<open>Output\<close> posts or logs: the members the tags name, in the
  order of the fields, those tagged \<open>omitempty\<close> left out when empty.  Both are determined by
  their text, up to the order of maps.
\<close>

text \<open>A member tagged \<open>omitempty\<close>.\<close>

definition member_unless :: "bool \<Rightarrow> string \<Rightarrow> json \<Rightarrow> (string \<times> json) list" where
  "member_unless is_empty k v = (if is_empty then [] else [(k, v)])"

definition match_members :: "KiveTrapMatch \<Rightarrow> (string \<times> json) list" where
  "match_members m =
     member_unless (km_PodName m = []) ''pod'' (JStr (km_PodName m)) @
     member_unless (km_ContainerName m = []) ''containerName'' (JStr (km_ContainerName m)) @
     member_unless (km_Namespace m = []) ''namespace'' (JStr (km_Namespace m)) @
     member_unless (km_IP m = []) ''ip'' (JStr (km_IP m)) @
     member_unless (km_MatchLabels m = []) ''matchLabels'' (json_map (km_MatchLabels m))"

definition json_of_match :: "KiveTrapMatch \<Rightarrow> json" where
  "json_of_match m = JObj (match_members m)"

definition trap_members :: "KiveTrap \<Rightarrow> (string \<times> json) list" where
  "trap_members t =
     member_unless (kt_Path t = []) ''path'' (JStr (kt_Path t)) @
     member_unless (\<not> kt_Create t) ''create'' (JBool (kt_Create t)) @
     member_unless (kt_Mode t = 0) ''mode'' (JNum (uint (kt_Mode t))) @
     member_unless (kt_Callback t = []) ''callback'' (JStr (kt_Callback t)) @
     member_unless (kt_Metadata t = []) ''metadata'' (json_map (kt_Metadata t)) @
     member_unless (kt_MatchAny t = []) ''matchAny'' (JArr (map json_of_match (kt_MatchAny t)))"

definition json_of_trap :: "KiveTrap \<Rightarrow> json" where
  "json_of_trap t = JObj (trap_members t)"

text \<open>\<open>int32\<close> fields are signed.\<close>

definition json_of_alert :: "KiveAlert \<Rightarrow> json" where
  "json_of_alert a = JObj
     [(''kive-alert-version'', JStr (ka_AlertVersion a)),
      (''kive-policy-name'', JStr (ka_PolicyName a)),
      (''timestamp'', JStr (ka_Timestamp a)),
      (''metadata'', JObj
        [(''path'', JStr (am_Path (ka_Metadata a))),
         (''inode'', JNum (uint (am_Inode (ka_Metadata a)))),
         (''mask'', JNum (sint (am_Mask (ka_Metadata a)))),
         (''kernel-id'', JStr (am_KernelID (ka_Metadata a))),
         (''callback'', JStr (am_Callback (ka_Metadata a)))]),
      (''custom-metadata'', json_map (ka_CustomMetadata a)),
      (''pod'', JObj
        [(''name'', JStr (pm_Name (ka_Pod a))),
         (''namespace'', JStr (pm_Namespace (ka_Pod a))),
         (''ip'', JStr (pm_Ip (ka_Pod a))),
         (''container'', JObj
           [(''id'', JStr (cm_Id (pm_Container (ka_Pod a)))),
            (''name'', JStr (cm_Name (pm_Container (ka_Pod a))))])]),
      (''node'', JObj [(''name'', JStr (nm_Name (ka_Node a)))]),
      (''process'', JObj
        [(''pid'', JNum (sint (pr_Pid (ka_Process a)))),
         (''tgid'', JNum (uint (pr_Tgid (ka_Process a)))),
         (''uid'', JNum (uint (pr_Uid (ka_Process a)))),
         (''gid'', JNum (uint (pr_Gid (ka_Process a)))),
         (''binary'', JStr (pr_Binary (ka_Process a))),
         (''cwd'', JStr (pr_Cwd (ka_Process a))),
         (''arguments'', JStr (pr_Arguments (ka_Process a)))])]"

text \<open>\<open>json.Marshal\<close> fails for values of other types only, such as functions and channels.\<close>

definition Marshal :: "json \<Rightarrow> string + string" where
  "Marshal v = Inr (json_text v)"

section \<open>Traps\<close>

text \<open>Equal up to the order of their maps.\<close>

definition same_match :: "KiveTrapMatch \<Rightarrow> KiveTrapMatch \<Rightarrow> bool" where
  "same_match m n \<longleftrightarrow> km_PodName m = km_PodName n \<and> km_ContainerName m = km_ContainerName n \<and>
     km_Namespace m = km_Namespace n \<and> km_IP m = km_IP n \<and>
     map_of (km_MatchLabels m) = map_of (km_MatchLabels n)"

definition same_trap :: "KiveTrap \<Rightarrow> KiveTrap \<Rightarrow> bool" where
  "same_trap t u \<longleftrightarrow> kt_Path t = kt_Path u \<and> kt_Create t = kt_Create u \<and> kt_Mode t = kt_Mode u \<and>
     kt_Callback t = kt_Callback u \<and> map_of (kt_Metadata t) = map_of (kt_Metadata u) \<and>
     list_all2 same_match (kt_MatchAny t) (kt_MatchAny u)"

definition map_utf8 :: "strmap \<Rightarrow> bool" where
  "map_utf8 m \<longleftrightarrow> (\<forall>(k, v) \<in> set m. valid_utf8 k \<and> valid_utf8 v)"

definition match_utf8 :: "KiveTrapMatch \<Rightarrow> bool" where
  "match_utf8 m \<longleftrightarrow> valid_utf8 (km_PodName m) \<and> valid_utf8 (km_ContainerName m) \<and>
     valid_utf8 (km_Namespace m) \<and> valid_utf8 (km_IP m) \<and> map_utf8 (km_MatchLabels m)"

text \<open>What the API server sees to: the strings of a resource are UTF-8.\<close>

definition trap_utf8 :: "KiveTrap \<Rightarrow> bool" where
  "trap_utf8 t \<longleftrightarrow> valid_utf8 (kt_Path t) \<and> valid_utf8 (kt_Callback t) \<and> map_utf8 (kt_Metadata t) \<and>
     list_all match_utf8 (kt_MatchAny t)"

text \<open>Looking up a member.\<close>

lemma lookup_member:
  "map_of (member_unless e k v @ ms) j = (if j = k \<and> \<not> e then Some v else map_of ms j)"
  "map_of (member_unless e k v) j = (if j = k \<and> \<not> e then Some v else None)"
  by (simp_all add: member_unless_def)

lemma member_unless_eq [simp]:
  "(\<forall>(k', v') \<in> set (member_unless e k v). P k' v') \<longleftrightarrow> e \<or> P k v"
  by (simp add: member_unless_def)

lemma number_eq:
  "uint v = uint w \<longleftrightarrow> v = w" "sint v = sint w \<longleftrightarrow> v = w" for v w :: "'a::len word"
  by (simp_all flip: word_uint_eq_iff word_eq_iff_signed)

lemma json_map_empty: "m = [] \<longleftrightarrow> map_of m = Map.empty"
  by simp

lemma json_map_ok:
  assumes "map_utf8 m"
  shows "json_ok (json_map m)"
proof -
  have "valid_utf8 k \<and> valid_utf8 (the (map_of m k))" if "k \<in> set (map_keys m)" for k
  proof -
    from that have "k \<in> fst ` set m" by (simp add: map_keys_def)
    then obtain v where "map_of m k = Some v" by (metis map_of_eq_None_iff not_Some_eq)
    with assms show ?thesis by (auto simp: map_utf8_def dest: map_of_SomeD)
  qed
  then show ?thesis by (simp add: json_map_def list_all_iff)
qed

lemma ok_member_unless [simp]:
  "list_all (\<lambda>(k, v). P k v) (member_unless e k v) \<longleftrightarrow> e \<or> P k v"
  by (simp add: member_unless_def)

lemma json_of_match_ok: "match_utf8 m \<Longrightarrow> json_ok (json_of_match m)"
  by (auto simp: json_of_match_def match_members_def match_utf8_def json_map_ok)

lemma matches_ok: "list_all match_utf8 ms \<Longrightarrow> json_ok (JArr (map json_of_match ms))"
  by (simp add: list_all_iff json_of_match_ok)

lemma json_of_trap_ok: "trap_utf8 t \<Longrightarrow> json_ok (json_of_trap t)"
  unfolding json_of_trap_def trap_members_def trap_utf8_def
  using matches_ok [of "kt_MatchAny t"] by (simp add: json_map_ok del: json_ok.simps(2))

lemma maps_equal: "json_map m = json_map n \<Longrightarrow> m = [] \<longleftrightarrow> n = [] \<Longrightarrow> map_of m = map_of n"
  by (simp add: json_map_inject)

lemma json_of_match_inject: "json_of_match m = json_of_match n \<longleftrightarrow> same_match m n"
proof
  assume "json_of_match m = json_of_match n"
  then have look: "map_of (match_members m) k = map_of (match_members n) k" for k
    by (simp add: json_of_match_def)
  note members = match_members_def lookup_member
  have "km_PodName m = km_PodName n"
    using look [of "''pod''"] by (simp add: members del: map_of_append split: if_splits)
  moreover have "km_ContainerName m = km_ContainerName n"
    using look [of "''containerName''"] by (simp add: members del: map_of_append split: if_splits)
  moreover have "km_Namespace m = km_Namespace n"
    using look [of "''namespace''"] by (simp add: members del: map_of_append split: if_splits)
  moreover have "km_IP m = km_IP n"
    using look [of "''ip''"] by (simp add: members del: map_of_append split: if_splits)
  moreover have "map_of (km_MatchLabels m) = map_of (km_MatchLabels n)"
    using look [of "''matchLabels''"] by (simp add: members json_map_inject del: map_of_append split: if_splits)
  ultimately show "same_match m n" by (simp add: same_match_def)
next
  assume s: "same_match m n"
  then have "json_map (km_MatchLabels m) = json_map (km_MatchLabels n)"
    by (simp add: same_match_def json_map_inject)
  with s show "json_of_match m = json_of_match n"
    unfolding json_of_match_def match_members_def json_map_empty by (simp add: same_match_def)
qed

lemma matches_inject:
  "map json_of_match xs = map json_of_match ys \<longleftrightarrow> list_all2 same_match xs ys"
  by (simp add: list.rel_eq [symmetric] list.rel_map json_of_match_inject)

lemma json_of_trap_inject: "json_of_trap t = json_of_trap u \<longleftrightarrow> same_trap t u"
proof
  assume "json_of_trap t = json_of_trap u"
  then have look: "map_of (trap_members t) k = map_of (trap_members u) k" for k
    by (simp add: json_of_trap_def)
  note members = trap_members_def lookup_member
  have "kt_Path t = kt_Path u"
    using look [of "''path''"] by (simp add: members del: map_of_append split: if_splits)
  moreover have "kt_Create t = kt_Create u"
    using look [of "''create''"] by (simp add: members del: map_of_append split: if_splits)
  moreover have "kt_Mode t = kt_Mode u"
    using look [of "''mode''"] by (simp add: members number_eq del: map_of_append split: if_splits)
  moreover have "kt_Callback t = kt_Callback u"
    using look [of "''callback''"] by (simp add: members del: map_of_append split: if_splits)
  moreover have "map_of (kt_Metadata t) = map_of (kt_Metadata u)"
    using look [of "''metadata''"] by (simp add: members json_map_inject del: map_of_append split: if_splits)
  moreover have "list_all2 same_match (kt_MatchAny t) (kt_MatchAny u)"
    using look [of "''matchAny''"] by (simp add: members matches_inject del: map_of_append split: if_splits)
  ultimately show "same_trap t u" by (simp add: same_trap_def)
next
  assume s: "same_trap t u"
  then have "kt_MatchAny t = [] \<longleftrightarrow> kt_MatchAny u = []"
    and "json_map (kt_Metadata t) = json_map (kt_Metadata u)"
    and "map json_of_match (kt_MatchAny t) = map json_of_match (kt_MatchAny u)"
    by (auto simp: same_trap_def json_map_inject matches_inject)
  with s show "json_of_trap t = json_of_trap u"
    unfolding json_of_trap_def trap_members_def json_map_empty
    by (simp add: same_trap_def)
qed

text \<open>What is hashed determines the trap and the version.\<close>

lemma hashed_inject:
  assumes "trap_utf8 t" and "trap_utf8 u"
  shows "json_text (json_of_trap t) @ v = json_text (json_of_trap u) @ w \<longleftrightarrow> same_trap t u \<and> v = w"
proof -
  have "trap_members t = trap_members u \<and> v = w"
    if "json_text (json_of_trap t) @ v = json_text (json_of_trap u) @ w"
    using that assms json_of_trap_ok [of t] json_of_trap_ok [of u]
    unfolding json_of_trap_def by (intro json_obj_prefix) auto
  then show ?thesis by (metis json_of_trap_def json_of_trap_inject)
qed

section \<open>Alerts\<close>

definition same_alert :: "KiveAlert \<Rightarrow> KiveAlert \<Rightarrow> bool" where
  "same_alert a b \<longleftrightarrow> a = b\<lparr>ka_CustomMetadata := ka_CustomMetadata a\<rparr> \<and>
     map_of (ka_CustomMetadata a) = map_of (ka_CustomMetadata b)"

definition alert_utf8 :: "KiveAlert \<Rightarrow> bool" where
  "alert_utf8 a \<longleftrightarrow> list_all valid_utf8
     [ka_AlertVersion a, ka_PolicyName a, ka_Timestamp a, am_Path (ka_Metadata a),
      am_KernelID (ka_Metadata a), am_Callback (ka_Metadata a), pm_Name (ka_Pod a),
      pm_Namespace (ka_Pod a), pm_Ip (ka_Pod a), cm_Id (pm_Container (ka_Pod a)),
      cm_Name (pm_Container (ka_Pod a)), nm_Name (ka_Node a), pr_Binary (ka_Process a),
      pr_Cwd (ka_Process a), pr_Arguments (ka_Process a)] \<and> map_utf8 (ka_CustomMetadata a)"

lemma json_of_alert_ok: "alert_utf8 a \<Longrightarrow> json_ok (json_of_alert a)"
  by (simp add: json_of_alert_def alert_utf8_def json_map_ok)

lemma alert_metadata_eq:
  "m = n \<longleftrightarrow> am_Path m = am_Path n \<and> am_Inode m = am_Inode n \<and> am_Mask m = am_Mask n \<and>
     am_KernelID m = am_KernelID n \<and> am_Callback m = am_Callback n" for m n :: KiveAlertMetadata
  by (cases m; cases n) simp

lemma pod_metadata_eq:
  "p = q \<longleftrightarrow> pm_Name p = pm_Name q \<and> pm_Namespace p = pm_Namespace q \<and> pm_Ip p = pm_Ip q \<and>
     cm_Id (pm_Container p) = cm_Id (pm_Container q) \<and>
     cm_Name (pm_Container p) = cm_Name (pm_Container q)" for p q :: PodMetadata
  by (cases p; cases q; cases "pm_Container p"; cases "pm_Container q") simp

lemma node_metadata_eq: "n = m \<longleftrightarrow> nm_Name n = nm_Name m" for n m :: NodeMetadata
  by (cases n; cases m) simp

lemma process_metadata_eq:
  "p = q \<longleftrightarrow> pr_Pid p = pr_Pid q \<and> pr_Tgid p = pr_Tgid q \<and> pr_Uid p = pr_Uid q \<and> pr_Gid p = pr_Gid q \<and>
     pr_Binary p = pr_Binary q \<and> pr_Cwd p = pr_Cwd q \<and> pr_Arguments p = pr_Arguments q"
  for p q :: ProcessMetadata
  by (cases p; cases q) simp

lemma same_alert_iff:
  "same_alert a b \<longleftrightarrow> ka_AlertVersion a = ka_AlertVersion b \<and> ka_PolicyName a = ka_PolicyName b \<and>
     ka_Timestamp a = ka_Timestamp b \<and> ka_Metadata a = ka_Metadata b \<and>
     map_of (ka_CustomMetadata a) = map_of (ka_CustomMetadata b) \<and> ka_Pod a = ka_Pod b \<and>
     ka_Node a = ka_Node b \<and> ka_Process a = ka_Process b"
  by (cases a; cases b) (auto simp: same_alert_def)

lemma json_of_alert_inject: "json_of_alert a = json_of_alert b \<longleftrightarrow> same_alert a b"
  by (simp add: json_of_alert_def same_alert_iff json_map_inject number_eq alert_metadata_eq
      pod_metadata_eq node_metadata_eq process_metadata_eq conj_ac)

lemma alert_text_inject:
  assumes "alert_utf8 a" and "alert_utf8 b"
  shows "json_text (json_of_alert a) = json_text (json_of_alert b) \<longleftrightarrow> same_alert a b"
  using assms by (simp add: json_text_inject json_of_alert_ok json_of_alert_inject)

end
