(* ===== verification/Go_Sha256.thy ===== *)
theory Go_Sha256
  imports Go_Lib
begin

text \<open>
  \<open>crypto/sha256\<close>: the digest of a byte string (FIPS 180-4), 32 bytes, computed on 32-bit words that wrap
  around.
\<close>

unbundle bit_operations_syntax

section \<open>Words and blocks\<close>

definition sha_k :: "u32 list" where
  "sha_k =
    [0x428A2F98, 0x71374491, 0xB5C0FBCF, 0xE9B5DBA5, 0x3956C25B, 0x59F111F1,
     0x923F82A4, 0xAB1C5ED5, 0xD807AA98, 0x12835B01, 0x243185BE, 0x550C7DC3,
     0x72BE5D74, 0x80DEB1FE, 0x9BDC06A7, 0xC19BF174, 0xE49B69C1, 0xEFBE4786,
     0x0FC19DC6, 0x240CA1CC, 0x2DE92C6F, 0x4A7484AA, 0x5CB0A9DC, 0x76F988DA,
     0x983E5152, 0xA831C66D, 0xB00327C8, 0xBF597FC7, 0xC6E00BF3, 0xD5A79147,
     0x06CA6351, 0x14292967, 0x27B70A85, 0x2E1B2138, 0x4D2C6DFC, 0x53380D13,
     0x650A7354, 0x766A0ABB, 0x81C2C92E, 0x92722C85, 0xA2BFE8A1, 0xA81A664B,
     0xC24B8B70, 0xC76C51A3, 0xD192E819, 0xD6990624, 0xF40E3585, 0x106AA070,
     0x19A4C116, 0x1E376C08, 0x2748774C, 0x34B0BCB5, 0x391C0CB3, 0x4ED8AA4A,
     0x5B9CCA4F, 0x682E6FF3, 0x748F82EE, 0x78A5636F, 0x84C87814, 0x8CC70208,
     0x90BEFFFA, 0xA4506CEB, 0xBEF9A3F7, 0xC67178F2]"

definition sha_init :: "u32 list" where
  "sha_init =
    [0x6A09E667, 0xBB67AE85, 0x3C6EF372, 0xA54FF53A, 0x510E527F, 0x9B05688C,
     0x1F83D9AB, 0x5BE0CD19]"

definition sha_ch :: "u32 \<Rightarrow> u32 \<Rightarrow> u32 \<Rightarrow> u32" where
  "sha_ch x y z = (x AND y) XOR (NOT x AND z)"

definition sha_maj :: "u32 \<Rightarrow> u32 \<Rightarrow> u32 \<Rightarrow> u32" where
  "sha_maj x y z = (x AND y) XOR (x AND z) XOR (y AND z)"

definition sha_sum0 :: "u32 \<Rightarrow> u32" where
  "sha_sum0 x = word_rotr 2 x XOR word_rotr 13 x XOR word_rotr 22 x"

definition sha_sum1 :: "u32 \<Rightarrow> u32" where
  "sha_sum1 x = word_rotr 6 x XOR word_rotr 11 x XOR word_rotr 25 x"

definition sha_sig0 :: "u32 \<Rightarrow> u32" where
  "sha_sig0 x = word_rotr 7 x XOR word_rotr 18 x XOR drop_bit 3 x"

definition sha_sig1 :: "u32 \<Rightarrow> u32" where
  "sha_sig1 x = word_rotr 17 x XOR word_rotr 19 x XOR drop_bit 10 x"

text \<open>The message schedule, newest word first: \<open>n\<close> more words after the 16 of the block.\<close>

fun sha_schedule :: "nat \<Rightarrow> u32 list \<Rightarrow> u32 list" where
  "sha_schedule 0 w = w"
| "sha_schedule (Suc n) w =
     sha_schedule n ((sha_sig1 (w ! 1) + w ! 6 + sha_sig0 (w ! 14) + w ! 15) # w)"

text \<open>One round on the eight working variables.\<close>

fun sha_round :: "u32 list \<Rightarrow> u32 \<times> u32 \<Rightarrow> u32 list" where
  "sha_round [a, b, c, d, e, f, g, h] (k, w) =
     (let t1 = h + sha_sum1 e + sha_ch e f g + k + w; t2 = sha_sum0 a + sha_maj a b c
      in [t1 + t2, a, b, c, d + t1, e, f, g])"
| "sha_round s kw = s"

definition sha_compress :: "u32 list \<Rightarrow> u32 list \<Rightarrow> u32 list" where
  "sha_compress h block =
     map2 (+) h (foldl sha_round h (zip sha_k (rev (sha_schedule 48 (rev block)))))"

section \<open>Bytes\<close>

definition sha_word :: "u8 \<Rightarrow> u8 \<Rightarrow> u8 \<Rightarrow> u8 \<Rightarrow> u32" where
  "sha_word a b c d = push_bit 24 (ucast a) OR push_bit 16 (ucast b) OR push_bit 8 (ucast c) OR ucast d"

fun sha_words :: "u8 list \<Rightarrow> u32 list" where
  "sha_words (a # b # c # d # bs) = sha_word a b c d # sha_words bs"
| "sha_words _ = []"

definition sha_bytes :: "u32 \<Rightarrow> u8 list" where
  "sha_bytes w = [ucast (drop_bit 24 w), ucast (drop_bit 16 w), ucast (drop_bit 8 w), ucast w]"

text \<open>A one bit, zeros, and the length in bits as eight bytes, to a multiple of 64 bytes.\<close>

definition sha_pad :: "u8 list \<Rightarrow> u8 list" where
  "sha_pad m =
     m @ 0x80 # replicate ((119 - length m mod 64) mod 64) 0 @
     map (\<lambda>i. ucast (drop_bit (56 - 8 * i) (of_nat (8 * length m) :: u64))) [0..<8]"

function sha_blocks :: "u32 list \<Rightarrow> u32 list \<Rightarrow> u32 list" where
  "sha_blocks h ws =
     (if length ws < 16 then h else sha_blocks (sha_compress h (take 16 ws)) (drop 16 ws))"
  by pat_completeness auto
termination by (relation "measure (\<lambda>(h, ws). length ws)") auto

declare sha_blocks.simps [simp del]

definition sha256 :: "string \<Rightarrow> u8 list" where
  "sha256 s = concat (map sha_bytes (sha_blocks sha_init (sha_words (sha_pad (map of_char s)))))"

section \<open>The digest has 32 bytes\<close>

lemma length_sha_round [simp]: "length (sha_round s kw) = length s"
  by (induction s kw rule: sha_round.induct) (simp_all add: Let_def)

lemma length_sha_rounds [simp]: "length (foldl sha_round s kws) = length s"
  by (induction kws arbitrary: s) simp_all

lemma length_sha_compress [simp]: "length (sha_compress h b) = length h"
  by (simp add: sha_compress_def)

lemma length_sha_blocks [simp]: "length (sha_blocks h ws) = length h"
proof (induction h ws rule: sha_blocks.induct)
  case (1 h ws)
  then show ?case by (subst sha_blocks.simps) simp
qed

lemma length_concat_words: "length (concat (map sha_bytes ws)) = 4 * length ws"
  by (induction ws) (simp_all add: sha_bytes_def)

lemma length_sha256 [simp]: "length (sha256 s) = 32"
  by (simp add: sha256_def length_concat_words sha_init_def)

text \<open>The padding fills the last block.\<close>

lemma pad_zeros:
  assumes "r < (64 :: nat)"
  shows "(119 - r) mod 64 = (if r < 56 then 55 - r else 119 - r)"
proof (cases "r < 56")
  case True
  then have "119 - r = (55 - r) + 64" by simp
  then have "(119 - r) mod 64 = (55 - r) mod 64" by (simp only: mod_add_self2)
  with True show ?thesis by simp
qed (use assms in simp)

lemma length_sha_pad: "64 dvd length (sha_pad m)"
proof -
  define q r where "q = length m div 64" and "r = length m mod 64"
  then have "length m = 64 * q + r" and r: "r < 64" by simp_all
  moreover have "length (sha_pad m) = length m + 9 + (119 - r) mod 64"
    by (simp add: sha_pad_def r_def)
  ultimately have "length (sha_pad m) = 64 * (q + (if r < 56 then 1 else 2))"
    by (simp add: pad_zeros)
  then show ?thesis by (rule dvdI)
qed

text \<open>The test vector of the standard.\<close>

lemma sha256_abc:
  "sha256 ''abc'' =
    [0xba, 0x78, 0x16, 0xbf, 0x8f, 0x01, 0xcf, 0xea, 0x41, 0x41, 0x40, 0xde, 0x5d, 0xae, 0x22, 0x23,
     0xb0, 0x03, 0x61, 0xa3, 0x96, 0x17, 0x7a, 0x9c, 0xb4, 0x10, 0xff, 0x61, 0xf2, 0x00, 0x15, 0xad]"
  by code_simp

end
