(* ===== verification/Go_Glob.thy ===== *)
theory Go_Glob
  imports Go_Json
begin

text \<open>
  \<open>filepath.Match\<close> as documented: a pattern is a list of terms, \<open>*\<close>, \<open>?\<close>, a class or a character, and it
  must match the whole name; the only error is a malformed pattern.  \<open>*\<close> and \<open>?\<close> do not match the
  separator.  Characters are runes, here the list of bytes of each.
\<close>

section \<open>Runes\<close>

text \<open>An invalid byte counts as a rune of its own, the replacement character.\<close>

function runes :: "string \<Rightarrow> string list" where
  "runes [] = []"
| "runes (c # s) =
     (if rune_len (c # s) = 0 then [CHR 0xEF, CHR 0xBF, CHR 0xBD] # runes s
      else take (rune_len (c # s)) (c # s) # runes (drop (rune_len (c # s)) (c # s)))"
  by pat_completeness auto
termination by (relation "measure length") auto

declare runes.simps(2) [simp del]

lemma runes_ascii [simp]: "byte c < 0x80 \<Longrightarrow> runes (c # s) = [c] # runes s"
  by (simp add: runes.simps(2) rune_len_ascii)

lemma runes_ascii_append: "list_all (\<lambda>c. byte c < 0x80) s \<Longrightarrow> runes (s @ t) = map (\<lambda>c. [c]) s @ runes t"
  by (induction s) simp_all

section \<open>Patterns\<close>

text \<open>A class holds ranges of runes; the order of runes is that of their encodings.\<close>

datatype glob =
    GStar
  | GAny
  | GClass bool "(string \<times> string) list"   \<comment> \<open>whether it is negated\<close>
  | GLit string

text \<open>One end of a range: not \<open>-\<close> or \<open>]\<close>, or escaped, and something must follow.\<close>

fun range_end :: "string list \<Rightarrow> (string \<times> string list) option" where
  "range_end (r # rest) =
     (if r = ''-'' \<or> r = '']'' then None
      else if r = [backslash] then
        (case rest of r' # r'' # rest' \<Rightarrow> Some (r', r'' # rest') | _ \<Rightarrow> None)
      else if rest = [] then None else Some (r, rest))"
| "range_end [] = None"

definition one_range :: "string list \<Rightarrow> ((string \<times> string) \<times> string list) option" where
  "one_range p =
     (case range_end p of None \<Rightarrow> None
      | Some (lo, rest) \<Rightarrow>
          (if hd rest = ''-'' then
             (case range_end (tl rest) of None \<Rightarrow> None | Some (hi, rest') \<Rightarrow> Some ((lo, hi), rest'))
           else Some ((lo, lo), rest)))"

lemma range_end_less: "range_end p = Some (r, rest) \<Longrightarrow> length rest < length p"
  by (cases p rule: range_end.cases) (auto split: if_splits list.splits)

lemma one_range_less: "one_range p = Some (r, rest) \<Longrightarrow> length rest < length p"
  by (auto simp: one_range_def split: option.splits if_splits dest!: range_end_less)

text \<open>The ranges of a class, at least one, up to the closing bracket.\<close>

function ranges :: "string list \<Rightarrow> ((string \<times> string) list \<times> string list) option" where
  "ranges p =
     (case one_range p of None \<Rightarrow> None
      | Some (r, rest) \<Rightarrow>
          (if rest \<noteq> [] \<and> hd rest = '']'' then Some ([r], tl rest)
           else map_option (apfst ((#) r)) (ranges rest)))"
  by pat_completeness auto
termination by (relation "measure length") (auto dest: one_range_less)

declare ranges.simps [simp del]

lemma ranges_less: "ranges p = Some (rs, rest) \<Longrightarrow> length rest < length p"
proof (induction p arbitrary: rs rest rule: ranges.induct)
  case (1 p)
  from 1(2) obtain r q where q: "one_range p = Some (r, q)"
    by (subst (asm) ranges.simps) (auto split: option.splits)
  note less = one_range_less [OF q]
  show ?case
  proof (cases "q \<noteq> [] \<and> hd q = '']''")
    case True
    with 1(2) q have "rest = tl q" by (subst (asm) ranges.simps) simp
    with less show ?thesis by simp
  next
    case False
    with 1(2) q obtain rs' where "ranges q = Some (rs', rest)"
      by (subst (asm) ranges.simps) auto
    from 1(1) [OF q refl False this] less show ?thesis by simp
  qed
qed

text \<open>The terms of a pattern, or none if it is malformed.\<close>

function parse_glob :: "string list \<Rightarrow> glob list option" where
  "parse_glob [] = Some []"
| "parse_glob (r # p) =
     (if r = ''*'' then map_option ((#) GStar) (parse_glob p)
      else if r = ''?'' then map_option ((#) GAny) (parse_glob p)
      else if r = ''['' then
        (let neg = (p \<noteq> [] \<and> hd p = ''^'') in
         case ranges (if neg then tl p else p) of None \<Rightarrow> None
         | Some (rs, rest) \<Rightarrow> map_option ((#) (GClass neg rs)) (parse_glob rest))
      else if r = [backslash] then
        (case p of [] \<Rightarrow> None | r' # p' \<Rightarrow> map_option ((#) (GLit r')) (parse_glob p'))
      else map_option ((#) (GLit r)) (parse_glob p))"
  by pat_completeness auto
termination by (relation "measure length") (auto dest!: ranges_less split: if_splits)

declare parse_glob.simps(2) [simp del]

section \<open>Matching\<close>

text \<open>\<open>lo \<le> r \<and> r \<le> hi\<close> on runes: the order of their encodings.\<close>

definition in_class :: "string \<Rightarrow> (string \<times> string) list \<Rightarrow> bool" where
  "in_class r rs \<longleftrightarrow> list_ex (\<lambda>(lo, hi). lo \<le> r \<and> r \<le> hi) rs"

fun glob_match :: "glob list \<Rightarrow> string list \<Rightarrow> bool" where
  "glob_match [] s = (s = [])"
| "glob_match (GStar # p) [] = glob_match p []"
| "glob_match (GStar # p) (r # s) =
     (glob_match p (r # s) \<or> r \<noteq> ''/'' \<and> glob_match (GStar # p) s)"
| "glob_match (GAny # p) (r # s) = (r \<noteq> ''/'' \<and> glob_match p s)"
| "glob_match (GClass neg rs # p) (r # s) = (in_class r rs \<noteq> neg \<and> glob_match p s)"
| "glob_match (GLit r' # p) (r # s) = (r' = r \<and> glob_match p s)"
| "glob_match _ _ = False"

definition path_match :: "string \<Rightarrow> string \<Rightarrow> string + bool" where
  "path_match pattern name =
     (case parse_glob (runes pattern) of None \<Rightarrow> Inl ''syntax error in pattern''
      | Some p \<Rightarrow> Inr (glob_match p (runes name)))"

section \<open>What patterns match\<close>

lemma glob_star:
  "glob_match (GStar # p) s \<longleftrightarrow> (\<exists>u v. s = u @ v \<and> ''/'' \<notin> set u \<and> glob_match p v)"
proof (induction s)
  case (Cons r s)
  show ?case
  proof
    assume "glob_match (GStar # p) (r # s)"
    then consider "glob_match p (r # s)" | "r \<noteq> ''/''" "glob_match (GStar # p) s" by auto
    then show "\<exists>u v. r # s = u @ v \<and> ''/'' \<notin> set u \<and> glob_match p v"
    proof cases
      case 1
      then show ?thesis by (intro exI [of _ "[]"] exI [of _ "r # s"]) simp
    next
      case 2
      with Cons.IH obtain u v where "s = u @ v" "''/'' \<notin> set u" "glob_match p v" by blast
      with 2(1) show ?thesis by (intro exI [of _ "r # u"] exI [of _ v]) simp
    qed
  next
    assume "\<exists>u v. r # s = u @ v \<and> ''/'' \<notin> set u \<and> glob_match p v"
    then obtain u v where u: "r # s = u @ v" "''/'' \<notin> set u" "glob_match p v" by blast
    then show "glob_match (GStar # p) (r # s)"
      using Cons.IH by (cases u) auto
  qed
qed simp

text \<open>Characters that stand for themselves.\<close>

definition plain :: "string \<Rightarrow> bool" where
  "plain s \<longleftrightarrow> list_all (\<lambda>c. byte c < 0x80 \<and> c \<notin> {CHR ''*'', CHR ''?'', CHR ''['', backslash}) s"

lemma parse_plain:
  "plain s \<Longrightarrow> parse_glob (map (\<lambda>c. [c]) s @ p) =
     map_option ((@) (map (\<lambda>c. GLit [c]) s)) (parse_glob p)"
  by (induction s; cases "parse_glob p") (auto simp: plain_def parse_glob.simps(2))

lemma match_plain:
  "glob_match (map (\<lambda>c. GLit [c]) s @ p) t \<longleftrightarrow> (\<exists>v. t = map (\<lambda>c. [c]) s @ v \<and> glob_match p v)"
proof (induction s arbitrary: t)
  case (Cons c s)
  then show ?case by (cases t) auto
qed simp

lemma map_single_eq [simp]: "map (\<lambda>c. [c]) s = map (\<lambda>c. [c]) t \<longleftrightarrow> s = t"
  by (metis inj_map_eq_map injI list.inject)

lemma plain_ascii: "plain s \<Longrightarrow> list_all (\<lambda>c. byte c < 0x80) s"
  by (simp add: plain_def list_all_iff)

lemma runes_all_ascii: "list_all (\<lambda>c. byte c < 0x80) s \<Longrightarrow> runes s = map (\<lambda>c. [c]) s"
  using runes_ascii_append [of s "[]"] by simp

lemma path_match_plain:
  assumes "plain s" and "list_all (\<lambda>c. byte c < 0x80) name"
  shows "path_match s name = Inr (s = name)"
  using assms parse_plain [of s "[]"] match_plain [of s "[]"]
  by (auto simp: path_match_def runes_all_ascii plain_ascii)

lemma path_match_star:
  assumes "plain pre" and "plain suf" and "list_all (\<lambda>c. byte c < 0x80 \<and> c \<noteq> CHR ''/'') name"
  shows "path_match (pre @ ''*'' @ suf) name = Inr (\<exists>mid. name = pre @ mid @ suf)"
proof -
  let ?one = "map (\<lambda>c. [c]) :: string \<Rightarrow> string list" and ?lit = "map (\<lambda>c. GLit [c])"
  have ascii: "list_all (\<lambda>c. byte c < 0x80) name" "CHR ''/'' \<notin> set name"
    using assms(3) by (auto simp: list_all_iff)
  have "runes (pre @ ''*'' @ suf) = ?one pre @ ''*'' # ?one suf"
    using assms(1,2) by (simp add: runes_ascii_append runes_all_ascii plain_ascii)
  moreover have "parse_glob (?one suf) = Some (?lit suf)"
    using parse_plain [OF assms(2), of "[]"] by simp
  ultimately have "parse_glob (runes (pre @ ''*'' @ suf)) = Some (?lit pre @ GStar # ?lit suf)"
    by (simp add: parse_plain [OF assms(1)] parse_glob.simps(2))
  moreover have "glob_match (?lit pre @ GStar # ?lit suf) (?one name) \<longleftrightarrow> (\<exists>mid. name = pre @ mid @ suf)"
  proof
    assume "glob_match (?lit pre @ GStar # ?lit suf) (?one name)"
    then obtain u where "?one name = ?one pre @ u @ ?one suf"
      using match_plain [of suf "[]"] by (auto simp: match_plain glob_star)
    then have "map hd (?one name) = map hd (?one pre @ u @ ?one suf)" by simp
    then have "name = pre @ map hd u @ suf" by (simp add: comp_def)
    then show "\<exists>mid. name = pre @ mid @ suf" by blast
  next
    assume "\<exists>mid. name = pre @ mid @ suf"
    then obtain mid where name: "name = pre @ mid @ suf" by blast
    have "glob_match (?lit suf) (?one suf)" using match_plain [of suf "[]" "?one suf"] by simp
    moreover have "''/'' \<notin> set (?one mid)" using ascii(2) name by auto
    ultimately have "glob_match (GStar # ?lit suf) (?one mid @ ?one suf)" unfolding glob_star by blast
    then show "glob_match (?lit pre @ GStar # ?lit suf) (?one name)" by (simp add: match_plain name)
  qed
  ultimately show ?thesis by (simp add: path_match_def runes_all_ascii [OF ascii(1)])
qed

lemma path_match_open:
  assumes "plain s"
  shows "path_match (s @ ''['') name = Inl ''syntax error in pattern''"
proof -
  have "runes (s @ ''['') = map (\<lambda>c. [c]) s @ [''['']"
    using assms by (simp add: runes_ascii_append plain_ascii)
  moreover have "parse_glob [''[''] = None"
    by (simp add: parse_glob.simps(2) ranges.simps [of "[]"] one_range_def)
  ultimately show ?thesis by (simp add: path_match_def parse_plain [OF assms])
qed

end
