(* ===== verification/Kive_Utils.thy ===== *)
theory Kive_Utils
  imports Container Kive_Json Go_Sha256 Go_Glob
begin

text \<open>
  \<open>controller/utils.go\<close> and \<open>constants.go\<close>: the id that links a \<open>KiveData\<close> to its trap, the names of
  \<open>KiveData\<close> resources, the match of container names, and the comparison of a \<open>KiveData\<close> with a
  trap and with a container.  Regular expressions are a parameter.
\<close>

section \<open>Pods\<close>

text \<open>The fields of Kubernetes' \<open>Pod\<close> that the operator reads.\<close>

record Pod =
  pod_Name :: string
  pod_Namespace :: string
  pod_NodeName :: string
  pod_IP :: string
  pod_Phase :: string
  pod_ContainerStatuses :: "ContainerStatus list"

definition PodRunning :: string where "PodRunning = ''Running''"
definition PodSucceeded :: string where "PodSucceeded = ''Succeeded''"
definition PodFailed :: string where "PodFailed = ''Failed''"

section \<open>Names and ids\<close>

definition FieldOwnerKiveController :: string where
  "FieldOwnerKiveController = ''kive-controller''"

definition TrapIDLabel :: string where "TrapIDLabel = ''trap-id''"

text \<open>The parameter: \<open>regexp.Compile\<close>, which gives an error or the predicate of the matched strings.\<close>

record go_std =
  gs_compile :: "string \<Rightarrow> string + (string \<Rightarrow> bool)"

text \<open>\<open>hex.EncodeToString\<close>\<close>

definition hex_encode :: "u8 list \<Rightarrow> string" where
  "hex_encode bs = concat (map (\<lambda>b. [hex_digit (unat b div 16), hex_digit (unat b mod 16)]) bs)"

definition KiveTrapHashID :: "KiveTrap \<Rightarrow> string \<Rightarrow> string outcome" where
  "KiveTrapHashID kiveTrap alertVersion =
     (case Marshal (json_of_trap kiveTrap) of
        Inl err \<Rightarrow> Error (''TrapHashID Error Json Marshal: '' @ err)
      | Inr jsonTrap \<Rightarrow>
          (let shaPolicy = hex_encode (sha256 (jsonTrap @ alertVersion)) in
           if length shaPolicy < 63 then Panic else Return (take 63 shaPolicy)))"

definition NewKiveDataName :: "u64 \<Rightarrow> u32 \<Rightarrow> Pod \<Rightarrow> ContainerStatus \<Rightarrow> string" where
  "NewKiveDataName inode dev pod status =
     (let containerID = (case SplitContainerRuntimeID (cs_ContainerID status) of
          Inr (_, i) \<Rightarrow> i | Inl _ \<Rightarrow> [])
      in format_uint (unat inode) @ ''-'' @ format_uint (unat dev) @ ''-kive-data-'' @
         pod_Name pod @ ''-'' @ containerID)"

section \<open>Matching and comparing\<close>

definition RegexMatch :: "go_std \<Rightarrow> string \<Rightarrow> string \<Rightarrow> bool outcome" where
  "RegexMatch std regex containerName =
     (if regex = [] then Return True
      else if prefix ''regex:'' regex then
        (case gs_compile std (trim_prefix regex ''regex:'') of
           Inl err \<Rightarrow> Error (''RegexMatch Error compiling regex: '' @ err)
         | Inr compiledRegex \<Rightarrow> Return (compiledRegex containerName))
      else if prefix ''glob:'' regex then
        (case path_match (trim_prefix regex ''glob:'') containerName of
           Inl err \<Rightarrow> Error (''RegexMatch Error compiling regex: '' @ err)
         | Inr result \<Rightarrow> Return result)
      else Return (regex = containerName))"

definition KiveDataTrapCmp :: "KiveData \<Rightarrow> KiveTrap \<Rightarrow> bool outcome" where
  "KiveDataTrapCmp kiveData kiveTrap =
     (case KiveTrapHashID kiveTrap (data_annotation kiveData ''kive-alert-version'') of
        Error err \<Rightarrow> Error (''KiveDataTrapCmp Error Hash ID: '' @ err)
      | Panic \<Rightarrow> Panic
      | Return trapID \<Rightarrow> Return (map_get (om_Labels (kd_ObjectMeta kiveData)) TrapIDLabel = trapID))"

definition KiveDataContainerCmp :: "KiveData \<Rightarrow> Pod \<Rightarrow> ContainerStatus \<Rightarrow> bool" where
  "KiveDataContainerCmp kiveData pod status =
     (if data_annotation kiveData ''pod-name'' \<noteq> pod_Name pod then False
      else if data_annotation kiveData ''namespace'' \<noteq> pod_Namespace pod then False
      else if data_annotation kiveData ''container-name'' \<noteq> cs_Name status then False
      else if data_annotation kiveData ''container-id'' \<noteq> cs_ContainerID status then False
      else True)"

section \<open>Trap ids\<close>

definition is_hex :: "char \<Rightarrow> bool" where
  "is_hex c \<longleftrightarrow> of_char c \<in> {48..57 :: nat} \<union> {97..102}"

lemma hex_digit_ok: "d < 16 \<Longrightarrow> is_hex (hex_digit d)"
  by (auto simp: is_hex_def hex_digit_def)

lemma length_hex_encode [simp]: "length (hex_encode bs) = 2 * length bs"
  by (induction bs) (simp_all add: hex_encode_def)

lemma hex_encode_hex: "list_all is_hex (hex_encode bs)"
proof (induction bs)
  case (Cons b bs)
  have "unat b < 2 ^ LENGTH(8)" by (rule unsigned_less)
  then have "unat b < 256" by simp
  then have "unat b div 16 < 16" "unat b mod 16 < 16" by auto
  with Cons show ?case by (simp add: hex_encode_def hex_digit_ok)
qed (simp add: hex_encode_def)

text \<open>The id, which is always computed: neither the encoder nor the slice fails.\<close>

definition trap_id :: "KiveTrap \<Rightarrow> string \<Rightarrow> string" where
  "trap_id trap v = take 63 (hex_encode (sha256 (json_text (json_of_trap trap) @ v)))"

lemma hash_id: "KiveTrapHashID trap v = Return (trap_id trap v)"
  by (simp add: KiveTrapHashID_def Marshal_def trap_id_def)

lemma trap_id_hex: "length (trap_id trap v) = 63 \<and> list_all is_hex (trap_id trap v)"
  using hex_encode_hex [of "sha256 (json_text (json_of_trap trap) @ v)"]
  by (auto simp: trap_id_def list_all_iff dest: in_set_takeD)

text \<open>Two traps have one id only if they are the same, unless their hashes collide.\<close>

lemma trap_id_inject:
  assumes "trap_utf8 t" and "trap_utf8 u"
    and "trap_id t v = trap_id u w \<Longrightarrow>
      json_text (json_of_trap t) @ v = json_text (json_of_trap u) @ w"
  shows "trap_id t v = trap_id u w \<longleftrightarrow> same_trap t u \<and> v = w"
proof
  assume "trap_id t v = trap_id u w"
  with assms show "same_trap t u \<and> v = w" by (simp add: hashed_inject)
next
  assume "same_trap t u \<and> v = w"
  with assms(1,2) hashed_inject [of t u v w] show "trap_id t v = trap_id u w" by (simp add: trap_id_def)
qed

section \<open>Names\<close>

definition digit_run :: "string \<Rightarrow> string" where
  "digit_run s = takeWhile is_digit s"

lemma digit_run_format: "\<not> is_digit c \<Longrightarrow> digit_run (format_uint n @ c # s) = format_uint n"
  using format_uint_digits [of n]
  by (simp add: digit_run_def takeWhile_append list_all_iff)

lemma format_append_inject:
  assumes "format_uint a @ CHR ''-'' # s = format_uint b @ CHR ''-'' # t"
  shows "a = b \<and> s = t"
proof -
  have "\<not> is_digit (CHR ''-'')" by (simp add: is_digit_def)
  then have "format_uint a = format_uint b" using assms digit_run_format by metis
  with assms show ?thesis by simp
qed

text \<open>A name without dashes at the end of a joined string is determined by the string.\<close>

lemma last_dash_inject:
  assumes "p @ CHR ''-'' # i = q @ CHR ''-'' # j" and "CHR ''-'' \<notin> set i" and "CHR ''-'' \<notin> set j"
  shows "p = q \<and> i = j"
proof -
  from assms(1) have "rev i @ CHR ''-'' # rev p = rev j @ CHR ''-'' # rev q"
    by (metis rev.simps(2) rev_append append_assoc append_Cons append_Nil)
  moreover have "takeWhile (\<lambda>c. c \<noteq> CHR ''-'') (rev x @ CHR ''-'' # rev y) = rev x"
    if "CHR ''-'' \<notin> set x" for x y :: string
    using that by (simp add: takeWhile_append2 takeWhile_tail) (metis set_rev takeWhile_eq_all_conv)
  ultimately have "rev i = rev j" using assms(2,3) by metis
  then have "i = j" by simp
  with assms(1) show ?thesis by simp
qed

lemma NewKiveDataName_eq:
  "NewKiveDataName ino dev pod st = format_uint (unat ino) @ CHR ''-'' # format_uint (unat dev) @ CHR ''-'' #
     ''kive-data-'' @ pod_Name pod @ CHR ''-'' #
     (case SplitContainerRuntimeID (cs_ContainerID st) of Inr (_, i) \<Rightarrow> i | Inl _ \<Rightarrow> [])"
  by (simp add: NewKiveDataName_def)

text \<open>The name determines the file, and then what stands for the pod and the container together.\<close>

lemma NewKiveDataName_parts:
  "NewKiveDataName ino dev pod st = NewKiveDataName ino' dev' pod' st' \<longleftrightarrow>
   ino = ino' \<and> dev = dev' \<and>
   pod_Name pod @ CHR ''-'' # (case SplitContainerRuntimeID (cs_ContainerID st) of Inr (_, i) \<Rightarrow> i | Inl _ \<Rightarrow> []) =
   pod_Name pod' @ CHR ''-'' # (case SplitContainerRuntimeID (cs_ContainerID st') of Inr (_, i) \<Rightarrow> i | Inl _ \<Rightarrow> [])"
  (is "?l \<longleftrightarrow> _ \<and> _ \<and> ?t = ?t'")
proof
  assume ?l
  from format_append_inject [OF this [unfolded NewKiveDataName_eq]]
  have "unat ino = unat ino'" "unat dev = unat dev'" "?t = ?t'"
    using format_append_inject [of "unat dev" "''kive-data-'' @ ?t" "unat dev'" "''kive-data-'' @ ?t'"]
    by simp_all
  then show "ino = ino' \<and> dev = dev' \<and> ?t = ?t'" by (simp add: word_unat_eq_iff)
qed (simp add: NewKiveDataName_eq)

lemma NewKiveDataName_inject:
  assumes "SplitContainerRuntimeID (cs_ContainerID st) = Inr (r, i)"
    and "SplitContainerRuntimeID (cs_ContainerID st') = Inr (r', i')"
    and "CHR ''-'' \<notin> set i" and "CHR ''-'' \<notin> set i'"
  shows "NewKiveDataName ino dev pod st = NewKiveDataName ino' dev' pod' st' \<longleftrightarrow>
    ino = ino' \<and> dev = dev' \<and> pod_Name pod = pod_Name pod' \<and> i = i'"
  unfolding NewKiveDataName_parts
  using last_dash_inject [OF _ assms(3,4), of "pod_Name pod" "pod_Name pod'"] by (auto simp: assms(1,2))

lemma TrapCmp:
  "KiveDataTrapCmp kd trap =
     Return (map_get (om_Labels (kd_ObjectMeta kd)) TrapIDLabel =
       trap_id trap (data_annotation kd ''kive-alert-version''))"
  by (simp add: KiveDataTrapCmp_def hash_id)

lemma hash_id_no_panic: "KiveTrapHashID trap v \<noteq> Panic" "KiveTrapHashID trap v \<noteq> Error e"
  by (simp_all add: hash_id)

lemma TrapCmp_no_panic: "KiveDataTrapCmp kd trap \<noteq> Panic" "KiveDataTrapCmp kd trap \<noteq> Error e"
  by (simp_all add: TrapCmp)

lemma ContainerCmp_iff:
  "KiveDataContainerCmp kd pod st \<longleftrightarrow>
     data_annotation kd ''pod-name'' = pod_Name pod \<and> data_annotation kd ''namespace'' = pod_Namespace pod \<and>
     data_annotation kd ''container-name'' = cs_Name st \<and>
     data_annotation kd ''container-id'' = cs_ContainerID st"
  by (simp add: KiveDataContainerCmp_def)

section \<open>Properties\<close>

text \<open>C32: the names of \<open>KiveData\<close> resources of containers whose ids can be read are equal exactly for
  the same inode, the same device, and pod names and container ids that are the same once joined by
  a dash: exactly for the same pod name and container id when the ids have no dash.  In particular two traps on one file of a container give one name.\<close>

theorem data_name_unique:
  assumes "SplitContainerRuntimeID (cs_ContainerID st) = Inr (r, i)"
    and "SplitContainerRuntimeID (cs_ContainerID st') = Inr (r', i')"
  shows "(NewKiveDataName ino dev pod st = NewKiveDataName ino' dev' pod' st' \<longleftrightarrow>
      ino = ino' \<and> dev = dev' \<and> pod_Name pod @ ''-'' @ i = pod_Name pod' @ ''-'' @ i') \<and>
    (CHR ''-'' \<notin> set i \<longrightarrow> CHR ''-'' \<notin> set i' \<longrightarrow>
      (NewKiveDataName ino dev pod st = NewKiveDataName ino' dev' pod' st' \<longleftrightarrow>
        ino = ino' \<and> dev = dev' \<and> pod_Name pod = pod_Name pod' \<and> i = i'))"
proof (intro conjI impI)
  show "NewKiveDataName ino dev pod st = NewKiveDataName ino' dev' pod' st' \<longleftrightarrow>
      ino = ino' \<and> dev = dev' \<and> pod_Name pod @ ''-'' @ i = pod_Name pod' @ ''-'' @ i'"
    by (simp add: NewKiveDataName_parts assms)
qed (rule NewKiveDataName_inject [OF assms])

definition ex_pod :: Pod where
  "ex_pod = \<lparr>pod_Name = ''web-1'', pod_Namespace = ''default'', pod_NodeName = ''n'',
     pod_IP = ''10.0.0.1'', pod_Phase = ''Running'', pod_ContainerStatuses = [ex_status]\<rparr>"

theorem data_name_unique_witness:
  "NewKiveDataName 1 2 ex_pod ex_status \<noteq> NewKiveDataName 12 2 ex_pod ex_status \<and>
   NewKiveDataName 1 2 (ex_pod\<lparr>pod_Name := ''a''\<rparr>) (ex_status\<lparr>cs_ContainerID := ''containerd://b-c''\<rparr>) =
   NewKiveDataName 1 2 (ex_pod\<lparr>pod_Name := ''a-b''\<rparr>) (ex_status\<lparr>cs_ContainerID := ''containerd://c''\<rparr>)"
proof
  have "SplitContainerRuntimeID (cs_ContainerID ex_status) = Inr (''containerd'', ''def'')"
    using Split_runtime [of "''containerd''" "''def''"] by (simp add: ex_status_def)
  from data_name_unique [OF this this, of 1 2 ex_pod 12 2 ex_pod]
  show "NewKiveDataName 1 2 ex_pod ex_status \<noteq> NewKiveDataName 12 2 ex_pod ex_status" by simp
  have "SplitContainerRuntimeID (cs_ContainerID (ex_status\<lparr>cs_ContainerID := ''containerd://b-c''\<rparr>)) =
      Inr (''containerd'', ''b-c'')"
    "SplitContainerRuntimeID (cs_ContainerID (ex_status\<lparr>cs_ContainerID := ''containerd://c''\<rparr>)) =
      Inr (''containerd'', ''c'')"
    using Split_runtime [of "''containerd''" "''b-c''"] Split_runtime [of "''containerd''" "''c''"] by simp_all
  from data_name_unique [OF this, of 1 2 "ex_pod\<lparr>pod_Name := ''a''\<rparr>" 1 2 "ex_pod\<lparr>pod_Name := ''a-b''\<rparr>"]
  show "NewKiveDataName 1 2 (ex_pod\<lparr>pod_Name := ''a''\<rparr>) (ex_status\<lparr>cs_ContainerID := ''containerd://b-c''\<rparr>) =
   NewKiveDataName 1 2 (ex_pod\<lparr>pod_Name := ''a-b''\<rparr>) (ex_status\<lparr>cs_ContainerID := ''containerd://c''\<rparr>)"
    by simp
qed

text \<open>C33: the id of a trap, a truncated SHA-256 in hexadecimal, has 63 lower case hexadecimal digits,
  which a label of Kubernetes can hold, and computing it never panics.\<close>

theorem trap_id_is_label:
  "\<exists>i. KiveTrapHashID trap v = Return i \<and> length i = 63 \<and> list_all is_hex i"
  using trap_id_hex by (simp add: hash_id)

text \<open>No two of the strings have one truncated digest.\<close>

definition collision_free :: "string set \<Rightarrow> bool" where
  "collision_free A \<longleftrightarrow> inj_on (\<lambda>x. take 63 (hex_encode (sha256 x))) A"

text \<open>C19: unless the digests of what is hashed collide, the ids of two traps are equal exactly when the
  alert versions are and the traps are the same up to the order of their maps: the JSON of a trap
  determines it, and where it ends.\<close>

theorem trap_id_identity:
  assumes "trap_utf8 t" and "trap_utf8 u"
    and "collision_free {json_text (json_of_trap t) @ v, json_text (json_of_trap u) @ w}"
  shows "KiveTrapHashID t v = KiveTrapHashID u w \<longleftrightarrow> same_trap t u \<and> v = w"
  using trap_id_inject [OF assms(1,2)] assms(3)
  by (auto simp: collision_free_def hash_id trap_id_def inj_on_def)

text \<open>Two traps, what is hashed of them, and the first bytes of the digests.\<close>

definition ex_trap_create :: KiveTrap where
  "ex_trap_create = ex_trap\<lparr>kt_Create := True\<rparr>"

definition ex_hashed :: "bool \<Rightarrow> string" where
  "ex_hashed create = CHR ''{'' # quote # ''path'' @ quote # CHR '':'' # quote # ''/etc/passwd'' @
     quote # (if create then CHR '','' # quote # ''create'' @ quote # '':true'' else []) @ ''}v1''"

lemma ex_hashed:
  "json_text (json_of_trap ex_trap) @ ''v1'' = ex_hashed False"
  "json_text (json_of_trap ex_trap_create) @ ''v1'' = ex_hashed True"
  by (simp_all add: json_of_trap_def trap_members_def member_unless_def ex_trap_def ex_trap_create_def
      json_string_def json_ascii_def ex_hashed_def quote_def backslash_def)

lemma ex_digest: "hd (sha256 (ex_hashed False)) = 163"
  by code_simp

lemma ex_digest_create: "hd (sha256 (ex_hashed True)) = 44"
  by code_simp

theorem trap_id_identity_witness:
  "KiveTrapHashID ex_trap ''v1'' \<noteq> KiveTrapHashID ex_trap_create ''v1''"
proof -
  let ?d = "\<lambda>c. take 63 (hex_encode (sha256 (ex_hashed c)))"
  have "take 2 (?d c) = hex_encode [hd (sha256 (ex_hashed c))]" for c
    using length_sha256 [of "ex_hashed c"]
    by (cases "sha256 (ex_hashed c)") (simp_all add: hex_encode_def del: length_sha256)
  then have "take 2 (?d False) \<noteq> take 2 (?d True)"
    by (simp add: ex_digest ex_digest_create hex_encode_def hex_digit_def)
  then have "?d False \<noteq> ?d True" by metis
  then have "collision_free {ex_hashed False, ex_hashed True}"
    by (auto simp: collision_free_def inj_on_def)
  with trap_id_identity [of ex_trap ex_trap_create "''v1''" "''v1''"] show ?thesis
    unfolding ex_hashed
    by (simp add: trap_utf8_def map_utf8_def same_trap_def ex_trap_def ex_trap_create_def)
qed

definition ex_std :: go_std where
  "ex_std = \<lparr>gs_compile = (\<lambda>_. Inl ''no regex'')\<rparr>"

text \<open>A container name matches an empty pattern always, a pattern marked as a regular expression
  or a glob by what the rest of it means, and any other pattern only if it is that pattern; only
  marked patterns can be errors, and none panics.\<close>

lemma container_name_match:
  "RegexMatch std [] name = Return True \<and>
   (CHR '':'' \<notin> set p \<longrightarrow> p \<noteq> [] \<longrightarrow> RegexMatch std p name = Return (p = name)) \<and>
   (\<forall>f. gs_compile std p = Inr f \<longrightarrow> RegexMatch std (''regex:'' @ p) name = Return (f name)) \<and>
   (\<forall>b. path_match p name = Inr b \<longrightarrow> RegexMatch std (''glob:'' @ p) name = Return b) \<and>
   RegexMatch std p name \<noteq> Panic"
proof -
  have "\<not> prefix ''regex:'' p" "\<not> prefix ''glob:'' p" if "CHR '':'' \<notin> set p"
    using that by (auto simp: prefix_def)
  then show ?thesis by (auto simp: RegexMatch_def trim_prefix_def split: sum.split)
qed

lemma glob_pattern:
  "RegexMatch std (''glob:'' @ p) name =
     (case path_match p name of Inl err \<Rightarrow> Error (''RegexMatch Error compiling regex: '' @ err)
      | Inr b \<Rightarrow> Return b)"
  by (simp add: RegexMatch_def trim_prefix_def)

text \<open>C36: which containers a match selects by name: for a name of ASCII characters without a slash,
  \<open>glob:pre*suf\<close> those that begin with \<open>pre\<close> and go on to end with \<open>suf\<close>, \<open>glob:pre\<close> and a pattern
  without a mark only the one of that name, the empty pattern all; an unclosed class is an error.\<close>

theorem container_name_selected:
  assumes "plain pre" and "plain suf" and "list_all (\<lambda>c. byte c < 0x80 \<and> c \<noteq> CHR ''/'') name"
  shows "RegexMatch std (''glob:'' @ pre @ ''*'' @ suf) name = Return (\<exists>mid. name = pre @ mid @ suf) \<and>
    RegexMatch std (''glob:'' @ pre) name = Return (pre = name) \<and>
    (CHR '':'' \<notin> set pre \<longrightarrow> pre \<noteq> [] \<longrightarrow> RegexMatch std pre name = Return (pre = name)) \<and>
    RegexMatch std [] name = Return True \<and>
    (\<exists>e. RegexMatch std (''glob:'' @ pre @ ''['') name = Error e)"
proof (intro conjI)
  have "list_all (\<lambda>c. byte c < 0x80) name" using assms(3) by (auto simp: list_all_iff)
  then show "RegexMatch std (''glob:'' @ pre) name = Return (pre = name)"
    using glob_pattern [of std pre name] path_match_plain [OF assms(1)] by simp
  show "RegexMatch std (''glob:'' @ pre @ ''*'' @ suf) name = Return (\<exists>mid. name = pre @ mid @ suf)"
    using glob_pattern [of std "pre @ ''*'' @ suf" name] path_match_star [OF assms] by simp
  show "CHR '':'' \<notin> set pre \<longrightarrow> pre \<noteq> [] \<longrightarrow> RegexMatch std pre name = Return (pre = name)"
    using container_name_match [of std name pre] by simp
  show "RegexMatch std [] name = Return True" using container_name_match [of std name pre] by simp
  show "\<exists>e. RegexMatch std (''glob:'' @ pre @ ''['') name = Error e"
    using glob_pattern [of std "pre @ ''[''" name] path_match_open [OF assms(1)] by simp
qed

theorem container_name_selected_witness:
  "RegexMatch ex_std ''glob:web-*'' ''web-1'' = Return True"
  using container_name_selected [of "''web-''" "[]" "''web-1''" ex_std] by (simp add: plain_def backslash_def)

end
