(* ===== verification/Cluster.thy ===== *)
theory Cluster
  imports Kive_Utils
begin

text \<open>
  What the reconcilers use of the Kubernetes client and of controller-runtime, as parameters: the
  answers of the API server are functions of the calls made so far, so that they may change and
  fail at any point.  The state of a reconciler carries that history.
\<close>

section \<open>Calls and answers\<close>

datatype api_call =
    ListKiveData strmap                      \<comment> \<open>matching labels\<close>
  | ListKivePolicy
  | ListPods strmap strmap                   \<comment> \<open>matching labels and fields\<close>
  | PatchKiveData KiveData KiveData          \<comment> \<open>the object and the base of the merge\<close>
  | ApplyKiveData KiveData                   \<comment> \<open>server-side apply\<close>
  | PatchKivePolicy KivePolicy KivePolicy
  | DeleteKiveData KiveData

record cluster =
  cl_data :: "api_call list \<Rightarrow> api_call \<Rightarrow> string + KiveData list"
  cl_policies :: "api_call list \<Rightarrow> api_call \<Rightarrow> string + KivePolicy list"
  cl_pods :: "api_call list \<Rightarrow> api_call \<Rightarrow> string + Pod list"
  cl_write :: "api_call list \<Rightarrow> api_call \<Rightarrow> string option"
  cl_contains :: "string list \<Rightarrow> string \<Rightarrow> bool"
  cl_add :: "string list \<Rightarrow> string \<Rightarrow> string list"
  cl_remove :: "string list \<Rightarrow> string \<Rightarrow> string list"

text \<open>\<open>ContainsFinalizer\<close>, \<open>AddFinalizer\<close> and \<open>RemoveFinalizer\<close> as documented.\<close>

definition finalizers_ok :: "cluster \<Rightarrow> bool" where
  "finalizers_ok cl \<longleftrightarrow>
     (\<forall>fs f. cl_contains cl fs f \<longleftrightarrow> f \<in> set fs) \<and>
     (\<forall>fs f. set (cl_add cl fs f) = insert f (set fs)) \<and>
     (\<forall>fs f. set (cl_remove cl fs f) = set fs - {f})"

text \<open>The fields of a pod by which the API server selects; it refuses any other.\<close>

definition server_pod_fields :: "string list" where
  "server_pod_fields = [''metadata.name'', ''metadata.namespace'', ''spec.nodeName'', ''spec.restartPolicy'',
     ''spec.schedulerName'', ''spec.serviceAccountName'', ''spec.hostNetwork'', ''status.phase'',
     ''status.podIP'', ''status.podIPs'', ''status.nominatedNodeName'']"

definition selectable :: "strmap \<Rightarrow> bool" where
  "selectable fs \<longleftrightarrow> list_all (\<lambda>f. fst f \<in> set server_pod_fields) fs"

definition refuses_other_fields :: "cluster \<Rightarrow> bool" where
  "refuses_other_fields cl \<longleftrightarrow> (\<forall>h labels fs.
     \<not> selectable fs \<longrightarrow> (\<exists>err. cl_pods cl h (ListPods labels fs) = Inl err))"

text \<open>An API server that answers each question it accepts the same way throughout, and takes every
  write.\<close>

definition steady ::
  "cluster \<Rightarrow> (strmap \<Rightarrow> KiveData list) \<Rightarrow> KivePolicy list \<Rightarrow> (strmap \<Rightarrow> strmap \<Rightarrow> Pod list) \<Rightarrow> bool" where
  "steady cl data policies pods \<longleftrightarrow>
     (\<forall>h labels. cl_data cl h (ListKiveData labels) = Inr (data labels)) \<and>
     (\<forall>h. cl_policies cl h ListKivePolicy = Inr policies) \<and>
     (\<forall>h labels fs. selectable fs \<longrightarrow>
        cl_pods cl h (ListPods labels fs) = Inr (pods labels fs)) \<and>
     refuses_other_fields cl \<and>
     (\<forall>h c. cl_write cl h c = None)"

lemma refused:
  "refuses_other_fields cl \<Longrightarrow> \<not> selectable fs \<Longrightarrow> \<exists>err. cl_pods cl h (ListPods labels fs) = Inl err"
  unfolding refuses_other_fields_def by blast

lemma steady_listing:
  "steady cl data policies pods \<Longrightarrow> cl_pods cl h (ListPods labels fs) = Inr listed \<longleftrightarrow>
     selectable fs \<and> listed = pods labels fs"
proof (cases "selectable fs")
  case False
  assume "steady cl data policies pods"
  then have "refuses_other_fields cl" by (simp add: steady_def)
  from refused [OF this False, of h labels] False show ?thesis by auto
qed (auto simp: steady_def)

section \<open>Objects\<close>

definition data_finalizers :: "KiveData \<Rightarrow> string list" where
  "data_finalizers kd = om_Finalizers (kd_ObjectMeta kd)"

definition with_data_finalizers :: "string list \<Rightarrow> KiveData \<Rightarrow> KiveData" where
  "with_data_finalizers fs kd = kd\<lparr>kd_ObjectMeta := (kd_ObjectMeta kd)\<lparr>om_Finalizers := fs\<rparr>\<rparr>"

definition data_deleting :: "KiveData \<Rightarrow> bool" where
  "data_deleting kd \<longleftrightarrow> om_DeletionTimestamp (kd_ObjectMeta kd) \<noteq> None"

definition policy_finalizers :: "KivePolicy \<Rightarrow> string list" where
  "policy_finalizers p = om_Finalizers (kp_ObjectMeta p)"

definition with_policy_finalizers :: "string list \<Rightarrow> KivePolicy \<Rightarrow> KivePolicy" where
  "with_policy_finalizers fs p = p\<lparr>kp_ObjectMeta := (kp_ObjectMeta p)\<lparr>om_Finalizers := fs\<rparr>\<rparr>"

definition policy_deleting :: "KivePolicy \<Rightarrow> bool" where
  "policy_deleting p \<longleftrightarrow> om_DeletionTimestamp (kp_ObjectMeta p) \<noteq> None"

definition policy_name :: "KivePolicy \<Rightarrow> string" where
  "policy_name p = om_Name (kp_ObjectMeta p)"

definition KiveDataFinalizerName :: string where
  "KiveDataFinalizerName = ''kivedata.kivebpf.san7o.github.io/finalizer''"

text \<open>\<open>o.Annotations["force-reconcile"] = now\<close>\<close>

definition annotate :: "string \<Rightarrow> string \<Rightarrow> ObjectMeta \<Rightarrow> ObjectMeta" where
  "annotate k v om = om\<lparr>om_Annotations := AList.update k v (om_Annotations om)\<rparr>"

section \<open>A concrete cluster\<close>

text \<open>One policy with one trap, one pod with one container, the \<open>KiveData\<close> of that container and one
  of a container that is gone.\<close>

definition ex_match :: KiveTrapMatch where
  "ex_match = \<lparr>km_PodName = [], km_ContainerName = ''web'', km_Namespace = [], km_IP = [],
     km_MatchLabels = []\<rparr>"

definition ex_policy_trap :: KiveTrap where
  "ex_policy_trap = ex_trap\<lparr>kt_MatchAny := [ex_match]\<rparr>"

definition ex_trap_id :: string where
  "ex_trap_id = trap_id ex_policy_trap ''v1''"

definition ex_policy :: KivePolicy where
  "ex_policy = \<lparr>kp_TypeMeta = \<lparr>tm_Kind = ''KivePolicy'', tm_APIVersion = ''v2alpha1''\<rparr>,
     kp_ObjectMeta = ex_meta\<lparr>om_Finalizers := [''kivepolicy.kivebpf.san7o.github.io/finalizer'']\<rparr>,
     kp_Spec = \<lparr>ps_AlertVersion = ''v1'', ps_Traps = [ex_policy_trap]\<rparr>\<rparr>"

definition ex_resource :: "string \<Rightarrow> u64 \<Rightarrow> string option \<Rightarrow> KiveData" where
  "ex_resource pod ino del = \<lparr>kd_TypeMeta = \<lparr>tm_Kind = ''KiveData'', tm_APIVersion = ''v2alpha1''\<rparr>,
     kd_ObjectMeta = ex_meta\<lparr>om_Annotations := [(''kive-alert-version'', ''v1''), (''pod-name'', pod),
         (''namespace'', ''default''), (''container-name'', ''web''),
         (''container-id'', ''containerd://def''), (''node-name'', ''n'')],
       om_Labels := [(TrapIDLabel, ex_trap_id), (KernelIDLabel, ''k'')],
       om_Finalizers := [''kivedata.kivebpf.san7o.github.io/finalizer''],
       om_DeletionTimestamp := del\<rparr>,
     kd_Spec = \<lparr>ds_InodeNo = ino, ds_DevID = 0x800001, ds_Metadata = []\<rparr>\<rparr>"

definition ex_listing :: "Pod list \<Rightarrow> api_call list \<Rightarrow> api_call \<Rightarrow> string + Pod list" where
  "ex_listing pods h c = (case c of
     ListPods labels fs \<Rightarrow> if selectable fs then Inr pods else Inl ''field label not supported''
   | _ \<Rightarrow> Inl ''not a listing'')"

definition ex_cluster :: "KiveData list \<Rightarrow> cluster" where
  "ex_cluster items = \<lparr>cl_data = (\<lambda>_ _. Inr items), cl_policies = (\<lambda>_ _. Inr [ex_policy]),
     cl_pods = ex_listing [ex_pod], cl_write = (\<lambda>_ _. None),
     cl_contains = (\<lambda>fs f. f \<in> set fs), cl_add = (\<lambda>fs f. fs @ [f]), cl_remove = (\<lambda>fs f. removeAll f fs)\<rparr>"

lemma ex_finalizers: "finalizers_ok (ex_cluster items)"
  by (auto simp: finalizers_ok_def ex_cluster_def)

lemma ex_steady: "steady (ex_cluster items) (\<lambda>_. items) [ex_policy] (\<lambda>_ _. [ex_pod])"
  by (simp add: steady_def ex_cluster_def ex_listing_def refuses_other_fields_def)

lemma ex_hash: "KiveTrapHashID ex_policy_trap ''v1'' = Return ex_trap_id"
  by (simp add: ex_trap_id_def hash_id)

lemma ex_trap_cmp: "KiveDataTrapCmp (ex_resource pod ino del) ex_policy_trap = Return True"
  by (simp add: TrapCmp ex_trap_id_def ex_resource_def data_annotation_def map_get_def)

lemma ex_container_cmp:
  "KiveDataContainerCmp (ex_resource pod ino del) ex_pod ex_status \<longleftrightarrow> pod = ''web-1''"
  by (auto simp: ContainerCmp_iff ex_resource_def ex_pod_def ex_status_def data_annotation_def map_get_def)

end
