(* ===== verification/Data_Reconciler.thy ===== *)
theory Data_Reconciler
  imports Cluster Ebpf_Loader
begin

text \<open>
  \<open>kivedata_controller.go\<close>: the reconciliation of the \<open>KiveData\<close> of this kernel.  It loads the eBPF
  program if needed, completes deletions, adds finalizers, and for every other resource either
  adds its inode to the map, when some trap of a policy and an existing container account for
  it, or deletes it.
\<close>

section \<open>State and environment\<close>

record 'm data_env =
  de_ebpf :: ebpf_env
  de_ops :: "'m map_ops"
  de_new_map :: 'm              \<comment> \<open>what \<open>traced_inodes\<close> holds when the kernel has just created it\<close>
  de_cluster :: cluster
  de_kernel_id :: string

record 'm data_state =
  dr_ebpf :: ebpf_state
  dr_map :: 'm                  \<comment> \<open>the map of \<open>Objs.TracedInodes\<close>\<close>
  dr_outputs :: nat             \<comment> \<open>output loops started\<close>
  dr_calls :: "api_call list"

definition dr_made :: "api_call \<Rightarrow> 'm data_state \<Rightarrow> 'm data_state" where
  "dr_made c s = s\<lparr>dr_calls := dr_calls s @ [c]\<rparr>"

definition data_key :: "KiveData \<Rightarrow> bpfMapKey" where
  "data_key kd = \<lparr>mk_Inode = ds_InodeNo (kd_Spec kd), mk_Dev = ds_DevID (kd_Spec kd)\<rparr>"

section \<open>Does a policy account for a resource\<close>

definition pod_fields :: "KiveData \<Rightarrow> strmap" where
  "pod_fields kd =
     [(''metadata.name'', data_annotation kd ''pod-name''),
      (''metadata.namespace'', data_annotation kd ''namespace''),
      (''spec.nodeName'', data_annotation kd ''node-name'')]"

text \<open>The loops over the pods and their containers, left at the first container that compares.\<close>

definition pods_have :: "KiveData \<Rightarrow> Pod list \<Rightarrow> bool" where
  "pods_have kd pods =
     list_ex (\<lambda>pod. list_ex (KiveDataContainerCmp kd pod) (pod_ContainerStatuses pod)) pods"

text \<open>The loop over the traps of a policy: the value of \<open>found\<close>, and whether it breaks out.\<close>

fun trap_loop ::
  "'m data_env \<Rightarrow> KiveData \<Rightarrow> KiveTrap list \<Rightarrow> bool \<Rightarrow> ('m data_state, bool \<times> bool) go" where
  "trap_loop env kd [] found s = (Return (found, False), s)"
| "trap_loop env kd (trap # traps) found s =
     (case KiveDataTrapCmp kd trap of
        Panic \<Rightarrow> (Panic, s)
      | Error err \<Rightarrow> trap_loop env kd traps False s
      | Return equal \<Rightarrow>
          (if \<not> equal then trap_loop env kd traps False s
           else (let c = ListPods [] (pod_fields kd) in
             case cl_pods (de_cluster env) (dr_calls s) c of
               Inl err \<Rightarrow> trap_loop env kd traps True (dr_made c s)
             | Inr pods \<Rightarrow>
                 (if pods_have kd pods then (Return (True, True), dr_made c s)
                  else trap_loop env kd traps False (dr_made c s)))))"

fun policy_loop ::
  "'m data_env \<Rightarrow> KiveData \<Rightarrow> KivePolicy list \<Rightarrow> bool \<Rightarrow> ('m data_state, bool) go" where
  "policy_loop env kd [] found s = (Return found, s)"
| "policy_loop env kd (policy # policies) found s =
     (if policy_deleting policy then policy_loop env kd policies found s
      else go_bind (trap_loop env kd (ps_Traps (kp_Spec policy)) found) (\<lambda>(found', stop) s.
        (if stop then (Return found', s) else policy_loop env kd policies found' s)) s)"

section \<open>One resource\<close>

text \<open>The value is the requeue flag of an early return, or \<open>None\<close> to go on with the next one.\<close>

definition data_item :: "'m data_env \<Rightarrow> KivePolicy list \<Rightarrow> KiveData \<Rightarrow> ('m data_state, bool option) go" where
  "data_item env policies kd s =
    (let cl = de_cluster env in
     if data_deleting kd then
       (if cl_contains cl (data_finalizers kd) KiveDataFinalizerName then
          (let s = s\<lparr>dr_map := snd (RemoveInode (de_ops env) (data_key kd) (dr_map s))\<rparr>;
               c = PatchKiveData (with_data_finalizers
                     (cl_remove cl (data_finalizers kd) KiveDataFinalizerName) kd) kd
           in (Return (Some (cl_write cl (dr_calls s) c \<noteq> None)), dr_made c s))
        else (Return None, s))
     else if \<not> cl_contains cl (data_finalizers kd) KiveDataFinalizerName then
       (let c = PatchKiveData (with_data_finalizers
                  (cl_add cl (data_finalizers kd) KiveDataFinalizerName) kd) kd
        in (Return (Some (cl_write cl (dr_calls s) c \<noteq> None)), dr_made c s))
     else go_bind (policy_loop env kd policies False) (\<lambda>found s.
       (if \<not> found then (Return None, dr_made (DeleteKiveData kd) s)
        else (Return None, s\<lparr>dr_map := snd (AddInode (de_ops env) (data_key kd) (dr_map s))\<rparr>))) s)"

fun data_loop :: "'m data_env \<Rightarrow> KivePolicy list \<Rightarrow> KiveData list \<Rightarrow> ('m data_state, bool) go" where
  "data_loop env policies [] s = (Return False, s)"
| "data_loop env policies (kd # items) s =
     go_bind (data_item env policies kd) (\<lambda>stop.
       (case stop of Some requeue \<Rightarrow> go_return requeue | None \<Rightarrow> data_loop env policies items)) s"

section \<open>The reconciliation\<close>

text \<open>
  Loading the objects (\<open>loadBpfObjects(&Objs, nil)\<close>, after the memory limit was removed) creates a new
  map of traced inodes, which takes the place of the one before even if a later call of the load fails.
\<close>

definition loads_objects :: "ebpf_env \<Rightarrow> ebpf_state \<Rightarrow> bool" where
  "loads_objects env s =
     (case go_bind (call_err env RemoveMemlock) (\<lambda>_. loadBpfObjects env) s of
        (Return _, _) \<Rightarrow> True
      | _ \<Rightarrow> False)"

definition data_load :: "'m data_env \<Rightarrow> ('m data_state, unit) go" where
  "data_load env s =
     (if \<not> Loaded (dr_ebpf s) then
        (let m = (if loads_objects (de_ebpf env) (dr_ebpf s) then de_new_map env else dr_map s) in
         case LoadEbpf (de_ebpf env) (dr_ebpf s) of
           (Return _, e) \<Rightarrow>
             (Return (), s\<lparr>dr_ebpf := e, dr_map := m, dr_outputs := Suc (dr_outputs s)\<rparr>)
         | (Error err, e) \<Rightarrow>
             (Error (''Reconcile Error Load eBPF program: '' @ err), s\<lparr>dr_ebpf := e, dr_map := m\<rparr>)
         | (Panic, e) \<Rightarrow> (Panic, s\<lparr>dr_ebpf := e, dr_map := m\<rparr>))
      else (Return (), s))"

text \<open>The value is the \<open>Requeue\<close> field of the result.\<close>

definition KiveData_Reconcile :: "'m data_env \<Rightarrow> ('m data_state, bool) go" where
  "KiveData_Reconcile env =
     go_bind (data_load env) (\<lambda>_ s.
       (let c = ListKiveData [(KernelIDLabel, de_kernel_id env)] in
        case cl_data (de_cluster env) (dr_calls s) c of
          Inl err \<Rightarrow> (Error (''Reconcile Error Failed to get Kive Data resource: '' @ err), dr_made c s)
        | Inr items \<Rightarrow>
            (let s = dr_made c s; c = ListKivePolicy in
             case cl_policies (de_cluster env) (dr_calls s) c of
               Inl err \<Rightarrow> (Error (''Reconcile Error Failed to get KivePolicy resource: '' @ err), dr_made c s)
             | Inr policies \<Rightarrow> data_loop env policies items (dr_made c s))))"

section \<open>What the search for a policy decides\<close>

definition only_calls :: "'m data_state \<Rightarrow> 'm data_state \<Rightarrow> bool" where
  "only_calls s t \<longleftrightarrow> (\<exists>cs. t = s\<lparr>dr_calls := dr_calls s @ cs\<rparr> \<and> list_all (\<lambda>c. \<exists>l f. c = ListPods l f) cs)"

lemma only_calls_rel: "transp only_calls" "only_calls s s"
proof -
  show "transp only_calls"
    unfolding transp_def only_calls_def by (auto simp: list_all_append intro: exI [of _ "_ @ _"])
  show "only_calls s s" unfolding only_calls_def by (rule exI [of _ "[]"]) simp
qed

lemma only_calls_made: "only_calls s (dr_made (ListPods l f) s)"
  by (auto simp: only_calls_def dr_made_def)

lemma only_calls_made_trans: "only_calls (dr_made (ListPods l f) s) t \<Longrightarrow> only_calls s t"
  using only_calls_made only_calls_rel(1) by (meson transpD)

lemma trap_loop_calls: "only_calls s (snd (trap_loop env kd traps found s))"
proof (induction traps arbitrary: found s)
  case (Cons trap traps)
  then have "only_calls s (snd (trap_loop env kd traps f (dr_made (ListPods l g) s)))" for f l g
    by (rule only_calls_made_trans)
  with Cons.IH [of s False] show ?case
    by (auto simp: Let_def only_calls_rel only_calls_made split: outcome.split sum.split)
qed (simp add: only_calls_rel)

lemma policy_loop_calls: "only_calls s (snd (policy_loop env kd policies found s))"
proof (induction policies arbitrary: found s)
  case (Cons p policies)
  obtain r u where u: "trap_loop env kd (ps_Traps (kp_Spec p)) found s = (r, u)" by fastforce
  with trap_loop_calls [of s env kd "ps_Traps (kp_Spec p)" found] have su: "only_calls s u" by simp
  have "only_calls s (snd (policy_loop env kd policies f u))" for f
    using Cons.IH [of u f] su only_calls_rel(1) by (meson transpD)
  with Cons.IH [of s found] u su show ?case by (auto simp: go_bind_def split: outcome.split)
qed (simp add: only_calls_rel)

text \<open>Whatever the pods' listing answers, a resource is found only through one of its traps.\<close>

definition has_trap :: "KivePolicy list \<Rightarrow> KiveData \<Rightarrow> bool" where
  "has_trap policies kd \<longleftrightarrow> (\<exists>p \<in> set policies. \<not> policy_deleting p \<and>
     (\<exists>trap \<in> set (ps_Traps (kp_Spec p)). KiveDataTrapCmp kd trap = Return True))"

lemma trap_loop_found:
  "trap_loop env kd traps found s = (Return (f, stop), t) \<Longrightarrow> f \<Longrightarrow>
   found \<or> (\<exists>trap \<in> set traps. KiveDataTrapCmp kd trap = Return True)"
  by (induction env kd traps found s rule: trap_loop.induct)
    (auto simp: Let_def split: outcome.splits sum.splits if_splits)

lemma policy_loop_found:
  "policy_loop env kd policies found s = (Return True, t) \<Longrightarrow>
   found \<or> has_trap policies kd"
proof (induction policies arbitrary: found s)
  case (Cons p policies)
  show ?case
  proof (cases "policy_deleting p")
    case True
    with Cons show ?thesis by (auto simp: has_trap_def)
  next
    case False
    with Cons.prems obtain f stop u where
      u: "trap_loop env kd (ps_Traps (kp_Spec p)) found s = (Return (f, stop), u)"
      and rest: "(if stop then (Return f, u) else policy_loop env kd policies f u) = (Return True, t)"
      by (auto simp: go_bind_Return)
    from rest have "f \<or> has_trap policies kd"
      using Cons.IH [of f u] by (auto split: if_splits)
    with trap_loop_found [OF u] False show ?thesis by (auto simp: has_trap_def)
  qed
qed simp

text \<open>With steady answers it is found exactly when a trap and a container account for it.\<close>

definition accounted :: "(strmap \<Rightarrow> strmap \<Rightarrow> Pod list) \<Rightarrow> KivePolicy list \<Rightarrow> KiveData \<Rightarrow> bool" where
  "accounted pods policies kd \<longleftrightarrow> has_trap policies kd \<and> pods_have kd (pods [] (pod_fields kd))"

lemma selectable_pod: "selectable (pod_fields kd)"
  by (simp add: selectable_def pod_fields_def server_pod_fields_def)

lemma trap_loop_steady:
  assumes "steady (de_cluster env) data policies pods"
  shows "\<exists>t. trap_loop env kd traps False s =
    (Return (let b = (\<exists>trap \<in> set traps. KiveDataTrapCmp kd trap = Return True) \<and>
       pods_have kd (pods [] (pod_fields kd)) in (b, b)), t)"
proof (induction traps arbitrary: s)
  case (Cons trap traps)
  have "cl_pods (de_cluster env) h (ListPods [] (pod_fields kd)) = Inr (pods [] (pod_fields kd))" for h
    by (simp add: steady_listing [OF assms(1)] selectable_pod)
  with Cons.IH TrapCmp_no_panic [of kd trap] show ?case
    by (cases "KiveDataTrapCmp kd trap") (auto simp: Let_def)
qed simp

lemma policy_loop_steady:
  assumes "steady (de_cluster env) data ps pods"
  shows "\<exists>t. policy_loop env kd policies False s =
    (Return (accounted pods policies kd), t) \<and> only_calls s t"
proof -
  have "\<exists>t. policy_loop env kd policies False s = (Return (accounted pods policies kd), t)"
  proof (induction policies arbitrary: s)
    case Nil
    then show ?case by (simp add: accounted_def has_trap_def)
  next
    case (Cons p policies)
    show ?case
    proof (cases "policy_deleting p")
      case True
      with Cons.IH show ?thesis by (simp add: accounted_def has_trap_def)
    next
      case False
      obtain u where u: "trap_loop env kd (ps_Traps (kp_Spec p)) False s =
        (Return (let b = (\<exists>trap \<in> set (ps_Traps (kp_Spec p)).
            KiveDataTrapCmp kd trap = Return True) \<and>
            pods_have kd (pods [] (pod_fields kd)) in (b, b)), u)"
        using trap_loop_steady [OF assms] by blast
      show ?thesis using False Cons.IH [of u]
        by (auto simp: u go_bind_def Let_def accounted_def has_trap_def)
    qed
  qed
  with policy_loop_calls [of s env kd policies False] show ?thesis by fastforce
qed

section \<open>What a reconciliation does to the map\<close>

lemma dr_made_simps [simp]:
  "dr_map (dr_made c s) = dr_map s" "dr_ebpf (dr_made c s) = dr_ebpf s"
  "dr_outputs (dr_made c s) = dr_outputs s" "dr_calls (dr_made c s) = dr_calls s @ [c]"
  by (simp_all add: dr_made_def)

text \<open>The set of traced files between a lower and an upper bound.\<close>

definition map_between ::
  "('m \<Rightarrow> u8 list \<Rightarrow> u8 option) \<Rightarrow> bpfMapKey set \<Rightarrow> bpfMapKey set \<Rightarrow> 'm data_state \<Rightarrow> 'm data_state \<Rightarrow> bool" where
  "map_between look removed added s t \<longleftrightarrow>
     traced look (dr_map s) - removed \<subseteq> traced look (dr_map t) \<and>
     traced look (dr_map t) \<subseteq> traced look (dr_map s) \<union> added"

lemma map_between_trans:
  "map_between look r a s t \<Longrightarrow> map_between look r' a' t u \<Longrightarrow> map_between look (r \<union> r') (a \<union> a') s u"
  unfolding map_between_def by blast

lemma map_between_refl: "map_between look r a s s"
  unfolding map_between_def by blast

definition removed_keys :: "KiveData list \<Rightarrow> bpfMapKey set" where
  "removed_keys items = data_key ` {kd \<in> set items. data_deleting kd}"

definition kept_keys :: "KivePolicy list \<Rightarrow> KiveData list \<Rightarrow> bpfMapKey set" where
  "kept_keys policies items =
     data_key ` {kd \<in> set items. \<not> data_deleting kd \<and> has_trap policies kd}"

lemma AddInode_traced:
  "traced_map look ops \<Longrightarrow>
   traced look m \<subseteq> traced look (snd (AddInode ops k m)) \<and>
   traced look (snd (AddInode ops k m)) \<subseteq> insert k (traced look m)"
  using AddInode_cases [of look ops k m] by (cases "AddInode ops k m") auto

lemma data_item_map:
  assumes "traced_map look (de_ops env)" and "data_item env policies kd s = (r, t)"
  shows "map_between look (removed_keys [kd]) (kept_keys policies [kd]) s t"
proof (cases "data_deleting kd \<or>
    \<not> cl_contains (de_cluster env) (data_finalizers kd) KiveDataFinalizerName")
  case True
  with assms show ?thesis
    by (auto simp: data_item_def Let_def map_between_def removed_keys_def RemoveInode_traced
        split: if_splits)
next
  case False
  obtain q u where u: "policy_loop env kd policies False s = (q, u)" by fastforce
  with policy_loop_calls [of s env kd policies False] have su: "dr_map u = dr_map s"
    by (auto simp: only_calls_def)
  show ?thesis
  proof (cases q)
    case (Return found)
    then have "found \<Longrightarrow> has_trap policies kd"
      using policy_loop_found [of env kd policies False s u] u by simp
    with False assms(2) u Return su AddInode_traced [OF assms(1), of "dr_map s" "data_key kd"]
    show ?thesis
      by (cases found) (auto simp: data_item_def Let_def go_bind_def map_between_def kept_keys_def)
  qed (use False assms(2) u su in \<open>auto simp: data_item_def Let_def go_bind_def map_between_def\<close>)
qed

lemma data_loop_map:
  assumes "traced_map look (de_ops env)" and "data_loop env policies items s = (r, t)"
  shows "map_between look (removed_keys items) (kept_keys policies items) s t"
  using assms(2)
proof (induction items arbitrary: s)
  case Nil
  then show ?case by (simp add: map_between_refl)
next
  case (Cons kd items)
  obtain q u where u: "data_item env policies kd s = (q, u)" by fastforce
  note first = data_item_map [OF assms(1) u]
  have split: "removed_keys (kd # items) = removed_keys [kd] \<union> removed_keys items"
    "kept_keys policies (kd # items) =
      kept_keys policies [kd] \<union> kept_keys policies items"
    by (auto simp: removed_keys_def kept_keys_def)
  show ?case
  proof (cases "q = Return None")
    case True
    with Cons.prems u have "data_loop env policies items u = (r, t)" by (simp add: go_bind_def)
    from map_between_trans [OF first Cons.IH [OF this]] show ?thesis by (simp add: split)
  next
    case False
    with Cons.prems u have "t = u"
      by (cases q) (auto simp: go_bind_def go_return_def split: option.splits)
    with map_between_trans [OF first map_between_refl] show ?thesis by (simp add: split)
  qed
qed

text \<open>The map a reconciliation works on.\<close>

definition current_map :: "'m data_env \<Rightarrow> 'm data_state \<Rightarrow> 'm" where
  "current_map env s =
     (if \<not> Loaded (dr_ebpf s) \<and> loads_objects (de_ebpf env) (dr_ebpf s) then de_new_map env else dr_map s)"

lemma data_load_map:
  "dr_map (snd (data_load env s)) = current_map env s \<and> dr_calls (snd (data_load env s)) = dr_calls s"
  by (auto simp: data_load_def current_map_def Let_def split: prod.split outcome.split)

lemma LoadEbpf_loads_objects:
  assumes "LoadEbpf env s = (Return x, t)"
  shows "loads_objects env s"
proof -
  from assms obtain u v where "call_err env RemoveMemlock s = (Return (), u)" "loadBpfObjects env u = (Return (), v)"
    by (auto simp: LoadEbpf_def go_bind_Return)
  then have "go_bind (call_err env RemoveMemlock) (\<lambda>_. loadBpfObjects env) s = (Return (), v)"
    by (simp add: go_bind_Return)
  then show ?thesis by (simp add: loads_objects_def)
qed

section \<open>A steady cluster\<close>

fun is_delete :: "api_call \<Rightarrow> bool" where
  "is_delete (DeleteKiveData _) = True"
| "is_delete _ = False"

definition settled :: "cluster \<Rightarrow> KiveData \<Rightarrow> bool" where
  "settled cl kd \<longleftrightarrow> \<not> data_deleting kd \<and> cl_contains cl (data_finalizers kd) KiveDataFinalizerName"

lemma only_calls_deletes:
  "only_calls s t \<Longrightarrow> dr_map t = dr_map s \<and> filter is_delete (dr_calls t) = filter is_delete (dr_calls s)"
  by (fastforce simp: only_calls_def list_all_iff filter_empty_conv)

lemma data_item_settled:
  assumes "steady (de_cluster env) data ps pods"
    and "settled (de_cluster env) kd"
  shows "\<exists>t. data_item env policies kd s = (Return None, t) \<and>
    dr_map t = (if accounted pods policies kd
      then snd (AddInode (de_ops env) (data_key kd) (dr_map s)) else dr_map s) \<and>
    filter is_delete (dr_calls t) = filter is_delete (dr_calls s) @
      (if accounted pods policies kd then [] else [DeleteKiveData kd])"
proof -
  obtain u where u: "policy_loop env kd policies False s =
      (Return (accounted pods policies kd), u)" "only_calls s u"
    using policy_loop_steady [OF assms(1)] by blast
  with only_calls_deletes [OF u(2)] assms(2) show ?thesis
    by (simp add: data_item_def Let_def go_bind_def settled_def)
qed

lemma data_loop_settled:
  assumes "steady (de_cluster env) data ps pods"
    and "traced_map look (de_ops env)"
    and "has_room look (de_ops env) n"
    and "\<forall>kd \<in> set items. settled (de_cluster env) kd"
    and "finite (traced look (dr_map s))"
    and "card (traced look (dr_map s) \<union> data_key ` set items) \<le> n"
  shows "\<exists>t. data_loop env policies items s = (Return False, t) \<and>
    traced look (dr_map t) = traced look (dr_map s) \<union>
      data_key ` {kd \<in> set items. accounted pods policies kd} \<and>
    filter is_delete (dr_calls t) = filter is_delete (dr_calls s) @
      map DeleteKiveData (filter (\<lambda>kd. \<not> accounted pods policies kd) items)"
  using assms(4-)
proof (induction items arbitrary: s)
  case Nil
  then show ?case by simp
next
  case (Cons kd items)
  let ?ok = "accounted pods policies"
  let ?T = "traced look (dr_map s)"
  obtain u where u: "data_item env policies kd s = (Return None, u)"
    "dr_map u = (if ?ok kd then snd (AddInode (de_ops env) (data_key kd) (dr_map s)) else dr_map s)"
    "filter is_delete (dr_calls u) = filter is_delete (dr_calls s) @
      (if ?ok kd then [] else [DeleteKiveData kd])"
    using data_item_settled [OF assms(1), of kd policies s] Cons.prems(1) by auto
  have "insert (data_key kd) ?T \<subseteq> ?T \<union> data_key ` set (kd # items)" by auto
  from card_mono [OF _ this] Cons.prems(2,3) have "card (insert (data_key kd) ?T) \<le> n" by simp
  from AddInode_room [OF assms(2,3) this]
  have T: "traced look (dr_map u) = (if ?ok kd then insert (data_key kd) ?T else ?T)"
    using u(2) by simp
  then have "traced look (dr_map u) \<union> data_key ` set items \<subseteq> ?T \<union> data_key ` set (kd # items)" by auto
  from card_mono [OF _ this] Cons.prems(2,3) T
  have "card (traced look (dr_map u) \<union> data_key ` set items) \<le> n" "finite (traced look (dr_map u))"
    by simp_all
  with Cons.IH [of u] Cons.prems(1) obtain t where
    "data_loop env policies items u = (Return False, t)"
    "traced look (dr_map t) = traced look (dr_map u) \<union> data_key ` {kd \<in> set items. ?ok kd}"
    "filter is_delete (dr_calls t) = filter is_delete (dr_calls u) @
      map DeleteKiveData (filter (\<lambda>kd. \<not> ?ok kd) items)" by auto
  with u T show ?case by (auto simp: go_bind_def)
qed

section \<open>Properties\<close>

text \<open>C9: whatever the API server answers and however calls fail, a reconciliation works on the map of
  the loaded program, which is a new and empty one if it loads the objects itself; to it, it adds
  only files of listed resources of this kernel that are not being deleted and have a trap in a
  policy that is not being deleted, and removes from it only files of listed resources that are being
  deleted; when loading or a listing fails, that map stays as it is.\<close>

theorem reconcile_map_safe:
  assumes "traced_map look (de_ops env)" and "traced look (de_new_map env) = {}"
    and "KiveData_Reconcile env s = (r, t)"
    and "lc = ListKiveData [(KernelIDLabel, de_kernel_id env)]"
    and "before = (if Loaded (dr_ebpf s) \<or> \<not> loads_objects (de_ebpf env) (dr_ebpf s)
      then traced look (dr_map s) else {})"
  shows "(fst (data_load env s) \<noteq> Return () \<longrightarrow> traced look (dr_map t) = before) \<and>
    (case cl_data (de_cluster env) (dr_calls s) lc of
      Inl _ \<Rightarrow> traced look (dr_map t) = before
    | Inr items \<Rightarrow>
        (case cl_policies (de_cluster env) (dr_calls s @ [lc]) ListKivePolicy of
           Inl _ \<Rightarrow> traced look (dr_map t) = before
         | Inr policies \<Rightarrow>
             before - data_key ` {kd \<in> set items. data_deleting kd} \<subseteq> traced look (dr_map t) \<and>
             traced look (dr_map t) \<subseteq> before \<union>
               data_key ` {kd \<in> set items. \<not> data_deleting kd \<and> has_trap policies kd}))"
proof -
  obtain q u where u: "data_load env s = (q, u)" by fastforce
  with data_load_map [of env s] assms(2,5) have keep: "traced look (dr_map u) = before" "dr_calls u = dr_calls s"
    by (simp_all add: current_map_def)
  show ?thesis
  proof (cases q)
    case (Return x)
    have loop: "map_between look (removed_keys items) (kept_keys policies items) u t"
      if "data_loop env policies items (dr_made ListKivePolicy (dr_made lc u)) = (r, t)"
      for items policies
      using data_loop_map [OF assms(1) that] by (simp add: map_between_def)
    from assms(3,4) u Return keep loop show ?thesis
      by (auto simp: KiveData_Reconcile_def go_bind_def Let_def map_between_def removed_keys_def
          kept_keys_def split: sum.splits)
  qed (use assms(3) u keep in \<open>auto simp: KiveData_Reconcile_def go_bind_def split: sum.split\<close>)
qed

text \<open>A traced file that no listed resource being deleted names stays traced: so does the file a
  resource named before its inode or device was edited, until the program is loaded again.\<close>

lemma edited_file_stays_traced:
  assumes "traced_map look (de_ops env)" and "data_loop env policies items s = (r, t)"
    and "k \<in> traced look (dr_map s)" and "\<forall>kd \<in> set items. data_deleting kd \<longrightarrow> data_key kd \<noteq> k"
  shows "k \<in> traced look (dr_map t)"
  using data_loop_map [OF assms(1,2)] assms(3,4) by (auto simp: map_between_def removed_keys_def)

text \<open>C8: on a loaded kernel, while the API server answers steadily and takes every write and the map
  has room, and when no resource of the kernel is being deleted or lacks its finalizer, a
  reconciliation ends without a requeue, the map traces in addition exactly the files of the
  resources that a trap and an existing container account for, and exactly the other resources
  are deleted, in their order.\<close>

theorem reconcile_settled:
  assumes "steady (de_cluster env) data policies pods"
    and "traced_map look (de_ops env)"
    and "has_room look (de_ops env) n"
    and "Loaded (dr_ebpf s)"
    and "items = data [(KernelIDLabel, de_kernel_id env)]"
    and "\<forall>kd \<in> set items. settled (de_cluster env) kd"
    and "finite (traced look (dr_map s))"
    and "card (traced look (dr_map s) \<union> data_key ` set items) \<le> n"
  shows "\<exists>t. KiveData_Reconcile env s = (Return False, t) \<and>
    traced look (dr_map t) = traced look (dr_map s) \<union>
      data_key ` {kd \<in> set items. accounted pods policies kd} \<and>
    filter is_delete (dr_calls t) = filter is_delete (dr_calls s) @
      map DeleteKiveData (filter (\<lambda>kd. \<not> accounted pods policies kd) items)"
proof -
  let ?s = "dr_made ListKivePolicy (dr_made (ListKiveData [(KernelIDLabel, de_kernel_id env)]) s)"
  have "KiveData_Reconcile env s = data_loop env policies items ?s"
    using assms(1,4,5) by (simp add: KiveData_Reconcile_def data_load_def go_bind_def Let_def steady_def)
  with data_loop_settled [OF assms(1-3,6), of ?s policies] assms(7,8) show ?thesis by simp
qed

text \<open>The deletion of a resource is completed: when the first listed resource is being deleted
  and still has the finalizer, its file is not traced afterwards, the finalizer and no other is
  taken from it, and the reconciliation returns, to be tried again only if that write failed.\<close>

lemma deletion_completes:
  assumes "traced_map look (de_ops env)" and "finalizers_ok (de_cluster env)" and "Loaded (dr_ebpf s)"
    and "lc = ListKiveData [(KernelIDLabel, de_kernel_id env)]"
    and "cl_data (de_cluster env) (dr_calls s) lc = Inr (kd # rest)"
    and "cl_policies (de_cluster env) (dr_calls s @ [lc]) ListKivePolicy = Inr policies"
    and "data_deleting kd" and "KiveDataFinalizerName \<in> set (data_finalizers kd)"
  shows "\<exists>t kd'. KiveData_Reconcile env s = (Return (cl_write (de_cluster env)
        (dr_calls s @ [lc, ListKivePolicy]) (PatchKiveData kd' kd) \<noteq> None), t) \<and>
    traced look (dr_map t) = traced look (dr_map s) - {data_key kd} \<and>
    dr_calls t = dr_calls s @ [lc, ListKivePolicy, PatchKiveData kd' kd] \<and>
    set (data_finalizers kd') = set (data_finalizers kd) - {KiveDataFinalizerName} \<and>
    data_key kd' = data_key kd"
  using assms
  by (auto simp: KiveData_Reconcile_def data_load_def go_bind_def Let_def data_item_def
      go_return_def finalizers_ok_def RemoveInode_traced data_finalizers_def
      with_data_finalizers_def data_key_def)

text \<open>When the listing of the pods fails for the last trap that matches a resource, the resource
  counts as found without any container having been seen: its file is added to the map.\<close>

lemma failed_pod_listing_counts_as_found:
  assumes "settled (de_cluster env) kd" and "traps = ps_Traps (kp_Spec policy)" and "traps \<noteq> []"
    and "\<not> policy_deleting policy"
    and "KiveDataTrapCmp kd (last traps) = Return True"
    and "\<forall>trap \<in> set traps. KiveDataTrapCmp kd trap \<noteq> Panic"
    and "\<forall>h c. \<exists>e. cl_pods (de_cluster env) h c = Inl e"
  shows "\<exists>t. data_item env [policy] kd s = (Return None, t) \<and>
    dr_map t = snd (AddInode (de_ops env) (data_key kd) (dr_map s))"
proof -
  have loop: "\<exists>t. trap_loop env kd ts f u = (Return (True, False), t) \<and> dr_map t = dr_map u"
    if "ts \<noteq> []" "KiveDataTrapCmp kd (last ts) = Return True"
      "\<forall>trap \<in> set ts. KiveDataTrapCmp kd trap \<noteq> Panic" for ts f u
    using that
  proof (induction ts arbitrary: f u)
    case (Cons trap ts)
    obtain e where e: "cl_pods (de_cluster env) (dr_calls u) (ListPods [] (pod_fields kd)) = Inl e"
      using assms(7) by blast
    show ?case
    proof (cases "ts = []")
      case True
      with Cons.prems e show ?thesis by (simp add: Let_def)
    next
      case False
      with Cons.prems e Cons.IH [of False u]
        Cons.IH [of True "dr_made (ListPods [] (pod_fields kd)) u"] show ?thesis
        by (cases "KiveDataTrapCmp kd trap") (auto simp: Let_def)
    qed
  qed simp
  from loop [OF assms(3), of False s] assms obtain t where
    "trap_loop env kd traps False s = (Return (True, False), t)" "dr_map t = dr_map s" by auto
  with assms(1,2,4) show ?thesis
    by (auto simp: data_item_def settled_def go_bind_def Let_def)
qed

text \<open>The witnesses, on the concrete cluster.\<close>

definition ex_data_env :: "cluster \<Rightarrow> (bpfMapKey \<times> u8) list data_env" where
  "ex_data_env cl = \<lparr>de_ebpf = ex_loader (6, 8), de_ops = hash_ops, de_new_map = [],
     de_cluster = cl, de_kernel_id = ''k''\<rparr>"

definition ex_data_state :: "(bpfMapKey \<times> u8) list data_state" where
  "ex_data_state = \<lparr>dr_ebpf = ebpf_init\<lparr>Loaded := True\<rparr>, dr_map = [(\<lparr>mk_Inode = 9, mk_Dev = 0x800001\<rparr>, 1)],
     dr_outputs = 1, dr_calls = []\<rparr>"

definition ex_items :: "KiveData list" where
  "ex_items = [ex_resource ''web-1'' 1234 None, ex_resource ''gone'' 5 None]"

lemma ex_deleting [simp]: "data_deleting (ex_resource pod ino del) \<longleftrightarrow> del \<noteq> None"
  by (simp add: data_deleting_def ex_resource_def)

lemma ex_data_finalizers [simp]: "data_finalizers (ex_resource pod ino del) = [KiveDataFinalizerName]"
  by (simp add: data_finalizers_def ex_resource_def KiveDataFinalizerName_def)

lemma ex_data_key [simp]: "data_key (ex_resource pod ino del) = \<lparr>mk_Inode = ino, mk_Dev = 0x800001\<rparr>"
  by (simp add: data_key_def ex_resource_def)

lemma ex_has_trap [simp]: "has_trap [ex_policy] (ex_resource pod ino del)"
  by (simp add: has_trap_def ex_policy_def policy_deleting_def ex_meta_def ex_trap_cmp)

lemma ex_accounted [simp]:
  "accounted (\<lambda>_ _. [ex_pod]) [ex_policy] (ex_resource pod ino del) \<longleftrightarrow> pod = ''web-1''"
  using ex_container_cmp [of pod ino del] by (simp add: accounted_def pods_have_def ex_pod_def)

theorem reconcile_map_safe_witness:
  "traced hash_look (dr_map (snd (KiveData_Reconcile (ex_data_env (ex_cluster ex_items)) ex_data_state)))
     \<subseteq> {\<lparr>mk_Inode = 9, mk_Dev = 0x800001\<rparr>, \<lparr>mk_Inode = 1234, mk_Dev = 0x800001\<rparr>,
        \<lparr>mk_Inode = 5, mk_Dev = 0x800001\<rparr>} \<and>
   traced hash_look (dr_map (snd (KiveData_Reconcile (ex_data_env (ex_cluster ex_items))
       (ex_data_state\<lparr>dr_ebpf := ebpf_init\<rparr>))))
     \<subseteq> {\<lparr>mk_Inode = 1234, mk_Dev = 0x800001\<rparr>, \<lparr>mk_Inode = 5, mk_Dev = 0x800001\<rparr>}"
proof -
  let ?env = "ex_data_env (ex_cluster ex_items)"
  let ?fresh = "ex_data_state\<lparr>dr_ebpf := ebpf_init\<rparr>"
  have map: "traced_map hash_look (de_ops ?env)" "traced hash_look (de_new_map ?env) = {}"
    using traced_map_hash by (simp_all add: ex_data_env_def traced_hash)
  have "\<not> Loaded ebpf_init" "loads_objects (ex_loader (6, 8)) ebpf_init"
    using ex_loader_load [of "(6, 8)" ebpf_init] LoadEbpf_loads_objects by (auto simp: ebpf_init_def)
  with reconcile_map_safe [OF map prod.collapse [symmetric] refl refl, of ex_data_state]
    reconcile_map_safe [OF map prod.collapse [symmetric] refl refl, of ?fresh]
  show ?thesis
    by (auto simp: ex_data_env_def ex_cluster_def ex_items_def ex_data_state_def traced_hash)
qed

theorem reconcile_settled_witness:
  "\<exists>t. KiveData_Reconcile (ex_data_env (ex_cluster ex_items)) ex_data_state = (Return False, t) \<and>
     filter is_delete (dr_calls t) = [DeleteKiveData (ex_resource ''gone'' 5 None)]"
proof -
  let ?env = "ex_data_env (ex_cluster ex_items)"
  have "card ({\<lparr>mk_Inode = 9, mk_Dev = 0x800001\<rparr>} \<union> data_key ` set ex_items) \<le> MAP_MAX_ENTRIES"
    by (simp add: ex_items_def MAP_MAX_ENTRIES_def)
  moreover have "steady (de_cluster ?env) (\<lambda>_. ex_items) [ex_policy] (\<lambda>_ _. [ex_pod])"
    by (simp add: ex_data_env_def ex_steady)
  moreover have "\<forall>kd \<in> set ex_items. settled (de_cluster ?env) kd"
    by (simp add: ex_items_def settled_def ex_data_env_def ex_cluster_def)
  ultimately show ?thesis
    using reconcile_settled [of ?env "\<lambda>_. ex_items" "[ex_policy]" "\<lambda>_ _. [ex_pod]" hash_look
        MAP_MAX_ENTRIES ex_data_state ex_items] traced_map_hash has_room_hash
    by (auto simp: ex_data_env_def ex_data_state_def traced_hash ex_items_def)
qed


end
