(* ===== verification/Control_Loop.thy ===== *)
theory Control_Loop
  imports Main
begin

text \<open>
  The contract of a reconciler that ends each run after a write, which triggers the next run: a run
  keeps an invariant and, while something is left to do, leaves less of it.
\<close>

locale control_loop =
  fixes run :: "'s \<Rightarrow> 's" and inv :: "'s \<Rightarrow> bool" and todo :: "'s \<Rightarrow> nat"
  assumes keeps: "inv s \<Longrightarrow> inv (run s)"
    and progress: "inv s \<Longrightarrow> todo s \<noteq> 0 \<Longrightarrow> todo (run s) < todo s"
begin

lemma keeps_all: "inv s \<Longrightarrow> inv ((run ^^ k) s)"
  by (induction k) (simp_all add: keeps)

lemma settles: "inv s \<Longrightarrow> \<exists>k \<le> todo s. inv ((run ^^ k) s) \<and> todo ((run ^^ k) s) = 0"
proof (induction "todo s" arbitrary: s rule: less_induct)
  case less
  show ?case
  proof (cases "todo s = 0")
    case True
    with less.prems show ?thesis by (intro exI [of _ 0]) simp
  next
    case False
    note p = progress [OF less.prems False]
    from less.hyps [OF p keeps [OF less.prems]] obtain k where
      "k \<le> todo (run s)" "inv ((run ^^ k) (run s))" "todo ((run ^^ k) (run s)) = 0" by blast
    with p show ?thesis
      by (intro exI [of _ "Suc k"]) (simp add: funpow_Suc_right del: funpow.simps)
  qed
qed

end

end
