(* ===== verification/Data_Convergence.thy ===== *)
theory Data_Convergence
  imports Data_Reconciler Control_Loop
begin

text \<open>
  The \<open>KiveData\<close> reconciler in a loop with the API server: every reconciliation ends after its first
  patch, which triggers the next one.  Repeated reconciliations come to an end in which exactly
  the resources accounted for are left and exactly their files are traced.
\<close>

section \<open>The server and the loop\<close>

fun is_write :: "api_call \<Rightarrow> bool" where
  "is_write (ListKiveData _) = False"
| "is_write ListKivePolicy = False"
| "is_write (ListPods _ _) = False"
| "is_write _ = True"

text \<open>An object that is being deleted exists as long as it has finalizers.\<close>

definition stored :: "KiveData \<Rightarrow> KiveData list" where
  "stored kd = (if data_deleting kd \<and> data_finalizers kd = [] then [] else [kd])"

definition mark_deleted :: "string \<Rightarrow> KiveData \<Rightarrow> KiveData" where
  "mark_deleted now kd = kd\<lparr>kd_ObjectMeta := (kd_ObjectMeta kd)\<lparr>om_DeletionTimestamp := Some now\<rparr>\<rparr>"

text \<open>What a call does to the stored resources, as documented: a patch of an object replaces it, a
  deletion marks it, and an object marked for deletion without a finalizer is gone.\<close>

definition server_effects :: "(api_call \<Rightarrow> KiveData list \<Rightarrow> KiveData list) \<Rightarrow> string \<Rightarrow> bool" where
  "server_effects eff now \<longleftrightarrow>
     (\<forall>c items. \<not> is_write c \<longrightarrow> eff c items = items) \<and>
     (\<forall>kd' kd items. eff (PatchKiveData kd' kd) items =
        concat (map (\<lambda>x. if x = kd then stored kd' else [x]) items)) \<and>
     (\<forall>kd items. eff (DeleteKiveData kd) items =
        concat (map (\<lambda>x. if x = kd then stored (mark_deleted now x) else [x]) items))"

definition serving :: "'m data_env \<Rightarrow> KiveData list \<Rightarrow> 'm data_env" where
  "serving env items = env\<lparr>de_cluster := (de_cluster env)\<lparr>cl_data := \<lambda>_ _. Inr items\<rparr>\<rparr>"

text \<open>One reconciliation, on the resources the server has, and their state after its calls.\<close>

definition data_round ::
  "'m data_env \<Rightarrow> (api_call \<Rightarrow> KiveData list \<Rightarrow> KiveData list) \<Rightarrow>
   'm data_state \<times> KiveData list \<Rightarrow> 'm data_state \<times> KiveData list" where
  "data_round env eff = (\<lambda>(s, items).
     (let t = snd (KiveData_Reconcile (serving env items) s)
      in (t, fold eff (drop (length (dr_calls s)) (dr_calls t)) items)))"

text \<open>Steady answers and a map with room.\<close>

definition at_work ::
  "'m data_env \<Rightarrow> ('m \<Rightarrow> u8 list \<Rightarrow> u8 option) \<Rightarrow> nat \<Rightarrow> KivePolicy list \<Rightarrow>
   (strmap \<Rightarrow> strmap \<Rightarrow> Pod list) \<Rightarrow> bool" where
  "at_work env look n policies pods \<longleftrightarrow>
     (\<exists>data. steady (de_cluster env) data policies pods) \<and> finalizers_ok (de_cluster env) \<and>
     traced_map look (de_ops env) \<and> has_room look (de_ops env) n"

section \<open>How far a resource is from its end\<close>

definition has_finalizer :: "KiveData \<Rightarrow> bool" where
  "has_finalizer kd \<longleftrightarrow> KiveDataFinalizerName \<in> set (data_finalizers kd)"

definition weight :: "(KiveData \<Rightarrow> bool) \<Rightarrow> KiveData \<Rightarrow> nat" where
  "weight ok kd =
     (if data_deleting kd then (if has_finalizer kd then 1 else 0)
      else if \<not> has_finalizer kd then 3 else if ok kd then 0 else 2)"

definition touched :: "cluster \<Rightarrow> KiveData \<Rightarrow> KiveData" where
  "touched cl kd = with_data_finalizers
     ((if data_deleting kd then cl_remove cl else cl_add cl) (data_finalizers kd) KiveDataFinalizerName) kd"

text \<open>A resource that stops the reconciliation, by a patch.\<close>

definition stops :: "KiveData \<Rightarrow> bool" where
  "stops kd \<longleftrightarrow> data_deleting kd = has_finalizer kd"

lemma accounted_cong:
  assumes "om_Annotations (kd_ObjectMeta kd) = om_Annotations (kd_ObjectMeta kd')"
    and "om_Labels (kd_ObjectMeta kd) = om_Labels (kd_ObjectMeta kd')"
  shows "accounted pods policies kd = accounted pods policies kd'"
proof -
  have ann: "data_annotation kd = data_annotation kd'" using assms(1) by (simp add: fun_eq_iff data_annotation_def)
  then have "KiveDataTrapCmp kd = KiveDataTrapCmp kd'" "KiveDataContainerCmp kd = KiveDataContainerCmp kd'"
    "pod_fields kd = pod_fields kd'"
    unfolding fun_eq_iff KiveDataTrapCmp_def KiveDataContainerCmp_def pod_fields_def ann assms(2) by simp_all
  then show ?thesis by (simp add: accounted_def has_trap_def pods_have_def)
qed

lemma touched_simps [simp]:
  "data_deleting (touched cl kd) = data_deleting kd" "data_key (touched cl kd) = data_key kd"
  "accounted pods policies (touched cl kd) = accounted pods policies kd"
  unfolding touched_def with_data_finalizers_def data_deleting_def data_key_def
  by (simp, simp, rule accounted_cong) simp_all

lemma mark_simps [simp]:
  "data_deleting (mark_deleted now kd)" "data_key (mark_deleted now kd) = data_key kd"
  "data_finalizers (mark_deleted now kd) = data_finalizers kd"
  "has_finalizer (mark_deleted now kd) = has_finalizer kd"
  by (simp_all add: mark_deleted_def data_deleting_def data_key_def data_finalizers_def has_finalizer_def)

lemma touched_finalizer:
  "finalizers_ok cl \<Longrightarrow> has_finalizer (touched cl kd) \<longleftrightarrow> \<not> data_deleting kd"
  by (auto simp: finalizers_ok_def has_finalizer_def touched_def with_data_finalizers_def data_finalizers_def)

lemma weight_touched:
  "finalizers_ok cl \<Longrightarrow> stops kd \<Longrightarrow> (\<And>x. ok (touched cl x) = ok x) \<Longrightarrow>
   weight ok (touched cl kd) < weight ok kd"
  by (auto simp: weight_def touched_finalizer stops_def)

lemma weight_marked: "weight ok kd = 2 \<Longrightarrow> weight ok (mark_deleted now kd) < weight ok kd"
  by (auto simp: weight_def split: if_splits)

lemma weight_stored: "sum_list (map (weight ok) (stored kd)) \<le> weight ok kd"
  by (simp add: stored_def)

section \<open>The writes of a reconciliation\<close>

definition loop_writes :: "cluster \<Rightarrow> (KiveData \<Rightarrow> bool) \<Rightarrow> KiveData list \<Rightarrow> api_call list" where
  "loop_writes cl ok items =
     map DeleteKiveData (filter (\<lambda>kd. weight ok kd = 2) (takeWhile (\<lambda>kd. \<not> stops kd) items)) @
     (case dropWhile (\<lambda>kd. \<not> stops kd) items of [] \<Rightarrow> [] | kd # _ \<Rightarrow> [PatchKiveData (touched cl kd) kd])"

text \<open>The keys a loop adds, and the one it removes.\<close>

definition loop_adds :: "(KiveData \<Rightarrow> bool) \<Rightarrow> KiveData list \<Rightarrow> bpfMapKey set" where
  "loop_adds ok items =
     data_key ` {kd \<in> set (takeWhile (\<lambda>kd. \<not> stops kd) items). \<not> data_deleting kd \<and> ok kd}"

definition loop_removes :: "KiveData list \<Rightarrow> bpfMapKey set" where
  "loop_removes items =
     (case dropWhile (\<lambda>kd. \<not> stops kd) items of
        [] \<Rightarrow> {} | kd # _ \<Rightarrow> if data_deleting kd then {data_key kd} else {})"

lemma only_calls_writes:
  "only_calls s t \<Longrightarrow> filter is_write (dr_calls t) = filter is_write (dr_calls s)"
  by (fastforce simp: only_calls_def list_all_iff filter_empty_conv)

lemma data_item_step:
  assumes "steady (de_cluster env) data ps pods"
    and "finalizers_ok (de_cluster env)"
    and "ok = accounted pods policies"
  shows "\<exists>t. data_item env policies kd s = (Return (if stops kd then Some False else None), t) \<and>
    dr_ebpf t = dr_ebpf s \<and>
    dr_map t = (if stops kd then
        (if data_deleting kd then snd (RemoveInode (de_ops env) (data_key kd) (dr_map s)) else dr_map s)
      else if \<not> data_deleting kd \<and> ok kd then snd (AddInode (de_ops env) (data_key kd) (dr_map s)) else dr_map s) \<and>
    (\<exists>cs. dr_calls t = dr_calls s @ cs \<and> filter is_write cs =
      (if stops kd then [PatchKiveData (touched (de_cluster env) kd) kd]
       else if weight ok kd = 2 then [DeleteKiveData kd] else []))"
proof -
  have fin: "cl_contains (de_cluster env) (data_finalizers kd) KiveDataFinalizerName = has_finalizer kd"
    using assms(2) by (simp add: finalizers_ok_def has_finalizer_def)
  have taken: "cl_write (de_cluster env) h c = None" for h c using assms(1) by (simp add: steady_def)
  show ?thesis
  proof (cases "stops kd \<or> data_deleting kd")
    case True
    then show ?thesis
      by (auto simp: data_item_def Let_def fin taken stops_def touched_def weight_def)
  next
    case False
    obtain u where u: "policy_loop env kd policies False s = (Return (ok kd), u)" "only_calls s u"
      using policy_loop_steady [OF assms(1)] assms(3) by blast
    from u(2) obtain cs where cs: "u = s\<lparr>dr_calls := dr_calls s @ cs\<rparr>"
      "list_all (\<lambda>c. \<exists>l f. c = ListPods l f) cs" by (auto simp: only_calls_def)
    then have "filter is_write cs = []" by (auto simp: list_all_iff filter_empty_conv)
    with False u(1) cs(1) show ?thesis
      by (auto simp: data_item_def Let_def fin go_bind_def stops_def weight_def)
  qed
qed

lemma data_loop_steps:
  assumes "steady (de_cluster env) data ps pods"
    and "finalizers_ok (de_cluster env)"
    and "ok = accounted pods policies"
    and "traced_map look (de_ops env)"
    and "has_room look (de_ops env) n"
    and "finite (traced look (dr_map s))"
    and "card (traced look (dr_map s) \<union> data_key ` set items) \<le> n"
  shows "\<exists>t. data_loop env policies items s = (Return False, t) \<and> dr_ebpf t = dr_ebpf s \<and>
    traced look (dr_map t) = (traced look (dr_map s) \<union> loop_adds ok items) - loop_removes items \<and>
    (\<exists>cs. dr_calls t = dr_calls s @ cs \<and> filter is_write cs = loop_writes (de_cluster env) ok items)"
  using assms(6,7)
proof (induction items arbitrary: s)
  case Nil
  then show ?case by (simp add: loop_adds_def loop_removes_def loop_writes_def)
next
  case (Cons kd items)
  let ?T = "traced look (dr_map s)"
  obtain u cs where u: "data_item env policies kd s = (Return (if stops kd then Some False else None), u)"
    "dr_ebpf u = dr_ebpf s" "dr_calls u = dr_calls s @ cs"
    "filter is_write cs = (if stops kd then [PatchKiveData (touched (de_cluster env) kd) kd]
       else if weight ok kd = 2 then [DeleteKiveData kd] else [])"
    and map: "dr_map u = (if stops kd then
        (if data_deleting kd then snd (RemoveInode (de_ops env) (data_key kd) (dr_map s)) else dr_map s)
      else if \<not> data_deleting kd \<and> ok kd then snd (AddInode (de_ops env) (data_key kd) (dr_map s)) else dr_map s)"
    using data_item_step [OF assms(1-3), of kd s] by blast
  have "insert (data_key kd) ?T \<subseteq> ?T \<union> data_key ` set (kd # items)" by auto
  from card_mono [OF _ this] Cons.prems have "card (insert (data_key kd) ?T) \<le> n" by simp
  from AddInode_room [OF assms(4,5) this] map RemoveInode_traced [OF assms(4), of "data_key kd" "dr_map s"]
  have T: "traced look (dr_map u) = (if stops kd then (if data_deleting kd then ?T - {data_key kd} else ?T)
      else if \<not> data_deleting kd \<and> ok kd then insert (data_key kd) ?T else ?T)" by auto
  show ?case
  proof (cases "stops kd")
    case True
    with u T show ?thesis
      by (auto simp: go_bind_def go_return_def loop_adds_def loop_removes_def loop_writes_def)
  next
    case False
    from T have "traced look (dr_map u) \<union> data_key ` set items \<subseteq> ?T \<union> data_key ` set (kd # items)" by auto
    from card_mono [OF _ this] Cons.prems T
    have "card (traced look (dr_map u) \<union> data_key ` set items) \<le> n" "finite (traced look (dr_map u))"
      by (simp_all split: if_splits)
    with Cons.IH [of u] obtain t ds where t: "data_loop env policies items u = (Return False, t)"
      "dr_ebpf t = dr_ebpf u"
      "traced look (dr_map t) = (traced look (dr_map u) \<union> loop_adds ok items) - loop_removes items"
      "dr_calls t = dr_calls u @ ds" "filter is_write ds = loop_writes (de_cluster env) ok items" by auto
    from False T have "traced look (dr_map u) \<union> loop_adds ok items = ?T \<union> loop_adds ok (kd # items)"
      "loop_removes (kd # items) = loop_removes items" by (auto simp: loop_adds_def loop_removes_def)
    moreover have "loop_writes (de_cluster env) ok (kd # items) =
        (if weight ok kd = 2 then [DeleteKiveData kd] else []) @ loop_writes (de_cluster env) ok items"
      using False by (simp add: loop_writes_def)
    ultimately show ?thesis using False u t by (auto simp: go_bind_def)
  qed
qed

section \<open>Effects of the writes on the server\<close>

lemma eff_reads: "server_effects eff now \<Longrightarrow> fold eff cs items = fold eff (filter is_write cs) items"
  by (induction cs arbitrary: items) (simp_all add: server_effects_def)

text \<open>A write that makes progress, on the object \<open>kd\<close>, and what it stores in place of it.\<close>

definition replaces ::
  "cluster \<Rightarrow> string \<Rightarrow> (KiveData \<Rightarrow> bool) \<Rightarrow> api_call \<Rightarrow> KiveData \<Rightarrow> KiveData \<Rightarrow> bool" where
  "replaces cl now ok c kd kd' \<longleftrightarrow>
     c = DeleteKiveData kd \<and> weight ok kd = 2 \<and> kd' = mark_deleted now kd \<or>
     c = PatchKiveData (touched cl kd) kd \<and> stops kd \<and> kd' = touched cl kd"

lemma eff_replaces:
  "server_effects eff now \<Longrightarrow> replaces cl now ok c kd kd' \<Longrightarrow>
   eff c items = concat (map (\<lambda>x. if x = kd then stored kd' else [x]) items)"
  unfolding server_effects_def replaces_def by (auto intro!: arg_cong [of _ _ concat] map_cong)

lemma loop_writes_replace:
  "c \<in> set (loop_writes cl ok items) \<Longrightarrow> \<exists>kd \<in> set items. \<exists>kd'. replaces cl now ok c kd kd'"
proof -
  assume c: "c \<in> set (loop_writes cl ok items)"
  show ?thesis
  proof (cases "dropWhile (\<lambda>kd. \<not> stops kd) items")
    case Nil
    with c show ?thesis unfolding loop_writes_def replaces_def by (auto dest: set_takeWhileD)
  next
    case (Cons kd rest)
    then have "items = takeWhile (\<lambda>kd. \<not> stops kd) items @ kd # rest" "stops kd"
      by (simp_all add: dropWhile_eq_Cons_conv)
    moreover from this(1) have "kd \<in> set items" by (metis in_set_conv_decomp)
    ultimately show ?thesis using c Cons unfolding loop_writes_def replaces_def
      by (auto dest: set_takeWhileD)
  qed
qed

definition total_weight :: "(KiveData \<Rightarrow> bool) \<Rightarrow> KiveData list \<Rightarrow> nat" where
  "total_weight ok items = sum_list (map (weight ok) items)"

lemma total_weight_replace:
  assumes "sum_list (map (weight ok) ys) < weight ok kd"
  shows "total_weight ok (concat (map (\<lambda>x. if x = kd then ys else [x]) items)) \<le> total_weight ok items \<and>
    (kd \<in> set items \<longrightarrow> total_weight ok (concat (map (\<lambda>x. if x = kd then ys else [x]) items)) < total_weight ok items)"
  by (induction items) (use assms in \<open>auto simp: total_weight_def\<close>)

lemma replaces_weight:
  assumes "finalizers_ok cl" and "ok = accounted pods policies" and "replaces cl now ok c kd kd'"
  shows "sum_list (map (weight ok) (stored kd')) < weight ok kd"
proof -
  have "weight ok kd' < weight ok kd"
    using assms(3) weight_touched [OF assms(1), of kd ok] weight_marked [of ok kd now]
    by (auto simp: replaces_def assms(2))
  with weight_stored [of ok kd'] show ?thesis by simp
qed

text \<open>What every write keeps: the resources that stay have their keys; those accounted for stay.\<close>

definition kept :: "(KiveData \<Rightarrow> bool) \<Rightarrow> KiveData list \<Rightarrow> bpfMapKey set" where
  "kept ok items = data_key ` {kd \<in> set items. \<not> data_deleting kd \<and> ok kd}"

definition finalized :: "KiveData list \<Rightarrow> bpfMapKey set" where
  "finalized items = data_key ` {kd \<in> set items. has_finalizer kd}"

definition removed_by :: "api_call list \<Rightarrow> bpfMapKey set" where
  "removed_by ws = {data_key kd |kd kd'. PatchKiveData kd' kd \<in> set ws \<and> data_deleting kd}"

lemma image_replace:
  "data_key ` {x \<in> set (concat (map (\<lambda>x. if x = kd then ys else [x]) items)). Q x} =
   data_key ` {x \<in> set items. x \<noteq> kd \<and> Q x} \<union> (if kd \<in> set items then data_key ` {x \<in> set ys. Q x} else {})"
  by (induction items) (auto simp: image_iff)

lemma replace_keeps:
  assumes "server_effects eff now" and "finalizers_ok cl" and "ok = accounted pods policies"
    and "replaces cl now ok c kd kd'"
  shows "kept ok (eff c items) = kept ok items"
    and "finalized items - removed_by [c] \<subseteq> finalized (eff c items)"
    and "data_key ` set (eff c items) \<subseteq> data_key ` set items"
proof -
  note eff = eff_replaces [OF assms(1,4), of items]
  have key: "data_key kd' = data_key kd" using assms(4) by (auto simp: replaces_def)
  have "data_key ` {x \<in> set (stored kd'). \<not> data_deleting x \<and> ok x} =
      data_key ` {x. x = kd \<and> \<not> data_deleting kd \<and> ok kd}"
    using assms(4) key weight_def [of ok kd]
    by (auto simp: replaces_def stored_def assms(3) split: if_splits)
  then show "kept ok (eff c items) = kept ok items"
    unfolding kept_def eff image_replace by (auto simp: image_iff)
  have "data_key kd \<in> data_key ` {x \<in> set (stored kd'). has_finalizer x}"
    if "has_finalizer kd" "data_key kd \<notin> removed_by [c]"
    using assms(4) that key touched_finalizer [OF assms(2), of kd]
    by (auto simp: replaces_def stored_def removed_by_def has_finalizer_def)
  then show "finalized items - removed_by [c] \<subseteq> finalized (eff c items)"
    unfolding finalized_def eff image_replace by auto
  show "data_key ` set (eff c items) \<subseteq> data_key ` set items"
    unfolding eff using key by (auto simp: stored_def split: if_splits)
qed

lemma fold_keeps:
  assumes "server_effects eff now" and "finalizers_ok cl" and "ok = accounted pods policies"
    and "\<forall>c \<in> set ws. \<exists>kd kd'. replaces cl now ok c kd kd'"
  shows "kept ok (fold eff ws items) = kept ok items \<and>
    finalized items - removed_by ws \<subseteq> finalized (fold eff ws items) \<and>
    data_key ` set (fold eff ws items) \<subseteq> data_key ` set items \<and>
    total_weight ok (fold eff ws items) \<le> total_weight ok items"
  using assms(4)
proof (induction ws arbitrary: items)
  case (Cons c ws)
  then obtain kd kd' where r: "replaces cl now ok c kd kd'" by auto
  note keeps = replace_keeps [OF assms(1-3) r, of items]
  have weight: "total_weight ok (eff c items) \<le> total_weight ok items"
    using total_weight_replace [OF replaces_weight [OF assms(2,3) r]] eff_replaces [OF assms(1) r] by simp
  have removed: "removed_by (c # ws) = removed_by [c] \<union> removed_by ws" by (auto simp: removed_by_def)
  have "\<forall>c \<in> set ws. \<exists>kd kd'. replaces cl now ok c kd kd'" using Cons.prems by simp
  note ih = Cons.IH [OF this, of "eff c items"]
  from ih keeps(1) have "kept ok (fold eff (c # ws) items) = kept ok items" by simp
  moreover from ih keeps(2) have "finalized items - removed_by (c # ws) \<subseteq> finalized (fold eff (c # ws) items)"
    unfolding removed fold.simps comp_apply by blast
  moreover from ih have "data_key ` set (fold eff (c # ws) items) \<subseteq> data_key ` set items"
    using subset_trans [OF _ keeps(3)] by simp
  moreover from ih weight have "total_weight ok (fold eff (c # ws) items) \<le> total_weight ok items" by simp
  ultimately show ?case by blast
qed simp

text \<open>A reconciliation writes nothing exactly when every resource is at its end; else it gets closer.\<close>

lemma weight_stops: "weight ok kd = 0 \<or> weight ok kd = 2 \<or> stops kd"
  by (simp add: weight_def stops_def)

lemma stops_weight: "stops kd \<Longrightarrow> weight ok kd \<noteq> 0"
  by (simp add: weight_def stops_def)

lemma no_stops:
  assumes "\<forall>kd \<in> set items. \<not> stops kd"
  shows "dropWhile (\<lambda>kd. \<not> stops kd) items = []" and "takeWhile (\<lambda>kd. \<not> stops kd) items = items"
  using assms by (simp_all add: dropWhile_eq_Nil_conv takeWhile_eq_all_conv)

lemma total_weight_0: "total_weight ok items = 0 \<longleftrightarrow> (\<forall>kd \<in> set items. weight ok kd = 0)"
  by (simp add: total_weight_def)

lemma loop_writes_nil: "loop_writes cl ok items = [] \<longleftrightarrow> total_weight ok items = 0"
proof
  assume "loop_writes cl ok items = []"
  then have "dropWhile (\<lambda>kd. \<not> stops kd) items = []"
    and no2: "filter (\<lambda>kd. weight ok kd = 2) (takeWhile (\<lambda>kd. \<not> stops kd) items) = []"
    by (auto simp: loop_writes_def split: list.splits)
  then have all: "\<forall>kd \<in> set items. \<not> stops kd" by (simp add: dropWhile_eq_Nil_conv)
  then have "takeWhile (\<lambda>kd. \<not> stops kd) items = items" by (simp add: takeWhile_eq_all_conv)
  with no2 all weight_stops [of ok] show "total_weight ok items = 0"
    by (auto simp: total_weight_0 filter_empty_conv)
next
  assume "total_weight ok items = 0"
  then have zero: "\<forall>kd \<in> set items. weight ok kd = 0" by (simp add: total_weight_0)
  with stops_weight [of _ ok] have "\<forall>kd \<in> set items. \<not> stops kd" by blast
  from zero show "loop_writes cl ok items = []"
    unfolding loop_writes_def no_stops [OF \<open>\<forall>kd \<in> set items. \<not> stops kd\<close>]
    by (simp add: filter_empty_conv)
qed

lemma writes_progress:
  assumes "server_effects eff now" and "finalizers_ok cl" and "ok = accounted pods policies"
    and "total_weight ok items \<noteq> 0"
  shows "total_weight ok (fold eff (loop_writes cl ok items) items) < total_weight ok items"
proof -
  from assms(4) obtain c ws where ws: "loop_writes cl ok items = c # ws"
    using loop_writes_nil [of cl ok items] by (cases "loop_writes cl ok items") auto
  have all: "\<forall>d \<in> set (c # ws). \<exists>kd kd'. replaces cl now ok d kd kd'"
    using loop_writes_replace [of _ cl ok items now] unfolding ws [symmetric] by blast
  from loop_writes_replace [of c cl ok items now] ws obtain kd kd'
    where r: "kd \<in> set items" "replaces cl now ok c kd kd'" by auto
  have "total_weight ok (eff c items) < total_weight ok items"
    using total_weight_replace [OF replaces_weight [OF assms(2,3) r(2)]] eff_replaces [OF assms(1) r(2)] r(1)
    by simp
  with fold_keeps [OF assms(1-3), of ws "eff c items"] all show ?thesis by (simp add: ws)
qed

section \<open>Rounds\<close>

text \<open>Between two rounds: the program is loaded, and only files of resources with the finalizer are
  traced.\<close>

definition loop_inv ::
  "('m \<Rightarrow> u8 list \<Rightarrow> u8 option) \<Rightarrow> nat \<Rightarrow> 'm data_state \<times> KiveData list \<Rightarrow> bool" where
  "loop_inv look n = (\<lambda>(s, items). Loaded (dr_ebpf s) \<and>
     traced look (dr_map s) \<subseteq> finalized items \<and> card (data_key ` set items) \<le> n)"

lemma finalized_keys: "finalized items \<subseteq> data_key ` set items"
  by (auto simp: finalized_def)

lemma loop_adds_finalized: "loop_adds ok items \<subseteq> finalized items"
  unfolding loop_adds_def finalized_def by (auto simp: stops_def dest!: set_takeWhileD)

lemma loop_removes_writes: "removed_by (loop_writes cl ok items) = loop_removes items"
  by (cases "dropWhile (\<lambda>kd. \<not> stops kd) items")
    (auto simp: removed_by_def loop_writes_def loop_removes_def simp del: dropWhile_eq_Nil_conv)

lemma serving_simps [simp]:
  "de_ebpf (serving env items) = de_ebpf env" "de_ops (serving env items) = de_ops env"
  "de_kernel_id (serving env items) = de_kernel_id env"
  "cl_data (de_cluster (serving env items)) h c = Inr items"
  "cl_contains (de_cluster (serving env items)) = cl_contains (de_cluster env)"
  "cl_add (de_cluster (serving env items)) = cl_add (de_cluster env)"
  "cl_remove (de_cluster (serving env items)) = cl_remove (de_cluster env)"
  by (simp_all add: serving_def)

lemma serving_ok:
  "steady (de_cluster env) data policies pods \<Longrightarrow> steady (de_cluster (serving env items)) (\<lambda>_. items) policies pods"
  "finalizers_ok (de_cluster env) \<Longrightarrow> finalizers_ok (de_cluster (serving env items))"
  by (simp_all add: steady_def refuses_other_fields_def finalizers_ok_def serving_def)

lemma touched_serving [simp]: "touched (de_cluster (serving env items)) = touched (de_cluster env)"
  by (simp add: touched_def fun_eq_iff)

lemma loop_writes_serving [simp]:
  "loop_writes (de_cluster (serving env items)) = loop_writes (de_cluster env)"
  unfolding loop_writes_def touched_serving ..

lemma data_round_step:
  assumes "at_work env look n policies pods" and "server_effects eff now"
    and "ok = accounted pods policies" and "loop_inv look n (s, items)"
  shows "\<exists>t. data_round env eff (s, items) =
      (t, fold eff (loop_writes (de_cluster env) ok items) items) \<and> Loaded (dr_ebpf t) \<and>
    traced look (dr_map t) = (traced look (dr_map s) \<union> loop_adds ok items) - loop_removes items"
proof -
  let ?env = "serving env items" and ?c = "ListKiveData [(KernelIDLabel, de_kernel_id env)]"
  let ?s = "dr_made ListKivePolicy (dr_made ?c s)"
  from assms(1) obtain data where work: "steady (de_cluster env) data policies pods"
    "finalizers_ok (de_cluster env)"
    "traced_map look (de_ops env)" "has_room look (de_ops env) n" by (auto simp: at_work_def)
  have T: "traced look (dr_map s) \<subseteq> data_key ` set items"
    using assms(4) finalized_keys [of items] by (auto simp: loop_inv_def)
  then have "finite (traced look (dr_map s))" by (rule finite_subset) simp
  moreover have "card (traced look (dr_map s) \<union> data_key ` set items) \<le> n"
    using T assms(4) by (simp add: loop_inv_def Un_absorb1)
  moreover note st = serving_ok(1) [OF work(1), of items] and fo = serving_ok(2) [OF work(2), of items]
  ultimately obtain t cs where t: "data_loop ?env policies items ?s = (Return False, t)"
    "dr_ebpf t = dr_ebpf s" "dr_calls t = dr_calls ?s @ cs"
    "filter is_write cs = loop_writes (de_cluster ?env) ok items"
    "traced look (dr_map t) = (traced look (dr_map s) \<union> loop_adds ok items) - loop_removes items"
    using data_loop_steps [OF st fo, where ok = ok and policies = policies and look = look and
        n = n and s = ?s and items = items] work(3,4) assms(3) by auto
  have "cl_policies (de_cluster ?env) (dr_calls s @ [?c]) ListKivePolicy = Inr policies"
    using st by (simp add: steady_def)
  then have "KiveData_Reconcile ?env s = (Return False, t)"
    using t(1) assms(4) by (simp add: KiveData_Reconcile_def data_load_def go_bind_def Let_def loop_inv_def)
  moreover have "fold eff (drop (length (dr_calls s)) (dr_calls t)) items =
      fold eff (loop_writes (de_cluster env) ok items) items"
    using t(3,4) eff_reads [OF assms(2), of "?c # ListKivePolicy # cs"]
    by simp
  ultimately show ?thesis using t(2,5) assms(4) by (simp add: data_round_def loop_inv_def Let_def)
qed

lemma data_round_inv:
  assumes "at_work env look n policies pods" and "server_effects eff now"
    and "ok = accounted pods policies" and "loop_inv look n (s, items)"
    and "data_round env eff (s, items) = (t, left)"
  shows "loop_inv look n (t, left)" and "kept ok left = kept ok items"
    and "total_weight ok items \<noteq> 0 \<Longrightarrow> total_weight ok left < total_weight ok items"
    and "total_weight ok items = 0 \<Longrightarrow> left = items \<and> traced look (dr_map t) = kept ok items"
proof -
  let ?ws = "loop_writes (de_cluster env) ok items"
  have fin: "finalizers_ok (de_cluster env)" using assms(1) by (simp add: at_work_def)
  from data_round_step [OF assms(1-4)] assms(5) have step: "left = fold eff ?ws items" "Loaded (dr_ebpf t)"
    "traced look (dr_map t) = (traced look (dr_map s) \<union> loop_adds ok items) - loop_removes items" by auto
  have "\<forall>c \<in> set ?ws. \<exists>kd kd'. replaces (de_cluster env) now ok c kd kd'"
    using loop_writes_replace [of _ "de_cluster env" ok items now] by blast
  note keeps = fold_keeps [OF assms(2) fin assms(3) this, of items, folded step(1)]
  have "traced look (dr_map t) \<subseteq> finalized items - removed_by ?ws"
    using step(3) assms(4) loop_adds_finalized [of ok items] unfolding loop_removes_writes
    by (auto simp: loop_inv_def)
  moreover have "card (data_key ` set left) \<le> card (data_key ` set items)"
    using keeps by (intro card_mono) auto
  ultimately show "loop_inv look n (t, left)" using keeps step(2) assms(4) by (auto simp: loop_inv_def)
  show "kept ok left = kept ok items" using keeps by simp
  show "total_weight ok left < total_weight ok items" if "total_weight ok items \<noteq> 0"
    using writes_progress [OF assms(2) fin assms(3) that] step(1) by simp
  assume zero: "total_weight ok items = 0"
  then have none: "\<forall>kd \<in> set items. weight ok kd = 0" by (simp add: total_weight_0)
  then have "\<forall>kd \<in> set items. \<not> stops kd" using stops_weight by blast
  then have "loop_adds ok items = kept ok items" "loop_removes items = {}"
    unfolding loop_adds_def kept_def loop_removes_def by (simp_all add: no_stops cong: list.case_cong)
  moreover have "finalized items \<subseteq> kept ok items"
    using none by (auto simp: finalized_def kept_def weight_def split: if_splits)
  moreover have "?ws = []" using zero loop_writes_nil by blast
  ultimately show "left = items \<and> traced look (dr_map t) = kept ok items"
    using step assms(4) by (auto simp: loop_inv_def)
qed

text \<open>The rounds meet the contract of a control loop.\<close>

definition data_loop_inv ::
  "'m data_env \<Rightarrow> (api_call \<Rightarrow> KiveData list \<Rightarrow> KiveData list) \<Rightarrow> string \<Rightarrow> ('m \<Rightarrow> u8 list \<Rightarrow> u8 option) \<Rightarrow>
   nat \<Rightarrow> KivePolicy list \<Rightarrow> (strmap \<Rightarrow> strmap \<Rightarrow> Pod list) \<Rightarrow> bpfMapKey set \<Rightarrow>
   'm data_state \<times> KiveData list \<Rightarrow> bool" where
  "data_loop_inv env eff now look n policies pods keys x \<longleftrightarrow>
     at_work env look n policies pods \<and> server_effects eff now \<and> loop_inv look n x \<and>
     kept (accounted pods policies) (snd x) = keys"

interpretation data_rounds: control_loop "data_round env eff"
    "data_loop_inv env eff now look n policies pods keys"
    "\<lambda>x. total_weight (accounted pods policies) (snd x)"
  for env :: "'m data_env" and eff now look n policies pods keys
proof (unfold_locales, goal_cases)
  case (1 x)
  then show ?case
    using data_round_inv(1,2) [OF _ _ refl, of env look n policies pods eff now "fst x" "snd x"]
    by (cases "data_round env eff x") (auto simp: data_loop_inv_def)
next
  case (2 x)
  then show ?case
    using data_round_inv(3) [OF _ _ refl, of env look n policies pods eff now "fst x" "snd x"]
    by (cases "data_round env eff x") (auto simp: data_loop_inv_def)
qed

lemma data_rounds_end:
  assumes "at_work env look n policies pods" and "server_effects eff now"
    and "ok = accounted pods policies" and "Loaded (dr_ebpf s)"
    and "traced look (dr_map s) \<subseteq> data_key ` {kd \<in> set items. KiveDataFinalizerName \<in> set (data_finalizers kd)}"
    and "card (data_key ` set items) \<le> n"
  shows "\<exists>k \<le> 3 * length items. \<exists>t left. (data_round env eff ^^ Suc k) (s, items) = (t, left) \<and>
    snd (data_round env eff (t, left)) = left \<and>
    traced look (dr_map t) = data_key ` {kd \<in> set items. \<not> data_deleting kd \<and> ok kd} \<and>
    data_key ` {kd \<in> set left. \<not> data_deleting kd} = data_key ` {kd \<in> set items. \<not> data_deleting kd \<and> ok kd} \<and>
    (\<forall>kd \<in> set left. (KiveDataFinalizerName \<in> set (data_finalizers kd)) = (\<not> data_deleting kd) \<and>
       (data_deleting kd \<or> ok kd))"
proof -
  have inv: "loop_inv look n (s, items)"
    using assms(4-6) by (simp add: loop_inv_def finalized_def has_finalizer_def)
  have "data_loop_inv env eff now look n policies pods (kept ok items) (s, items)"
    using assms(1-3) inv by (simp add: data_loop_inv_def)
  from data_rounds.settles [OF this] obtain k where "k \<le> total_weight ok items"
    "data_loop_inv env eff now look n policies pods (kept ok items) ((data_round env eff ^^ k) (s, items))"
    "total_weight ok (snd ((data_round env eff ^^ k) (s, items))) = 0" by (auto simp: assms(3))
  then obtain u left where k: "k \<le> total_weight ok items" "(data_round env eff ^^ k) (s, items) = (u, left)"
    "loop_inv look n (u, left)" "total_weight ok left = 0" "kept ok left = kept ok items"
    by (cases "(data_round env eff ^^ k) (s, items)") (auto simp: data_loop_inv_def assms(3))
  obtain t left' where t: "data_round env eff (u, left) = (t, left')" by fastforce
  note last = data_round_inv [OF assms(1-3) k(3) t]
  from last(4) [OF k(4)] have "left' = left" "traced look (dr_map t) = kept ok items" by (simp_all add: k(5))
  obtain v left'' where v: "data_round env eff (t, left) = (v, left'')" by fastforce
  have again: "left'' = left"
    using data_round_inv(4) [OF assms(1-3) last(1) [unfolded \<open>left' = left\<close>] v k(4)] by simp
  have "weight ok kd \<le> 3" for kd by (simp add: weight_def)
  then have "total_weight ok items \<le> 3 * length items"
    by (induction items) (simp_all add: total_weight_def add_mono)
  moreover from k(4) have ends: "\<forall>kd \<in> set left. has_finalizer kd = (\<not> data_deleting kd) \<and> (data_deleting kd \<or> ok kd)"
    by (auto simp: total_weight_0 weight_def split: if_splits)
  moreover from ends have "data_key ` {kd \<in> set left. \<not> data_deleting kd} = kept ok left"
    unfolding kept_def by (intro arg_cong [of _ _ "(`) data_key"]) auto
  ultimately show ?thesis using k t v again \<open>left' = left\<close> \<open>traced look (dr_map t) = kept ok items\<close>
    by (intro exI [of _ k]) (simp add: kept_def has_finalizer_def)
qed

section \<open>Properties\<close>

text \<open>C5: the loop comes to an end: with steady policies and pods, a server that carries out the writes
  as documented and a map with room, after at most three rounds for each resource, and one more,
  nothing is written any more, the map traces exactly the files of the resources that were not
  being deleted at the start and that a trap and a container account for, those resources are
  left with their finalizer, and every other one left is held by a finalizer of someone else.\<close>

theorem data_reconciler_converges:
  assumes "at_work env look n policies pods" and "server_effects eff now"
    and "ok = accounted pods policies" and "Loaded (dr_ebpf s)"
    and "traced look (dr_map s) \<subseteq> data_key ` {kd \<in> set items. KiveDataFinalizerName \<in> set (data_finalizers kd)}"
    and "card (data_key ` set items) \<le> n"
  shows "\<exists>k \<le> 3 * length items. \<exists>t left. (data_round env eff ^^ Suc k) (s, items) = (t, left) \<and>
    snd (data_round env eff (t, left)) = left \<and>
    traced look (dr_map t) = data_key ` {kd \<in> set items. \<not> data_deleting kd \<and> ok kd} \<and>
    data_key ` {kd \<in> set left. \<not> data_deleting kd} = data_key ` {kd \<in> set items. \<not> data_deleting kd \<and> ok kd} \<and>
    (\<forall>kd \<in> set left. (KiveDataFinalizerName \<in> set (data_finalizers kd)) = (\<not> data_deleting kd) \<and>
       (data_deleting kd \<or> ok kd))"
  using data_rounds_end [OF assms] .

definition ex_effects :: "api_call \<Rightarrow> KiveData list \<Rightarrow> KiveData list" where
  "ex_effects c items =
     (case c of
        PatchKiveData kd' kd \<Rightarrow> concat (map (\<lambda>x. if x = kd then stored kd' else [x]) items)
      | DeleteKiveData kd \<Rightarrow> concat (map (\<lambda>x. if x = kd then stored (mark_deleted ''now'' x) else [x]) items)
      | _ \<Rightarrow> items)"

lemma ex_server: "server_effects ex_effects ''now''"
  unfolding server_effects_def ex_effects_def by (auto split: api_call.split)

lemma ex_at_work:
  "at_work (ex_data_env (ex_cluster items)) hash_look MAP_MAX_ENTRIES [ex_policy] (\<lambda>_ _. [ex_pod])"
  using ex_steady [of items] ex_finalizers [of items] traced_map_hash has_room_hash
  by (auto simp: at_work_def ex_data_env_def)

text \<open>One resource to trace, one without a pod, and one that is being deleted and still traced.\<close>

definition ex_all :: "KiveData list" where
  "ex_all = ex_resource ''web-1'' 9 (Some ''now'') # ex_items"

lemma ex_loop_start:
  "Loaded (dr_ebpf ex_data_state)"
  "traced hash_look (dr_map ex_data_state) \<subseteq>
     data_key ` {kd \<in> set ex_all. KiveDataFinalizerName \<in> set (data_finalizers kd)}"
  "card (data_key ` set ex_all) \<le> MAP_MAX_ENTRIES"
  by (auto simp: ex_data_state_def ex_all_def ex_items_def traced_hash MAP_MAX_ENTRIES_def
      intro!: image_eqI [where x = "ex_resource ''web-1'' 9 (Some ''now'')"])

lemma ex_kept:
  "{kd \<in> set ex_all. \<not> data_deleting kd \<and> accounted (\<lambda>_ _. [ex_pod]) [ex_policy] kd} =
   {ex_resource ''web-1'' 1234 None}"
  by (auto simp: ex_all_def ex_items_def)

theorem data_reconciler_converges_witness:
  "\<exists>k t left. (data_round (ex_data_env (ex_cluster [])) ex_effects ^^ k) (ex_data_state, ex_all) = (t, left) \<and>
     traced hash_look (dr_map t) = {\<lparr>mk_Inode = 1234, mk_Dev = 0x800001\<rparr>}"
proof -
  from data_reconciler_converges [OF ex_at_work ex_server refl ex_loop_start, of "[]"]
  obtain k t left where "(data_round (ex_data_env (ex_cluster [])) ex_effects ^^ Suc k) (ex_data_state, ex_all) =
      (t, left)" "traced hash_look (dr_map t) = {\<lparr>mk_Inode = 1234, mk_Dev = 0x800001\<rparr>}"
    unfolding ex_kept by auto
  then show ?thesis by blast
qed

end
