(* ===== verification/Pod_Reconciler.thy ===== *)
theory Pod_Reconciler
  imports Cluster
begin

text \<open>
  \<open>kivepod_controller.go\<close>: on an event of a pod, the \<open>KiveData\<close> of this kernel whose pod is no longer
  listed are deleted and a reconciliation of the policies is triggered, by an annotation on the
  first policy.  The state is the history of calls.
\<close>

section \<open>The reconciliation\<close>

definition pod_of_data :: "KiveData \<Rightarrow> Pod \<Rightarrow> bool" where
  "pod_of_data kd pod \<longleftrightarrow>
     data_annotation kd ''pod-name'' = pod_Name pod \<and>
     data_annotation kd ''namespace'' = pod_Namespace pod \<and>
     data_annotation kd ''pod-ip'' = pod_IP pod"

text \<open>The inner loop: the value of \<open>found\<close>, and of \<open>shouldRequeue\<close> at the break.\<close>

fun pod_search :: "KiveData \<Rightarrow> Pod list \<Rightarrow> bool \<Rightarrow> bool \<times> bool" where
  "pod_search kd [] requeue = (False, requeue)"
| "pod_search kd (pod # pods) requeue =
     (if pod_of_data kd pod then
        (True, if pod_Phase pod \<noteq> PodSucceeded \<and> pod_Phase pod \<noteq> PodFailed then True else requeue)
      else pod_search kd pods requeue)"

text \<open>The loop over the resources; an error of a deletion is logged.\<close>

fun pod_data_loop :: "Pod list \<Rightarrow> KiveData list \<Rightarrow> bool \<Rightarrow> (api_call list, bool) go" where
  "pod_data_loop pods [] requeue h = (Return requeue, h)"
| "pod_data_loop pods (kd # items) requeue h =
     (let (found, requeue') = pod_search kd pods requeue in
      if \<not> found then pod_data_loop pods items requeue' (h @ [DeleteKiveData kd])
      else pod_data_loop pods items requeue' h)"

text \<open>The value is the \<open>Requeue\<close> field of the result; the framework ignores it with an error.\<close>

definition KivePod_Reconcile :: "cluster \<Rightarrow> string \<Rightarrow> string \<Rightarrow> (api_call list, bool) go" where
  "KivePod_Reconcile cl kernel_id now h =
    (let c = ListKiveData [(KernelIDLabel, kernel_id)] in
     case cl_data cl h c of
       Inl err \<Rightarrow> (Error (''Reconcile Error Failed to get KiveData resource: '' @ err), h @ [c])
     | Inr items \<Rightarrow>
         (let h = h @ [c]; c = ListPods [] [] in
          case cl_pods cl h c of
            Inl err \<Rightarrow> (Error (''Reconcile Error Failed to get PodList resource: '' @ err), h @ [c])
          | Inr pods \<Rightarrow>
              go_bind (pod_data_loop pods items False) (\<lambda>shouldRequeue h.
                (case cl_policies cl h ListKivePolicy of
                   Inl err \<Rightarrow> (Error (''Reconcile Error Failed to get Kive Policy resource: '' @ err),
                                h @ [ListKivePolicy])
                 | Inr [] \<Rightarrow> (Return shouldRequeue, h @ [ListKivePolicy])
                 | Inr (policy # _) \<Rightarrow>
                     (Return shouldRequeue, h @ [ListKivePolicy, PatchKivePolicy
                        (policy\<lparr>kp_ObjectMeta := annotate ''force-reconcile'' now (kp_ObjectMeta policy)\<rparr>)
                        policy]))) (h @ [c])))"

section \<open>What it decides\<close>

definition pod_gone :: "Pod list \<Rightarrow> KiveData \<Rightarrow> bool" where
  "pod_gone pods kd \<longleftrightarrow> \<not> list_ex (pod_of_data kd) pods"

text \<open>The first pod of the resource is neither finished nor failed.\<close>

definition pod_alive :: "Pod list \<Rightarrow> KiveData \<Rightarrow> bool" where
  "pod_alive pods kd \<longleftrightarrow>
     (case find (pod_of_data kd) pods of
        Some pod \<Rightarrow> pod_Phase pod \<noteq> PodSucceeded \<and> pod_Phase pod \<noteq> PodFailed
      | None \<Rightarrow> False)"

lemma pod_search_spec:
  "pod_search kd pods requeue = (\<not> pod_gone pods kd, requeue \<or> pod_alive pods kd)"
  by (induction kd pods requeue rule: pod_search.induct) (auto simp: pod_gone_def pod_alive_def)

lemma pod_data_loop_spec:
  "pod_data_loop pods items requeue h =
     (Return (requeue \<or> list_ex (pod_alive pods) items),
      h @ map DeleteKiveData (filter (pod_gone pods) items))"
  by (induction pods items requeue h rule: pod_data_loop.induct) (auto simp: pod_search_spec)

section \<open>Properties\<close>

text \<open>C22: when the API server lists the resources, the pods and the policies, the reconciliation
  deletes exactly the resources of which no listed pod has the name, the namespace and the
  address, in their order, asks to be run again exactly when the pod of some resource is neither
  finished nor failed, and touches the first policy, if there is one, to have the policies
  reconciled; nothing else is written.\<close>

theorem pod_reconcile_exact:
  assumes "lc = ListKiveData [(KernelIDLabel, kernel_id)]" and "cl_data cl h lc = Inr items"
    and "cl_pods cl (h @ [lc]) (ListPods [] []) = Inr pods"
    and "dels = map DeleteKiveData (filter (\<lambda>kd. \<forall>pod \<in> set pods. \<not> pod_of_data kd pod) items)"
    and "cl_policies cl (h @ [lc, ListPods [] []] @ dels) ListKivePolicy = Inr policies"
  shows "KivePod_Reconcile cl kernel_id now h =
    (Return (\<exists>kd \<in> set items. pod_alive pods kd),
     h @ [lc, ListPods [] []] @ dels @ [ListKivePolicy] @
       (case policies of [] \<Rightarrow> []
        | p # _ \<Rightarrow> [PatchKivePolicy
            (p\<lparr>kp_ObjectMeta := annotate ''force-reconcile'' now (kp_ObjectMeta p)\<rparr>) p]))"
proof -
  have "filter (\<lambda>kd. \<forall>pod \<in> set pods. \<not> pod_of_data kd pod) items = filter (pod_gone pods) items"
    by (rule filter_cong) (simp_all add: pod_gone_def list_ex_iff)
  with assms show ?thesis
    by (simp add: KivePod_Reconcile_def Let_def pod_data_loop_spec go_bind_def list_ex_iff
        split: list.split)
qed

definition ex_failed_pod :: Pod where
  "ex_failed_pod = ex_pod\<lparr>pod_Phase := PodFailed\<rparr>"

definition ex_pod_data :: "string \<Rightarrow> KiveData" where
  "ex_pod_data ip = (ex_resource ''web-1'' 1 None)\<lparr>kd_ObjectMeta := ex_meta\<lparr>om_Annotations :=
     [(''pod-name'', ''web-1''), (''namespace'', ''default''), (''pod-ip'', ip)]\<rparr>\<rparr>"

lemma ex_pod_of_data [simp]:
  "pod_of_data (ex_pod_data ip) ex_pod \<longleftrightarrow> ip = ''10.0.0.1''"
  "pod_of_data (ex_pod_data ip) ex_failed_pod \<longleftrightarrow> ip = ''10.0.0.1''"
  by (simp_all add: pod_of_data_def ex_pod_data_def ex_pod_def ex_failed_pod_def
      data_annotation_def map_get_def)

theorem pod_reconcile_exact_witness:
  "fst (KivePod_Reconcile (ex_cluster [ex_pod_data ''10.0.0.1'', ex_pod_data ''10.0.0.2'']) ''k'' ''now'' []) =
   Return True"
  using pod_reconcile_exact [of _ "''k''" "ex_cluster [ex_pod_data ''10.0.0.1'', ex_pod_data ''10.0.0.2'']"
      "[]" "[ex_pod_data ''10.0.0.1'', ex_pod_data ''10.0.0.2'']" "[ex_pod]", OF refl _ _ refl,
      of "[ex_policy]" "''now''"]
  by (simp add: ex_cluster_def ex_listing_def selectable_def pod_alive_def ex_pod_def [THEN arg_cong, of pod_Phase]
      PodSucceeded_def PodFailed_def)

text \<open>The resource of a pod that has failed, or finished, is kept as long as the pod is listed, and
  no further run is asked for on its account.\<close>

lemma failed_pod_keeps_data:
  assumes "pods = before @ pod # after" and "\<forall>p \<in> set before. \<not> pod_of_data kd p"
    and "pod_of_data kd pod" and "pod_Phase pod = PodFailed \<or> pod_Phase pod = PodSucceeded"
  shows "pod_data_loop pods [kd] False h = (Return False, h)"
proof -
  have "find (pod_of_data kd) (before @ pod # after) = Some pod"
    using assms(2,3) by (induction before) auto
  with assms show ?thesis by (auto simp: pod_data_loop_spec pod_gone_def pod_alive_def)
qed


end
