(* ===== verification/Policy_Reconciler.thy ===== *)
theory Policy_Reconciler
  imports Cluster
begin

text \<open>
  \<open>kivepolicy_controller.go\<close>: for every policy that is not being deleted, every trap of it and every
  running container a match of the trap selects, the trap's file is looked up in the container and
  a \<open>KiveData\<close> applied.  The state is the container runtime and the history of calls; the early
  returns of the nested loops are values.
\<close>

section \<open>State, environment and early returns\<close>

definition KivePolicyFinalizerName :: string where
  "KivePolicyFinalizerName = ''kivepolicy.kivebpf.san7o.github.io/finalizer''"

definition kive_namespace :: string where "kive_namespace = ''kivebpf-system''"

record policy_env =
  pe_containers :: ct_env
  pe_std :: go_std
  pe_cluster :: cluster
  pe_kernel_id :: string
  pe_now :: "api_call list \<Rightarrow> string"

record policy_state =
  pl_runtime :: Containerd
  pl_calls :: "api_call list"

definition pl_made :: "api_call \<Rightarrow> policy_state \<Rightarrow> policy_state" where
  "pl_made c s = s\<lparr>pl_calls := pl_calls s @ [c]\<rparr>"

text \<open>\<open>Go_on\<close> with a value to the rest of the loop, or \<open>Stop\<close> with the \<open>Requeue\<close> of the result.\<close>

datatype 'a control = Go_on 'a | Stop bool

definition ctl_bind :: "('s, 'a control) go \<Rightarrow> ('a \<Rightarrow> ('s, 'b control) go) \<Rightarrow> ('s, 'b control) go" where
  "ctl_bind m f = go_bind m (\<lambda>c. case c of Go_on x \<Rightarrow> f x | Stop rq \<Rightarrow> go_return (Stop rq))"

text \<open>A \<open>for\<close> loop over a list with a body that carries a value on.\<close>

fun ctl_for :: "('x \<Rightarrow> 'a \<Rightarrow> ('s, 'a control) go) \<Rightarrow> 'x list \<Rightarrow> 'a \<Rightarrow> ('s, 'a control) go" where
  "ctl_for body [] acc = go_return (Go_on acc)"
| "ctl_for body (x # xs) acc = ctl_bind (body x acc) (ctl_for body xs)"

section \<open>The resource of a container\<close>

definition new_kive_data ::
  "string \<Rightarrow> KivePolicy \<Rightarrow> KiveTrap \<Rightarrow> string \<Rightarrow> Pod \<Rightarrow> ContainerStatus \<Rightarrow> ContainerData \<Rightarrow> KiveData" where
  "new_kive_data kernel_id policy trap trapID pod status cd =
     \<lparr>kd_TypeMeta = \<lparr>tm_Kind = ''KiveData'', tm_APIVersion = ''kivebpf.san7o.github.io/v2alpha1''\<rparr>,
      kd_ObjectMeta =
        \<lparr>om_Name = NewKiveDataName (cd_Ino cd) (cd_DevID cd) pod status,
         om_Namespace = kive_namespace,
         om_Labels = [(TrapIDLabel, trapID), (KernelIDLabel, kernel_id)],
         om_Annotations =
           [(''kive-alert-version'', ps_AlertVersion (kp_Spec policy)),
            (''kive-policy-name'', policy_name policy),
            (''callback'', kt_Callback trap),
            (''pod-name'', pod_Name pod),
            (''namespace'', pod_Namespace pod),
            (''pod-ip'', pod_IP pod),
            (''path'', kt_Path trap),
            (''container-id'', cd_ID cd),
            (''container-name'', cd_Name cd),
            (''node-name'', pod_NodeName pod)],
         om_Finalizers = [KiveDataFinalizerName],
         om_DeletionTimestamp = None\<rparr>,
      kd_Spec = \<lparr>ds_InodeNo = cd_Ino cd, ds_DevID = cd_DevID cd,
        ds_Metadata = map_copy (kt_Metadata trap) []\<rparr>\<rparr>"

section \<open>The nested loops\<close>

text \<open>The carried value is \<open>matchedContainers\<close>, the containers this trap has matched already.\<close>

definition match_id :: "Pod \<Rightarrow> ContainerStatus \<Rightarrow> string" where
  "match_id pod status = pod_Name pod @ pod_Namespace pod @ cs_Name status"

definition do_container ::
  "policy_env \<Rightarrow> KivePolicy \<Rightarrow> KiveTrap \<Rightarrow> string \<Rightarrow> KiveTrapMatch \<Rightarrow> Pod \<Rightarrow> ContainerStatus \<Rightarrow>
   string list \<Rightarrow> (policy_state, string list control) go" where
  "do_container env policy trap trapID m pod status matched s =
    (case RegexMatch (pe_std env) (km_ContainerName m) (cs_Name status) of
       Panic \<Rightarrow> (Panic, s)
     | Error err \<Rightarrow> (Return (Go_on matched), s)
     | Return is_match \<Rightarrow>
         (if \<not> is_match then (Return (Go_on matched), s)
          else if pod_Phase pod \<noteq> PodRunning then (Return (Stop True), s)
          else if match_id pod status \<in> set matched then (Return (Go_on matched), s)
          else
            (let matched = match_id pod status # matched in
             case GetContainerData (ContainerRuntimes (pe_containers env)) status trap (pl_runtime s) of
               (Panic, rt) \<Rightarrow> (Panic, s\<lparr>pl_runtime := rt\<rparr>)
             | (Error err, rt) \<Rightarrow> (Return (Go_on matched), s\<lparr>pl_runtime := rt\<rparr>)
             | (Return cd, rt) \<Rightarrow>
                 (let s = s\<lparr>pl_runtime := rt\<rparr> in
                  if cd_ShouldRequeue cd then (Return (Stop True), s)
                  else if \<not> cd_IsFound cd then (Return (Go_on matched), s)
                  else (Return (Go_on matched),
                    pl_made (ApplyKiveData
                      (new_kive_data (pe_kernel_id env) policy trap trapID pod status cd)) s)))))"

definition match_fields :: "KiveTrapMatch \<Rightarrow> strmap" where
  "match_fields m =
     (if km_PodName m \<noteq> [] then [(''metadata.name'', km_PodName m)] else []) @
     (if km_Namespace m \<noteq> [] then [(''metadata.namespace'', km_Namespace m)] else []) @
     (if km_IP m \<noteq> [] then [(''metadata.podIP'', km_IP m)] else [])"

definition do_match ::
  "policy_env \<Rightarrow> KivePolicy \<Rightarrow> KiveTrap \<Rightarrow> string \<Rightarrow> KiveTrapMatch \<Rightarrow> string list \<Rightarrow>
   (policy_state, string list control) go" where
  "do_match env policy trap trapID m matched s =
    (let c = ListPods (km_MatchLabels m) (match_fields m) in
     case cl_pods (pe_cluster env) (pl_calls s) c of
       Inl err \<Rightarrow> (Return (Go_on matched), pl_made c s)
     | Inr pods \<Rightarrow>
         ctl_for (\<lambda>pod. ctl_for (do_container env policy trap trapID m pod) (pod_ContainerStatuses pod))
           pods matched (pl_made c s))"

definition do_trap ::
  "policy_env \<Rightarrow> KivePolicy \<Rightarrow> KiveTrap \<Rightarrow> unit \<Rightarrow> (policy_state, unit control) go" where
  "do_trap env policy trap u s =
    (case KiveTrapHashID trap (ps_AlertVersion (kp_Spec policy)) of
       Panic \<Rightarrow> (Panic, s)
     | Error err \<Rightarrow> (Return (Go_on ()), s)
     | Return trapID \<Rightarrow>
         ctl_bind (ctl_for (do_match env policy trap trapID) (kt_MatchAny trap) [])
           (\<lambda>_. go_return (Go_on ())) s)"

definition do_policy :: "policy_env \<Rightarrow> KivePolicy \<Rightarrow> unit \<Rightarrow> (policy_state, unit control) go" where
  "do_policy env policy u s =
    (let cl = pe_cluster env in
     if policy_deleting policy then
       (if cl_contains cl (policy_finalizers policy) KivePolicyFinalizerName then
          (let c = PatchKivePolicy (with_policy_finalizers
                     (cl_remove cl (policy_finalizers policy) KivePolicyFinalizerName) policy) policy
           in (Return (Stop (cl_write cl (pl_calls s) c \<noteq> None)), pl_made c s))
        else (Return (Go_on ()), s))
     else if \<not> cl_contains cl (policy_finalizers policy) KivePolicyFinalizerName then
       (let c = PatchKivePolicy (with_policy_finalizers
                  (cl_add cl (policy_finalizers policy) KivePolicyFinalizerName) policy) policy
        in (Return (Stop (cl_write cl (pl_calls s) c \<noteq> None)), pl_made c s))
     else ctl_for (do_trap env policy) (ps_Traps (kp_Spec policy)) () s)"

text \<open>After the loops: the first \<open>KiveData\<close> is annotated, to have the others reconciled.\<close>

definition force_data :: "policy_env \<Rightarrow> (policy_state, bool) go" where
  "force_data env s =
    (let c = ListKiveData [] in
     case cl_data (pe_cluster env) (pl_calls s) c of
       Inl err \<Rightarrow> (Error (''Reconcile Error Failed to get KiveData resource: '' @ err), pl_made c s)
     | Inr [] \<Rightarrow> (Return False, pl_made c s)
     | Inr (kd # _) \<Rightarrow>
         (let s = pl_made c s in
          (Return False, pl_made (PatchKiveData (kd\<lparr>kd_ObjectMeta :=
             annotate ''force-reconcile'' (pe_now env (pl_calls s)) (kd_ObjectMeta kd)\<rparr>) kd) s)))"

definition KivePolicy_Reconcile :: "policy_env \<Rightarrow> (policy_state, bool) go" where
  "KivePolicy_Reconcile env s =
    (case cl_policies (pe_cluster env) (pl_calls s) ListKivePolicy of
       Inl err \<Rightarrow> (Error (''Reconcile Error Failed to get KivePolicy resource: '' @ err),
                     pl_made ListKivePolicy s)
     | Inr policies \<Rightarrow>
         go_bind (ctl_for (do_policy env) policies ()) (\<lambda>c.
           (case c of Stop requeue \<Rightarrow> go_return requeue | Go_on _ \<Rightarrow> force_data env))
           (pl_made ListKivePolicy s))"

section \<open>What the loops apply\<close>

lemma pl_made_simps [simp]:
  "pl_calls (pl_made c s) = pl_calls s @ [c]" "pl_runtime (pl_made c s) = pl_runtime s"
  by (simp_all add: pl_made_def)

text \<open>The containers the applied resources among some calls are of, as \<open>match_id\<close> names them.\<close>

definition data_match_id :: "KiveData \<Rightarrow> string" where
  "data_match_id kd = data_annotation kd ''pod-name'' @ data_annotation kd ''namespace'' @
     data_annotation kd ''container-name''"

fun applied :: "api_call list \<Rightarrow> KiveData list" where
  "applied [] = []"
| "applied (ApplyKiveData kd # cs) = kd # applied cs"
| "applied (_ # cs) = applied cs"

lemma applied_append [simp]: "applied (xs @ ys) = applied xs @ applied ys"
  by (induction xs rule: applied.induct) simp_all

text \<open>
  \<open>fresh P m s res\<close>: a computation that starts with the matched containers \<open>m\<close> makes calls whose
  applied resources satisfy \<open>P\<close> and are of distinct containers, none of them in \<open>m\<close>; when it goes
  on, they and those of \<open>m\<close> are among the matched ones.
\<close>

definition fresh ::
  "(KiveData \<Rightarrow> bool) \<Rightarrow> string list \<Rightarrow> policy_state \<Rightarrow> string list control outcome \<times> policy_state \<Rightarrow> bool" where
  "fresh P m s res \<longleftrightarrow> (\<exists>cs. pl_calls (snd res) = pl_calls s @ cs \<and> list_all P (applied cs) \<and>
     distinct (map data_match_id (applied cs)) \<and>
     data_match_id ` set (applied cs) \<inter> set m = {} \<and>
     (\<forall>m'. fst res = Return (Go_on m') \<longrightarrow> set m \<union> data_match_id ` set (applied cs) \<subseteq> set m'))"

lemma fresh_same: "pl_calls t = pl_calls s \<Longrightarrow> (\<And>m'. r = Return (Go_on m') \<Longrightarrow> set m \<subseteq> set m') \<Longrightarrow> fresh P m s (r, t)"
  unfolding fresh_def by (rule exI [of _ "[]"]) simp

lemma fresh_trans:
  assumes "fresh P m s (Return (Go_on m'), t)" and "fresh P m' t res"
  shows "fresh P m s res"
proof -
  from assms(1) obtain cs where cs: "pl_calls t = pl_calls s @ cs" "list_all P (applied cs)"
    "distinct (map data_match_id (applied cs))" "data_match_id ` set (applied cs) \<inter> set m = {}"
    "set m \<union> data_match_id ` set (applied cs) \<subseteq> set m'" by (auto simp: fresh_def)
  from assms(2) obtain ds where ds: "pl_calls (snd res) = pl_calls t @ ds" "list_all P (applied ds)"
    "distinct (map data_match_id (applied ds))" "data_match_id ` set (applied ds) \<inter> set m' = {}"
    "\<forall>n. fst res = Return (Go_on n) \<longrightarrow> set m' \<union> data_match_id ` set (applied ds) \<subseteq> set n"
    by (auto simp: fresh_def)
  have "data_match_id ` set (applied cs) \<inter> data_match_id ` set (applied ds) = {}"
    "data_match_id ` set (applied ds) \<inter> set m = {}" using cs(5) ds(4) by blast+
  moreover have "\<forall>n. fst res = Return (Go_on n) \<longrightarrow>
      set m \<union> (data_match_id ` set (applied cs) \<union> data_match_id ` set (applied ds)) \<subseteq> set n"
    using cs(5) ds(5) by blast
  ultimately show ?thesis using cs ds unfolding fresh_def
    by (intro exI [of _ "cs @ ds"]) (simp add: list_all_append image_Un Int_Un_distrib2)
qed

lemma fresh_for:
  assumes "\<And>x m s. x \<in> set xs \<Longrightarrow> fresh P m s (body x m s)"
  shows "fresh P m s (ctl_for body xs m s)"
  using assms
proof (induction xs arbitrary: m s)
  case Nil
  show ?case unfolding ctl_for.simps go_return_def by (rule fresh_same) simp_all
next
  case (Cons x xs)
  obtain r t where r: "body x m s = (r, t)" by fastforce
  with Cons.prems [of x m s] have first: "fresh P m s (r, t)" by simp
  show ?case
  proof (cases "\<exists>m'. r = Return (Go_on m')")
    case True
    then obtain m' where m': "r = Return (Go_on m')" by blast
    have "fresh P m' t (ctl_for body xs m' t)" using Cons by simp
    with fresh_trans [of P m s m' t] first m' r show ?thesis
      by (simp add: ctl_bind_def go_bind_def)
  next
    case False
    then have "ctl_for body (x # xs) m s = (r, t)"
      using r by (cases r) (auto simp: ctl_bind_def go_bind_def go_return_def split: control.split)
    with first show ?thesis by simp
  qed
qed

text \<open>What justifies applying a resource for a match of a trap.\<close>

definition justified ::
  "policy_env \<Rightarrow> KivePolicy \<Rightarrow> KiveTrap \<Rightarrow> string \<Rightarrow> KiveTrapMatch \<Rightarrow> Pod list \<Rightarrow> KiveData \<Rightarrow> bool" where
  "justified env policy trap trapID m pods kd \<longleftrightarrow>
     (\<exists>pod status cd. pod \<in> set pods \<and> status \<in> set (pod_ContainerStatuses pod) \<and>
        RegexMatch (pe_std env) (km_ContainerName m) (cs_Name status) = Return True \<and>
        pod_Phase pod = PodRunning \<and> cs_Ready status \<and> cd_IsFound cd \<and>
        cd_ID cd = cs_ContainerID status \<and> cd_Name cd = cs_Name status \<and>
        (\<exists>rt rt'. GetContainerData (ContainerRuntimes (pe_containers env)) status trap rt = (Return cd, rt')) \<and>
        kd = new_kive_data (pe_kernel_id env) policy trap trapID pod status cd)"

lemma found_data:
  assumes "GetContainerData (ContainerRuntimes env) st trap s = (Return d, t)" and "cd_IsFound d"
  shows "cs_Ready st \<and> cd_ID d = cs_ContainerID st \<and> cd_Name d = cs_Name st"
proof -
  have call: "GetContainerData [(''containerd'', Containerd_runtime env)] st trap s = (Return d, t)"
    using assms(1) by (simp add: ContainerRuntimes_def)
  have ready: "cs_Ready st"
  proof (rule ccontr)
    assume "\<not> cs_Ready st"
    from containerd.not_ready [OF this, of "''containerd''" env trap s] call
    have "d = empty_ContainerData\<lparr>cd_ShouldRequeue := True\<rparr>" by simp
    with assms(2) show False by (simp add: empty_ContainerData_def)
  qed
  have "d \<noteq> empty_ContainerData" using assms(2) by (auto simp: empty_ContainerData_def)
  with containerd.data_cases [OF call ready] ready show ?thesis by blast
qed

lemma new_data_annotations:
  "data_annotation (new_kive_data k p trap i pod st cd) ''pod-name'' = pod_Name pod"
  "data_annotation (new_kive_data k p trap i pod st cd) ''namespace'' = pod_Namespace pod"
  "data_annotation (new_kive_data k p trap i pod st cd) ''pod-ip'' = pod_IP pod"
  "data_annotation (new_kive_data k p trap i pod st cd) ''container-name'' = cd_Name cd"
  "data_annotation (new_kive_data k p trap i pod st cd) ''container-id'' = cd_ID cd"
  "data_annotation (new_kive_data k p trap i pod st cd) ''node-name'' = pod_NodeName pod"
  "data_annotation (new_kive_data k p trap i pod st cd) ''kive-alert-version'' =
     ps_AlertVersion (kp_Spec p)"
  "map_get (om_Labels (kd_ObjectMeta (new_kive_data k p trap i pod st cd))) TrapIDLabel = i"
  by (simp_all add: data_annotation_def new_kive_data_def map_get_def)

lemma do_container_fresh:
  assumes "pod \<in> set pods" and "st \<in> set (pod_ContainerStatuses pod)"
  shows "fresh (justified env p trap i m pods) matched s (do_container env p trap i m pod st matched s)"
proof (cases "RegexMatch (pe_std env) (km_ContainerName m) (cs_Name st) = Return True \<and>
    pod_Phase pod = PodRunning \<and> match_id pod st \<notin> set matched")
  case False
  then show ?thesis
    by (cases "RegexMatch (pe_std env) (km_ContainerName m) (cs_Name st)")
      (auto simp: do_container_def intro: fresh_same)
next
  case True
  obtain r rt where r: "GetContainerData (ContainerRuntimes (pe_containers env)) st trap (pl_runtime s)
      = (r, rt)" by fastforce
  show ?thesis
  proof (cases "\<exists>d. r = Return d \<and> \<not> cd_ShouldRequeue d \<and> cd_IsFound d")
    case False
    with True r show ?thesis
      by (cases r) (auto simp: do_container_def Let_def intro!: fresh_same)
  next
    case found: True
    then obtain d where d: "r = Return d" "\<not> cd_ShouldRequeue d" "cd_IsFound d" by blast
    let ?kd = "new_kive_data (pe_kernel_id env) p trap i pod st d"
    note data = found_data [OF r [unfolded d(1)] d(3)]
    have "justified env p trap i m pods ?kd" using assms True d(3) data r [unfolded d(1)]
      unfolding justified_def by blast
    moreover have "data_match_id ?kd = match_id pod st"
      using data by (simp add: data_match_id_def new_data_annotations match_id_def)
    ultimately show ?thesis using True r d unfolding fresh_def
      by (intro exI [of _ "[ApplyKiveData ?kd]"]) (auto simp: do_container_def Let_def)
  qed
qed

text \<open>The resources of one trap, whatever the pods' listing answers.\<close>

definition justified_by_trap :: "policy_env \<Rightarrow> KivePolicy \<Rightarrow> KiveTrap \<Rightarrow> string \<Rightarrow> KiveData \<Rightarrow> bool" where
  "justified_by_trap env policy trap trapID kd \<longleftrightarrow>
     (\<exists>m h pods. m \<in> set (kt_MatchAny trap) \<and>
        cl_pods (pe_cluster env) h (ListPods (km_MatchLabels m) (match_fields m)) = Inr pods \<and>
        justified env policy trap trapID m pods kd)"

lemma fresh_mono: "fresh P m s res \<Longrightarrow> (\<And>kd. P kd \<Longrightarrow> Q kd) \<Longrightarrow> fresh Q m s res"
  unfolding fresh_def by (auto simp: list_all_iff)

lemma do_match_fresh:
  assumes "m \<in> set (kt_MatchAny trap)"
  shows "fresh (justified_by_trap env p trap i) matched s (do_match env p trap i m matched s)"
proof -
  let ?c = "ListPods (km_MatchLabels m) (match_fields m)"
  have made: "fresh P matched s (Return (Go_on matched), pl_made ?c s)" for P
    unfolding fresh_def by (rule exI [of _ "[?c]"]) simp
  show ?thesis
  proof (cases "cl_pods (pe_cluster env) (pl_calls s) ?c")
    case (Inl e)
    with made show ?thesis by (simp add: do_match_def Let_def)
  next
    case (Inr pods)
    have "fresh (justified env p trap i m pods) matched (pl_made ?c s)
      (ctl_for (\<lambda>pod. ctl_for (do_container env p trap i m pod) (pod_ContainerStatuses pod))
        pods matched (pl_made ?c s))"
      by (intro fresh_for do_container_fresh)
    moreover have "justified_by_trap env p trap i kd" if "justified env p trap i m pods kd" for kd
      using that assms Inr unfolding justified_by_trap_def by blast
    ultimately have "fresh (justified_by_trap env p trap i) matched (pl_made ?c s)
        (do_match env p trap i m matched s)"
      using Inr by (auto simp: do_match_def Let_def elim!: fresh_mono)
    with made fresh_trans show ?thesis by blast
  qed
qed

lemma do_trap_applies:
  "\<exists>cs. pl_calls (snd (do_trap env p trap u s)) = pl_calls s @ cs \<and>
     distinct (map data_match_id (applied cs)) \<and>
     (\<forall>kd \<in> set (applied cs). \<exists>i. KiveTrapHashID trap (ps_AlertVersion (kp_Spec p)) = Return i \<and>
        justified_by_trap env p trap i kd)"
proof (cases "KiveTrapHashID trap (ps_AlertVersion (kp_Spec p))")
  case (Return i)
  obtain r t where r: "ctl_for (do_match env p trap i) (kt_MatchAny trap) [] s = (r, t)" by fastforce
  have "fresh (justified_by_trap env p trap i) [] s (r, t)"
    unfolding r [symmetric] by (intro fresh_for do_match_fresh)
  moreover have "snd (do_trap env p trap u s) = t"
    using Return r by (cases r) (auto simp: do_trap_def ctl_bind_def go_bind_def go_return_def
        split: control.split)
  ultimately show ?thesis using Return by (auto simp: fresh_def list_all_iff)
qed (simp_all add: do_trap_def)

section \<open>The whole reconciliation\<close>

definition applies_only :: "(KiveData \<Rightarrow> bool) \<Rightarrow> policy_state \<Rightarrow> policy_state \<Rightarrow> bool" where
  "applies_only P s t \<longleftrightarrow> (\<exists>cs. pl_calls t = pl_calls s @ cs \<and> (\<forall>kd \<in> set (applied cs). P kd))"

lemma applies_only_trans: "transp (applies_only P)"
proof (rule transpI)
  fix s t u assume "applies_only P s t" "applies_only P t u"
  then obtain cs ds where "pl_calls t = pl_calls s @ cs" "pl_calls u = pl_calls t @ ds"
    "\<forall>kd \<in> set (applied cs). P kd" "\<forall>kd \<in> set (applied ds). P kd" unfolding applies_only_def by blast
  then show "applies_only P s u" unfolding applies_only_def
    by (intro exI [of _ "cs @ ds"]) auto
qed

lemma applies_only_step:
  "applies_only P s s" "applied [c] = [] \<Longrightarrow> applies_only P s (pl_made c s)"
  unfolding applies_only_def by (rule exI [of _ "[]"], simp, rule exI [of _ "[c]"], simp)

lemma ctl_bind_steps:
  assumes "transp R" and "\<And>s. R s s" and "go_steps R m" and "\<And>x. go_steps R (f x)"
  shows "go_steps R (ctl_bind m f)"
  unfolding ctl_bind_def
  by (rule go_steps_bind [OF assms(1,3)])
    (use assms(2,4) in \<open>auto simp: go_steps_def go_return_def split: control.split\<close>)

lemma ctl_for_steps:
  assumes "transp R" and "\<And>s. R s s" and "\<And>x acc. x \<in> set xs \<Longrightarrow> go_steps R (body x acc)"
  shows "go_steps R (ctl_for body xs acc)"
  using assms(3)
proof (induction xs arbitrary: acc)
  case Nil
  then show ?case by (simp add: go_steps_def go_return_def assms(2))
next
  case (Cons x xs)
  then show ?case by (simp add: ctl_bind_steps [OF assms(1,2)])
qed

lemma applies_only_made:
  "applied [c] = [] \<Longrightarrow> applies_only P (pl_made c s) t \<Longrightarrow> applies_only P s t"
  using transpD [OF applies_only_trans applies_only_step(2)] .

text \<open>The resources a policy accounts for.\<close>

definition justified_by_policy :: "policy_env \<Rightarrow> KivePolicy \<Rightarrow> KiveData \<Rightarrow> bool" where
  "justified_by_policy env policy kd \<longleftrightarrow> \<not> policy_deleting policy \<and>
     (\<exists>trap \<in> set (ps_Traps (kp_Spec policy)). \<exists>i.
        KiveTrapHashID trap (ps_AlertVersion (kp_Spec policy)) = Return i \<and>
        justified_by_trap env policy trap i kd)"

lemma do_policy_steps: "go_steps (applies_only (justified_by_policy env p)) (do_policy env p u)"
proof (cases "policy_deleting p \<or>
    \<not> cl_contains (pe_cluster env) (policy_finalizers p) KivePolicyFinalizerName")
  case True
  then show ?thesis
    by (auto simp: go_steps_def do_policy_def Let_def applies_only_step)
next
  case False
  have "go_steps (applies_only (justified_by_policy env p)) (do_trap env p trap v)"
    if "trap \<in> set (ps_Traps (kp_Spec p))" for trap v
    unfolding go_steps_def
  proof
    fix s
    obtain cs where "pl_calls (snd (do_trap env p trap v s)) = pl_calls s @ cs"
      "\<forall>kd \<in> set (applied cs). \<exists>i. KiveTrapHashID trap (ps_AlertVersion (kp_Spec p)) = Return i \<and>
         justified_by_trap env p trap i kd"
      using do_trap_applies [of env p trap v s] by blast
    with that False show "applies_only (justified_by_policy env p) s (snd (do_trap env p trap v s))"
      unfolding applies_only_def justified_by_policy_def by blast
  qed
  then have "go_steps (applies_only (justified_by_policy env p))
      (ctl_for (do_trap env p) (ps_Traps (kp_Spec p)) u)"
    by (rule ctl_for_steps [OF applies_only_trans applies_only_step(1)])
  with False show ?thesis by (simp add: go_steps_def do_policy_def Let_def)
qed

lemma applies_only_mono:
  "(\<And>kd. P kd \<Longrightarrow> Q kd) \<Longrightarrow> go_steps (applies_only P) m \<Longrightarrow> go_steps (applies_only Q) m"
  unfolding go_steps_def applies_only_def by meson

lemma force_data_steps: "go_steps (applies_only P) (force_data env)"
proof -
  have "applies_only P s (pl_made (PatchKiveData x y) (pl_made (ListKiveData l) s))" for s x y l
    by (rule applies_only_made [OF _ applies_only_step(2)]) simp_all
  then show ?thesis
    by (auto simp: go_steps_def force_data_def Let_def applies_only_step split: sum.split list.split)
qed

lemma reconcile_applies:
  "case cl_policies (pe_cluster env) (pl_calls s) ListKivePolicy of
     Inl _ \<Rightarrow> snd (KivePolicy_Reconcile env s) = pl_made ListKivePolicy s
   | Inr policies \<Rightarrow>
       applies_only (\<lambda>kd. \<exists>p \<in> set policies. justified_by_policy env p kd) s
         (snd (KivePolicy_Reconcile env s))"
proof (cases "cl_policies (pe_cluster env) (pl_calls s) ListKivePolicy")
  case (Inl e)
  then show ?thesis by (simp add: KivePolicy_Reconcile_def)
next
  case (Inr policies)
  let ?P = "\<lambda>kd. \<exists>p \<in> set policies. justified_by_policy env p kd"
  have loop: "go_steps (applies_only ?P) (ctl_for (do_policy env) policies ())"
    by (rule ctl_for_steps [OF applies_only_trans applies_only_step(1)],
        rule applies_only_mono [OF _ do_policy_steps]) blast
  have rest: "go_steps (applies_only ?P) (case c of Stop rq \<Rightarrow> go_return rq | Go_on _ \<Rightarrow> force_data env)"
    for c :: "unit control"
    by (cases c) (simp_all add: force_data_steps, simp add: go_steps_def go_return_def applies_only_step)
  from go_steps_bind [OF applies_only_trans loop rest]
  have "applies_only ?P (pl_made ListKivePolicy s) (snd (KivePolicy_Reconcile env s))"
    using Inr by (simp add: go_steps_def KivePolicy_Reconcile_def)
  from applies_only_made [OF _ this] have "applies_only ?P s (snd (KivePolicy_Reconcile env s))" by simp
  with Inr show ?thesis by simp
qed

section \<open>A trap is served completely\<close>

lemma ctl_for_Cons_Go_on:
  "ctl_for body (x # xs) acc s = (Return (Go_on r), t) \<longleftrightarrow>
     (\<exists>a u. body x acc s = (Return (Go_on a), u) \<and> ctl_for body xs a u = (Return (Go_on r), t))"
proof -
  obtain q u where q: "body x acc s = (q, u)" by fastforce
  then show ?thesis
    by (cases q) (auto simp: ctl_bind_def go_bind_def go_return_def split: control.split)
qed

text \<open>A loop that goes on has run its body on every element, and what the body only adds to the
  carried value is there at the end.\<close>

lemma ctl_for_grows:
  assumes "ctl_for body xs acc s = (Return (Go_on r), t)"
    and "\<And>y a a' u v. y \<in> set xs \<Longrightarrow> body y a u = (Return (Go_on a'), v) \<Longrightarrow> set a \<subseteq> set a'"
  shows "set acc \<subseteq> set r"
  using assms
proof (induction xs arbitrary: acc s)
  case Nil
  then show ?case by (simp add: go_return_def)
next
  case (Cons x xs)
  from Cons.prems(1) obtain a u where a: "body x acc s = (Return (Go_on a), u)"
    "ctl_for body xs a u = (Return (Go_on r), t)" unfolding ctl_for_Cons_Go_on by blast
  have "set acc \<subseteq> set a" by (rule Cons.prems(2) [OF _ a(1)]) simp
  moreover have "set a \<subseteq> set r" by (rule Cons.IH [OF a(2)], rule Cons.prems(2)) simp_all
  ultimately show ?case by blast
qed

lemma ctl_for_covers:
  assumes "ctl_for body xs acc s = (Return (Go_on r), t)" and "x \<in> set xs"
    and "\<And>y a a' u v. y \<in> set xs \<Longrightarrow> body y a u = (Return (Go_on a'), v) \<Longrightarrow> set a \<subseteq> set a'"
  shows "\<exists>a u a' v. body x a u = (Return (Go_on a'), v) \<and> set a' \<subseteq> set r"
  using assms
proof (induction xs arbitrary: acc s)
  case (Cons y xs)
  from Cons.prems(1) obtain a u where a: "body y acc s = (Return (Go_on a), u)"
    "ctl_for body xs a u = (Return (Go_on r), t)" unfolding ctl_for_Cons_Go_on by blast
  have "set a \<subseteq> set r" by (rule ctl_for_grows [OF a(2)], rule Cons.prems(3)) simp_all
  show ?case
  proof (cases "x = y")
    case True
    with a(1) \<open>set a \<subseteq> set r\<close> show ?thesis by blast
  next
    case False
    show ?thesis by (rule Cons.IH [OF a(2)]) (use False Cons.prems(2,3) in simp, rule Cons.prems(3), simp_all)
  qed
qed simp

lemma do_container_grows:
  "do_container env p trap i m pod st a s = (Return (Go_on a'), t) \<Longrightarrow> set a \<subseteq> set a'"
  by (auto simp: do_container_def Let_def split: outcome.splits if_splits prod.splits)

lemma do_container_covers:
  "do_container env p trap i m pod st a s = (Return (Go_on a'), t) \<Longrightarrow>
   RegexMatch (pe_std env) (km_ContainerName m) (cs_Name st) = Return True \<Longrightarrow>
   pod_Phase pod = PodRunning \<and> match_id pod st \<in> set a'"
  by (auto simp: do_container_def Let_def split: outcome.splits if_splits prod.splits)

text \<open>When a match goes on, every container it selects runs and is among the matched ones.\<close>

lemma do_match_covers:
  assumes "do_match env p trap i m a s = (Return (Go_on a'), t)"
    and "cl_pods (pe_cluster env) (pl_calls s) (ListPods (km_MatchLabels m) (match_fields m)) = Inr pods"
    and "pod \<in> set pods" and "st \<in> set (pod_ContainerStatuses pod)"
    and "RegexMatch (pe_std env) (km_ContainerName m) (cs_Name st) = Return True"
  shows "pod_Phase pod = PodRunning \<and> match_id pod st \<in> set a'"
proof -
  let ?inner = "\<lambda>pod. ctl_for (do_container env p trap i m pod) (pod_ContainerStatuses pod)"
  from assms(1,2) have loop: "ctl_for ?inner pods a
      (pl_made (ListPods (km_MatchLabels m) (match_fields m)) s) = (Return (Go_on a'), t)"
    by (simp add: do_match_def Let_def)
  have grows: "set b \<subseteq> set b'" if "?inner pod b u = (Return (Go_on b'), v)" for pod b b' u v
    using ctl_for_grows [OF that] do_container_grows by blast
  obtain b u b' v where b: "?inner pod b u = (Return (Go_on b'), v)" "set b' \<subseteq> set a'"
    using ctl_for_covers [OF loop assms(3)] grows by blast
  obtain c w c' x where "do_container env p trap i m pod st c w = (Return (Go_on c'), x)" "set c' \<subseteq> set b'"
    using ctl_for_covers [OF b(1) assms(4)] do_container_grows by blast
  with do_container_covers [OF _ assms(5)] b(2) show ?thesis by blast
qed

end
