(* ===== verification/Policy_Steady.thy ===== *)
theory Policy_Steady
  imports Policy_Reconciler
begin

text \<open>
  A reference for \<open>KivePolicyReconciler.Reconcile\<close>: while the API server and the container runtime
  answer steadily, the resources it applies are a list comprehension over policies, traps, matches,
  pods and containers.  Then its results when they do not: no panic, and where it stops.
\<close>

section \<open>The reference\<close>

text \<open>The first element of each key, of those whose key has not been seen.\<close>

fun first_by :: "('a \<Rightarrow> 'k) \<Rightarrow> 'k set \<Rightarrow> 'a list \<Rightarrow> 'a list" where
  "first_by f seen [] = []"
| "first_by f seen (x # xs) =
     (if f x \<in> seen then first_by f seen xs else x # first_by f (insert (f x) seen) xs)"

definition selected ::
  "go_std \<Rightarrow> (strmap \<Rightarrow> strmap \<Rightarrow> Pod list) \<Rightarrow> KiveTrapMatch \<Rightarrow> (Pod \<times> ContainerStatus) list" where
  "selected std pods m = (if \<not> selectable (match_fields m) then [] else
     [(pod, st). pod \<leftarrow> pods (km_MatchLabels m) (match_fields m), st \<leftarrow> pod_ContainerStatuses pod,
        RegexMatch std (km_ContainerName m) (cs_Name st) = Return True])"

definition trap_containers ::
  "go_std \<Rightarrow> (strmap \<Rightarrow> strmap \<Rightarrow> Pod list) \<Rightarrow> KiveTrap \<Rightarrow> (Pod \<times> ContainerStatus) list" where
  "trap_containers std pods trap =
     first_by (\<lambda>(pod, st). match_id pod st) {} (concat (map (selected std pods) (kt_MatchAny trap)))"

definition made_data ::
  "policy_env \<Rightarrow> (ContainerStatus \<Rightarrow> KiveTrap \<Rightarrow> ContainerData outcome) \<Rightarrow> KivePolicy \<Rightarrow> KiveTrap \<Rightarrow> string \<Rightarrow>
   Pod \<times> ContainerStatus \<Rightarrow> KiveData list" where
  "made_data env look policy trap i c =
     (case look (snd c) trap of
        Return d \<Rightarrow>
          (if cd_IsFound d then [new_kive_data (pe_kernel_id env) policy trap i (fst c) (snd c) d] else [])
      | _ \<Rightarrow> [])"

definition trap_data ::
  "policy_env \<Rightarrow> (strmap \<Rightarrow> strmap \<Rightarrow> Pod list) \<Rightarrow> (ContainerStatus \<Rightarrow> KiveTrap \<Rightarrow> ContainerData outcome) \<Rightarrow>
   KivePolicy \<Rightarrow> KiveTrap \<Rightarrow> KiveData list" where
  "trap_data env pods look policy trap =
     (case KiveTrapHashID trap (ps_AlertVersion (kp_Spec policy)) of
        Return i \<Rightarrow> concat (map (made_data env look policy trap i) (trap_containers (pe_std env) pods trap))
      | _ \<Rightarrow> [])"

definition policies_data ::
  "policy_env \<Rightarrow> (strmap \<Rightarrow> strmap \<Rightarrow> Pod list) \<Rightarrow> (ContainerStatus \<Rightarrow> KiveTrap \<Rightarrow> ContainerData outcome) \<Rightarrow>
   KivePolicy list \<Rightarrow> KiveData list" where
  "policies_data env pods look policies =
     [kd. policy \<leftarrow> policies, \<not> policy_deleting policy, trap \<leftarrow> ps_Traps (kp_Spec policy),
        kd \<leftarrow> trap_data env pods look policy trap]"

section \<open>Steady answers\<close>

text \<open>
  In a runtime state with \<open>P\<close>, which the lookup keeps, the lookup for a container and a trap has the
  result \<open>look\<close> gives, which is not a panic and does not ask to be tried again.
\<close>

definition answers ::
  "policy_env \<Rightarrow> (Containerd \<Rightarrow> bool) \<Rightarrow> (ContainerStatus \<Rightarrow> KiveTrap \<Rightarrow> ContainerData outcome) \<Rightarrow>
   ContainerStatus \<Rightarrow> KiveTrap \<Rightarrow> bool" where
  "answers env P look st trap \<longleftrightarrow> look st trap \<noteq> Panic \<and>
     (\<forall>d. look st trap = Return d \<longrightarrow> \<not> cd_ShouldRequeue d) \<and>
     (\<forall>rt. P rt \<longrightarrow> (\<exists>rt'. P rt' \<and>
        GetContainerData (ContainerRuntimes (pe_containers env)) st trap rt = (look st trap, rt')))"

text \<open>Every container a trap selects runs and is looked up steadily.\<close>

definition trap_ready ::
  "policy_env \<Rightarrow> (Containerd \<Rightarrow> bool) \<Rightarrow> (ContainerStatus \<Rightarrow> KiveTrap \<Rightarrow> ContainerData outcome) \<Rightarrow>
   (strmap \<Rightarrow> strmap \<Rightarrow> Pod list) \<Rightarrow> KiveTrap \<Rightarrow> bool" where
  "trap_ready env P look pods trap \<longleftrightarrow>
     (\<forall>m \<in> set (kt_MatchAny trap). \<forall>(pod, st) \<in> set (selected (pe_std env) pods m).
        pod_Phase pod = PodRunning \<and> answers env P look st trap)"

text \<open>A policy with the finalizer, or one that is being deleted and has lost it.\<close>

definition policy_settled :: "cluster \<Rightarrow> KivePolicy \<Rightarrow> bool" where
  "policy_settled cl p \<longleftrightarrow>
     cl_contains cl (policy_finalizers p) KivePolicyFinalizerName = (\<not> policy_deleting p)"

section \<open>Loops that go on\<close>

text \<open>A step that applies some resources and keeps the runtime in \<open>P\<close>.\<close>

definition adds :: "(Containerd \<Rightarrow> bool) \<Rightarrow> KiveData list \<Rightarrow> policy_state \<Rightarrow> policy_state \<Rightarrow> bool" where
  "adds P kds s t \<longleftrightarrow> applied (pl_calls t) = applied (pl_calls s) @ kds \<and> (P (pl_runtime s) \<longrightarrow> P (pl_runtime t))"

lemma adds_trans: "adds P xs s t \<Longrightarrow> adds P ys t u \<Longrightarrow> adds P (xs @ ys) s u"
  by (simp add: adds_def)

lemma adds_made: "applied [c] = [] \<Longrightarrow> adds P [] s (pl_made c s)"
  by (simp add: adds_def)

text \<open>The resources of a loop whose body, on \<open>x\<close> with the seen keys \<open>S\<close>, applies \<open>e x S\<close> and has seen
  \<open>g x\<close> in addition.\<close>

fun adds_for :: "('x \<Rightarrow> 'k set \<Rightarrow> KiveData list) \<Rightarrow> ('x \<Rightarrow> 'k set) \<Rightarrow> 'k set \<Rightarrow> 'x list \<Rightarrow> KiveData list" where
  "adds_for e g S [] = []"
| "adds_for e g S (x # xs) = e x S @ adds_for e g (S \<union> g x) xs"

lemma ctl_for_adds:
  assumes "\<And>x acc s. x \<in> set xs \<Longrightarrow> P (pl_runtime s) \<Longrightarrow> \<exists>acc' t.
      body x acc s = (Return (Go_on acc'), t) \<and> keys acc' = keys acc \<union> g x \<and> adds P (e x (keys acc)) s t"
    and "P (pl_runtime s)"
  shows "\<exists>acc' t. ctl_for body xs acc s = (Return (Go_on acc'), t) \<and>
    keys acc' = keys acc \<union> (\<Union>x \<in> set xs. g x) \<and> adds P (adds_for e g (keys acc) xs) s t"
  using assms
proof (induction xs arbitrary: acc s)
  case Nil
  then show ?case by (simp add: go_return_def adds_def)
next
  case (Cons x xs)
  obtain a u where a: "body x acc s = (Return (Go_on a), u)" "keys a = keys acc \<union> g x"
    "adds P (e x (keys acc)) s u" using Cons.prems(1) [of x s acc] Cons.prems(2) by auto
  have "P (pl_runtime u)" using a(3) Cons.prems(2) by (simp add: adds_def)
  with Cons.IH [of u a] Cons.prems(1) obtain a' t where a': "ctl_for body xs a u = (Return (Go_on a'), t)"
    "keys a' = keys a \<union> (\<Union>x \<in> set xs. g x)" "adds P (adds_for e g (keys a) xs) u t" by auto
  have "ctl_for body (x # xs) acc s = (Return (Go_on a'), t)"
    using a(1) a'(1) unfolding ctl_for_Cons_Go_on by blast
  with a a' adds_trans show ?case by fastforce
qed

lemma adds_for_unit: "adds_for (\<lambda>x _. e x) g S xs = concat (map e xs)"
  by (induction xs arbitrary: S) simp_all

lemma ctl_for_adds_unit:
  assumes "\<And>x u s. x \<in> set xs \<Longrightarrow> P (pl_runtime s) \<Longrightarrow>
      \<exists>t. body x u s = (Return (Go_on ()), t) \<and> adds P (e x) s t"
    and "P (pl_runtime s)"
  shows "\<exists>t. ctl_for body xs u s = (Return (Go_on ()), t) \<and> adds P (concat (map e xs)) s t"
  using ctl_for_adds [where P = P and body = body and keys = "\<lambda>_. {}" and g = "\<lambda>_. {}" and
      e = "\<lambda>x _. e x" and xs = xs and s = s and acc = u] assms
  by (simp add: adds_for_unit)

lemma adds_for_first:
  "adds_for (\<lambda>x S. if f x \<in> S then [] else e x) (\<lambda>x. {f x}) S xs = concat (map e (first_by f S xs))"
  by (induction xs arbitrary: S) (simp_all add: insert_absorb)

lemma first_by_append: "first_by f S (xs @ ys) = first_by f S xs @ first_by f (S \<union> f ` set xs) ys"
  by (induction xs arbitrary: S) (auto simp: insert_absorb)

lemma adds_for_concat:
  "adds_for (\<lambda>x S. concat (map e (first_by f S (h x)))) (\<lambda>x. f ` set (h x)) S xs =
   concat (map e (first_by f S (concat (map h xs))))"
  by (induction xs arbitrary: S) (simp_all add: first_by_append)

text \<open>Two nested loops are one over the pairs.\<close>

lemma ctl_for_append: "ctl_for body (xs @ ys) acc = ctl_bind (ctl_for body xs acc) (ctl_for body ys)"
proof (induction xs arbitrary: acc)
  case (Cons x xs)
  show ?case
  proof
    fix s
    obtain r t where "body x acc s = (r, t)" by fastforce
    then show "ctl_for body ((x # xs) @ ys) acc s =
        ctl_bind (ctl_for body (x # xs) acc) (ctl_for body ys) s"
      using Cons by (cases r) (auto simp: ctl_bind_def go_bind_def go_return_def split: control.split)
  qed
qed (simp add: fun_eq_iff ctl_bind_def go_bind_def go_return_def)

lemma ctl_for_pairs:
  "ctl_for (\<lambda>x. ctl_for (body x) (h x)) xs acc =
   ctl_for (\<lambda>(x, y). body x y) (concat (map (\<lambda>x. map (Pair x) (h x)) xs)) acc"
proof (induction xs arbitrary: acc)
  case (Cons x xs)
  have "ctl_for (\<lambda>(x, y). body x y) (map (Pair x) ys) = ctl_for (body x) ys" for ys
    by (induction ys) (intro ext, simp)+
  moreover from Cons have "ctl_for (\<lambda>x. ctl_for (body x) (h x)) xs =
      ctl_for (\<lambda>(x, y). body x y) (concat (map (\<lambda>x. map (Pair x) (h x)) xs))" by (rule ext)
  ultimately show ?case by (simp add: ctl_for_append)
qed simp

section \<open>A steady cluster is served exactly\<close>

lemma do_container_selected:
  assumes "RegexMatch (pe_std env) (km_ContainerName m) (cs_Name st) = Return True"
    and "pod_Phase pod = PodRunning" and "answers env P look st trap" and "P (pl_runtime s)"
  shows "\<exists>acc' t. do_container env p trap i m pod st acc s = (Return (Go_on acc'), t) \<and>
    set acc' = set acc \<union> {match_id pod st} \<and>
    adds P (if match_id pod st \<in> set acc then [] else made_data env look p trap i (pod, st)) s t"
proof (cases "match_id pod st \<in> set acc")
  case True
  with assms(1,2) show ?thesis by (auto simp: do_container_def adds_def)
next
  case False
  from assms(3,4) obtain rt' where rt': "P rt'" "look st trap \<noteq> Panic"
    "GetContainerData (ContainerRuntimes (pe_containers env)) st trap (pl_runtime s) = (look st trap, rt')"
    "\<And>d. look st trap = Return d \<Longrightarrow> \<not> cd_ShouldRequeue d" by (auto simp: answers_def)
  with False assms(1,2) show ?thesis
    by (cases "look st trap") (auto simp: do_container_def adds_def made_data_def Let_def)
qed

lemma do_container_other:
  "RegexMatch (pe_std env) (km_ContainerName m) (cs_Name st) \<noteq> Return True \<Longrightarrow>
   do_container env p trap i m pod st acc s = (Return (Go_on acc), s)"
  by (cases "RegexMatch (pe_std env) (km_ContainerName m) (cs_Name st)")
    (auto simp: do_container_def RegexMatch_def split: sum.splits if_splits)

lemma ctl_for_filter:
  assumes "\<And>x acc s. x \<in> set xs \<Longrightarrow> \<not> Q x \<Longrightarrow> body x acc s = (Return (Go_on acc), s)"
  shows "ctl_for body xs acc = ctl_for body (filter Q xs) acc"
  using assms
proof (induction xs arbitrary: acc)
  case (Cons x xs)
  show ?case
  proof (cases "Q x")
    case True
    have "ctl_for body xs = ctl_for body (filter Q xs)" using Cons by (intro ext) simp
    with True show ?thesis by simp
  next
    case False
    with Cons.prems have "body x acc = go_return (Go_on acc)" by (auto simp: go_return_def)
    with False Cons show ?thesis by (intro ext) (simp add: ctl_bind_def go_bind_def go_return_def)
  qed
qed simp

lemma selected_filter:
  assumes "selectable (match_fields m)"
  shows "selected std pods m = filter (\<lambda>(pod, st). RegexMatch std (km_ContainerName m) (cs_Name st) = Return True)
     (concat (map (\<lambda>pod. map (Pair pod) (pod_ContainerStatuses pod)) (pods (km_MatchLabels m) (match_fields m))))"
proof -
  have "concat (map (\<lambda>st. if RegexMatch std n (cs_Name st) = Return True then [(pod, st)] else []) sts) =
    filter (\<lambda>(pod, st). RegexMatch std n (cs_Name st) = Return True) (map (Pair pod) sts)" for n and sts :: "ContainerStatus list" and pod :: Pod
    by (induction sts) simp_all
  with assms show ?thesis by (simp add: selected_def filter_concat comp_def)
qed

lemma do_match_steady:
  assumes "steady (pe_cluster env) data policies pods" and "P (pl_runtime s)"
    and "\<forall>(pod, st) \<in> set (selected (pe_std env) pods m).
        pod_Phase pod = PodRunning \<and> answers env P look st trap"
  shows "\<exists>acc' t. do_match env p trap i m acc s = (Return (Go_on acc'), t) \<and>
    set acc' = set acc \<union> (\<lambda>(pod, st). match_id pod st) ` set (selected (pe_std env) pods m) \<and>
    adds P (concat (map (made_data env look p trap i)
      (first_by (\<lambda>(pod, st). match_id pod st) (set acc) (selected (pe_std env) pods m)))) s t"
proof -
  let ?c = "ListPods (km_MatchLabels m) (match_fields m)" and ?sel = "selected (pe_std env) pods m"
  let ?body = "\<lambda>(pod, st). do_container env p trap i m pod st" and ?f = "\<lambda>(pod, st). match_id pod st"
  have "do_match env p trap i m acc s = ctl_for ?body ?sel acc (pl_made ?c s)"
  proof (cases "selectable (match_fields m)")
    case True
    have pods: "cl_pods (pe_cluster env) (pl_calls s) ?c = Inr (pods (km_MatchLabels m) (match_fields m))"
      by (simp add: steady_listing [OF assms(1)] True)
    show ?thesis
      unfolding do_match_def Let_def pods selected_filter [OF True] sum.case ctl_for_pairs
      by (subst ctl_for_filter) (auto simp: do_container_other)
  next
    case False
    moreover have "refuses_other_fields (pe_cluster env)" using assms(1) by (simp add: steady_def)
    ultimately obtain e where "cl_pods (pe_cluster env) (pl_calls s) ?c = Inl e" using refused by blast
    with False show ?thesis by (simp add: do_match_def selected_def Let_def go_return_def)
  qed
  moreover have "\<exists>acc' t. ctl_for ?body ?sel acc (pl_made ?c s) = (Return (Go_on acc'), t) \<and>
      set acc' = set acc \<union> (\<Union>x \<in> set ?sel. {?f x}) \<and>
      adds P (adds_for (\<lambda>x S. if ?f x \<in> S then [] else made_data env look p trap i x)
        (\<lambda>x. {?f x}) (set acc) ?sel) (pl_made ?c s) t"
  proof (rule ctl_for_adds [where P = P])
    fix x :: "Pod \<times> ContainerStatus" and acc' and u :: policy_state assume x: "x \<in> set ?sel" "P (pl_runtime u)"
    obtain pod st where "x = (pod, st)" by fastforce
    with x assms(3) do_container_selected [of env m st pod P look trap u p i acc']
    show "\<exists>acc'' t. ?body x acc' u = (Return (Go_on acc''), t) \<and> set acc'' = set acc' \<union> {?f x} \<and>
        adds P (if ?f x \<in> set acc' then [] else made_data env look p trap i x) u t"
      by (fastforce simp: selected_def split: if_splits)
  qed (simp add: assms(2))
  moreover have "adds P [] s (pl_made ?c s)" by (simp add: adds_made)
  ultimately show ?thesis using adds_trans [of P "[]" s "pl_made ?c s"]
    by (fastforce simp: adds_for_first)
qed

lemma do_trap_steady:
  assumes "steady (pe_cluster env) data policies pods"
    and "P (pl_runtime s)"
    and "trap_ready env P look pods trap"
  shows "\<exists>t. do_trap env p trap u s = (Return (Go_on ()), t) \<and> adds P (trap_data env pods look p trap) s t"
proof (cases "KiveTrapHashID trap (ps_AlertVersion (kp_Spec p))")
  case (Return i)
  let ?f = "\<lambda>(pod, st). match_id pod st" and ?sel = "selected (pe_std env) pods"
  let ?e = "\<lambda>m S. concat (map (made_data env look p trap i) (first_by ?f S (?sel m)))"
  have "\<exists>acc' t. ctl_for (do_match env p trap i) (kt_MatchAny trap) [] s = (Return (Go_on acc'), t) \<and>
      set acc' = set [] \<union> (\<Union>m \<in> set (kt_MatchAny trap). ?f ` set (?sel m)) \<and>
      adds P (adds_for ?e (\<lambda>m. ?f ` set (?sel m)) (set []) (kt_MatchAny trap)) s t"
  proof (rule ctl_for_adds [where P = P, OF _ assms(2)])
    fix m acc and v :: policy_state assume "m \<in> set (kt_MatchAny trap)" "P (pl_runtime v)"
    with assms(3) show "\<exists>acc' t. do_match env p trap i m acc v = (Return (Go_on acc'), t) \<and>
        set acc' = set acc \<union> ?f ` set (?sel m) \<and> adds P (?e m (set acc)) v t"
      by (intro do_match_steady [OF assms(1)]) (auto simp: trap_ready_def)
  qed
  then obtain acc' t where "ctl_for (do_match env p trap i) (kt_MatchAny trap) [] s = (Return (Go_on acc'), t)"
    "adds P (trap_data env pods look p trap) s t"
    using Return by (auto simp: adds_for_concat trap_data_def trap_containers_def)
  with Return show ?thesis by (simp add: do_trap_def ctl_bind_def go_bind_def go_return_def)
next
  case (Error e)
  then show ?thesis by (simp add: do_trap_def trap_data_def adds_def)
next
  case Panic
  with hash_id_no_panic show ?thesis by simp
qed

lemma policies_steady:
  assumes "steady (pe_cluster env) data policies pods"
    and "P (pl_runtime s)"
    and "\<forall>p \<in> set ps. policy_settled (pe_cluster env) p"
    and "\<forall>p \<in> set ps. \<not> policy_deleting p \<longrightarrow>
      (\<forall>trap \<in> set (ps_Traps (kp_Spec p)). trap_ready env P look pods trap)"
  shows "\<exists>t. ctl_for (do_policy env) ps () s = (Return (Go_on ()), t) \<and>
    adds P (policies_data env pods look ps) s t"
proof -
  let ?traps = "\<lambda>p. concat (map (trap_data env pods look p) (ps_Traps (kp_Spec p)))"
  have traps: "\<exists>t. ctl_for (do_trap env p) (ps_Traps (kp_Spec p)) u v = (Return (Go_on ()), t) \<and>
      adds P (?traps p) v t" if "p \<in> set ps" "\<not> policy_deleting p" "P (pl_runtime v)" for p u v
    by (rule ctl_for_adds_unit [where P = P]) (use that assms(4) do_trap_steady [OF assms(1)] in auto)
  have "\<exists>t. ctl_for (do_policy env) ps () s = (Return (Go_on ()), t) \<and>
      adds P (concat (map (\<lambda>p. if policy_deleting p then [] else ?traps p) ps)) s t"
  proof (rule ctl_for_adds_unit [where P = P, OF _ assms(2)])
    fix p u and v :: policy_state assume "p \<in> set ps" "P (pl_runtime v)"
    with assms(3) traps [of p v u] show "\<exists>t. do_policy env p u v = (Return (Go_on ()), t) \<and>
        adds P (if policy_deleting p then [] else ?traps p) v t"
      by (cases "policy_deleting p") (auto simp: do_policy_def policy_settled_def Let_def adds_def)
  qed
  moreover have "concat (map (\<lambda>p. if policy_deleting p then [] else ?traps p) ps) =
      policies_data env pods look ps"
    by (induction ps) (simp_all add: policies_data_def)
  ultimately show ?thesis by simp
qed

section \<open>However the calls answer\<close>

text \<open>
  From a runtime whose connection has a client, a computation ends in one without an error or a panic,
  and if it stops, with a \<open>Requeue\<close> in \<open>Q\<close>.
\<close>

definition ctl_ok :: "bool set \<Rightarrow> (policy_state, 'a control) go \<Rightarrow> bool" where
  "ctl_ok Q m \<longleftrightarrow> (\<forall>s. client_inv (pl_runtime s) \<longrightarrow>
     client_inv (pl_runtime (snd (m s))) \<and>
     (\<exists>c. fst (m s) = Return c \<and> (\<forall>rq. c = Stop rq \<longrightarrow> rq \<in> Q)))"

named_theorems ctl_ok_intro

lemma ctl_ok_return [ctl_ok_intro]: "ctl_ok Q (go_return (Go_on x))"
  by (simp add: ctl_ok_def go_return_def)

lemma ctl_ok_bind [ctl_ok_intro]:
  assumes "ctl_ok Q m" and "\<And>x. ctl_ok Q (f x)"
  shows "ctl_ok Q (ctl_bind m f)"
  unfolding ctl_ok_def
proof (intro allI impI)
  fix s :: policy_state assume s: "client_inv (pl_runtime s)"
  obtain r t where r: "m s = (r, t)" by fastforce
  with assms(1) s obtain c where c: "r = Return c" "client_inv (pl_runtime t)"
    "\<And>rq. c = Stop rq \<Longrightarrow> rq \<in> Q" by (auto simp: ctl_ok_def dest!: spec [of _ s])
  with assms(2) r show "client_inv (pl_runtime (snd (ctl_bind m f s))) \<and>
      (\<exists>c. fst (ctl_bind m f s) = Return c \<and> (\<forall>rq. c = Stop rq \<longrightarrow> rq \<in> Q))"
    by (cases c) (simp_all add: ctl_bind_def go_bind_def go_return_def ctl_ok_def)
qed

lemma ctl_ok_for [ctl_ok_intro]:
  "(\<And>x acc. x \<in> set xs \<Longrightarrow> ctl_ok Q (body x acc)) \<Longrightarrow> ctl_ok Q (ctl_for body xs acc)"
proof (induction xs arbitrary: acc)
  case (Cons x xs)
  then show ?case by (simp add: ctl_ok_bind)
qed (simp add: ctl_ok_return)

lemma do_container_ok [ctl_ok_intro]: "ctl_ok {True} (do_container env p trap i m pod st acc)"
  unfolding ctl_ok_def
proof (intro allI impI)
  fix s :: policy_state assume s: "client_inv (pl_runtime s)"
  obtain r rt where r: "GetContainerData (ContainerRuntimes (pe_containers env)) st trap (pl_runtime s) =
      (r, rt)" by fastforce
  with GetContainerData_inv [OF s r] s
  show "client_inv (pl_runtime (snd (do_container env p trap i m pod st acc s))) \<and>
      (\<exists>c. fst (do_container env p trap i m pod st acc s) = Return c \<and> (\<forall>rq. c = Stop rq \<longrightarrow> rq \<in> {True}))"
    by (cases r; cases "RegexMatch (pe_std env) (km_ContainerName m) (cs_Name st)")
      (auto simp: do_container_def Let_def RegexMatch_def split: sum.splits if_splits)
qed

lemma do_match_ok [ctl_ok_intro]: "ctl_ok {True} (do_match env p trap i m acc)"
proof -
  have loop: "ctl_ok {True}
      (ctl_for (\<lambda>pod. ctl_for (do_container env p trap i m pod) (pod_ContainerStatuses pod)) pods acc)" for pods
    by (intro ctl_ok_intro)
  show ?thesis unfolding ctl_ok_def
  proof (intro allI impI)
    fix s :: policy_state assume "client_inv (pl_runtime s)"
    then show "client_inv (pl_runtime (snd (do_match env p trap i m acc s))) \<and>
        (\<exists>c. fst (do_match env p trap i m acc s) = Return c \<and> (\<forall>rq. c = Stop rq \<longrightarrow> rq \<in> {True}))"
      using loop unfolding ctl_ok_def
      by (cases "cl_pods (pe_cluster env) (pl_calls s) (ListPods (km_MatchLabels m) (match_fields m))")
        (simp_all add: do_match_def Let_def)
  qed
qed

lemma do_trap_ok:
  shows "ctl_ok {True} (do_trap env p trap u)"
proof (cases "KiveTrapHashID trap (ps_AlertVersion (kp_Spec p))")
  case (Return i)
  have "ctl_ok {True} (ctl_bind (ctl_for (do_match env p trap i) (kt_MatchAny trap) [])
      (\<lambda>_. go_return (Go_on ())))" by (intro ctl_ok_intro)
  with Return show ?thesis by (simp add: ctl_ok_def do_trap_def)
qed (use hash_id_no_panic in \<open>auto simp: ctl_ok_def do_trap_def\<close>)

lemma do_policy_ok:
  assumes "policy_settled (pe_cluster env) p \<or> Q = UNIV"
    and "True \<in> Q"
  shows "ctl_ok Q (do_policy env p u)"
proof -
  have mono: "ctl_ok {True} m \<Longrightarrow> ctl_ok Q m" for m :: "(policy_state, unit control) go"
    using assms(2) unfolding ctl_ok_def by blast
  have "ctl_ok {True} (ctl_for (do_trap env p) (ps_Traps (kp_Spec p)) ())"
    using do_trap_ok by (intro ctl_ok_for) auto
  from mono [OF this] assms(1) show ?thesis
    by (auto simp: ctl_ok_def do_policy_def policy_settled_def Let_def)
qed

lemma policies_ok:
  assumes "(\<forall>p \<in> set ps. policy_settled (pe_cluster env) p) \<or> Q = UNIV"
    and "True \<in> Q"
  shows "ctl_ok Q (ctl_for (do_policy env) ps ())"
  using assms by (intro ctl_ok_for do_policy_ok) auto

text \<open>A loop that goes on has run on each element.\<close>

lemma ctl_for_ran:
  "ctl_for body xs acc s = (Return (Go_on r), t) \<Longrightarrow> x \<in> set xs \<Longrightarrow>
   \<exists>a u a' v. body x a u = (Return (Go_on a'), v)"
proof (induction xs arbitrary: acc s)
  case (Cons y xs)
  from Cons.prems(1) obtain a u where "body y acc s = (Return (Go_on a), u)"
    "ctl_for body xs a u = (Return (Go_on r), t)" unfolding ctl_for_Cons_Go_on by blast
  with Cons.IH Cons.prems(2) show ?case by auto
qed simp

lemma do_trap_Go_on:
  assumes "do_trap env p trap u s = (Return (Go_on x), t)"
    and "KiveTrapHashID trap (ps_AlertVersion (kp_Spec p)) = Return i"
  shows "\<exists>acc t'. ctl_for (do_match env p trap i) (kt_MatchAny trap) [] s = (Return (Go_on acc), t')"
proof -
  obtain q t' where q: "ctl_for (do_match env p trap i) (kt_MatchAny trap) [] s = (q, t')" by fastforce
  with assms show ?thesis
    by (cases q) (auto simp: do_trap_def ctl_bind_def go_bind_def go_return_def split: control.splits)
qed

lemma reconcile_steady:
  assumes "steady (pe_cluster env) data policies pods"
    and "P (pl_runtime s)"
    and "\<forall>p \<in> set policies. policy_settled (pe_cluster env) p"
    and "\<forall>p \<in> set policies. \<not> policy_deleting p \<longrightarrow>
      (\<forall>trap \<in> set (ps_Traps (kp_Spec p)). trap_ready env P look pods trap)"
  shows "\<exists>t. KivePolicy_Reconcile env s = (Return False, t) \<and>
    applied (pl_calls t) = applied (pl_calls s) @ policies_data env pods look policies"
proof -
  let ?s = "pl_made ListKivePolicy s"
  obtain t where t: "ctl_for (do_policy env) policies () ?s = (Return (Go_on ()), t)"
    "adds P (policies_data env pods look policies) ?s t"
    using policies_steady [OF assms(1) _ assms(3,4), of ?s] assms(2) by auto
  have "cl_policies (pe_cluster env) (pl_calls s) ListKivePolicy = Inr policies"
    "cl_data (pe_cluster env) h (ListKiveData []) = Inr (data [])" for h
    using assms(1) by (simp_all add: steady_def)
  with t show ?thesis
    by (simp add: KivePolicy_Reconcile_def go_bind_def force_data_def adds_def Let_def split: list.split)
qed

section \<open>Properties\<close>

text \<open>C4: while the API server and the container runtime answer steadily, every policy is settled and
  every selected container runs, a reconciliation ends without a requeue, and the resources it
  applies are exactly, in this order, one for each policy that is not being deleted, each of its
  traps with an id and each container that some match of the trap selects, at its first
  selection, whose lookup finds the file.\<close>

theorem policy_reconcile_exact:
  assumes "steady (pe_cluster env) data policies pods"
    and "P (pl_runtime s)"
    and "\<forall>p \<in> set policies. policy_settled (pe_cluster env) p"
    and "\<forall>p \<in> set policies. \<not> policy_deleting p \<longrightarrow>
      (\<forall>trap \<in> set (ps_Traps (kp_Spec p)). trap_ready env P look pods trap)"
  shows "\<exists>t. KivePolicy_Reconcile env s = (Return False, t) \<and>
    applied (pl_calls t) = applied (pl_calls s) @ policies_data env pods look policies"
  using reconcile_steady [OF assms] .

text \<open>C10: whatever the calls answer, every resource a reconciliation applies is for a policy it listed
  that is not being deleted, a trap of that policy with an id, and a container that a match of the
  trap selects among the pods listed for it, which runs in a running pod and whose lookup found
  the file: its contents are those of policy, trap, pod and container.\<close>

theorem policy_applies_justified:
  assumes "cl_policies (pe_cluster env) (pl_calls s) ListKivePolicy = Inr policies"
  shows "\<exists>cs. pl_calls (snd (KivePolicy_Reconcile env s)) = pl_calls s @ cs \<and>
    (\<forall>kd. ApplyKiveData kd \<in> set cs \<longrightarrow> (\<exists>p trap i m h pods pod st d.
       p \<in> set policies \<and> \<not> policy_deleting p \<and> trap \<in> set (ps_Traps (kp_Spec p)) \<and>
       KiveTrapHashID trap (ps_AlertVersion (kp_Spec p)) = Return i \<and>
       m \<in> set (kt_MatchAny trap) \<and>
       cl_pods (pe_cluster env) h (ListPods (km_MatchLabels m) (match_fields m)) = Inr pods \<and>
       pod \<in> set pods \<and> st \<in> set (pod_ContainerStatuses pod) \<and>
       RegexMatch (pe_std env) (km_ContainerName m) (cs_Name st) = Return True \<and>
       pod_Phase pod = PodRunning \<and> cs_Ready st \<and> cd_IsFound d \<and>
       cd_ID d = cs_ContainerID st \<and> cd_Name d = cs_Name st \<and>
       (\<exists>rt rt'. GetContainerData (ContainerRuntimes (pe_containers env)) st trap rt = (Return d, rt')) \<and>
       kd = new_kive_data (pe_kernel_id env) p trap i pod st d))"
proof -
  have mem: "ApplyKiveData kd \<in> set cs \<Longrightarrow> kd \<in> set (applied cs)" for kd cs
    by (induction cs rule: applied.induct) auto
  from reconcile_applies [of env s] assms show ?thesis
    unfolding applies_only_def justified_by_policy_def justified_by_trap_def justified_def
    by (fastforce dest!: mem)
qed

text \<open>One trap applies at most one resource for a container, as pod, namespace and container name
  concatenated identify it: whatever the calls answer, the resources of a trap differ in that.\<close>

lemma one_resource_per_container:
  "\<exists>cs. pl_calls (snd (do_trap env p trap u s)) = pl_calls s @ cs \<and>
     distinct (map data_match_id (applied cs))"
  using do_trap_applies [of env p trap u s] by blast

text \<open>C28: a reconciliation never panics and keeps the runtime's connection with a client; it ends with
  an error only when the policies, or after them the resources, cannot be listed.\<close>

theorem policy_reconcile_errors:
  assumes "client_inv (pl_runtime s)"
    and "KivePolicy_Reconcile env s = (r, t)"
  shows "client_inv (pl_runtime t) \<and> r \<noteq> Panic \<and>
    (\<forall>e. r = Error e \<longrightarrow> (\<exists>h err.
       cl_policies (pe_cluster env) h ListKivePolicy = Inl err \<and>
         e = ''Reconcile Error Failed to get KivePolicy resource: '' @ err \<or>
       cl_data (pe_cluster env) h (ListKiveData []) = Inl err \<and>
         e = ''Reconcile Error Failed to get KiveData resource: '' @ err))"
proof (cases "cl_policies (pe_cluster env) (pl_calls s) ListKivePolicy")
  case (Inl e)
  with assms show ?thesis by (auto simp: KivePolicy_Reconcile_def)
next
  case (Inr policies)
  let ?s = "pl_made ListKivePolicy s"
  obtain q u where q: "ctl_for (do_policy env) policies () ?s = (q, u)" by fastforce
  with policies_ok [of policies env UNIV] assms(1) obtain c
    where c: "q = Return c" "client_inv (pl_runtime u)"
    by (auto simp: ctl_ok_def dest!: spec [of _ ?s])
  show ?thesis
  proof (cases c)
    case (Go_on x)
    with assms(2) Inr q c show ?thesis
      by (auto simp: KivePolicy_Reconcile_def go_bind_def force_data_def Let_def
          split: sum.splits list.splits)
  next
    case (Stop rq)
    with assms(2) Inr q c show ?thesis
      by (auto simp: KivePolicy_Reconcile_def go_bind_def go_return_def)
  qed
qed

text \<open>Until the \<open>KiveData\<close> are reconciled, settled policies make no calls but to list pods and to apply.\<close>

definition calls_within :: "(api_call \<Rightarrow> bool) \<Rightarrow> policy_state \<Rightarrow> policy_state \<Rightarrow> bool" where
  "calls_within Q s t \<longleftrightarrow> (\<exists>cs. pl_calls t = pl_calls s @ cs \<and> (\<forall>c \<in> set cs. Q c))"

definition list_or_apply :: "api_call \<Rightarrow> bool" where
  "list_or_apply c \<longleftrightarrow> (\<exists>l f. c = ListPods l f) \<or> (\<exists>kd. c = ApplyKiveData kd)"

lemma calls_within_rel: "transp (calls_within Q)" "calls_within Q s s"
proof -
  show "transp (calls_within Q)" unfolding transp_def calls_within_def
    by (metis (no_types, lifting) append_assoc set_append Un_iff)
  show "calls_within Q s s" unfolding calls_within_def by (rule exI [of _ "[]"]) simp
qed

lemmas calls_within_trans = transpD [OF calls_within_rel(1)]

lemma calls_within_made: "Q c \<Longrightarrow> calls_within Q s (pl_made c s)"
  unfolding calls_within_def by (rule exI [of _ "[c]"]) simp

lemma do_container_within:
  assumes "\<And>c. list_or_apply c \<Longrightarrow> Q c"
  shows "go_steps (calls_within Q) (do_container env p trap i m pod st acc)"
proof -
  have "Q (ApplyKiveData kd)" for kd by (rule assms) (simp add: list_or_apply_def)
  then have "calls_within Q s (s\<lparr>pl_runtime := rt\<rparr>)"
    "calls_within Q s (pl_made (ApplyKiveData kd) (s\<lparr>pl_runtime := rt\<rparr>))" for s rt kd
    unfolding calls_within_def by (rule_tac exI [of _ "[]"], simp, rule_tac exI [of _ "[ApplyKiveData kd]"], simp)
  then show ?thesis
    by (auto simp: go_steps_def do_container_def Let_def calls_within_rel(2) split: outcome.split prod.split)
qed

lemma do_match_within:
  assumes "\<And>c. list_or_apply c \<Longrightarrow> Q c"
  shows "go_steps (calls_within Q) (do_match env p trap i m acc)"
  unfolding go_steps_def
proof
  fix s
  let ?c = "ListPods (km_MatchLabels m) (match_fields m)"
  have "go_steps (calls_within Q) (ctl_for (\<lambda>pod. ctl_for (do_container env p trap i m pod)
      (pod_ContainerStatuses pod)) pods acc)" for pods
    by (intro ctl_for_steps calls_within_rel do_container_within assms)
  then have "calls_within Q (pl_made ?c s) (snd (ctl_for (\<lambda>pod. ctl_for (do_container env p trap i m pod)
      (pod_ContainerStatuses pod)) pods acc (pl_made ?c s)))" for pods
    by (simp add: go_steps_def)
  moreover have "Q ?c" by (rule assms) (simp add: list_or_apply_def)
  then have "calls_within Q s (pl_made ?c s)" by (rule calls_within_made)
  ultimately show "calls_within Q s (snd (do_match env p trap i m acc s))"
    by (auto simp: do_match_def Let_def split: sum.split intro: calls_within_trans)
qed

lemma do_trap_within:
  assumes "\<And>c. list_or_apply c \<Longrightarrow> Q c"
  shows "go_steps (calls_within Q) (do_trap env p trap u)"
proof (cases "KiveTrapHashID trap (ps_AlertVersion (kp_Spec p))")
  case (Return i)
  have "go_steps (calls_within Q) (ctl_bind (ctl_for (do_match env p trap i) (kt_MatchAny trap) [])
      (\<lambda>_. go_return (Go_on ())))"
    by (intro ctl_bind_steps ctl_for_steps calls_within_rel do_match_within)
      (simp_all add: assms go_steps_def go_return_def calls_within_rel(2))
  with Return show ?thesis by (simp add: go_steps_def do_trap_def)
qed (simp_all add: go_steps_def do_trap_def calls_within_rel(2))

lemma policies_within:
  assumes "\<forall>p \<in> set ps. policy_settled (pe_cluster env) p" and "\<And>c. list_or_apply c \<Longrightarrow> Q c"
  shows "go_steps (calls_within Q) (ctl_for (do_policy env) ps u)"
proof (intro ctl_for_steps calls_within_rel)
  fix p v assume "p \<in> set ps"
  have "go_steps (calls_within Q) (ctl_for (do_trap env p) (ps_Traps (kp_Spec p)) ())"
    by (intro ctl_for_steps calls_within_rel do_trap_within assms(2))
  with assms(1) \<open>p \<in> set ps\<close> show "go_steps (calls_within Q) (do_policy env p v)"
    by (auto simp: go_steps_def do_policy_def policy_settled_def Let_def calls_within_rel(2))
qed

text \<open>C27: a selected container of a pod that is not running stops the reconciliation of every policy:
  while the API server answers steadily and the policies are settled (each has its finalizer or is
  being deleted without it), a trap of a policy that is not being deleted selecting such a container
  makes it return with a requeue after listing pods and applying resources only: the \<open>KiveData\<close> are
  neither listed nor patched, as they are, without a requeue, when all selected pods are running.\<close>

theorem pending_pod_blocks:
  assumes "steady (pe_cluster env) data policies pods"
    and "client_inv (pl_runtime s)"
    and "\<forall>p \<in> set policies. policy_settled (pe_cluster env) p"
    and "p \<in> set policies"
    and "\<not> policy_deleting p"
    and "trap \<in> set (ps_Traps (kp_Spec p))"
    and "m \<in> set (kt_MatchAny trap)"
    and "(pod, st) \<in> set (selected (pe_std env) pods m)"
    and "pod_Phase pod \<noteq> PodRunning"
  shows "\<exists>t cs. KivePolicy_Reconcile env s = (Return True, t) \<and>
    pl_calls t = pl_calls s @ ListKivePolicy # cs \<and>
    (\<forall>c \<in> set cs. (\<exists>l f. c = ListPods l f) \<or> (\<exists>kd. c = ApplyKiveData kd))"
proof -
  let ?s = "pl_made ListKivePolicy s"
  let ?i = "trap_id trap (ps_AlertVersion (kp_Spec p))"
  from assms(8) have sel: "pod \<in> set (pods (km_MatchLabels m) (match_fields m))"
    "st \<in> set (pod_ContainerStatuses pod)"
    "RegexMatch (pe_std env) (km_ContainerName m) (cs_Name st) = Return True"
    and fields: "selectable (match_fields m)" by (auto simp: selected_def split: if_splits)
  have pods: "cl_pods (pe_cluster env) h (ListPods (km_MatchLabels m) (match_fields m)) =
      Inr (pods (km_MatchLabels m) (match_fields m))" for h by (simp add: steady_listing [OF assms(1)] fields)
  have no_match: "do_match env p trap ?i m a u \<noteq> (Return (Go_on a'), v)" for a u a' v
    using do_match_covers [of env p trap ?i m a u a' v, OF _ pods sel] assms(9) by blast
  have no_trap: "do_trap env p trap v u \<noteq> (Return (Go_on x), w)" for v u x w
    using do_trap_Go_on [OF _ hash_id] ctl_for_ran [OF _ assms(7), of "do_match env p trap ?i"] no_match
    by blast
  have no_policy: "do_policy env p v u \<noteq> (Return (Go_on x), w)" for v u x w
    using ctl_for_ran [OF _ assms(6), of "do_trap env p"] no_trap assms(3-5)
    by (fastforce simp: do_policy_def policy_settled_def Let_def)
  obtain q t where q: "ctl_for (do_policy env) policies () ?s = (q, t)" by fastforce
  have "client_inv (pl_runtime ?s)" using assms(2) by simp
  with policies_ok [of policies env "{True}"] assms(3) q obtain c
    where c: "q = Return c" "\<forall>rq. c = Stop rq \<longrightarrow> rq"
    by (auto simp: ctl_ok_def dest!: spec [of _ ?s])
  have "c = Stop True"
  proof (cases c)
    case (Go_on x)
    with ctl_for_ran [OF _ assms(4), of "do_policy env"] q c no_policy show ?thesis by blast
  qed (use c(2) in simp)
  moreover have "cl_policies (pe_cluster env) (pl_calls s) ListKivePolicy = Inr policies"
    using assms(1) by (simp add: steady_def)
  ultimately have "KivePolicy_Reconcile env s = (Return True, t)"
    using q c(1) by (simp add: KivePolicy_Reconcile_def go_bind_def go_return_def)
  moreover have "calls_within list_or_apply ?s t"
    using go_stepsD [OF policies_within [OF assms(3), of list_or_apply] q] by simp
  ultimately show ?thesis by (auto simp: calls_within_def list_or_apply_def)
qed

text \<open>The witnesses, on the concrete cluster and container runtime.\<close>

definition ex_policy_env :: "cluster \<Rightarrow> policy_env" where
  "ex_policy_env cl = \<lparr>pe_containers = ex_containers, pe_std = ex_std, pe_cluster = cl,
     pe_kernel_id = ''k'', pe_now = (\<lambda>_. ''now'')\<rparr>"

definition ex_policy_state :: policy_state where
  "ex_policy_state = \<lparr>pl_runtime = ex_connected, pl_calls = []\<rparr>"

definition ex_data :: ContainerData where
  "ex_data = \<lparr>cd_Ino = 1234, cd_DevID = 0x800001, cd_ID = ''containerd://def'', cd_Name = ''web'',
     cd_ShouldRequeue = False, cd_IsFound = True\<rparr>"

definition ex_running :: "Containerd \<Rightarrow> bool" where
  "ex_running rt \<longleftrightarrow> Client rt = Some 1 \<and> isConnected rt"

lemma ex_policy_facts [simp]:
  "ps_Traps (kp_Spec ex_policy) = [ex_policy_trap]" "kt_MatchAny ex_policy_trap = [ex_match]"
  "kt_Path ex_policy_trap = kt_Path ex_trap" "kt_Create ex_policy_trap = False"
  "\<not> policy_deleting ex_policy" "ps_AlertVersion (kp_Spec ex_policy) = ''v1''"
  "policy_finalizers ex_policy = [KivePolicyFinalizerName]" "km_ContainerName ex_match = ''web''"
  by (simp_all add: ex_policy_trap_def ex_policy_def ex_match_def policy_deleting_def ex_meta_def ex_trap_def
      policy_finalizers_def KivePolicyFinalizerName_def)

lemma ex_policy_env_facts [simp]:
  "pe_std (ex_policy_env cl) = ex_std" "pe_cluster (ex_policy_env cl) = cl"
  "pe_containers (ex_policy_env cl) = ex_containers"
  "pl_runtime ex_policy_state = ex_connected" "pl_calls ex_policy_state = []"
  by (simp_all add: ex_policy_env_def ex_std_def ex_policy_state_def)

definition ex_pending :: cluster where
  "ex_pending = (ex_cluster [])\<lparr>cl_pods := ex_listing [ex_pod\<lparr>pod_Phase := ''Pending''\<rparr>]\<rparr>"

lemma ex_settled [simp]: "policy_settled (ex_cluster items) ex_policy" "policy_settled ex_pending ex_policy"
  by (simp_all add: policy_settled_def ex_cluster_def ex_pending_def)

lemma ex_lookup:
  assumes "ex_running rt"
  shows "\<exists>rt'. ex_running rt' \<and>
    GetContainerData (ContainerRuntimes ex_containers) ex_status ex_policy_trap rt = (Return ex_data, rt')"
proof -
  have "file_found ex_containers rt ''def'' ex_policy_trap
      [ListContainers 1, GetTask 8, Stat ''/host/proc/4321/root//etc/passwd''] 1234 (ucast (new_encode_dev 0x800001))"
    unfolding file_found_def
    by (rule exI [of _ 1], rule exI [of _ "[(7, ''abc'')]"], rule exI [of _ 8], rule exI [of _ "[]"],
        rule exI [of _ 4321], rule exI [of _ 3])
      (use assms in \<open>simp add: ex_containers_def ex_running_def ex_target calls_before_stat_def
        ex_trap_def [THEN arg_cong, of kt_Path]\<close>)
  from GetContainerData_found [OF _ _ _ this, of ex_status] assms show ?thesis
    by (simp add: ex_status_def ex_running_def ex_data_def UserDev_new_encode)
qed

lemma ex_selected: "selected ex_std (\<lambda>_ _. [ex_pod\<lparr>pod_Phase := phase\<rparr>]) ex_match =
    [(ex_pod\<lparr>pod_Phase := phase\<rparr>, ex_status)]"
  by (simp add: selected_def ex_match_def selectable_def match_fields_def ex_pod_def RegexMatch_def ex_status_def [THEN arg_cong, of cs_Name])

lemma ex_pod_phase: "ex_pod\<lparr>pod_Phase := PodRunning\<rparr> = ex_pod"
  by (simp add: ex_pod_def PodRunning_def)

lemma ex_trap_ready:
  "trap_ready (ex_policy_env (ex_cluster [])) ex_running (\<lambda>_ _. Return ex_data) (\<lambda>_ _. [ex_pod]) ex_policy_trap"
  using ex_lookup
  by (simp add: trap_ready_def ex_selected [of PodRunning, unfolded ex_pod_phase] answers_def
      ex_data_def [THEN arg_cong, of cd_ShouldRequeue] ex_pod_def [THEN arg_cong, of pod_Phase] PodRunning_def)

definition ex_applied :: KiveData where
  "ex_applied = new_kive_data ''k'' ex_policy ex_policy_trap ex_trap_id ex_pod ex_status ex_data"

lemma ex_policies_data:
  "policies_data (ex_policy_env (ex_cluster [])) (\<lambda>_ _. [ex_pod]) (\<lambda>_ _. Return ex_data) [ex_policy] = [ex_applied]"
  by (simp add: policies_data_def trap_data_def ex_hash trap_containers_def ex_applied_def
      ex_selected [of PodRunning, unfolded ex_pod_phase] made_data_def
      ex_data_def [THEN arg_cong, of cd_IsFound] ex_policy_env_def [THEN arg_cong, of pe_kernel_id])

lemma ex_premises:
  "steady (pe_cluster (ex_policy_env (ex_cluster []))) (\<lambda>_. []) [ex_policy] (\<lambda>_ _. [ex_pod])"
  by (simp add: ex_steady)

lemma ex_reconciled:
  "\<exists>t. KivePolicy_Reconcile (ex_policy_env (ex_cluster [])) ex_policy_state = (Return False, t) \<and>
    applied (pl_calls t) = [ex_applied]"
  using reconcile_steady [OF ex_premises, of ex_running ex_policy_state "\<lambda>_ _. Return ex_data"] ex_trap_ready
  by (simp add: ex_policies_data ex_running_def ex_connected_def)

theorem policy_reconcile_exact_witness:
  "\<exists>t. KivePolicy_Reconcile (ex_policy_env (ex_cluster [])) ex_policy_state = (Return False, t) \<and>
    applied (pl_calls t) =
      [new_kive_data ''k'' ex_policy ex_policy_trap ex_trap_id ex_pod ex_status ex_data]"
  using policy_reconcile_exact [OF ex_premises, of ex_running ex_policy_state "\<lambda>_ _. Return ex_data"] ex_trap_ready
  by (simp add: ex_policies_data ex_running_def ex_connected_def ex_applied_def)

theorem policy_applies_justified_witness:
  "list_all (\<lambda>kd. data_annotation kd ''kive-policy-name'' = policy_name ex_policy)
     (applied (pl_calls (snd (KivePolicy_Reconcile (ex_policy_env (ex_cluster [])) ex_policy_state))))"
proof -
  have mem: "kd \<in> set (applied cs) \<Longrightarrow> ApplyKiveData kd \<in> set cs" for kd cs
    by (induction cs rule: applied.induct) auto
  have name: "data_annotation (new_kive_data k p trap i pod st d) ''kive-policy-name'' = policy_name p"
    for k p trap i pod st d by (simp add: data_annotation_def new_kive_data_def map_get_def)
  have "cl_policies (ex_cluster []) [] ListKivePolicy = Inr [ex_policy]" by (simp add: ex_cluster_def)
  with policy_applies_justified [of "ex_policy_env (ex_cluster [])" ex_policy_state "[ex_policy]"]
  have "\<forall>kd. ApplyKiveData kd \<in> set (pl_calls (snd (KivePolicy_Reconcile (ex_policy_env (ex_cluster []))
      ex_policy_state))) \<longrightarrow> data_annotation kd ''kive-policy-name'' = policy_name ex_policy"
    using name by auto
  then show ?thesis by (auto simp: list_all_iff dest!: mem)
qed

theorem policy_reconcile_errors_witness:
  "fst (KivePolicy_Reconcile (ex_policy_env (ex_cluster [])) ex_policy_state) \<noteq> Panic"
proof -
  obtain r t where r: "KivePolicy_Reconcile (ex_policy_env (ex_cluster [])) ex_policy_state = (r, t)" by fastforce
  from policy_reconcile_errors [OF _ r] r show ?thesis
    by (simp add: client_inv_def ex_connected_def)
qed

theorem pending_pod_blocks_witness:
  "\<exists>t cs. KivePolicy_Reconcile (ex_policy_env ex_pending) ex_policy_state = (Return True, t) \<and>
    pl_calls t = pl_calls ex_policy_state @ ListKivePolicy # cs \<and>
    (\<forall>c \<in> set cs. (\<exists>l f. c = ListPods l f) \<or> (\<exists>kd. c = ApplyKiveData kd))"
proof -
  have "steady ex_pending (\<lambda>_. []) [ex_policy] (\<lambda>_ _. [ex_pod\<lparr>pod_Phase := ''Pending''\<rparr>])"
    by (simp add: steady_def ex_pending_def ex_cluster_def ex_listing_def refuses_other_fields_def)
  moreover have "(ex_pod\<lparr>pod_Phase := ''Pending''\<rparr>, ex_status) \<in>
      set (selected ex_std (\<lambda>_ _. [ex_pod\<lparr>pod_Phase := ''Pending''\<rparr>]) ex_match)"
    unfolding ex_selected by simp
  ultimately show ?thesis
    by (intro pending_pod_blocks [of "ex_policy_env ex_pending" "\<lambda>_. []" "[ex_policy]" _ ex_policy_state
        ex_policy ex_policy_trap ex_match "ex_pod\<lparr>pod_Phase := ''Pending''\<rparr>" ex_status])
      (simp_all add: ex_hash client_inv_def ex_connected_def PodRunning_def)
qed

end
