(* ===== verification/Policy_Convergence.thy ===== *)
theory Policy_Convergence
  imports Policy_Steady Control_Loop
begin

text \<open>
  The policy reconciler in a loop with the API server: a run ends at the first policy that lacks the
  finalizer, or has it and is being deleted, with a patch that triggers the next run.  Repeated
  runs settle all policies and then apply the resources of every one.
\<close>

section \<open>The server and the loop\<close>

fun is_policy_patch :: "api_call \<Rightarrow> bool" where
  "is_policy_patch (PatchKivePolicy _ _) = True"
| "is_policy_patch _ = False"

definition stored_policy :: "KivePolicy \<Rightarrow> KivePolicy list" where
  "stored_policy p = (if policy_deleting p \<and> policy_finalizers p = [] then [] else [p])"

text \<open>As documented, a patch replaces the object; one marked for deletion and without finalizers goes.\<close>

definition policy_effects :: "(api_call \<Rightarrow> KivePolicy list \<Rightarrow> KivePolicy list) \<Rightarrow> bool" where
  "policy_effects eff \<longleftrightarrow>
     (\<forall>c ps. \<not> is_policy_patch c \<longrightarrow> eff c ps = ps) \<and>
     (\<forall>p' p ps. eff (PatchKivePolicy p' p) ps =
        concat (map (\<lambda>x. if x = p then stored_policy p' else [x]) ps))"

definition listing :: "policy_env \<Rightarrow> KivePolicy list \<Rightarrow> policy_env" where
  "listing env ps = env\<lparr>pe_cluster := (pe_cluster env)\<lparr>cl_policies := \<lambda>_ _. Inr ps\<rparr>\<rparr>"

definition policy_round ::
  "policy_env \<Rightarrow> (api_call \<Rightarrow> KivePolicy list \<Rightarrow> KivePolicy list) \<Rightarrow>
   policy_state \<times> KivePolicy list \<Rightarrow> policy_state \<times> KivePolicy list" where
  "policy_round env eff = (\<lambda>(s, ps).
     (let t = snd (KivePolicy_Reconcile (listing env ps) s)
      in (t, fold eff (drop (length (pl_calls s)) (pl_calls t)) ps)))"

section \<open>The patch of a policy\<close>

definition unsettled :: "KivePolicy \<Rightarrow> bool" where
  "unsettled p \<longleftrightarrow> (KivePolicyFinalizerName \<in> set (policy_finalizers p)) = policy_deleting p"

definition patched :: "cluster \<Rightarrow> KivePolicy \<Rightarrow> KivePolicy" where
  "patched cl p = with_policy_finalizers
     ((if policy_deleting p then cl_remove cl else cl_add cl) (policy_finalizers p) KivePolicyFinalizerName) p"

lemma settled_unsettled: "finalizers_ok cl \<Longrightarrow> policy_settled cl p \<longleftrightarrow> \<not> unsettled p"
  by (auto simp: policy_settled_def finalizers_ok_def unsettled_def)

lemma patched_simps [simp]:
  "policy_deleting (patched cl p) = policy_deleting p" "kp_Spec (patched cl p) = kp_Spec p"
  "policy_name (patched cl p) = policy_name p"
  by (simp_all add: patched_def with_policy_finalizers_def policy_deleting_def policy_name_def)

lemma patched_settled: "finalizers_ok cl \<Longrightarrow> \<not> unsettled (patched cl p)"
  by (auto simp: finalizers_ok_def unsettled_def patched_def with_policy_finalizers_def
      policy_deleting_def policy_finalizers_def)

lemma do_policy_unsettled:
  assumes "steady (pe_cluster env) data policies pods" and "finalizers_ok (pe_cluster env)" and "unsettled p"
  shows "do_policy env p u s =
    (Return (Stop False), pl_made (PatchKivePolicy (patched (pe_cluster env) p) p) s)"
  using assms by (auto simp: do_policy_def Let_def finalizers_ok_def unsettled_def patched_def steady_def)

section \<open>Runs that patch no policy\<close>

definition no_patch :: "policy_state \<Rightarrow> policy_state \<Rightarrow> bool" where
  "no_patch = calls_within (\<lambda>c. \<not> is_policy_patch c)"

lemma no_patch_def': "no_patch s t \<longleftrightarrow> (\<exists>cs. pl_calls t = pl_calls s @ cs \<and> filter is_policy_patch cs = [])"
  by (simp add: no_patch_def calls_within_def filter_empty_conv)

lemmas no_patch_trans = calls_within_trans [where Q = "\<lambda>c. \<not> is_policy_patch c", folded no_patch_def]
lemmas no_patch_made = calls_within_made [where Q = "\<lambda>c. \<not> is_policy_patch c", folded no_patch_def]

lemma policies_no_patch:
  "\<forall>p \<in> set ps. policy_settled (pe_cluster env) p \<Longrightarrow> go_steps no_patch (ctl_for (do_policy env) ps u)"
  unfolding no_patch_def by (rule policies_within) (auto simp: list_or_apply_def)

lemma force_data_no_patch: "go_steps no_patch (force_data env)"
proof -
  have "no_patch s (pl_made (PatchKiveData x y) (pl_made (ListKiveData l) s))" for s x y l
    by (rule no_patch_trans [OF no_patch_made [of "ListKiveData l"] no_patch_made]) simp_all
  then show ?thesis
    by (auto simp: go_steps_def force_data_def Let_def no_patch_made split: sum.split list.split)
qed

section \<open>A round\<close>

lemma listing_simps [simp]:
  "pe_std (listing env ps) = pe_std env" "pe_containers (listing env ps) = pe_containers env"
  "pe_kernel_id (listing env ps) = pe_kernel_id env"
  "cl_policies (pe_cluster (listing env ps)) h c = Inr ps"
  "cl_add (pe_cluster (listing env ps)) = cl_add (pe_cluster env)"
  "cl_remove (pe_cluster (listing env ps)) = cl_remove (pe_cluster env)"
  by (simp_all add: listing_def)

lemma listing_ok:
  "steady (pe_cluster env) data qs pods \<Longrightarrow> steady (pe_cluster (listing env ps)) data ps pods"
  "finalizers_ok (pe_cluster env) \<Longrightarrow> finalizers_ok (pe_cluster (listing env ps))"
  by (simp_all add: steady_def refuses_other_fields_def finalizers_ok_def listing_def)

lemma listing_made [simp]: "made_data (listing env ps) = made_data env"
  unfolding made_data_def fun_eq_iff listing_simps by simp

lemma listing_data [simp]:
  "trap_data (listing env ps) = trap_data env" "policies_data (listing env ps) = policies_data env"
proof -
  show trap: "trap_data (listing env ps) = trap_data env"
    unfolding trap_data_def fun_eq_iff listing_simps listing_made by simp
  show "policies_data (listing env ps) = policies_data env"
    unfolding policies_data_def fun_eq_iff trap by simp
qed

lemma listing_ready [simp]:
  "answers (listing env ps) = answers env" "trap_ready (listing env ps) = trap_ready env"
  "patched (pe_cluster (listing env ps)) = patched (pe_cluster env)"
  by (simp_all add: fun_eq_iff answers_def trap_ready_def patched_def)

text \<open>Policies whose traps are ready, in a cluster that answers steadily.\<close>

definition policies_ready ::
  "policy_env \<Rightarrow> (Containerd \<Rightarrow> bool) \<Rightarrow> (ContainerStatus \<Rightarrow> KiveTrap \<Rightarrow> ContainerData outcome) \<Rightarrow>
   (strmap \<Rightarrow> strmap \<Rightarrow> Pod list) \<Rightarrow> KivePolicy list \<Rightarrow> bool" where
  "policies_ready env P look pods ps \<longleftrightarrow>
     (\<forall>p \<in> set ps. \<not> policy_deleting p \<longrightarrow>
        (\<forall>trap \<in> set (ps_Traps (kp_Spec p)). trap_ready env P look pods trap))"

definition policy_work ::
  "policy_env \<Rightarrow> (api_call \<Rightarrow> KivePolicy list \<Rightarrow> KivePolicy list) \<Rightarrow> (strmap \<Rightarrow> strmap \<Rightarrow> Pod list) \<Rightarrow> bool" where
  "policy_work env eff pods \<longleftrightarrow> (\<exists>data qs. steady (pe_cluster env) data qs pods) \<and>
     finalizers_ok (pe_cluster env) \<and> policy_effects eff"

lemma eff_no_patch:
  "policy_effects eff \<Longrightarrow> fold eff cs ps = fold eff (filter is_policy_patch cs) ps"
  by (induction cs arbitrary: ps) (simp_all add: policy_effects_def)

lemma loop_unsettled:
  assumes "steady (pe_cluster env) data qs pods"
    and "finalizers_ok (pe_cluster env)"
    and "P (pl_runtime s)"
    and "policies_ready env P look pods ps"
    and "ps = before @ p # after"
    and "\<forall>q \<in> set before. \<not> unsettled q"
    and "unsettled p"
  shows "\<exists>t cs. ctl_for (do_policy env) ps () s = (Return (Stop False), t) \<and> P (pl_runtime t) \<and>
    pl_calls t = pl_calls s @ cs \<and>
    filter is_policy_patch cs = [PatchKivePolicy (patched (pe_cluster env) p) p]"
proof -
  let ?c = "PatchKivePolicy (patched (pe_cluster env) p) p"
  have settled: "\<forall>q \<in> set before. policy_settled (pe_cluster env) q"
    using assms(6) settled_unsettled [OF assms(2)] by simp
  have "\<forall>q \<in> set before. \<not> policy_deleting q \<longrightarrow>
      (\<forall>trap \<in> set (ps_Traps (kp_Spec q)). trap_ready env P look pods trap)"
    using assms(4,5) by (auto simp: policies_ready_def)
  from policies_steady [where P = P, OF assms(1,3) settled this] obtain u where
    u: "ctl_for (do_policy env) before () s = (Return (Go_on ()), u)"
    "adds P (policies_data env pods look before) s u" by blast
  from policies_no_patch [OF settled, of "()"] u(1) have "no_patch s u"
    by (simp add: go_steps_def) (metis snd_conv)
  then obtain cs where cs: "pl_calls u = pl_calls s @ cs" "filter is_policy_patch cs = []"
    by (auto simp: no_patch_def')
  have "ctl_for (do_policy env) ps () s = (Return (Stop False), pl_made ?c u)"
    using u(1) do_policy_unsettled [OF assms(1,2,7), of "()" u]
    by (simp add: assms(5) ctl_for_append ctl_bind_def go_bind_def go_return_def)
  moreover have "P (pl_runtime u)" using u(2) assms(3) by (simp add: adds_def)
  ultimately show ?thesis using cs by (intro exI [of _ "pl_made ?c u"] exI [of _ "cs @ [?c]"]) simp
qed

lemma policy_round_step:
  assumes "policy_work env eff pods" and "P (pl_runtime s)" and "policies_ready env P look pods ps"
    and "ps = before @ p # after" and "\<forall>q \<in> set before. \<not> unsettled q" and "unsettled p"
  shows "\<exists>t. policy_round env eff (s, ps) =
      (t, concat (map (\<lambda>x. if x = p then stored_policy (patched (pe_cluster env) p) else [x]) ps)) \<and>
    P (pl_runtime t)"
proof -
  let ?env = "listing env ps" and ?s = "pl_made ListKivePolicy s"
  from assms(1) obtain data qs where work: "steady (pe_cluster env) data qs pods" "finalizers_ok (pe_cluster env)"
    "policy_effects eff" by (auto simp: policy_work_def)
  have "policies_ready ?env P look pods ps" using assms(3) by (simp add: policies_ready_def)
  with loop_unsettled [where P = P and s = ?s and look = look and ps = ps,
      OF listing_ok(1) [OF work(1), of ps] listing_ok(2) [OF work(2), of ps] _ _ assms(4-6)] assms(2)
  obtain t cs where t: "ctl_for (do_policy ?env) ps () ?s = (Return (Stop False), t)" "P (pl_runtime t)"
    "pl_calls t = pl_calls ?s @ cs" "filter is_policy_patch cs = [PatchKivePolicy (patched (pe_cluster env) p) p]"
    by auto
  then have "KivePolicy_Reconcile ?env s = (Return False, t)"
    by (simp add: KivePolicy_Reconcile_def go_bind_def go_return_def)
  moreover have "fold eff (ListKivePolicy # cs) ps = fold eff [PatchKivePolicy (patched (pe_cluster env) p) p] ps"
    using eff_no_patch [OF work(3), of "ListKivePolicy # cs" ps] t(4) by simp
  ultimately show ?thesis using t(2,3) work(3) by (simp add: policy_round_def policy_effects_def Let_def)
qed

section \<open>What a patch leaves to do\<close>

lemma patched_data: "made_data env look (patched cl p) = made_data env look p"
proof -
  have "new_kive_data k (patched cl p) = new_kive_data k p" for k
    by (simp add: new_kive_data_def fun_eq_iff)
  then show ?thesis unfolding made_data_def by (simp only:)
qed

lemma policies_data_patched:
  "policies_data env pods look (concat (map (\<lambda>x. if x = p then stored_policy (patched cl p) else [x]) ps)) =
   policies_data env pods look ps"
proof -
  have "trap_data env pods look (patched cl p) = trap_data env pods look p"
    unfolding trap_data_def fun_eq_iff patched_data patched_simps by simp
  then have one: "policies_data env pods look (stored_policy (patched cl p)) = policies_data env pods look [p]"
    by (simp add: policies_data_def stored_policy_def)
  define g where "g q = policies_data env pods look [q]" for q
  have split: "policies_data env pods look qs = concat (map g qs)" for qs
    unfolding g_def by (simp add: policies_data_def)
  have "concat (map g (stored_policy (patched cl p))) = g p"
    by (rule trans [OF trans [OF split [symmetric] one] g_def [symmetric]])
  then show ?thesis unfolding split by (induction ps) auto
qed

lemma ready_patched:
  "policies_ready env P look pods ps \<Longrightarrow>
   policies_ready env P look pods (concat (map (\<lambda>x. if x = p then stored_policy (patched cl p) else [x]) ps))"
  by (auto simp: policies_ready_def stored_policy_def split: if_splits)

lemma fewer_unsettled:
  assumes "finalizers_ok cl" and "unsettled p" and "p \<in> set ps"
  shows "length (filter unsettled (concat (map (\<lambda>x. if x = p then stored_policy (patched cl p) else [x]) ps)))
    < length (filter unsettled ps)"
proof -
  have none: "filter unsettled (stored_policy (patched cl p)) = []"
    using patched_settled [OF assms(1)] by (simp add: stored_policy_def)
  have "length (filter unsettled (concat (map (\<lambda>x. if x = p then stored_policy (patched cl p) else [x]) qs)))
    \<le> length (filter unsettled qs)" for qs by (induction qs) (auto simp: none)
  with assms(2,3) show ?thesis
    by (induction ps) (auto simp: none less_Suc_eq_le)
qed

section \<open>The loop\<close>

definition policy_loop_inv ::
  "policy_env \<Rightarrow> (api_call \<Rightarrow> KivePolicy list \<Rightarrow> KivePolicy list) \<Rightarrow> (Containerd \<Rightarrow> bool) \<Rightarrow>
   (ContainerStatus \<Rightarrow> KiveTrap \<Rightarrow> ContainerData outcome) \<Rightarrow> (strmap \<Rightarrow> strmap \<Rightarrow> Pod list) \<Rightarrow> KiveData list \<Rightarrow>
   policy_state \<times> KivePolicy list \<Rightarrow> bool" where
  "policy_loop_inv env eff P look pods kds x \<longleftrightarrow> policy_work env eff pods \<and> P (pl_runtime (fst x)) \<and>
     policies_ready env P look pods (snd x) \<and> policies_data env pods look (snd x) = kds"

lemma split_unsettled:
  assumes "\<exists>p \<in> set ps. unsettled p"
  obtains before p after where "ps = before @ p # after" and "\<forall>q \<in> set before. \<not> unsettled q" and "unsettled p"
  using split_list_first_prop [OF assms] by blast

lemma policy_loop_step:
  assumes "policy_loop_inv env eff P look pods kds (s, ps)" and "\<exists>p \<in> set ps. unsettled p"
  shows "policy_loop_inv env eff P look pods kds (policy_round env eff (s, ps)) \<and>
    length (filter unsettled (snd (policy_round env eff (s, ps)))) < length (filter unsettled ps)"
proof -
  obtain before p after where p: "ps = before @ p # after" "\<forall>q \<in> set before. \<not> unsettled q" "unsettled p"
    using split_unsettled [OF assms(2)] by blast
  let ?ps = "concat (map (\<lambda>x. if x = p then stored_policy (patched (pe_cluster env) p) else [x]) ps)"
  from assms(1) have inv: "policy_work env eff pods" "P (pl_runtime s)" "policies_ready env P look pods ps"
    "policies_data env pods look ps = kds" by (simp_all add: policy_loop_inv_def)
  from policy_round_step [where P = P, OF inv(1-3) p] obtain t where
    t: "policy_round env eff (s, ps) = (t, ?ps)" "P (pl_runtime t)" by blast
  have "policy_loop_inv env eff P look pods kds (t, ?ps)"
    unfolding policy_loop_inv_def fst_conv snd_conv policies_data_patched inv(4)
    using inv(1) t(2) ready_patched [OF inv(3)] by simp
  moreover have "finalizers_ok (pe_cluster env)" "p \<in> set ps" using inv(1) p(1) by (simp_all add: policy_work_def)
  from fewer_unsettled [OF this(1) p(3) this(2)] have "length (filter unsettled ?ps) < length (filter unsettled ps)" .
  ultimately show ?thesis unfolding t(1) by simp
qed

text \<open>A run on settled policies writes to none of them.\<close>

lemma policy_settled_run:
  assumes "policy_work env eff pods" and "P (pl_runtime s)" and "policies_ready env P look pods ps"
    and "\<forall>p \<in> set ps. \<not> unsettled p"
  shows "\<exists>t. KivePolicy_Reconcile (listing env ps) s = (Return False, t) \<and> P (pl_runtime t) \<and>
    applied (pl_calls t) = applied (pl_calls s) @ policies_data env pods look ps \<and>
    policy_round env eff (s, ps) = (t, ps)"
proof -
  let ?env = "listing env ps" and ?s = "pl_made ListKivePolicy s"
  from assms(1) obtain data qs where work: "steady (pe_cluster env) data qs pods" "finalizers_ok (pe_cluster env)"
    "policy_effects eff" by (auto simp: policy_work_def)
  note st = listing_ok(1) [OF work(1), of ps] and fo = listing_ok(2) [OF work(2), of ps]
  have settled: "\<forall>p \<in> set ps. policy_settled (pe_cluster ?env) p"
    using assms(4) settled_unsettled [OF fo] by simp
  have "P (pl_runtime ?s)" using assms(2) by simp
  moreover have "\<forall>p \<in> set ps. \<not> policy_deleting p \<longrightarrow>
      (\<forall>trap \<in> set (ps_Traps (kp_Spec p)). trap_ready ?env P look pods trap)"
    using assms(3) by (simp add: policies_ready_def)
  ultimately obtain u where u: "ctl_for (do_policy ?env) ps () ?s = (Return (Go_on ()), u)"
    "adds P (policies_data ?env pods look ps) ?s u"
    using policies_steady [where P = P and s = ?s and look = look, OF st _ settled] by auto
  have forced: "fst (force_data ?env u) = Return False" "pl_runtime (snd (force_data ?env u)) = pl_runtime u"
    "applied (pl_calls (snd (force_data ?env u))) = applied (pl_calls u)"
    using st by (simp_all add: steady_def force_data_def Let_def split: list.split)
  obtain t where t: "force_data ?env u = (Return False, t)" using forced(1) by (metis prod.collapse)
  have run: "KivePolicy_Reconcile ?env s = (Return False, t)"
    using u(1) t by (simp add: KivePolicy_Reconcile_def go_bind_def)
  have "no_patch ?s u" using policies_no_patch [OF settled, of "()"] u(1) by (auto dest: go_stepsD)
  moreover have "no_patch u t" using force_data_no_patch t by (auto dest: go_stepsD)
  ultimately have "no_patch s t" using no_patch_made [of ListKivePolicy s] no_patch_trans by simp
  then obtain cs where "pl_calls t = pl_calls s @ cs" "filter is_policy_patch cs = []"
    by (auto simp: no_patch_def')
  with run eff_no_patch [OF work(3), of cs ps] have "policy_round env eff (s, ps) = (t, ps)"
    by (simp add: policy_round_def Let_def)
  with run forced(2,3) t u(2) assms(2) show ?thesis by (simp add: adds_def)
qed

interpretation policy_rounds: control_loop "policy_round env eff"
    "policy_loop_inv env eff P look pods kds" "\<lambda>x. length (filter unsettled (snd x))"
  for env eff P look pods kds
proof (unfold_locales, goal_cases)
  case (1 x)
  obtain s ps where x: "x = (s, ps)" by fastforce
  show ?case
  proof (cases "\<exists>p \<in> set ps. unsettled p")
    case True
    with 1 policy_loop_step show ?thesis by (simp add: x)
  next
    case False
    with 1 policy_settled_run [where P = P and s = s and ps = ps and env = env and eff = eff and pods = pods
        and look = look] show ?thesis
      by (auto simp: x policy_loop_inv_def)
  qed
next
  case (2 x)
  then show ?case
    using policy_loop_step [of env eff P look pods kds "fst x" "snd x"] by (auto simp: filter_empty_conv)
qed

section \<open>Properties\<close>

text \<open>C6: repeated reconciliations settle the policies: while the API server and the container runtime
  answer steadily and carry out the writes, and the containers that the policies select run,
  after at most one round for each policy every policy has the finalizer or is being deleted
  without it, and the next reconciliation applies the resources of exactly the policies that were
  not being deleted at the start, as the reference gives them.\<close>

theorem policy_reconciler_converges:
  assumes "policy_work env eff pods" and "P (pl_runtime s)" and "policies_ready env P look pods policies"
  shows "\<exists>k \<le> length policies. \<exists>t left u. (policy_round env eff ^^ k) (s, policies) = (t, left) \<and>
    (\<forall>p \<in> set left. (KivePolicyFinalizerName \<in> set (policy_finalizers p)) = (\<not> policy_deleting p)) \<and>
    KivePolicy_Reconcile (listing env left) t = (Return False, u) \<and>
    applied (pl_calls u) = applied (pl_calls t) @ policies_data env pods look policies"
proof -
  have "policy_loop_inv env eff P look pods (policies_data env pods look policies) (s, policies)"
    using assms by (simp add: policy_loop_inv_def)
  from policy_rounds.settles [OF this] obtain k where "k \<le> length (filter unsettled policies)"
    "policy_loop_inv env eff P look pods (policies_data env pods look policies)
      ((policy_round env eff ^^ k) (s, policies))"
    "length (filter unsettled (snd ((policy_round env eff ^^ k) (s, policies)))) = 0" by auto
  then obtain t left where k: "k \<le> length (filter unsettled policies)"
    "(policy_round env eff ^^ k) (s, policies) = (t, left)" "\<forall>p \<in> set left. \<not> unsettled p"
    "P (pl_runtime t)" "policies_ready env P look pods left"
    "policies_data env pods look left = policies_data env pods look policies"
    by (cases "(policy_round env eff ^^ k) (s, policies)") (auto simp: policy_loop_inv_def filter_empty_conv)
  from policy_settled_run [where P = P, OF assms(1) k(4,5,3)] obtain u where
    "KivePolicy_Reconcile (listing env left) t = (Return False, u)"
    "applied (pl_calls u) = applied (pl_calls t) @ policies_data env pods look policies"
    unfolding k(6) by blast
  moreover have "k \<le> length policies" using k(1) length_filter_le le_trans by blast
  ultimately show ?thesis using k(2,3) unfolding unsettled_def by blast
qed

text \<open>The concrete policy without its finalizer, and with it but being deleted.\<close>

definition ex_new_policy :: KivePolicy where
  "ex_new_policy = with_policy_finalizers [] ex_policy"

definition ex_old_policy :: KivePolicy where
  "ex_old_policy = ex_policy\<lparr>kp_ObjectMeta := (kp_ObjectMeta ex_policy)\<lparr>om_DeletionTimestamp := Some ''now''\<rparr>\<rparr>"

definition ex_policy_effects :: "api_call \<Rightarrow> KivePolicy list \<Rightarrow> KivePolicy list" where
  "ex_policy_effects c ps =
     (case c of PatchKivePolicy p' p \<Rightarrow> concat (map (\<lambda>x. if x = p then stored_policy p' else [x]) ps) | _ \<Rightarrow> ps)"

lemma ex_policy_work: "policy_work (ex_policy_env (ex_cluster [])) ex_policy_effects (\<lambda>_ _. [ex_pod])"
proof -
  have "policy_effects ex_policy_effects"
    by (auto simp: policy_effects_def ex_policy_effects_def split: api_call.split)
  then show ?thesis using ex_premises ex_finalizers [of "[]"] by (auto simp: policy_work_def)
qed

theorem policy_reconciler_converges_witness:
  "\<exists>k t left u. (policy_round (ex_policy_env (ex_cluster [])) ex_policy_effects ^^ k)
      (ex_policy_state, [ex_new_policy, ex_old_policy]) = (t, left) \<and>
    KivePolicy_Reconcile (listing (ex_policy_env (ex_cluster [])) left) t = (Return False, u) \<and>
    applied (pl_calls u) = applied (pl_calls t) @ [ex_applied]"
proof -
  have spec: "kp_Spec ex_new_policy = kp_Spec ex_policy" "\<not> policy_deleting ex_new_policy"
    "policy_deleting ex_old_policy" "policy_name ex_new_policy = policy_name ex_policy"
    using ex_policy_facts(5)
    by (simp_all add: ex_new_policy_def ex_old_policy_def with_policy_finalizers_def policy_deleting_def
        policy_name_def)
  have data: "policies_data env pods look [ex_new_policy, ex_old_policy] = policies_data env pods look [ex_policy]"
    for env pods look
  proof -
    have "new_kive_data k ex_new_policy = new_kive_data k ex_policy" for k
      by (simp add: new_kive_data_def fun_eq_iff spec)
    then have "made_data env look ex_new_policy = made_data env look ex_policy"
      unfolding made_data_def by (simp only:)
    then have "trap_data env pods look ex_new_policy = trap_data env pods look ex_policy"
      unfolding trap_data_def spec by (simp only:)
    then show ?thesis by (simp add: policies_data_def spec)
  qed
  have "policies_ready (ex_policy_env (ex_cluster [])) ex_running (\<lambda>_ _. Return ex_data) (\<lambda>_ _. [ex_pod])
      [ex_new_policy, ex_old_policy]"
    using ex_trap_ready by (simp add: policies_ready_def spec)
  from policy_reconciler_converges [where P = ex_running, OF ex_policy_work _ this, of ex_policy_state]
  show ?thesis unfolding data ex_policies_data by (auto simp: ex_running_def ex_connected_def)
qed

end
