(* ===== verification/Reconcilers.thy ===== *)
theory Reconcilers
  imports Data_Convergence Pod_Reconciler Policy_Convergence
begin

text \<open>
  How the reconcilers work together: a \<open>KiveData\<close> the policy reconciler applies is one the \<open>KiveData\<close>
  reconciler accounts for, and one the pod reconciler keeps, as long as the policy and the pod
  are there.
\<close>

section \<open>A created resource\<close>

text \<open>A pod that some selector lists is listed by its own name, namespace and node.\<close>

definition relists :: "(strmap \<Rightarrow> strmap \<Rightarrow> Pod list) \<Rightarrow> bool" where
  "relists pods \<longleftrightarrow> (\<forall>labels fields. \<forall>pod \<in> set (pods labels fields).
     pod \<in> set (pods [] [(''metadata.name'', pod_Name pod), (''metadata.namespace'', pod_Namespace pod),
       (''spec.nodeName'', pod_NodeName pod)]))"

lemma new_data_settled:
  "finalizers_ok cl \<Longrightarrow> settled cl (new_kive_data k p trap i pod st d)"
  by (simp add: settled_def finalizers_ok_def data_deleting_def data_finalizers_def new_kive_data_def)

lemma new_data_key [simp]:
  "data_key (new_kive_data k p trap i pod st d) = \<lparr>mk_Inode = cd_Ino d, mk_Dev = cd_DevID d\<rparr>"
  by (simp add: data_key_def new_kive_data_def)

lemma new_data_trap:
  "KiveTrapHashID trap (ps_AlertVersion (kp_Spec p)) = Return i \<Longrightarrow>
   KiveDataTrapCmp (new_kive_data k p trap i pod st d) trap = Return True"
  by (simp add: KiveDataTrapCmp_def new_data_annotations)

lemma new_data_container:
  "cd_ID d = cs_ContainerID st \<Longrightarrow> cd_Name d = cs_Name st \<Longrightarrow>
   KiveDataContainerCmp (new_kive_data k p trap i pod st d) pod st"
  by (simp add: ContainerCmp_iff new_data_annotations)

lemma new_data_pod: "pod_of_data (new_kive_data k p trap i pod st d) pod"
  by (simp add: pod_of_data_def new_data_annotations)

lemma new_data_fields:
  "pod_fields (new_kive_data k p trap i pod st d) = [(''metadata.name'', pod_Name pod),
     (''metadata.namespace'', pod_Namespace pod), (''spec.nodeName'', pod_NodeName pod)]"
  by (simp add: pod_fields_def new_data_annotations)

lemma justified_accounted:
  assumes "steady (pe_cluster env) data policies pods" and "relists pods" and "p \<in> set policies"
    and "justified_by_policy env p kd"
  shows "accounted pods policies kd"
proof -
  from assms(4) obtain trap i m h listed pod st d where j: "\<not> policy_deleting p"
    "trap \<in> set (ps_Traps (kp_Spec p))" "KiveTrapHashID trap (ps_AlertVersion (kp_Spec p)) = Return i"
    "cl_pods (pe_cluster env) h (ListPods (km_MatchLabels m) (match_fields m)) = Inr listed"
    "pod \<in> set listed" "st \<in> set (pod_ContainerStatuses pod)"
    "cd_ID d = cs_ContainerID st" "cd_Name d = cs_Name st"
    and kd: "kd = new_kive_data (pe_kernel_id env) p trap i pod st d"
    unfolding justified_by_policy_def justified_by_trap_def justified_def by blast
  from j(4,5) assms(1) have "pod \<in> set (pods (km_MatchLabels m) (match_fields m))" by (simp add: steady_listing)
  with assms(2) have "pod \<in> set (pods [] (pod_fields kd))" by (simp add: relists_def kd new_data_fields)
  then have "pods_have kd (pods [] (pod_fields kd))"
    using j(6) new_data_container [OF j(7,8), of "pe_kernel_id env" p trap i pod] kd
    by (auto simp: pods_have_def list_ex_iff)
  moreover have "has_trap policies kd"
    using assms(3) j(1,2) new_data_trap [OF j(3)] unfolding kd has_trap_def by blast
  ultimately show ?thesis by (simp add: accounted_def)
qed

section \<open>From a policy to the map\<close>

lemma applied_justified:
  assumes "cl_policies (pe_cluster env) (pl_calls s) ListKivePolicy = Inr policies"
    and "pl_calls (snd (KivePolicy_Reconcile env s)) = pl_calls s @ cs" and "ApplyKiveData kd \<in> set cs"
  shows "\<exists>p \<in> set policies. justified_by_policy env p kd"
proof -
  have mem: "ApplyKiveData kd \<in> set cs \<Longrightarrow> kd \<in> set (applied cs)" for cs
    by (induction cs rule: applied.induct) auto
  from reconcile_applies [of env s] assms(1) have
    "applies_only (\<lambda>kd. \<exists>p \<in> set policies. justified_by_policy env p kd) s (snd (KivePolicy_Reconcile env s))"
    by simp
  with assms(2) mem [OF assms(3)] show ?thesis by (auto simp: applies_only_def)
qed

lemma applied_kept:
  assumes "steady (pe_cluster env) data policies pods" and "relists pods"
    and "pl_calls (snd (KivePolicy_Reconcile env s)) = pl_calls s @ cs" and "ApplyKiveData kd \<in> set cs"
  shows "accounted pods policies kd" and "\<not> data_deleting kd"
proof -
  have "cl_policies (pe_cluster env) (pl_calls s) ListKivePolicy = Inr policies"
    using assms(1) by (simp add: steady_def)
  with applied_justified [OF _ assms(3,4)] obtain p where p: "p \<in> set policies" "justified_by_policy env p kd"
    by blast
  from justified_accounted [OF assms(1,2) p] show "accounted pods policies kd" .
  from p(2) show "\<not> data_deleting kd"
    by (auto simp: justified_by_policy_def justified_by_trap_def justified_def data_deleting_def new_kive_data_def)
qed

lemma applied_pod:
  assumes "steady (pe_cluster env) data policies pods"
    and "pl_calls (snd (KivePolicy_Reconcile env s)) = pl_calls s @ cs" and "ApplyKiveData kd \<in> set cs"
  shows "\<exists>labels fields pod. pod \<in> set (pods labels fields) \<and> pod_Phase pod = PodRunning \<and> pod_of_data kd pod"
proof -
  have "cl_policies (pe_cluster env) (pl_calls s) ListKivePolicy = Inr policies"
    "cl_pods (pe_cluster env) h (ListPods l f) = Inr listed \<Longrightarrow> listed = pods l f" for h l f listed
    using assms(1) by (simp_all add: steady_def steady_listing [OF assms(1)])
  with applied_justified [OF _ assms(2,3)] show ?thesis
    unfolding justified_by_policy_def justified_by_trap_def justified_def using new_data_pod by fastforce
qed

lemma applied_rounds:
  assumes "steady (pe_cluster penv) data policies pods"
    and "relists pods"
    and "pl_calls (snd (KivePolicy_Reconcile penv ps)) = pl_calls ps @ cs"
    and "ApplyKiveData kd \<in> set cs"
    and "at_work denv look n policies pods"
    and "server_effects eff now"
    and "Loaded (dr_ebpf s)"
    and "kd \<in> set items"
    and "card (data_key ` set items) \<le> n"
    and "traced look (dr_map s) \<subseteq> data_key ` {kd \<in> set items. KiveDataFinalizerName \<in> set (data_finalizers kd)}"
  shows "(\<exists>k \<le> 3 * length items. \<exists>t left. (data_round denv eff ^^ Suc k) (s, items) = (t, left) \<and>
      snd (data_round denv eff (t, left)) = left \<and>
      data_key kd \<in> traced look (dr_map t) \<and> data_key kd \<in> data_key ` {kd \<in> set left. \<not> data_deleting kd}) \<and>
    (\<exists>labels fields pod. pod \<in> set (pods labels fields) \<and> pod_Phase pod = PodRunning \<and> pod_of_data kd pod)"
proof -
  let ?ok = "\<lambda>kd. \<not> data_deleting kd \<and> accounted pods policies kd"
  have key: "data_key kd \<in> data_key ` {kd \<in> set items. ?ok kd}"
    using applied_kept [OF assms(1-4)] assms(8) by auto
  from data_rounds_end [OF assms(5,6) refl assms(7,10,9)] obtain k t left where k: "k \<le> 3 * length items"
    "(data_round denv eff ^^ Suc k) (s, items) = (t, left)" "snd (data_round denv eff (t, left)) = left"
    "traced look (dr_map t) = data_key ` {kd \<in> set items. ?ok kd}"
    "data_key ` {kd \<in> set left. \<not> data_deleting kd} = data_key ` {kd \<in> set items. ?ok kd}"
    by (elim exE conjE) (rule that)
  from key have "data_key kd \<in> traced look (dr_map t)" "data_key kd \<in> data_key ` {kd \<in> set left. \<not> data_deleting kd}"
    unfolding k(4,5) by simp_all
  with k(1-3) applied_pod [OF assms(1,3,4)] show ?thesis by blast
qed

section \<open>Properties\<close>

lemma ex_relists: "relists (\<lambda>_ _. [ex_pod])"
  by (simp add: relists_def)

lemma ex_applied_call:
  "\<exists>cs. pl_calls (snd (KivePolicy_Reconcile (ex_policy_env (ex_cluster [])) ex_policy_state)) =
      pl_calls ex_policy_state @ cs \<and> ApplyKiveData ex_applied \<in> set cs"
proof -
  have mem: "kd \<in> set (applied cs) \<Longrightarrow> ApplyKiveData kd \<in> set cs" for kd cs
    by (induction cs rule: applied.induct) auto
  from ex_reconciled obtain t where "snd (KivePolicy_Reconcile (ex_policy_env (ex_cluster [])) ex_policy_state) = t"
    "applied (pl_calls t) = [ex_applied]" by fastforce
  with mem [of ex_applied "pl_calls t"] show ?thesis by simp
qed

text \<open>The applied resource beside those of \<open>ex_all\<close>.\<close>

lemma ex_applied_start:
  "card (data_key ` set (ex_applied # ex_all)) \<le> MAP_MAX_ENTRIES"
  "traced hash_look (dr_map ex_data_state) \<subseteq>
     data_key ` {kd \<in> set (ex_applied # ex_all). KiveDataFinalizerName \<in> set (data_finalizers kd)}"
proof -
  show "card (data_key ` set (ex_applied # ex_all)) \<le> MAP_MAX_ENTRIES"
    using card_insert_le_m1 [of MAP_MAX_ENTRIES] card_length [of "map data_key (ex_applied # ex_all)"]
    by (simp add: ex_all_def ex_items_def MAP_MAX_ENTRIES_def)
  show "traced hash_look (dr_map ex_data_state) \<subseteq>
     data_key ` {kd \<in> set (ex_applied # ex_all). KiveDataFinalizerName \<in> set (data_finalizers kd)}"
    using ex_loop_start(2) by auto
qed

end
