(* ===== verification/Alerts.thy ===== *)
theory Alerts
  imports Ebpf_Loader Kive_Json
begin

text \<open>
  \<open>ReadAlert\<close> (\<open>ebpf/ebpf.go\<close>): a record of the ring buffer, joined with the \<open>KiveData\<close> resource of
  its inode, becomes a \<open>KiveAlert\<close>; and \<open>Output\<close> (\<open>output.go\<close>), the loop that posts or logs the
  alerts.  The list of resources and the time are parameters.
\<close>

section \<open>Building an alert\<close>

definition kive_alert_version :: "KiveData \<Rightarrow> string" where
  "kive_alert_version kd =
     (let v = data_annotation kd ''kive-alert-version'' in
      if v = [] then ''v1''
      else if v \<notin> set SupportedKiveAlertVersions then ''v1'' else v)"

definition new_alert :: "string \<Rightarrow> bpfLogData \<Rightarrow> KiveData \<Rightarrow> KiveAlert" where
  "new_alert now data kd =
     \<lparr>ka_AlertVersion = kive_alert_version kd,
      ka_PolicyName = data_annotation kd ''kive-policy-name'',
      ka_Timestamp = now,
      ka_Metadata = \<lparr>am_Path = data_annotation kd ''path'', am_Inode = ld_Ino data,
        am_Mask = ld_Mask data,
        am_KernelID = map_get (om_Labels (kd_ObjectMeta kd)) KernelIDLabel,
        am_Callback = data_annotation kd ''callback''\<rparr>,
      ka_CustomMetadata = map_copy (ds_Metadata (kd_Spec kd)) [],
      ka_Pod = \<lparr>pm_Name = data_annotation kd ''pod-name'', pm_Namespace = data_annotation kd ''namespace'',
        pm_Ip = data_annotation kd ''ip'',
        pm_Container = \<lparr>cm_Id = data_annotation kd ''container-id'',
          cm_Name = data_annotation kd ''container-name''\<rparr>\<rparr>,
      ka_Node = \<lparr>nm_Name = data_annotation kd ''node-name''\<rparr>,
      ka_Process = \<lparr>pr_Pid = ld_Pid data, pr_Tgid = ld_Tgid data, pr_Uid = ld_Uid data,
        pr_Gid = ld_Gid data, pr_Binary = int8ArrayToString (ld_Comm data), pr_Cwd = [],
        pr_Arguments = []\<rparr>\<rparr>"

text \<open>The loop over the resources: the first one of the record's inode.\<close>

fun find_alert :: "string \<Rightarrow> bpfLogData \<Rightarrow> KiveData list \<Rightarrow> KiveAlert option" where
  "find_alert now data [] = None"
| "find_alert now data (kd # items) =
     (if ds_InodeNo (kd_Spec kd) = ld_Ino data then Some (new_alert now data kd)
      else find_alert now data items)"

definition ReadAlert ::
  "ebpf_env \<Rightarrow> (ext_call list \<Rightarrow> string + KiveData list) \<Rightarrow> (ext_call list \<Rightarrow> string) \<Rightarrow>
   (ebpf_state, KiveAlert) go" where
  "ReadAlert env list_data now s =
    (if RingbuffReader s = None then (Error ''ReadAlert Error Ringbuffer not inizialized'', s)
     else go_bind (go_wrap ''ReadAlert Error Reading Ebpf Data: '' (ReadEbpfData env)) (\<lambda>data s.
       (case list_data (history s) of
          Inl err \<Rightarrow> (Error (''ReadAlert Error Failed to get Kive Data resource: '' @ err), s)
        | Inr items \<Rightarrow>
            (case find_alert (now (history s)) data items of
               Some out \<Rightarrow> (Return out, s)
             | None \<Rightarrow> (Error ''ReadAlert Error eBPF data received but no corresponsing kiveData was found'', s)))) s)"

section \<open>The output loop\<close>

datatype sink =
    Posted string string       \<comment> \<open>callback URL and body\<close>
  | Logged string
  | Failed string              \<comment> \<open>an error that was logged\<close>

text \<open>One iteration; \<open>post\<close> is the error of the HTTP request, if any.\<close>

definition output_step ::
  "ebpf_env \<Rightarrow> (ext_call list \<Rightarrow> string + KiveData list) \<Rightarrow> (ext_call list \<Rightarrow> string) \<Rightarrow>
   (string \<Rightarrow> string \<Rightarrow> string option) \<Rightarrow> (ebpf_state, sink list) go" where
  "output_step env list_data now post s =
    (case ReadAlert env list_data now s of
       (Panic, t) \<Rightarrow> (Panic, t)
     | (Error err, t) \<Rightarrow> (Return [Failed ''Output Error Read alert''], t)
     | (Return alert, t) \<Rightarrow>
         (case Marshal (json_of_alert alert) of
            Inl err \<Rightarrow> (Return [Failed ''Output Error Json Marshal''], t)
          | Inr body \<Rightarrow>
              (if am_Callback (ka_Metadata alert) \<noteq> []
               then (Return (Posted (am_Callback (ka_Metadata alert)) body #
                      (case post (am_Callback (ka_Metadata alert)) body of
                         Some err \<Rightarrow> [Failed ''Output Error Post Callback''] | None \<Rightarrow> [])), t)
               else (Return [Logged body], t))))"

text \<open>
  The read waits for a record and the request, which has no time limit, for an answer: either may
  never return.
\<close>

record waits =
  read_returns :: "ext_call list \<Rightarrow> handle \<Rightarrow> bool"
  post_returns :: "ext_call list \<Rightarrow> string \<Rightarrow> string \<Rightarrow> bool"

definition read_waits :: "waits \<Rightarrow> ebpf_state \<Rightarrow> bool" where
  "read_waits w s = (case RingbuffReader s of None \<Rightarrow> False | Some r \<Rightarrow> \<not> read_returns w (history s) r)"

fun post_waits :: "waits \<Rightarrow> ebpf_state \<Rightarrow> sink list \<Rightarrow> bool" where
  "post_waits w s (Posted url body # out) = (\<not> post_returns w (history s) url body)"
| "post_waits w s out = False"

text \<open>One turn of the loop; the value is \<open>None\<close> when it never ends.\<close>

definition output_turn ::
  "waits \<Rightarrow> ebpf_env \<Rightarrow> (ext_call list \<Rightarrow> string + KiveData list) \<Rightarrow> (ext_call list \<Rightarrow> string) \<Rightarrow>
   (string \<Rightarrow> string \<Rightarrow> string option) \<Rightarrow> (ebpf_state, sink list option) go" where
  "output_turn w env list_data now post s =
    (if read_waits w s then (Return None, s)
     else go_bind (output_step env list_data now post) (\<lambda>out t.
       (Return (if post_waits w t out then None else Some out), t)) s)"

text \<open>
  The loop has no end; its first \<open>n\<close> turns: what each turn that ended has put out, and whether the
  loop hangs in one of them.
\<close>

fun Output ::
  "nat \<Rightarrow> waits \<Rightarrow> ebpf_env \<Rightarrow> (ext_call list \<Rightarrow> string + KiveData list) \<Rightarrow> (ext_call list \<Rightarrow> string) \<Rightarrow>
   (string \<Rightarrow> string \<Rightarrow> string option) \<Rightarrow> (ebpf_state, sink list list \<times> bool) go" where
  "Output 0 w env list_data now post = go_return ([], False)"
| "Output (Suc n) w env list_data now post =
     go_bind (output_turn w env list_data now post) (\<lambda>turn.
       (case turn of
          None \<Rightarrow> go_return ([], True)
        | Some out \<Rightarrow> go_bind (Output n w env list_data now post) (\<lambda>(rest, hangs).
            go_return (out # rest, hangs))))"

section \<open>What an alert says\<close>

lemma find_alert_find:
  "find_alert now data items =
     map_option (new_alert now data) (find (\<lambda>kd. ds_InodeNo (kd_Spec kd) = ld_Ino data) items)"
  by (induction items) simp_all

lemma find_alert_None:
  "find_alert now data items = None \<longleftrightarrow> (\<forall>kd \<in> set items. ds_InodeNo (kd_Spec kd) \<noteq> ld_Ino data)"
  by (induction items) auto

text \<open>The device of the record plays no part.\<close>

lemma find_alert_dev: "find_alert now (data\<lparr>ld_Dev := dev\<rparr>) items = find_alert now data items"
  by (induction items) (simp_all add: new_alert_def)

lemma find_alert_unique:
  assumes "kd \<in> set items" and "ds_InodeNo (kd_Spec kd) = ld_Ino data"
    and "\<forall>k \<in> set items. ds_InodeNo (kd_Spec k) = ld_Ino data \<longrightarrow> k = kd"
  shows "find_alert now data items = Some (new_alert now data kd)"
proof (cases "find (\<lambda>k. ds_InodeNo (kd_Spec k) = ld_Ino data) items")
  case None
  with assms(1,2) show ?thesis by (auto simp: find_None_iff)
next
  case (Some k)
  then have "k \<in> set items" "ds_InodeNo (kd_Spec k) = ld_Ino data" by (auto simp: find_Some_iff)
  with assms(3) Some show ?thesis by (simp add: find_alert_find)
qed

lemma ReadAlert_record:
  assumes "RingbuffReader s = Some r" and "ee_read env (history s) r = (bytes_log_data d, None)"
    and "wf_log_data d" and "list_data (history s @ [ReadRing r]) = Inr items"
    and "find_alert (now (history s @ [ReadRing r])) d items = Some a"
  shows "ReadAlert env list_data now s = (Return a, made (ReadRing r) s)"
  using ReadEbpfData_record [OF assms(1-3)] assms
  by (simp add: ReadAlert_def go_bind_def go_wrap_def)

lemma ReadAlert_no_panic: "fst (ReadAlert env list_data now s) \<noteq> Panic"
proof (cases "RingbuffReader s")
  case None
  then show ?thesis by (simp add: ReadAlert_def)
next
  case (Some r)
  with ReadEbpfData_no_panic [of s env] show ?thesis
    by (auto simp: ReadAlert_def go_bind_def go_wrap_def split: sum.splits option.splits
        prod.splits outcome.splits)
qed

lemma output_step_no_panic: "fst (output_step env list_data now post s) \<noteq> Panic"
  using ReadAlert_no_panic [of env list_data now s]
  by (auto simp: output_step_def split: prod.split outcome.split sum.split)

text \<open>What a turn may put out: an error, or one alert, with an error if it was posted in vain.\<close>

fun one_output :: "sink list \<Rightarrow> bool" where
  "one_output [Failed e] = True"
| "one_output [Logged body] = True"
| "one_output [Posted url body] = (url \<noteq> [])"
| "one_output [Posted url body, Failed e] = (url \<noteq> [] \<and> e = ''Output Error Post Callback'')"
| "one_output _ = False"

lemma output_step_returns:
  "\<exists>out t. output_step env list_data now post s = (Return out, t) \<and> one_output out"
  using ReadAlert_no_panic [of env list_data now s]
  by (auto simp: output_step_def split: prod.split outcome.split sum.split option.split)

lemma output_turn_returns:
  "\<exists>turn t. output_turn w env list_data now post s = (Return turn, t) \<and>
    (case turn of Some out \<Rightarrow> one_output out
     | None \<Rightarrow> read_waits w t \<or> (\<exists>url body. \<not> post_returns w (history t) url body))"
proof -
  obtain out t where o': "output_step env list_data now post s = (Return out, t)" "one_output out"
    using output_step_returns by blast
  have "post_waits w t out \<Longrightarrow> \<exists>url body. \<not> post_returns w (history t) url body"
    by (cases "(w, t, out)" rule: post_waits.cases) auto
  with o' show ?thesis by (simp add: output_turn_def go_bind_def)
qed

lemma Output_returns:
  "\<exists>outs hangs t. Output n w env list_data now post s = (Return (outs, hangs), t) \<and>
    (\<forall>out \<in> set outs. one_output out) \<and>
    (if hangs then length outs < n \<and> (read_waits w t \<or> (\<exists>url body. \<not> post_returns w (history t) url body))
     else length outs = n)"
proof (induction n arbitrary: s)
  case 0
  show ?case
    by (rule exI [of _ "[]"], rule exI [of _ False], rule exI [of _ s]) (simp add: go_return_def)
next
  case (Suc n)
  obtain turn t where o': "output_turn w env list_data now post s = (Return turn, t)"
    "case turn of Some out \<Rightarrow> one_output out
     | None \<Rightarrow> read_waits w t \<or> (\<exists>url body. \<not> post_returns w (history t) url body)"
    using output_turn_returns by blast
  show ?case
  proof (cases turn)
    case None
    with o' show ?thesis
      by (intro exI [of _ "[]"] exI [of _ True] exI [of _ t]) (simp add: go_bind_def go_return_def)
  next
    case (Some out)
    obtain outs hangs u where "Output n w env list_data now post t = (Return (outs, hangs), u)"
      "\<forall>out \<in> set outs. one_output out"
      "if hangs then length outs < n \<and> (read_waits w u \<or> (\<exists>url body. \<not> post_returns w (history u) url body))
       else length outs = n" using Suc.IH by blast
    with o' Some show ?thesis
      by (intro exI [of _ "out # outs"] exI [of _ hangs] exI [of _ u])
        (simp add: go_bind_def go_return_def split: if_splits)
  qed
qed

text \<open>Once the reader is closed, each turn fails at once, and the loop goes on.\<close>

lemma Output_closed:
  assumes "\<And>h. ee_read env h r = (raw h, Some ErrClosed)" and "\<And>h. read_returns w h r"
    and "RingbuffReader s = Some r"
  shows "Output n w env list_data now post s =
    (Return (replicate n [Failed ''Output Error Read alert''], False),
     s\<lparr>history := history s @ replicate n (ReadRing r)\<rparr>)"
  using assms(3)
proof (induction n arbitrary: s)
  case 0
  then show ?case by (simp add: go_return_def)
next
  case (Suc n)
  have "output_turn w env list_data now post s =
    (Return (Some [Failed ''Output Error Read alert'']), made (ReadRing r) s)"
    using Suc.prems assms(1,2)
    by (simp add: output_turn_def read_waits_def output_step_def ReadAlert_def ReadEbpfData_def go_bind_def
        go_wrap_def)
  with Suc.IH [of "made (ReadRing r) s"] Suc.prems show ?case
    by (simp add: go_bind_def go_return_def made_def)
qed

section \<open>What is posted\<close>

fun sink_body :: "sink \<Rightarrow> string option" where
  "sink_body (Posted url body) = Some body"
| "sink_body (Logged body) = Some body"
| "sink_body (Failed e) = None"

lemma output_step_body:
  assumes "output_step env list_data now post s = (Return (x # out), t)" and "sink_body x = Some b"
  shows "\<exists>a. fst (ReadAlert env list_data now s) = Return a \<and> b = json_text (json_of_alert a) \<and>
    x = (if am_Callback (ka_Metadata a) = [] then Logged b else Posted (am_Callback (ka_Metadata a)) b)"
proof (cases "ReadAlert env list_data now s")
  case (Pair r u)
  with assms show ?thesis
    by (cases r) (auto simp: output_step_def Marshal_def split: if_splits)
qed

section \<open>Properties\<close>

text \<open>When the next record of the ring buffer is of an inode that exactly one \<open>KiveData\<close> has, the
  alert carries the process of the record, its inode and mask, and the policy, trap, pod,
  container and node the resource names; nothing but the read changes the state.\<close>

lemma alert_of_record:
  assumes "RingbuffReader s = Some r" and "ee_read env (history s) r = (bytes_log_data d, None)"
    and "wf_log_data d" and "list_data (history s @ [ReadRing r]) = Inr items"
    and "kd \<in> set items" and "ds_InodeNo (kd_Spec kd) = ld_Ino d"
    and "\<forall>k \<in> set items. ds_InodeNo (kd_Spec k) = ld_Ino d \<longrightarrow> k = kd"
  shows "\<exists>a. ReadAlert env list_data now s = (Return a, made (ReadRing r) s) \<and>
    ka_Process a = \<lparr>pr_Pid = ld_Pid d, pr_Tgid = ld_Tgid d, pr_Uid = ld_Uid d, pr_Gid = ld_Gid d,
      pr_Binary = int8ArrayToString (ld_Comm d), pr_Cwd = [], pr_Arguments = []\<rparr> \<and>
    am_Inode (ka_Metadata a) = ld_Ino d \<and> am_Mask (ka_Metadata a) = ld_Mask d \<and>
    am_Path (ka_Metadata a) = data_annotation kd ''path'' \<and>
    ka_PolicyName a = data_annotation kd ''kive-policy-name'' \<and>
    ka_AlertVersion a \<in> set SupportedKiveAlertVersions \<and>
    pm_Name (ka_Pod a) = data_annotation kd ''pod-name'' \<and>
    pm_Namespace (ka_Pod a) = data_annotation kd ''namespace'' \<and>
    cm_Id (pm_Container (ka_Pod a)) = data_annotation kd ''container-id'' \<and>
    nm_Name (ka_Node a) = data_annotation kd ''node-name''"
proof -
  have "kive_alert_version kd \<in> set SupportedKiveAlertVersions"
    by (simp add: kive_alert_version_def Let_def SupportedKiveAlertVersions_def)
  moreover have "ReadAlert env list_data now s =
      (Return (new_alert (now (history s @ [ReadRing r])) d kd), made (ReadRing r) s)"
    by (rule ReadAlert_record [where d = d and items = items])
      (use assms(1-4) find_alert_unique [OF assms(5-7)] in simp_all)
  ultimately show ?thesis by (simp add: new_alert_def)
qed

definition ex_record :: bpfLogData where
  "ex_record = \<lparr>ld_Pid = 101, ld_Tgid = 100, ld_Uid = 1000, ld_Gid = 1001, ld_Dev = 0x800001,
     ld_Ino = 1234, ld_Mask = 4, ld_Comm = c_bytes ''cat'' @ replicate 13 0\<rparr>"

definition ex_data :: KiveData where
  "ex_data = \<lparr>kd_TypeMeta = \<lparr>tm_Kind = ''KiveData'', tm_APIVersion = ''v2alpha1''\<rparr>,
     kd_ObjectMeta = ex_meta\<lparr>om_Annotations := [(''kive-policy-name'', ''p''), (''pod-name'', ''web'')]\<rparr>,
     kd_Spec = \<lparr>ds_InodeNo = 1234, ds_DevID = 0x800001, ds_Metadata = []\<rparr>\<rparr>"

definition ex_reader :: "read_error option \<Rightarrow> ebpf_env" where
  "ex_reader e = (ex_loader (6, 1))\<lparr>ee_read := \<lambda>_ _. (bytes_log_data ex_record, e)\<rparr>"

lemma wf_ex_record: "wf_log_data ex_record"
  by (simp add: wf_log_data_def ex_record_def TASK_COMM_LEN_def c_bytes_def)


lemma output_step_logged:
  assumes "ReadAlert env list_data now s = (Return a, t)" and "am_Callback (ka_Metadata a) = []"
  shows "output_step env list_data now post s = (Return [Logged (json_text (json_of_alert a))], t)"
  using assms by (simp add: output_step_def Marshal_def)

text \<open>C20: what the output loop posts or logs is the JSON text of the alert it read, to the callback the
  alert names if it names one, and says all of it: two iterations with equal bodies had the same
  alert, up to the order of its metadata, if the strings of both are UTF-8.\<close>

theorem alert_body_determines:
  assumes "output_step env list_data now post s = (Return (x # out), t)" and "sink_body x = Some b"
    and "output_step env list_data now post s' = (Return (x' # out'), t')" and "sink_body x' = Some b"
  shows "\<exists>a a'. fst (ReadAlert env list_data now s) = Return a \<and>
    fst (ReadAlert env list_data now s') = Return a' \<and>
    b = json_text (json_of_alert a) \<and> b = json_text (json_of_alert a') \<and>
    x = (if am_Callback (ka_Metadata a) = [] then Logged b else Posted (am_Callback (ka_Metadata a)) b) \<and>
    (alert_utf8 a \<longrightarrow> alert_utf8 a' \<longrightarrow> same_alert a a')"
  using output_step_body [OF assms(1,2)] output_step_body [OF assms(3,4)] alert_text_inject by metis

theorem alert_body_determines_witness:
  "\<exists>a t. fst (ReadAlert (ex_reader None) (\<lambda>_. Inr [ex_data]) (\<lambda>_. ''now'')
      (ebpf_init\<lparr>RingbuffReader := Some 5\<rparr>)) = Return a \<and>
    output_step (ex_reader None) (\<lambda>_. Inr [ex_data]) (\<lambda>_. ''now'') (\<lambda>_ _. None)
      (ebpf_init\<lparr>RingbuffReader := Some 5\<rparr>) = (Return [Logged (json_text (json_of_alert a))], t)"
proof -
  let ?s = "ebpf_init\<lparr>RingbuffReader := Some 5\<rparr>"
  obtain a where a: "ReadAlert (ex_reader None) (\<lambda>_. Inr [ex_data]) (\<lambda>_. ''now'') ?s =
      (Return a, made (ReadRing 5) ?s)" "am_Callback (ka_Metadata a) = []"
    using ReadAlert_record [of ?s 5 "ex_reader None" ex_record "\<lambda>_. Inr [ex_data]" "[ex_data]" "\<lambda>_. ''now''"]
      wf_ex_record
    by (auto simp: ex_reader_def ex_data_def ex_record_def new_alert_def data_annotation_def map_get_def)
  let ?b = "json_text (json_of_alert a)"
  have st: "output_step (ex_reader None) (\<lambda>_. Inr [ex_data]) (\<lambda>_. ''now'') (\<lambda>_ _. None) ?s =
      (Return [Logged ?b], made (ReadRing 5) ?s)"
    using a by (rule output_step_logged)
  have body: "sink_body (Logged ?b) = Some ?b" by simp
  from alert_body_determines [OF st body st body] obtain a' where
    "fst (ReadAlert (ex_reader None) (\<lambda>_. Inr [ex_data]) (\<lambda>_. ''now'') ?s) = Return a'"
    "?b = json_text (json_of_alert a')" by blast
  with st show ?thesis by (intro exI [of _ a'] exI [of _ "made (ReadRing 5) ?s"] conjI) (simp_all only:)
qed

text \<open>The resource an alert names is chosen by the inode number alone: the device of the record
  plays no part, and the same inode on two devices is one file to \<open>ReadAlert\<close>.\<close>

lemma alert_ignores_device:
  "find_alert now (d\<lparr>ld_Dev := dev\<rparr>) items = find_alert now d items \<and>
   (find_alert now d items = None \<longleftrightarrow> ld_Ino d \<notin> (\<lambda>kd. ds_InodeNo (kd_Spec kd)) ` set items)"
  by (auto simp: find_alert_dev find_alert_None image_iff dest: sym)

text \<open>An alert never names the pod's address: \<open>ReadAlert\<close> reads the annotation \<open>ip\<close>, and a
  resource with the annotations the policy reconciler writes has only \<open>pod-ip\<close>.\<close>

lemma alert_without_ip:
  assumes "find_alert now d items = Some a"
    and "\<forall>kd \<in> set items. fst ` set (om_Annotations (kd_ObjectMeta kd)) \<subseteq>
      {''kive-alert-version'', ''kive-policy-name'', ''callback'', ''pod-name'', ''namespace'',
       ''pod-ip'', ''path'', ''container-id'', ''container-name'', ''node-name'', ''force-reconcile''}"
  shows "pm_Ip (ka_Pod a) = []"
proof -
  from assms(1) obtain kd where "find (\<lambda>kd. ds_InodeNo (kd_Spec kd) = ld_Ino d) items = Some kd"
    and a: "a = new_alert now d kd"
    by (auto simp: find_alert_find)
  then have "kd \<in> set items" by (auto simp: find_Some_iff)
  with assms(2) have "''ip'' \<notin> fst ` set (om_Annotations (kd_ObjectMeta kd))" by fastforce
  then have "map_of (om_Annotations (kd_ObjectMeta kd)) ''ip'' = None"
    by (simp add: map_of_eq_None_iff)
  with a show ?thesis by (simp add: new_alert_def data_annotation_def map_get_def)
qed


text \<open>C34: the output loop survives every error.  Of its first \<open>n\<close> turns, for any \<open>n\<close>, each that ends puts
  out one alert, posted or logged, or one error; and all \<open>n\<close> end unless a read or a post never returns,
  and then the loop hangs there.  Once the reader is closed every turn fails at once and the loop goes
  on forever, with a read and an error each time.\<close>

theorem output_loop:
  "(\<exists>outs hangs t. Output n w env list_data now post s = (Return (outs, hangs), t) \<and>
      (\<forall>out \<in> set outs. one_output out) \<and>
      (if hangs then length outs < n \<and> (read_waits w t \<or> (\<exists>url body. \<not> post_returns w (history t) url body))
       else length outs = n)) \<and>
   (RingbuffReader s = Some r \<and> (\<forall>h. snd (ee_read env h r) = Some ErrClosed \<and> read_returns w h r) \<longrightarrow>
    Output n w env list_data now post s =
      (Return (replicate n [Failed ''Output Error Read alert''], False),
       s\<lparr>history := history s @ replicate n (ReadRing r)\<rparr>))"
proof (intro conjI impI)
  show "\<exists>outs hangs t. Output n w env list_data now post s = (Return (outs, hangs), t) \<and>
      (\<forall>out \<in> set outs. one_output out) \<and>
      (if hangs then length outs < n \<and> (read_waits w t \<or> (\<exists>url body. \<not> post_returns w (history t) url body))
       else length outs = n)"
    by (rule Output_returns)
  assume "RingbuffReader s = Some r \<and> (\<forall>h. snd (ee_read env h r) = Some ErrClosed \<and> read_returns w h r)"
  then show "Output n w env list_data now post s =
      (Return (replicate n [Failed ''Output Error Read alert''], False),
       s\<lparr>history := history s @ replicate n (ReadRing r)\<rparr>)"
    using Output_closed [of env r "\<lambda>h. fst (ee_read env h r)"] by (metis prod.collapse)
qed

text \<open>No records arrive: a loop that hangs in its first turn; and one whose reader is closed.\<close>

definition ex_waits :: "bool \<Rightarrow> waits" where
  "ex_waits b = \<lparr>read_returns = (\<lambda>_ _. b), post_returns = (\<lambda>_ _ _. True)\<rparr>"

theorem output_loop_witness:
  "fst (Output 2 (ex_waits True) (ex_reader (Some ErrClosed)) (\<lambda>_. Inr []) (\<lambda>_. ''now'')
     (\<lambda>_ _. None) (ebpf_init\<lparr>RingbuffReader := Some 5\<rparr>)) =
   Return ([[Failed ''Output Error Read alert''], [Failed ''Output Error Read alert'']], False) \<and>
   fst (Output 2 (ex_waits False) (ex_reader None) (\<lambda>_. Inr []) (\<lambda>_. ''now'')
     (\<lambda>_ _. None) (ebpf_init\<lparr>RingbuffReader := Some 5\<rparr>)) = Return ([], True)"
proof
  show "fst (Output 2 (ex_waits True) (ex_reader (Some ErrClosed)) (\<lambda>_. Inr []) (\<lambda>_. ''now'')
     (\<lambda>_ _. None) (ebpf_init\<lparr>RingbuffReader := Some 5\<rparr>)) =
   Return ([[Failed ''Output Error Read alert''], [Failed ''Output Error Read alert'']], False)"
    using output_loop [of 2 "ex_waits True" "ex_reader (Some ErrClosed)" "\<lambda>_. Inr []" "\<lambda>_. ''now''"
        "\<lambda>_ _. None" "ebpf_init\<lparr>RingbuffReader := Some 5\<rparr>" 5]
    by (simp add: ex_reader_def ex_waits_def numeral_2_eq_2 del: Output.simps)
  show "fst (Output 2 (ex_waits False) (ex_reader None) (\<lambda>_. Inr []) (\<lambda>_. ''now'')
     (\<lambda>_ _. None) (ebpf_init\<lparr>RingbuffReader := Some 5\<rparr>)) = Return ([], True)"
    by (simp add: numeral_2_eq_2 go_bind_def go_return_def output_turn_def read_waits_def ex_waits_def)
qed

end
