(* ===== verification/Policy_Alert.thy ===== *)
theory Policy_Alert
  imports Reconcilers Alerts
begin

text \<open>
  From a policy to the alert: the resource the policy reconciler applies carries policy, trap, pod
  and container to \<open>ReadAlert\<close>, which joins them with the record of an access, and the output loop
  sends the result to the callback of the trap.
\<close>

section \<open>What an alert should say\<close>

text \<open>The alert for an access to the file of a trap in a container, in terms of the policy alone.\<close>

definition trap_alert ::
  "string \<Rightarrow> string \<Rightarrow> KivePolicy \<Rightarrow> KiveTrap \<Rightarrow> Pod \<Rightarrow> ContainerStatus \<Rightarrow> bpfLogData \<Rightarrow> KiveAlert" where
  "trap_alert kernel_id time p trap pod st d =
     \<lparr>ka_AlertVersion = (if ps_AlertVersion (kp_Spec p) \<in> set SupportedKiveAlertVersions
        then ps_AlertVersion (kp_Spec p) else ''v1''),
      ka_PolicyName = policy_name p,
      ka_Timestamp = time,
      ka_Metadata = \<lparr>am_Path = kt_Path trap, am_Inode = ld_Ino d, am_Mask = ld_Mask d,
        am_KernelID = kernel_id, am_Callback = kt_Callback trap\<rparr>,
      ka_CustomMetadata = map_copy (kt_Metadata trap) [],
      ka_Pod = \<lparr>pm_Name = pod_Name pod, pm_Namespace = pod_Namespace pod, pm_Ip = [],
        pm_Container = \<lparr>cm_Id = cs_ContainerID st, cm_Name = cs_Name st\<rparr>\<rparr>,
      ka_Node = \<lparr>nm_Name = pod_NodeName pod\<rparr>,
      ka_Process = \<lparr>pr_Pid = ld_Pid d, pr_Tgid = ld_Tgid d, pr_Uid = ld_Uid d, pr_Gid = ld_Gid d,
        pr_Binary = int8ArrayToString (ld_Comm d), pr_Cwd = [], pr_Arguments = []\<rparr>\<rparr>"

definition sent :: "(string \<Rightarrow> string \<Rightarrow> string option) \<Rightarrow> string \<Rightarrow> string \<Rightarrow> sink list" where
  "sent post url body =
     (if url = [] then [Logged body]
      else Posted url body # (if post url body = None then [] else [Failed ''Output Error Post Callback'']))"

section \<open>What the server keeps\<close>

text \<open>
  The stored object has the spec, the labels and the annotations that were applied, and no
  annotation \<open>ip\<close>; whatever else it has (a resource version, the annotation the reconcilers
  force each other with) is free.
\<close>

definition stored_as :: "KiveData \<Rightarrow> KiveData \<Rightarrow> bool" where
  "stored_as kd k \<longleftrightarrow> kd_Spec k = kd_Spec kd \<and>
     list_all (\<lambda>(l, v). map_get (om_Labels (kd_ObjectMeta k)) l = v) (om_Labels (kd_ObjectMeta kd)) \<and>
     list_all (\<lambda>(a, v). data_annotation k a = v) (om_Annotations (kd_ObjectMeta kd)) \<and>
     data_annotation k ''ip'' = data_annotation kd ''ip''"

lemma map_get_update [simp]: "map_get (AList.update a v m) b = (if b = a then v else map_get m b)"
  by (simp add: map_get_def update_conv')

lemma stored_annotate:
  assumes "stored_as kd k" and "a \<notin> fst ` set (om_Annotations (kd_ObjectMeta kd))" and "a \<noteq> ''ip''"
  shows "stored_as kd (k\<lparr>kd_ObjectMeta := annotate a v (kd_ObjectMeta k)\<rparr>)"
proof -
  have "fst x \<noteq> a" if "x \<in> set (om_Annotations (kd_ObjectMeta kd))" for x using assms(2) that by blast
  with assms(1,3) show ?thesis
    by (simp add: stored_as_def annotate_def data_annotation_def list_all_iff split_beta)
qed

lemma new_data_stored:
  assumes "stored_as (new_kive_data kid p trap i pod st cd) k"
  shows "data_annotation k ''kive-alert-version'' = ps_AlertVersion (kp_Spec p)"
    "data_annotation k ''kive-policy-name'' = policy_name p"
    "data_annotation k ''callback'' = kt_Callback trap"
    "data_annotation k ''pod-name'' = pod_Name pod"
    "data_annotation k ''namespace'' = pod_Namespace pod"
    "data_annotation k ''path'' = kt_Path trap"
    "data_annotation k ''container-id'' = cd_ID cd"
    "data_annotation k ''container-name'' = cd_Name cd"
    "data_annotation k ''node-name'' = pod_NodeName pod"
    "data_annotation k ''ip'' = []"
    "map_get (om_Labels (kd_ObjectMeta k)) KernelIDLabel = kid"
    "kd_Spec k = \<lparr>ds_InodeNo = cd_Ino cd, ds_DevID = cd_DevID cd, ds_Metadata = map_copy (kt_Metadata trap) []\<rparr>"
  using assms by (simp_all add: stored_as_def new_kive_data_def data_annotation_def map_get_def)

lemma map_copy_distinct: "distinct (map fst dst) \<Longrightarrow> distinct (map fst (map_copy m dst))"
  by (induction m dst rule: map_copy.induct) (simp_all add: distinct_update)

lemma map_copy_twice: "map_copy (map_copy m []) [] = map_copy m []"
  by (simp add: wf_map_def map_copy_distinct)

lemma new_alert_trap:
  assumes "stored_as (new_kive_data kid p trap i pod st cd) k"
    and "cd_ID cd = cs_ContainerID st" and "cd_Name cd = cs_Name st"
  shows "new_alert time d k = trap_alert kid time p trap pod st d"
proof -
  have "kive_alert_version k = (if ps_AlertVersion (kp_Spec p) \<in> set SupportedKiveAlertVersions
      then ps_AlertVersion (kp_Spec p) else ''v1'')"
    by (auto simp: kive_alert_version_def Let_def new_data_stored [OF assms(1)] SupportedKiveAlertVersions_def)
  then show ?thesis
    by (simp add: new_alert_def trap_alert_def new_data_stored [OF assms(1)] assms(2,3) map_copy_twice)
qed

lemma output_step_sent:
  assumes "ReadAlert env list_data now s = (Return a, t)"
  shows "output_step env list_data now post s =
    (Return (sent post (am_Callback (ka_Metadata a)) (json_text (json_of_alert a))), t)"
  using assms by (simp add: output_step_def Marshal_def sent_def split: option.split)

section \<open>Properties\<close>

text \<open>C2: from a policy to its alert: when the policy reconciler has applied a resource, and it is the
  only stored one with the inode of the next record, then an iteration of the output loop sends, to
  the callback of a trap of a listed policy if it has one and to the log otherwise, the JSON of the
  alert for that access, which names the policy, the trap's path and metadata, the running pod and
  the container a match of the trap selects, whose lookup found that inode.\<close>

theorem policy_alerts:
  assumes "cl_policies (pe_cluster penv) (pl_calls ps) ListKivePolicy = Inr policies"
    and "pl_calls (snd (KivePolicy_Reconcile penv ps)) = pl_calls ps @ cs"
    and "ApplyKiveData kd \<in> set cs"
    and "RingbuffReader s = Some r"
    and "ee_read env (history s) r = (bytes_log_data d, None)"
    and "wf_log_data d"
    and "ld_Ino d = ds_InodeNo (kd_Spec kd)"
    and "list_data (history s @ [ReadRing r]) = Inr items"
    and "k \<in> set items" and "stored_as kd k"
    and "\<forall>k' \<in> set items. ds_InodeNo (kd_Spec k') = ld_Ino d \<longrightarrow> k' = k"
  shows "\<exists>p trap m h pods pod st rt cd rt'.
    p \<in> set policies \<and> \<not> policy_deleting p \<and> trap \<in> set (ps_Traps (kp_Spec p)) \<and>
    m \<in> set (kt_MatchAny trap) \<and>
    cl_pods (pe_cluster penv) h (ListPods (km_MatchLabels m) (match_fields m)) = Inr pods \<and>
    pod \<in> set pods \<and> pod_Phase pod = PodRunning \<and>
    st \<in> set (pod_ContainerStatuses pod) \<and> cs_Ready st \<and>
    RegexMatch (pe_std penv) (km_ContainerName m) (cs_Name st) = Return True \<and>
    GetContainerData (ContainerRuntimes (pe_containers penv)) st trap rt = (Return cd, rt') \<and>
    cd_IsFound cd \<and> cd_Ino cd = ld_Ino d \<and>
    output_step env list_data now post s =
      (Return (sent post (kt_Callback trap) (json_text (json_of_alert
         (trap_alert (pe_kernel_id penv) (now (history s @ [ReadRing r])) p trap pod st d)))),
       made (ReadRing r) s)"
proof -
  from applied_justified [OF assms(1-3)] obtain p trap i m h pods pod st cd rt rt' where j:
    "p \<in> set policies" "\<not> policy_deleting p" "trap \<in> set (ps_Traps (kp_Spec p))"
    "m \<in> set (kt_MatchAny trap)"
    "cl_pods (pe_cluster penv) h (ListPods (km_MatchLabels m) (match_fields m)) = Inr pods"
    "pod \<in> set pods" "pod_Phase pod = PodRunning" "st \<in> set (pod_ContainerStatuses pod)" "cs_Ready st"
    "RegexMatch (pe_std penv) (km_ContainerName m) (cs_Name st) = Return True"
    "GetContainerData (ContainerRuntimes (pe_containers penv)) st trap rt = (Return cd, rt')"
    "cd_IsFound cd" "cd_ID cd = cs_ContainerID st" "cd_Name cd = cs_Name st"
    and kd: "kd = new_kive_data (pe_kernel_id penv) p trap i pod st cd"
    unfolding justified_by_policy_def justified_by_trap_def justified_def by blast
  have ino: "ds_InodeNo (kd_Spec k) = ld_Ino d" "cd_Ino cd = ld_Ino d"
    using assms(7,10) by (simp_all add: stored_as_def kd new_kive_data_def)
  let ?t = "now (history s @ [ReadRing r])"
  have "new_alert ?t d k = trap_alert (pe_kernel_id penv) ?t p trap pod st d"
    by (rule new_alert_trap [OF _ j(13,14)]) (use assms(10) kd in simp)
  with find_alert_unique [OF assms(9) ino(1) assms(11)]
  have "ReadAlert env list_data now s =
      (Return (trap_alert (pe_kernel_id penv) ?t p trap pod st d), made (ReadRing r) s)"
    by (intro ReadAlert_record [where d = d and items = items] assms(4-6,8)) simp
  from output_step_sent [OF this] j ino(2) show ?thesis
    by (intro exI conjI) (assumption | simp add: trap_alert_def)+
qed

text \<open>The example's policy, with a record of its inode and the resource as the server stores it after
  a reconciler has annotated it.\<close>

definition ex_stored :: KiveData where
  "ex_stored = ex_applied\<lparr>kd_ObjectMeta := annotate ''force-reconcile'' ''now'' (kd_ObjectMeta ex_applied)\<rparr>"

lemma ex_stored: "stored_as ex_applied ex_stored"
  unfolding ex_stored_def
  by (rule stored_annotate)
    (simp_all add: stored_as_def ex_applied_def new_kive_data_def data_annotation_def map_get_def
      KernelIDLabel_def TrapIDLabel_def)

theorem policy_alerts_witness:
  "\<exists>p trap pod st. output_step (ex_reader None) (\<lambda>_. Inr [ex_stored]) (\<lambda>_. ''now'') (\<lambda>_ _. None)
      (ebpf_init\<lparr>RingbuffReader := Some 5\<rparr>) =
    (Return (sent (\<lambda>_ _. None) (kt_Callback trap) (json_text (json_of_alert
       (trap_alert ''k'' ''now'' p trap pod st ex_record)))),
     made (ReadRing 5) (ebpf_init\<lparr>RingbuffReader := Some 5\<rparr>)) \<and> p = ex_policy \<and> trap = ex_policy_trap"
proof -
  obtain cs where cs: "pl_calls (snd (KivePolicy_Reconcile (ex_policy_env (ex_cluster [])) ex_policy_state)) =
      pl_calls ex_policy_state @ cs" "ApplyKiveData ex_applied \<in> set cs" using ex_applied_call by blast
  have pols: "cl_policies (pe_cluster (ex_policy_env (ex_cluster []))) (pl_calls ex_policy_state) ListKivePolicy =
      Inr [ex_policy]" by (simp add: ex_cluster_def)
  have read: "ee_read (ex_reader None) (history (ebpf_init\<lparr>RingbuffReader := Some 5\<rparr>)) 5 =
      (bytes_log_data ex_record, None)" by (simp add: ex_reader_def)
  have ino: "ld_Ino ex_record = ds_InodeNo (kd_Spec ex_applied)"
    by (simp add: ex_record_def ex_applied_def new_kive_data_def Policy_Steady.ex_data_def)
  have traps: "ps_Traps (kp_Spec ex_policy) = [ex_policy_trap]" by (simp add: ex_policy_def)
  have id: "pe_kernel_id (ex_policy_env (ex_cluster [])) = ''k''" by (simp add: ex_policy_env_def)
  from policy_alerts [OF pols cs _ read wf_ex_record ino _ _ ex_stored,
      of "\<lambda>_. Inr [ex_stored]" "[ex_stored]" "\<lambda>_. ''now''" "\<lambda>_ _. None"]
  show ?thesis by (auto simp: traps id)
qed

end
