(* ===== verification/Callback_Server.thy ===== *)
theory Callback_Server
  imports Policy_Alert
begin

text \<open>
  The callback server (\<open>callback/cmd/main.go\<close>), which logs what is posted to \<open>/ingest\<close>, and the output
  loop posting to it: every alert whose trap has the server's address as callback is logged there,
  whole.
\<close>

section \<open>The server\<close>

definition DefaultPort :: string where "DefaultPort = ''8090''"

text \<open>A request: its path, what could be read of its body, and the error that ended reading.\<close>

record http_request =
  rq_Path :: string
  rq_Body :: string
  rq_Error :: "string option"

datatype log_line =
    LogInfo string "(string \<times> string) list"
  | LogError string string

definition ingestHandler :: "http_request \<Rightarrow> log_line list" where
  "ingestHandler r =
     (case rq_Error r of None \<Rightarrow> [] | Some err \<Rightarrow> [LogError err ''error reading request's body'']) @
     [LogInfo ''received request'' [(''body'', rq_Body r)]]"

text \<open>\<open>http.HandleFunc\<close> registers the handler for that path alone; any other is answered with 404.\<close>

definition serve :: "http_request \<Rightarrow> log_line list" where
  "serve r = (if rq_Path r = ''/ingest'' then ingestHandler r else [])"

text \<open>A flag has its default until \<open>flag.Parse\<close> reads the arguments, which \<open>main\<close> does not call.
  \<open>listen\<close> serves the requests of the list at an address, and is the error it ends with.\<close>

definition portFlag :: "string list \<Rightarrow> string" where
  "portFlag args = DefaultPort"

definition callback_main :: "string list \<Rightarrow> (string \<Rightarrow> http_request list \<times> string option) \<Rightarrow> log_line list" where
  "callback_main args listen =
     (case listen ('':'' @ portFlag args) of
        (requests, err) \<Rightarrow>
          LogInfo ''Server listening'' [(''port'', portFlag args)] # concat (map serve requests) @
          (case err of Some e \<Rightarrow> [LogError e ''server error''] | None \<Rightarrow> []))"

section \<open>Alerts at the server\<close>

text \<open>What the output loop sends to a URL of the server arrives as a request; other posts do not.\<close>

fun arrives :: "string \<Rightarrow> sink \<Rightarrow> http_request list" where
  "arrives url (Posted u body) =
     (if u = url then [\<lparr>rq_Path = ''/ingest'', rq_Body = body, rq_Error = None\<rparr>] else [])"
| "arrives url _ = []"

definition ingested :: "string \<Rightarrow> log_line" where
  "ingested body = LogInfo ''received request'' [(''body'', body)]"

lemma serve_arrives:
  "concat (map serve (concat (map (arrives url) out))) =
     map ingested [body. Posted u body \<leftarrow> out, u = url]"
proof (induction out)
  case (Cons x out)
  then show ?case by (cases x) (simp_all add: serve_def ingestHandler_def ingested_def)
qed simp

lemma sent_arrives:
  "concat (map serve (concat (map (arrives url) (sent post u body)))) =
     (if u = url \<and> url \<noteq> [] then [ingested body] else [])"
  by (simp add: serve_arrives sent_def)

section \<open>The log determines the alert\<close>

text \<open>The line the server logs for an alert is that of no other, up to the order of the metadata.\<close>

lemma ingested_alert:
  assumes "ingested (json_text (json_of_alert a)) = ingested (json_text (json_of_alert a'))"
    and "alert_utf8 a" and "alert_utf8 a'"
  shows "same_alert a a'"
  using assms alert_text_inject [of a a'] by (simp add: ingested_def)

text \<open>An iteration that reads an alert for the server's URL adds exactly its line to the log.\<close>

lemma alert_ingested:
  assumes "ReadAlert env list_data now s = (Return a, t)" and "am_Callback (ka_Metadata a) = url"
    and "url \<noteq> []" and "output_step env list_data now post s = (Return out, t')"
  shows "concat (map serve (concat (map (arrives url) out))) = [ingested (json_text (json_of_alert a))]"
proof -
  from output_step_sent [OF assms(1), of post] assms(2,4)
  have "out = sent post url (json_text (json_of_alert a))" by simp
  with assms(3) show ?thesis by (simp add: sent_arrives)
qed

text \<open>The port cannot be changed: the arguments are never parsed.\<close>

lemma port_flag_ignored: "callback_main args listen = callback_main [] listen"
  by (simp add: callback_main_def portFlag_def)

end
