(* ===== verification/Field_Selectors.thy ===== *)
theory Field_Selectors
  imports Reconcilers
begin

text \<open>
  The fields by which pods are listed: the indexes the \<open>SetupWithManager\<close> methods register, and the
  field selectors the API server supports, for the listings go to the server and not to the cache
  the indexes are of.
\<close>

section \<open>Registering the indexes\<close>

text \<open>A field, the values of a pod under it, and the prefix of the error of its registration.\<close>

type_synonym field_index = "string \<times> (Pod \<Rightarrow> string list) \<times> string"

definition policy_indexes :: "field_index list" where
  "policy_indexes =
     [(''metadata.name'', \<lambda>pod. [pod_Name pod], ''SetupWithManager Error Index Pod Name: ''),
      (''metadata.namespace'', \<lambda>pod. [pod_Namespace pod], ''SetupWithManager Error Index Pod Namespace: ''),
      (''metadata.podIP'', \<lambda>pod. [pod_IP pod], ''SetupWithManager Error Index Pod Ip: '')]"

definition data_indexes :: "field_index list" where
  "data_indexes =
     [(''metadata.name'', \<lambda>pod. [pod_Name pod], ''SetupWithManager Error Index Pod Name: ''),
      (''metadata.namespace'', \<lambda>pod. [pod_Namespace pod], ''SetupWithManager Error Index Pod Namespace: ''),
      (''spec.nodeName'', \<lambda>pod. [pod_Namespace pod], ''SetupWithManager Error Index Pod NodeName: '')]"

text \<open>What the manager answers: \<open>IndexField\<close> for a field, after the fields registered so far, and
  \<open>Complete\<close>.\<close>

record index_env =
  ie_index :: "string list \<Rightarrow> string \<Rightarrow> string option"
  ie_complete :: "string list \<Rightarrow> string option"

fun index_fields :: "index_env \<Rightarrow> field_index list \<Rightarrow> string list \<Rightarrow> string option" where
  "index_fields env [] done_fields = ie_complete env done_fields"
| "index_fields env ((field, values, msg) # idx) done_fields =
     (case ie_index env done_fields field of
        Some err \<Rightarrow> Some (msg @ err)
      | None \<Rightarrow> index_fields env idx (done_fields @ [field]))"

definition KivePolicy_SetupWithManager :: "index_env \<Rightarrow> string option" where
  "KivePolicy_SetupWithManager env = index_fields env policy_indexes []"

definition KiveData_SetupWithManager :: "index_env \<Rightarrow> string option" where
  "KiveData_SetupWithManager env = index_fields env data_indexes []"

definition KivePod_SetupWithManager :: "index_env \<Rightarrow> string option" where
  "KivePod_SetupWithManager env = ie_complete env []"

lemma index_fields_None:
  "index_fields env idx done_fields = None \<longleftrightarrow>
     (\<forall>i < length idx. ie_index env (done_fields @ map fst (take i idx)) (fst (idx ! i)) = None) \<and>
     ie_complete env (done_fields @ map fst idx) = None"
proof (induction idx arbitrary: done_fields)
  case (Cons e idx)
  obtain f g m where "e = (f, g, m)" by (cases e)
  with Cons show ?case by (auto simp: less_Suc_eq_0_disj split: option.split)
qed simp

text \<open>The pods a cache with the indexes would give for a selector.\<close>

definition index_select :: "field_index list \<Rightarrow> strmap \<Rightarrow> Pod list \<Rightarrow> Pod list" where
  "index_select idx sel pods = filter (\<lambda>pod. list_all (\<lambda>(f, v).
     case map_of idx f of None \<Rightarrow> False | Some (values, _) \<Rightarrow> v \<in> set (values pod)) sel) pods"

text \<open>By its index for the node a cache would find the pod of a resource only if the node had the name
  of the pod's namespace.\<close>

lemma data_index_node:
  "pod \<in> set (index_select data_indexes (pod_fields kd) pods) \<longleftrightarrow> pod \<in> set pods \<and>
     pod_Name pod = data_annotation kd ''pod-name'' \<and> pod_Namespace pod = data_annotation kd ''namespace'' \<and>
     pod_Namespace pod = data_annotation kd ''node-name''"
  by (auto simp: index_select_def pod_fields_def data_indexes_def)

section \<open>Field selectors of the server\<close>

text \<open>A match without an address asks for fields the server knows, and one with an address does not.\<close>

lemma selectable_match: "selectable (match_fields m) \<longleftrightarrow> km_IP m = []"
  by (auto simp: selectable_def match_fields_def server_pod_fields_def)

lemma refused_address:
  assumes "refuses_other_fields cl" and "km_IP m \<noteq> []"
  shows "\<exists>err. cl_pods cl h (ListPods labels (match_fields m)) = Inl err"
  using assms selectable_match [of m] by (simp add: refuses_other_fields_def)

section \<open>Properties\<close>

text \<open>C16: a match by the pod's address selects nothing: the code asks the API server for the field
  \<open>metadata.podIP\<close>, which the server does not know, so its listing fails and is only logged.  Every
  resource a reconciliation applies is of a match that names no address.\<close>

theorem address_match_selects_nothing:
  assumes "refuses_other_fields (pe_cluster env)"
    and "cl_policies (pe_cluster env) (pl_calls s) ListKivePolicy = Inr policies"
    and "pl_calls (snd (KivePolicy_Reconcile env s)) = pl_calls s @ cs" and "ApplyKiveData kd \<in> set cs"
  shows "\<exists>p \<in> set policies. \<exists>trap \<in> set (ps_Traps (kp_Spec p)). \<exists>m \<in> set (kt_MatchAny trap).
      km_IP m = [] \<and> data_annotation kd ''path'' = kt_Path trap \<and>
      data_annotation kd ''kive-policy-name'' = policy_name p"
proof -
  from applied_justified [OF assms(2-4)] obtain p trap i m h pods pod st d where j: "p \<in> set policies"
    "trap \<in> set (ps_Traps (kp_Spec p))" "m \<in> set (kt_MatchAny trap)"
    "cl_pods (pe_cluster env) h (ListPods (km_MatchLabels m) (match_fields m)) = Inr pods"
    "kd = new_kive_data (pe_kernel_id env) p trap i pod st d"
    unfolding justified_by_policy_def justified_by_trap_def justified_def by blast
  have "km_IP m = []"
    using refused_address [OF assms(1), of m h "km_MatchLabels m"] j(4) by (cases "km_IP m = []") auto
  moreover have "data_annotation kd ''path'' = kt_Path trap"
    "data_annotation kd ''kive-policy-name'' = policy_name p"
    by (simp_all add: j(5) data_annotation_def new_kive_data_def map_get_def)
  ultimately show ?thesis using j(1-3) by blast
qed

theorem address_match_selects_nothing_witness:
  "\<exists>trap \<in> set (ps_Traps (kp_Spec ex_policy)). \<exists>m \<in> set (kt_MatchAny trap).
     km_IP m = [] \<and> data_annotation ex_applied ''path'' = kt_Path trap"
proof -
  obtain cs where cs: "pl_calls (snd (KivePolicy_Reconcile (ex_policy_env (ex_cluster [])) ex_policy_state)) =
      pl_calls ex_policy_state @ cs" "ApplyKiveData ex_applied \<in> set cs" using ex_applied_call by blast
  have pols: "cl_policies (pe_cluster (ex_policy_env (ex_cluster []))) (pl_calls ex_policy_state) ListKivePolicy =
      Inr [ex_policy]" by (simp add: ex_cluster_def)
  have refuses: "refuses_other_fields (pe_cluster (ex_policy_env (ex_cluster [])))"
    using ex_premises by (simp add: steady_def)
  from address_match_selects_nothing [OF refuses pols cs] show ?thesis by auto
qed

end
