(* ===== verification/Api_Registration.thy ===== *)
theory Api_Registration
  imports Policy_Reconciler
begin

text \<open>
  The group, versions and kinds the API packages register with the scheme
  (\<open>groupversion_info.go\<close>, the \<open>init\<close> functions of the types and \<open>init\<close> of \<open>cmd/main.go\<close>), their constants, and the webhooks of
  \<open>api/v2alpha1\<close>, which accept every object as it is.
\<close>

section \<open>Group and versions\<close>

record group_version =
  gv_Group :: string
  gv_Version :: string

definition v1_GroupVersion :: group_version where
  "v1_GroupVersion = \<lparr>gv_Group = ''kivebpf.san7o.github.io'', gv_Version = ''v1''\<rparr>"

definition v2alpha1_GroupVersion :: group_version where
  "v2alpha1_GroupVersion = \<lparr>gv_Group = ''kivebpf.san7o.github.io'', gv_Version = ''v2alpha1''\<rparr>"

text \<open>\<open>GroupVersion.String\<close>\<close>

definition api_version :: "group_version \<Rightarrow> string" where
  "api_version gv = gv_Group gv @ ''/'' @ gv_Version gv"

text \<open>The calls of \<open>SchemeBuilder.Register\<close>, in the order of the files.\<close>

definition v1_data_kinds :: "string list" where "v1_data_kinds = [''KiveData'', ''KiveDataList'']"
definition v1_policy_kinds :: "string list" where "v1_policy_kinds = [''KivePolicy'', ''KivePolicyList'']"

definition v1_registered :: "string list" where
  "v1_registered = v1_data_kinds @ v1_policy_kinds"

definition v2alpha1_data_kinds :: "string list" where "v2alpha1_data_kinds = [''KiveData'', ''KiveDataList'']"
definition v2alpha1_policy_kinds :: "string list" where "v2alpha1_policy_kinds = [''KivePolicy'', ''KivePolicyList'']"

definition v2alpha1_registered :: "string list" where
  "v2alpha1_registered = v2alpha1_data_kinds @ v2alpha1_policy_kinds"

text \<open>\<open>AddToScheme\<close> on a scheme, the list of its kinds; a scheme panics on a kind with two types, which
  the two versions never have.\<close>

definition AddToScheme :: "group_version \<Rightarrow> string list \<Rightarrow> (group_version \<times> string) list \<Rightarrow> (group_version \<times> string) list" where
  "AddToScheme gv kinds scheme = scheme @ map (Pair gv) kinds"

definition main_scheme :: "(group_version \<times> string) list \<Rightarrow> (group_version \<times> string) list" where
  "main_scheme clientgo =
     AddToScheme v1_GroupVersion v1_registered (AddToScheme v2alpha1_GroupVersion v2alpha1_registered clientgo)"

definition v1_Namespace :: string where "v1_Namespace = ''kivebpf-system''"
definition v2alpha1_Namespace :: string where "v2alpha1_Namespace = ''kivebpf-system''"

lemma scheme_distinct:
  assumes "distinct clientgo" and "\<forall>(gv, k) \<in> set clientgo. gv_Group gv \<noteq> ''kivebpf.san7o.github.io''"
  shows "distinct (main_scheme clientgo)"
  using assms
  by (auto simp: main_scheme_def AddToScheme_def v1_GroupVersion_def v2alpha1_GroupVersion_def
      v1_registered_def v2alpha1_registered_def
      v1_data_kinds_def v1_policy_kinds_def v2alpha1_data_kinds_def v2alpha1_policy_kinds_def)

text \<open>What the policy reconciler applies is of a registered kind, in the namespace of both versions.\<close>

lemma applied_registered:
  assumes "kd = new_kive_data kid p trap i pod st d"
  shows "tm_APIVersion (kd_TypeMeta kd) = api_version v2alpha1_GroupVersion"
    and "(v2alpha1_GroupVersion, tm_Kind (kd_TypeMeta kd)) \<in> set (main_scheme clientgo)"
    and "om_Namespace (kd_ObjectMeta kd) = v2alpha1_Namespace"
  by (simp_all add: assms new_kive_data_def api_version_def v2alpha1_GroupVersion_def main_scheme_def
      AddToScheme_def v2alpha1_registered_def v2alpha1_data_kinds_def v2alpha1_Namespace_def kive_namespace_def)

section \<open>Webhooks\<close>

definition HivePolicyMutateWebhookPath :: string where "HivePolicyMutateWebhookPath = ''/mutate-kive-kivepolicy''"
definition HivePolicyValidateWebhookPath :: string where "HivePolicyValidateWebhookPath = ''/validate-kive-kivepolicy''"
definition HiveDataMutateWebhookPath :: string where "HiveDataMutateWebhookPath = ''/mutate-kive-kivedata''"
definition HiveDataValidateWebhookPath :: string where "HiveDataValidateWebhookPath = ''/validate-kive-kivedata''"

text \<open>The object after defaulting with the error; warnings and error of a validation.\<close>

definition KivePolicy_Default :: "KivePolicy \<Rightarrow> KivePolicy \<times> string option" where
  "KivePolicy_Default obj = (obj, None)"

definition KivePolicy_ValidateCreate :: "KivePolicy \<Rightarrow> string list \<times> string option" where
  "KivePolicy_ValidateCreate obj = ([], None)"

definition KivePolicy_ValidateUpdate :: "KivePolicy \<Rightarrow> KivePolicy \<Rightarrow> string list \<times> string option" where
  "KivePolicy_ValidateUpdate old_obj obj = ([], None)"

definition KivePolicy_ValidateDelete :: "KivePolicy \<Rightarrow> string list \<times> string option" where
  "KivePolicy_ValidateDelete obj = ([], None)"

definition KiveData_Default :: "KiveData \<Rightarrow> KiveData \<times> string option" where
  "KiveData_Default obj = (obj, None)"

definition KiveData_ValidateCreate :: "KiveData \<Rightarrow> string list \<times> string option" where
  "KiveData_ValidateCreate obj = ([], None)"

definition KiveData_ValidateUpdate :: "KiveData \<Rightarrow> KiveData \<Rightarrow> string list \<times> string option" where
  "KiveData_ValidateUpdate old_obj obj = ([], None)"

definition KiveData_ValidateDelete :: "KiveData \<Rightarrow> string list \<times> string option" where
  "KiveData_ValidateDelete obj = ([], None)"

datatype webhook_role = Defaulter | Validator

text \<open>The set-up methods: kind, role and path of the webhook built.\<close>

definition KivePolicy_SetupMutateWebhook :: "string \<times> webhook_role \<times> string" where
  "KivePolicy_SetupMutateWebhook = (''KivePolicy'', Defaulter, HivePolicyMutateWebhookPath)"

definition KivePolicy_SetupValidateWebhook :: "string \<times> webhook_role \<times> string" where
  "KivePolicy_SetupValidateWebhook = (''KivePolicy'', Validator, HivePolicyValidateWebhookPath)"

definition KiveData_SetupMutateWebhook :: "string \<times> webhook_role \<times> string" where
  "KiveData_SetupMutateWebhook = (''KiveData'', Defaulter, HiveDataMutateWebhookPath)"

definition KiveData_SetupValidateWebhook :: "string \<times> webhook_role \<times> string" where
  "KiveData_SetupValidateWebhook = (''KiveData'', Validator, HiveDataValidateWebhookPath)"

lemma webhook_paths_distinct:
  "distinct (map (\<lambda>(k, r, p). p) [KivePolicy_SetupMutateWebhook, KivePolicy_SetupValidateWebhook,
     KiveData_SetupMutateWebhook, KiveData_SetupValidateWebhook])"
  by (simp add: KivePolicy_SetupMutateWebhook_def KivePolicy_SetupValidateWebhook_def
      KiveData_SetupMutateWebhook_def KiveData_SetupValidateWebhook_def HivePolicyMutateWebhookPath_def
      HivePolicyValidateWebhookPath_def HiveDataMutateWebhookPath_def HiveDataValidateWebhookPath_def)

end
