(* ===== verification/Deep_Copy.thy ===== *)
theory Deep_Copy
  imports Kive_Api "HOL-Library.Sublist"
begin

text \<open>
  The generated deep copies of \<open>api/v2alpha1/zz_generated.deepcopy.go\<close> (those of \<open>api/v1\<close> differ in the
  package name only).  Everywhere else a resource is its value; here maps, slices and pointers are
  addresses in a heap, so that two resources can share them, and it is shown that a copy reads as
  the original and shares nothing with it.  The reconcilers depend on this: they patch a resource
  against its copy, or its copy against it, after changing one of the two in place.
\<close>

section \<open>Go values on a heap\<close>

type_synonym addr = nat

text \<open>The structs, with an address for each map, slice or pointer; \<open>None\<close> is nil.\<close>

record match_v =
  mv_PodName :: string
  mv_ContainerName :: string
  mv_Namespace :: string
  mv_IP :: string
  mv_MatchLabels :: "addr option"

record trap_v =
  tv_Path :: string
  tv_Create :: bool
  tv_Mode :: u32
  tv_Callback :: string
  tv_Metadata :: "addr option"
  tv_MatchAny :: "addr option"

record policy_spec_v =
  psv_AlertVersion :: string
  psv_Traps :: "addr option"

record data_spec_v =
  dsv_InodeNo :: u64
  dsv_DevID :: u32
  dsv_Metadata :: "addr option"

record meta_v =
  mev_Name :: string
  mev_Namespace :: string
  mev_Labels :: "addr option"
  mev_Annotations :: "addr option"
  mev_Finalizers :: "addr option"
  mev_DeletionTimestamp :: "addr option"

record data_v =
  dv_TypeMeta :: TypeMeta
  dv_ObjectMeta :: meta_v
  dv_Spec :: data_spec_v

record policy_v =
  pv_TypeMeta :: TypeMeta
  pv_ObjectMeta :: meta_v
  pv_Spec :: policy_spec_v

record alert_v =
  av_AlertVersion :: string
  av_PolicyName :: string
  av_Timestamp :: string
  av_Metadata :: KiveAlertMetadata
  av_CustomMetadata :: "addr option"
  av_Pod :: PodMetadata
  av_Node :: NodeMetadata
  av_Process :: ProcessMetadata

text \<open>A slice is an array of its own; slices that overlap in one array are not described.\<close>

datatype obj =
    OMap strmap
  | OStrings "string list"
  | OTime string
  | OMatches "match_v list"
  | OTraps "trap_v list"
  | ODatas "data_v list"
  | OPolicies "policy_v list"

type_synonym heap = "obj list"

fun the_map :: "obj \<Rightarrow> strmap" where "the_map (OMap m) = m" | "the_map _ = []"
fun the_matches :: "obj \<Rightarrow> match_v list" where "the_matches (OMatches vs) = vs" | "the_matches _ = []"
fun the_traps :: "obj \<Rightarrow> trap_v list" where "the_traps (OTraps vs) = vs" | "the_traps _ = []"
fun the_datas :: "obj \<Rightarrow> data_v list" where "the_datas (ODatas vs) = vs" | "the_datas _ = []"
fun the_policies :: "obj \<Rightarrow> policy_v list" where "the_policies (OPolicies vs) = vs" | "the_policies _ = []"

definition zero_match :: match_v where
  "zero_match = \<lparr>mv_PodName = [], mv_ContainerName = [], mv_Namespace = [], mv_IP = [], mv_MatchLabels = None\<rparr>"

definition zero_trap :: trap_v where
  "zero_trap = \<lparr>tv_Path = [], tv_Create = False, tv_Mode = 0, tv_Callback = [], tv_Metadata = None,
     tv_MatchAny = None\<rparr>"

definition zero_meta :: meta_v where
  "zero_meta = \<lparr>mev_Name = [], mev_Namespace = [], mev_Labels = None, mev_Annotations = None,
     mev_Finalizers = None, mev_DeletionTimestamp = None\<rparr>"

definition zero_data :: data_v where
  "zero_data = \<lparr>dv_TypeMeta = \<lparr>tm_Kind = [], tm_APIVersion = []\<rparr>, dv_ObjectMeta = zero_meta,
     dv_Spec = \<lparr>dsv_InodeNo = 0, dsv_DevID = 0, dsv_Metadata = None\<rparr>\<rparr>"

definition zero_policy :: policy_v where
  "zero_policy = \<lparr>pv_TypeMeta = \<lparr>tm_Kind = [], tm_APIVersion = []\<rparr>, pv_ObjectMeta = zero_meta,
     pv_Spec = \<lparr>psv_AlertVersion = [], psv_Traps = None\<rparr>\<rparr>"

section \<open>Copying\<close>

text \<open>The block for a map: \<open>if in.M != nil { *out = make(...); for key, val := range *in { (*out)[key] = val } }\<close>\<close>

definition copy_map :: "heap \<Rightarrow> addr option \<Rightarrow> addr option \<times> heap" where
  "copy_map h r =
     (case r of None \<Rightarrow> (None, h)
      | Some a \<Rightarrow> (Some (length h), h @ [OMap (map_copy (the_map (h ! a)) [])]))"

text \<open>The block for a slice: a new array of zero values, then the elements one by one.\<close>

definition copy_item ::
  "(heap \<Rightarrow> 'v \<Rightarrow> 'v \<times> heap) \<Rightarrow> ('v list \<Rightarrow> obj) \<Rightarrow> (obj \<Rightarrow> 'v list) \<Rightarrow> addr \<Rightarrow> addr \<Rightarrow> nat \<Rightarrow> heap \<Rightarrow> heap" where
  "copy_item into put get a b i h =
     (let (w, h') = into h (get (h ! a) ! i) in h'[b := put ((get (h' ! b))[i := w])])"

definition copy_slice ::
  "(heap \<Rightarrow> 'v \<Rightarrow> 'v \<times> heap) \<Rightarrow> ('v list \<Rightarrow> obj) \<Rightarrow> (obj \<Rightarrow> 'v list) \<Rightarrow> 'v \<Rightarrow>
   heap \<Rightarrow> addr option \<Rightarrow> addr option \<times> heap" where
  "copy_slice into put get zero h r =
     (case r of None \<Rightarrow> (None, h)
      | Some a \<Rightarrow>
          (let n = length (get (h ! a)); b = length h
           in (Some b, fold (copy_item into put get a b) [0..<n] (h @ [put (replicate n zero)]))))"

definition KiveTrapMatch_DeepCopyInto :: "heap \<Rightarrow> match_v \<Rightarrow> match_v \<times> heap" where
  "KiveTrapMatch_DeepCopyInto h v =
     (let (m, h) = copy_map h (mv_MatchLabels v) in (v\<lparr>mv_MatchLabels := m\<rparr>, h))"

definition KiveTrap_DeepCopyInto :: "heap \<Rightarrow> trap_v \<Rightarrow> trap_v \<times> heap" where
  "KiveTrap_DeepCopyInto h v =
     (let (m, h) = copy_map h (tv_Metadata v);
          (s, h) = copy_slice KiveTrapMatch_DeepCopyInto OMatches the_matches zero_match h (tv_MatchAny v)
      in (v\<lparr>tv_Metadata := m, tv_MatchAny := s\<rparr>, h))"

definition KivePolicySpec_DeepCopyInto :: "heap \<Rightarrow> policy_spec_v \<Rightarrow> policy_spec_v \<times> heap" where
  "KivePolicySpec_DeepCopyInto h v =
     (let (s, h) = copy_slice KiveTrap_DeepCopyInto OTraps the_traps zero_trap h (psv_Traps v)
      in (v\<lparr>psv_Traps := s\<rparr>, h))"

definition KiveDataSpec_DeepCopyInto :: "heap \<Rightarrow> data_spec_v \<Rightarrow> data_spec_v \<times> heap" where
  "KiveDataSpec_DeepCopyInto h v =
     (let (m, h) = copy_map h (dsv_Metadata v) in (v\<lparr>dsv_Metadata := m\<rparr>, h))"

definition KiveAlert_DeepCopyInto :: "heap \<Rightarrow> alert_v \<Rightarrow> alert_v \<times> heap" where
  "KiveAlert_DeepCopyInto h v =
     (let (m, h) = copy_map h (av_CustomMetadata v) in (v\<lparr>av_CustomMetadata := m\<rparr>, h))"

text \<open>\<open>ObjectMeta.DeepCopyInto\<close> is Kubernetes': the parameter \<open>copy_meta\<close>.\<close>

type_synonym meta_copy = "heap \<Rightarrow> meta_v \<Rightarrow> meta_v \<times> heap"

definition KiveData_DeepCopyInto :: "meta_copy \<Rightarrow> heap \<Rightarrow> data_v \<Rightarrow> data_v \<times> heap" where
  "KiveData_DeepCopyInto copy_meta h v =
     (let (m, h) = copy_meta h (dv_ObjectMeta v);
          (s, h) = KiveDataSpec_DeepCopyInto h (dv_Spec v)
      in (v\<lparr>dv_ObjectMeta := m, dv_Spec := s\<rparr>, h))"

definition KivePolicy_DeepCopyInto :: "meta_copy \<Rightarrow> heap \<Rightarrow> policy_v \<Rightarrow> policy_v \<times> heap" where
  "KivePolicy_DeepCopyInto copy_meta h v =
     (let (m, h) = copy_meta h (pv_ObjectMeta v);
          (s, h) = KivePolicySpec_DeepCopyInto h (pv_Spec v)
      in (v\<lparr>pv_ObjectMeta := m, pv_Spec := s\<rparr>, h))"

text \<open>The items of the two lists.\<close>

definition KiveDataList_Items_copy :: "meta_copy \<Rightarrow> heap \<Rightarrow> addr option \<Rightarrow> addr option \<times> heap" where
  "KiveDataList_Items_copy copy_meta =
     copy_slice (KiveData_DeepCopyInto copy_meta) ODatas the_datas zero_data"

definition KivePolicyList_Items_copy :: "meta_copy \<Rightarrow> heap \<Rightarrow> addr option \<Rightarrow> addr option \<times> heap" where
  "KivePolicyList_Items_copy copy_meta =
     copy_slice (KivePolicy_DeepCopyInto copy_meta) OPolicies the_policies zero_policy"

text \<open>A list has the metadata of Kubernetes' \<open>ListMeta\<close>, of type \<open>'m\<close> with the copy \<open>copy_list\<close>.\<close>

record 'm list_v =
  lv_TypeMeta :: TypeMeta
  lv_ListMeta :: 'm
  lv_Items :: "addr option"

definition KiveDataList_DeepCopyInto ::
  "meta_copy \<Rightarrow> (heap \<Rightarrow> 'm \<Rightarrow> 'm \<times> heap) \<Rightarrow> heap \<Rightarrow> 'm list_v \<Rightarrow> 'm list_v \<times> heap" where
  "KiveDataList_DeepCopyInto copy_meta copy_list h v =
     (let (m, h) = copy_list h (lv_ListMeta v);
          (s, h) = KiveDataList_Items_copy copy_meta h (lv_Items v)
      in (v\<lparr>lv_ListMeta := m, lv_Items := s\<rparr>, h))"

definition KivePolicyList_DeepCopyInto ::
  "meta_copy \<Rightarrow> (heap \<Rightarrow> 'm \<Rightarrow> 'm \<times> heap) \<Rightarrow> heap \<Rightarrow> 'm list_v \<Rightarrow> 'm list_v \<times> heap" where
  "KivePolicyList_DeepCopyInto copy_meta copy_list h v =
     (let (m, h) = copy_list h (lv_ListMeta v);
          (s, h) = KivePolicyList_Items_copy copy_meta h (lv_Items v)
      in (v\<lparr>lv_ListMeta := m, lv_Items := s\<rparr>, h))"

text \<open>The parts of an alert have no references: \<open>*out = *in\<close>.\<close>

definition ContainerMetadata_DeepCopyInto :: "heap \<Rightarrow> ContainerMetadata \<Rightarrow> ContainerMetadata \<times> heap" where
  "ContainerMetadata_DeepCopyInto h v = (v, h)"

definition KiveAlertMetadata_DeepCopyInto :: "heap \<Rightarrow> KiveAlertMetadata \<Rightarrow> KiveAlertMetadata \<times> heap" where
  "KiveAlertMetadata_DeepCopyInto h v = (v, h)"

definition NodeMetadata_DeepCopyInto :: "heap \<Rightarrow> NodeMetadata \<Rightarrow> NodeMetadata \<times> heap" where
  "NodeMetadata_DeepCopyInto h v = (v, h)"

definition PodMetadata_DeepCopyInto :: "heap \<Rightarrow> PodMetadata \<Rightarrow> PodMetadata \<times> heap" where
  "PodMetadata_DeepCopyInto h v = (v, h)"

definition ProcessMetadata_DeepCopyInto :: "heap \<Rightarrow> ProcessMetadata \<Rightarrow> ProcessMetadata \<times> heap" where
  "ProcessMetadata_DeepCopyInto h v = (v, h)"

text \<open>\<open>DeepCopy\<close> of a pointer to a struct: nil for nil, else a pointer to a new struct.\<close>

definition new_copy :: "(heap \<Rightarrow> 'v \<Rightarrow> 'v \<times> heap) \<Rightarrow> heap \<Rightarrow> 'v option \<Rightarrow> 'v option \<times> heap" where
  "new_copy into h p =
     (case p of None \<Rightarrow> (None, h) | Some v \<Rightarrow> (let (w, h) = into h v in (Some w, h)))"

definition KiveData_DeepCopy :: "meta_copy \<Rightarrow> heap \<Rightarrow> data_v option \<Rightarrow> data_v option \<times> heap" where
  "KiveData_DeepCopy copy_meta = new_copy (KiveData_DeepCopyInto copy_meta)"

definition KivePolicy_DeepCopy :: "meta_copy \<Rightarrow> heap \<Rightarrow> policy_v option \<Rightarrow> policy_v option \<times> heap" where
  "KivePolicy_DeepCopy copy_meta = new_copy (KivePolicy_DeepCopyInto copy_meta)"

definition KiveData_DeepCopyObject :: "meta_copy \<Rightarrow> heap \<Rightarrow> data_v option \<Rightarrow> data_v option \<times> heap" where
  "KiveData_DeepCopyObject copy_meta h p =
     (let (c, h) = KiveData_DeepCopy copy_meta h p in (case c of Some w \<Rightarrow> (Some w, h) | None \<Rightarrow> (None, h)))"

definition KivePolicy_DeepCopyObject :: "meta_copy \<Rightarrow> heap \<Rightarrow> policy_v option \<Rightarrow> policy_v option \<times> heap" where
  "KivePolicy_DeepCopyObject copy_meta h p =
     (let (c, h) = KivePolicy_DeepCopy copy_meta h p in (case c of Some w \<Rightarrow> (Some w, h) | None \<Rightarrow> (None, h)))"

section \<open>What a value on the heap reads as, and the addresses it reaches\<close>

definition reads_map :: "heap \<Rightarrow> addr option \<Rightarrow> strmap \<Rightarrow> bool" where
  "reads_map h r m \<longleftrightarrow>
     (case r of None \<Rightarrow> m = [] | Some a \<Rightarrow> a < length h \<and> h ! a = OMap m \<and> wf_map m)"

definition refs_map :: "heap \<Rightarrow> addr option \<Rightarrow> addr set" where
  "refs_map h r = set_option r"

definition reads_slice ::
  "(heap \<Rightarrow> 'v \<Rightarrow> 'x \<Rightarrow> bool) \<Rightarrow> ('v list \<Rightarrow> obj) \<Rightarrow> (obj \<Rightarrow> 'v list) \<Rightarrow> heap \<Rightarrow> addr option \<Rightarrow> 'x list \<Rightarrow> bool" where
  "reads_slice reads put get h r xs \<longleftrightarrow>
     (case r of None \<Rightarrow> xs = []
      | Some a \<Rightarrow> a < length h \<and> h ! a = put (get (h ! a)) \<and> list_all2 (reads h) (get (h ! a)) xs)"

definition refs_slice :: "(heap \<Rightarrow> 'v \<Rightarrow> addr set) \<Rightarrow> (obj \<Rightarrow> 'v list) \<Rightarrow> heap \<Rightarrow> addr option \<Rightarrow> addr set" where
  "refs_slice refs get h r =
     (case r of None \<Rightarrow> {} | Some a \<Rightarrow> insert a (\<Union>v \<in> set (get (h ! a)). refs h v))"

section \<open>The contract of a deep copy\<close>

text \<open>
  What a value reads as depends on the addresses it reaches only, all of them in the heap; copying
  leaves the heap as it is and adds to it, and the copy reads as the original and reaches only
  what was added.
\<close>

locale deep_copier =
  fixes into :: "heap \<Rightarrow> 'v \<Rightarrow> 'v \<times> heap"
    and reads :: "heap \<Rightarrow> 'v \<Rightarrow> 'x \<Rightarrow> bool"
    and refs :: "heap \<Rightarrow> 'v \<Rightarrow> addr set"
  assumes refs_in: "reads h v x \<Longrightarrow> refs h v \<subseteq> {..<length h}"
    and reads_local: "reads h v x \<Longrightarrow> (\<And>a. a \<in> refs h v \<Longrightarrow> a < length h' \<and> h' ! a = h ! a) \<Longrightarrow>
      reads h' v x \<and> refs h' v = refs h v"
    and copies: "reads h v x \<Longrightarrow> into h v = (w, h') \<Longrightarrow>
      prefix h h' \<and> reads h' w x \<and> refs h' w \<subseteq> {length h..<length h'}"
begin

lemma reads_prefix:
  assumes "reads h v x" and "prefix h h'"
  shows "reads h' v x" and "refs h' v = refs h v"
proof -
  have "a < length h' \<and> h' ! a = h ! a" if "a \<in> refs h v" for a
    using that refs_in [OF assms(1)] assms(2) by (auto simp: prefix_def nth_append subset_eq)
  from reads_local [OF assms(1) this] show "reads h' v x" "refs h' v = refs h v" by simp_all
qed

lemma reads_write:
  assumes "reads h v x" and "a \<notin> refs h v"
  shows "reads (h[a := c]) v x" and "refs (h[a := c]) v = refs h v"
proof -
  have "b < length (h[a := c]) \<and> h[a := c] ! b = h ! b" if "b \<in> refs h v" for b
    using that refs_in [OF assms(1)] assms(2) by (cases "a = b") auto
  from reads_local [OF assms(1) this] show "reads (h[a := c]) v x" "refs (h[a := c]) v = refs h v"
    by simp_all
qed

text \<open>A write to what one of the two reaches leaves the other.\<close>

lemma independent:
  assumes "reads h v x" and "into h v = (w, h')"
  shows "reads h' v x" and "reads h' w x" and "refs h' v \<inter> refs h' w = {}"
    and "a \<in> refs h' w \<Longrightarrow> reads (h'[a := c]) v x"
    and "a \<in> refs h' v \<Longrightarrow> reads (h'[a := c]) w x"
proof -
  note c = copies [OF assms]
  note v = reads_prefix [OF assms(1) conjunct1 [OF c]]
  show "reads h' v x" "reads h' w x" using v c by simp_all
  show disj: "refs h' v \<inter> refs h' w = {}" using v(2) refs_in [OF assms(1)] c by fastforce
  show "reads (h'[a := c]) v x" if "a \<in> refs h' w" for a c
    using that disj by (intro reads_write [OF v(1)]) blast
  show "reads (h'[a := c]) w x" if "a \<in> refs h' v" for a c
    using that disj c by (intro reads_write) blast+
qed

end

text \<open>Two values copied one after the other.\<close>

definition copy_both ::
  "(heap \<Rightarrow> 'v \<Rightarrow> 'v \<times> heap) \<Rightarrow> (heap \<Rightarrow> 'w \<Rightarrow> 'w \<times> heap) \<Rightarrow> heap \<Rightarrow> 'v \<times> 'w \<Rightarrow> ('v \<times> 'w) \<times> heap" where
  "copy_both into1 into2 h p =
     (let (v, h) = into1 h (fst p); (w, h) = into2 h (snd p) in ((v, w), h))"

locale pair_copier =
  l: deep_copier into1 reads1 refs1 + r: deep_copier into2 reads2 refs2
  for into1 :: "heap \<Rightarrow> 'v \<Rightarrow> 'v \<times> heap" and reads1 :: "heap \<Rightarrow> 'v \<Rightarrow> 'x \<Rightarrow> bool"
    and refs1 :: "heap \<Rightarrow> 'v \<Rightarrow> addr set"
    and into2 :: "heap \<Rightarrow> 'w \<Rightarrow> 'w \<times> heap" and reads2 :: "heap \<Rightarrow> 'w \<Rightarrow> 'y \<Rightarrow> bool"
    and refs2 :: "heap \<Rightarrow> 'w \<Rightarrow> addr set"
begin

lemma copies_both:
  assumes "reads1 h v x" and "reads2 h w y" and "copy_both into1 into2 h (v, w) = ((v', w'), h')"
  shows "prefix h h' \<and> reads1 h' v' x \<and> reads2 h' w' y \<and> refs1 h' v' \<union> refs2 h' w' \<subseteq> {length h..<length h'}"
proof -
  from assms(3) obtain g where g: "into1 h v = (v', g)" "into2 g w = (w', h')"
    by (auto simp: copy_both_def split: prod.splits)
  note c1 = l.copies [OF assms(1) g(1)]
  note c2 = r.copies [OF r.reads_prefix(1) [OF assms(2) conjunct1 [OF c1]] g(2)]
  note keep = l.reads_prefix [OF _ conjunct1 [OF c2], of v' x]
  have len: "length h \<le> length g" "length g \<le> length h'" using c1 c2 by (simp_all add: prefix_length_le)
  from c1 keep(2) len have "refs1 h' v' \<subseteq> {length h..<length h'}" by fastforce
  moreover from c2 len have "refs2 h' w' \<subseteq> {length h..<length h'}" by fastforce
  moreover have "prefix h h'" using c1 c2 prefix_order.trans by blast
  ultimately show ?thesis using keep(1) c1 c2 by blast
qed

end

sublocale pair_copier \<subseteq> both: deep_copier "copy_both into1 into2"
  "\<lambda>h p q. reads1 h (fst p) (fst q) \<and> reads2 h (snd p) (snd q)" "\<lambda>h p. refs1 h (fst p) \<union> refs2 h (snd p)"
proof
  show "refs1 h (fst p) \<union> refs2 h (snd p) \<subseteq> {..<length h}"
    if "reads1 h (fst p) (fst q) \<and> reads2 h (snd p) (snd q)" for h p q
    using that l.refs_in r.refs_in by blast
  show "(reads1 h' (fst p) (fst q) \<and> reads2 h' (snd p) (snd q)) \<and>
      refs1 h' (fst p) \<union> refs2 h' (snd p) = refs1 h (fst p) \<union> refs2 h (snd p)"
    if "reads1 h (fst p) (fst q) \<and> reads2 h (snd p) (snd q)"
      "\<And>a. a \<in> refs1 h (fst p) \<union> refs2 h (snd p) \<Longrightarrow> a < length h' \<and> h' ! a = h ! a" for h h' p q
    using l.reads_local [of h "fst p" "fst q" h'] r.reads_local [of h "snd p" "snd q" h'] that by simp
  show "prefix h h' \<and> (reads1 h' (fst w) (fst q) \<and> reads2 h' (snd w) (snd q)) \<and>
      refs1 h' (fst w) \<union> refs2 h' (snd w) \<subseteq> {length h..<length h'}"
    if "reads1 h (fst p) (fst q) \<and> reads2 h (snd p) (snd q)" "copy_both into1 into2 h p = (w, h')" for h p q w h'
    using copies_both [of h "fst p" "fst q" "snd p" "snd q" "fst w" "snd w" h'] that by auto
qed


text \<open>A field of a struct, whose other fields are copied as they are.\<close>

definition copy_struct ::
  "(heap \<Rightarrow> 'v \<Rightarrow> 'v \<times> heap) \<Rightarrow> ('s \<Rightarrow> 'v) \<Rightarrow> ('v \<Rightarrow> 's \<Rightarrow> 's) \<Rightarrow> heap \<Rightarrow> 's \<Rightarrow> 's \<times> heap" where
  "copy_struct into field update h s = (let (v, h) = into h (field s) in (update v s, h))"

locale struct_copier = deep_copier into reads refs
  for into :: "heap \<Rightarrow> 'v \<Rightarrow> 'v \<times> heap" and reads :: "heap \<Rightarrow> 'v \<Rightarrow> 'x \<Rightarrow> bool"
    and refs :: "heap \<Rightarrow> 'v \<Rightarrow> addr set" +
  fixes field :: "'s \<Rightarrow> 'v" and update :: "'v \<Rightarrow> 's \<Rightarrow> 's"
    and agree :: "'s \<Rightarrow> 't \<Rightarrow> bool" and field' :: "'t \<Rightarrow> 'x"
  assumes field_update [simp]: "field (update v s) = v"
    and agree_update [simp]: "agree (update v s) t = agree s t"

sublocale struct_copier \<subseteq> struct: deep_copier "copy_struct into field update"
  "\<lambda>h s t. agree s t \<and> reads h (field s) (field' t)" "\<lambda>h s. refs h (field s)"
proof
  show "refs h (field s) \<subseteq> {..<length h}" if "agree s t \<and> reads h (field s) (field' t)" for h s t
    using that refs_in by blast
  show "(agree s t \<and> reads h' (field s) (field' t)) \<and> refs h' (field s) = refs h (field s)"
    if "agree s t \<and> reads h (field s) (field' t)"
      "\<And>a. a \<in> refs h (field s) \<Longrightarrow> a < length h' \<and> h' ! a = h ! a" for h h' s t
    using that reads_local [of h "field s" "field' t" h'] by blast
  show "prefix h h' \<and> (agree w t \<and> reads h' (field w) (field' t)) \<and> refs h' (field w) \<subseteq> {length h..<length h'}"
    if "agree s t \<and> reads h (field s) (field' t)" "copy_struct into field update h s = (w, h')" for h h' s t w
    using that copies [of h "field s" "field' t"] by (auto simp: copy_struct_def split: prod.splits)
qed

text \<open>A slice of values: the heap \<open>g\<close> when, from the heap \<open>h\<close>, the first \<open>m\<close> of \<open>n\<close> elements have been
  copied to a new array.\<close>

definition copied ::
  "(heap \<Rightarrow> 'v \<Rightarrow> 'x \<Rightarrow> bool) \<Rightarrow> (heap \<Rightarrow> 'v \<Rightarrow> addr set) \<Rightarrow> ('v list \<Rightarrow> obj) \<Rightarrow>
   heap \<Rightarrow> 'x list \<Rightarrow> nat \<Rightarrow> nat \<Rightarrow> heap \<Rightarrow> bool" where
  "copied reads refs put h xs n m g \<longleftrightarrow> prefix h g \<and> length h < length g \<and>
     (\<exists>ws. g ! length h = put ws \<and> length ws = n \<and>
       (\<forall>i < m. reads g (ws ! i) (xs ! i) \<and> refs g (ws ! i) \<subseteq> {length h<..<length g}))"

lemma prefix_write: "prefix h g \<Longrightarrow> length h \<le> b \<Longrightarrow> prefix h (g[b := c])"
  by (auto simp: prefix_def list_update_append)

lemma prefix_nth: "prefix h g \<Longrightarrow> a < length h \<Longrightarrow> g ! a = h ! a"
  by (auto simp: prefix_def nth_append)

locale slice_copier = deep_copier into reads refs
  for into :: "heap \<Rightarrow> 'v \<Rightarrow> 'v \<times> heap" and reads :: "heap \<Rightarrow> 'v \<Rightarrow> 'x \<Rightarrow> bool"
    and refs :: "heap \<Rightarrow> 'v \<Rightarrow> addr set" +
  fixes put :: "'v list \<Rightarrow> obj" and get :: "obj \<Rightarrow> 'v list" and zero :: 'v
  assumes get_put [simp]: "get (put vs) = vs"
begin

lemma copied_item:
  assumes "a < length h" and "h ! a = put vs" and "list_all2 (reads h) vs xs" and "m < length vs"
    and "copied reads refs put h xs (length vs) m g"
  shows "copied reads refs put h xs (length vs) (Suc m) (copy_item into put get a (length h) m g)"
proof -
  let ?b = "length h"
  from assms(5) obtain ws where ws: "prefix h g" "?b < length g" "g ! ?b = put ws" "length ws = length vs"
    "\<And>i. i < m \<Longrightarrow> reads g (ws ! i) (xs ! i)" "\<And>i. i < m \<Longrightarrow> refs g (ws ! i) \<subseteq> {?b<..<length g}"
    unfolding copied_def by blast
  obtain w g' where w: "into g (vs ! m) = (w, g')" by fastforce
  have "reads g (vs ! m) (xs ! m)"
    using reads_prefix(1) [OF _ ws(1)] list_all2_nthD [OF assms(3,4)] by blast
  note c = copies [OF this w]
  have len: "length g \<le> length g'" using c by (simp add: prefix_length_le)
  have eq: "copy_item into put get a ?b m g = g'[?b := put (ws[m := w])]"
    using w assms(1,2) ws(2,3) prefix_nth [OF ws(1)] prefix_nth [OF conjunct1 [OF c], of ?b]
    by (simp add: copy_item_def)
  let ?r = "g'[?b := put (ws[m := w])]"
  have old: "reads ?r (ws ! i) (xs ! i)" "refs ?r (ws ! i) \<subseteq> {?b<..<length ?r}" if "i < m" for i
  proof -
    note p = reads_prefix [OF ws(5) [OF that] conjunct1 [OF c]]
    have "?b \<notin> refs g' (ws ! i)" using p(2) ws(6) [OF that] by auto
    note q = reads_write [OF p(1) this, of "put (ws[m := w])"]
    from q show "reads ?r (ws ! i) (xs ! i)" by simp
    have "refs ?r (ws ! i) = refs g (ws ! i)" using q(2) p(2) by simp
    with ws(6) [OF that] len show "refs ?r (ws ! i) \<subseteq> {?b<..<length ?r}" by fastforce
  qed
  have "?b \<notin> refs g' w" using c ws(2) by auto
  note q = reads_write [OF _ this, of "xs ! m" "put (ws[m := w])"]
  have new: "reads ?r w (xs ! m)" "refs ?r w \<subseteq> {?b<..<length ?r}"
    using q c ws(2) by (auto simp: subset_eq)
  have all: "reads ?r (ws[m := w] ! i) (xs ! i) \<and> refs ?r (ws[m := w] ! i) \<subseteq> {?b<..<length ?r}"
    if "i < Suc m" for i
    using that old [of i] new ws(4) assms(4) by (cases "i = m") auto
  have pre: "prefix h ?r" by (rule prefix_write) (use prefix_order.trans ws(1) c in blast, simp)
  have at: "?r ! ?b = put (ws[m := w])" "?b < length ?r" "length (ws[m := w]) = length vs"
    using ws(2,4) len by simp_all
  show ?thesis unfolding eq copied_def using pre all at by blast
qed

lemma copied_items:
  assumes "a < length h" and "h ! a = put vs" and "list_all2 (reads h) vs xs" and "m \<le> length vs"
  shows "copied reads refs put h xs (length vs) m
    (fold (copy_item into put get a (length h)) [0..<m] (h @ [put (replicate (length vs) zero)]))"
  using assms(4)
proof (induction m)
  case 0
  show ?case by (auto simp: copied_def intro: exI [of _ "replicate (length vs) zero"])
next
  case (Suc m)
  then have "m < length vs" by simp
  from copied_item [OF assms(1-3) this Suc.IH] Suc.prems show ?case by simp
qed

end

sublocale slice_copier \<subseteq> slice: deep_copier "copy_slice into put get zero"
  "reads_slice reads put get" "refs_slice refs get"
proof
  show "refs_slice refs get h r \<subseteq> {..<length h}" if "reads_slice reads put get h r xs" for h r xs
    using that refs_in by (fastforce simp: reads_slice_def refs_slice_def list_all2_conv_all_nth in_set_conv_nth
        split: option.splits)
  show "reads_slice reads put get h' r xs \<and> refs_slice refs get h' r = refs_slice refs get h r"
    if r: "reads_slice reads put get h r xs"
      "\<And>a. a \<in> refs_slice refs get h r \<Longrightarrow> a < length h' \<and> h' ! a = h ! a" for h h' r xs
  proof (cases r)
    case None
    with r show ?thesis by (simp add: reads_slice_def refs_slice_def)
  next
    case (Some a)
    with r have a: "a < length h" "h ! a = put (get (h ! a))" "list_all2 (reads h) (get (h ! a)) xs"
      by (simp_all add: reads_slice_def)
    have a': "a < length h'" "h' ! a = h ! a" using r(2) [of a] Some by (simp_all add: refs_slice_def)
    have each: "reads h' v x \<and> refs h' v = refs h v" if "v \<in> set (get (h ! a))" "reads h v x" for v x
      by (rule reads_local [OF that(2)]) (use r(2) that(1) Some in \<open>auto simp: refs_slice_def\<close>)
    have "list_all2 (reads h') (get (h ! a)) xs"
      by (rule list.rel_mono_strong [OF a(3)]) (use each in blast)
    moreover have "refs h' v = refs h v" if "v \<in> set (get (h ! a))" for v
    proof -
      from that a(3) obtain x where "reads h v x" by (auto simp: list_all2_conv_all_nth in_set_conv_nth)
      with each that show ?thesis by blast
    qed
    ultimately show ?thesis using Some a a' by (simp add: reads_slice_def refs_slice_def)
  qed
  show "prefix h h' \<and> reads_slice reads put get h' w xs \<and> refs_slice refs get h' w \<subseteq> {length h..<length h'}"
    if r: "reads_slice reads put get h r xs" "copy_slice into put get zero h r = (w, h')" for h h' r w xs
  proof (cases r)
    case None
    with r show ?thesis by (auto simp: reads_slice_def refs_slice_def copy_slice_def)
  next
    case (Some a)
    let ?vs = "get (h ! a)"
    from r Some have a: "a < length h" "h ! a = put ?vs" "list_all2 (reads h) ?vs xs"
      and w: "w = Some (length h)" "h' = fold (copy_item into put get a (length h)) [0..<length ?vs]
        (h @ [put (replicate (length ?vs) zero)])"
      by (simp_all add: reads_slice_def copy_slice_def Let_def)
    from copied_items [OF a order.refl] obtain ws where ws: "prefix h h'" "length h < length h'"
      "h' ! length h = put ws" "length ws = length ?vs"
      "\<And>i. i < length ?vs \<Longrightarrow> reads h' (ws ! i) (xs ! i) \<and> refs h' (ws ! i) \<subseteq> {length h<..<length h'}"
      unfolding w(2) [symmetric] copied_def by blast
    have "list_all2 (reads h') ws xs"
      using ws(4,5) list_all2_lengthD [OF a(3)] by (simp add: list_all2_conv_all_nth)
    moreover have "(\<Union>v \<in> set ws. refs h' v) \<subseteq> {length h<..<length h'}"
      using ws(4,5) by (fastforce simp: in_set_conv_nth)
    ultimately show ?thesis using ws(1-3) w(1) by (auto simp: reads_slice_def refs_slice_def)
  qed
qed


section \<open>The copies of the resources\<close>

interpretation strmap: deep_copier copy_map reads_map refs_map
proof
  show "refs_map h r \<subseteq> {..<length h}" if "reads_map h r m" for h r m
    using that by (auto simp: reads_map_def refs_map_def split: option.splits)
  show "reads_map h' r m \<and> refs_map h' r = refs_map h r"
    if "reads_map h r m" "\<And>a. a \<in> refs_map h r \<Longrightarrow> a < length h' \<and> h' ! a = h ! a" for h h' r m
    using that by (auto simp: reads_map_def refs_map_def split: option.splits)
  show "prefix h h' \<and> reads_map h' w m \<and> refs_map h' w \<subseteq> {length h..<length h'}"
    if "reads_map h r m" "copy_map h r = (w, h')" for h h' r w m
    using that by (auto simp: reads_map_def refs_map_def copy_map_def split: option.splits)
qed

definition reads_match :: "heap \<Rightarrow> match_v \<Rightarrow> KiveTrapMatch \<Rightarrow> bool" where
  "reads_match h v x \<longleftrightarrow>
     (mv_PodName v = km_PodName x \<and> mv_ContainerName v = km_ContainerName x \<and>
      mv_Namespace v = km_Namespace x \<and> mv_IP v = km_IP x) \<and> reads_map h (mv_MatchLabels v) (km_MatchLabels x)"

definition refs_match :: "heap \<Rightarrow> match_v \<Rightarrow> addr set" where
  "refs_match h v = refs_map h (mv_MatchLabels v)"

interpretation match_struct: struct_copier copy_map reads_map refs_map mv_MatchLabels
  "\<lambda>m v. v\<lparr>mv_MatchLabels := m\<rparr>"
  "\<lambda>v x. mv_PodName v = km_PodName x \<and> mv_ContainerName v = km_ContainerName x \<and>
      mv_Namespace v = km_Namespace x \<and> mv_IP v = km_IP x" km_MatchLabels
  by unfold_locales simp_all

lemma match_eqs:
  "KiveTrapMatch_DeepCopyInto = copy_struct copy_map mv_MatchLabels (\<lambda>m v. v\<lparr>mv_MatchLabels := m\<rparr>)"
  "reads_match = (\<lambda>h v x. (mv_PodName v = km_PodName x \<and> mv_ContainerName v = km_ContainerName x \<and>
      mv_Namespace v = km_Namespace x \<and> mv_IP v = km_IP x) \<and> reads_map h (mv_MatchLabels v) (km_MatchLabels x))"
  "refs_match = (\<lambda>h v. refs_map h (mv_MatchLabels v))"
  by (simp_all add: fun_eq_iff KiveTrapMatch_DeepCopyInto_def copy_struct_def reads_match_def refs_match_def)

interpretation trap_match: slice_copier KiveTrapMatch_DeepCopyInto reads_match refs_match OMatches the_matches zero_match
  unfolding match_eqs by (intro slice_copier.intro match_struct.struct.deep_copier_axioms)
    (simp add: slice_copier_axioms_def)

definition reads_matches :: "heap \<Rightarrow> addr option \<Rightarrow> KiveTrapMatch list \<Rightarrow> bool" where
  "reads_matches = reads_slice reads_match OMatches the_matches"

definition reads_trap :: "heap \<Rightarrow> trap_v \<Rightarrow> KiveTrap \<Rightarrow> bool" where
  "reads_trap h v x \<longleftrightarrow>
     (tv_Path v = kt_Path x \<and> tv_Create v = kt_Create x \<and> tv_Mode v = kt_Mode x \<and> tv_Callback v = kt_Callback x) \<and>
     reads_map h (tv_Metadata v) (kt_Metadata x) \<and> reads_matches h (tv_MatchAny v) (kt_MatchAny x)"

definition refs_trap :: "heap \<Rightarrow> trap_v \<Rightarrow> addr set" where
  "refs_trap h v = refs_map h (tv_Metadata v) \<union> refs_slice refs_match the_matches h (tv_MatchAny v)"

interpretation trap_parts: pair_copier copy_map reads_map refs_map
  "copy_slice KiveTrapMatch_DeepCopyInto OMatches the_matches zero_match" reads_matches
  "refs_slice refs_match the_matches"
  unfolding reads_matches_def
  by (intro pair_copier.intro strmap.deep_copier_axioms trap_match.slice.deep_copier_axioms)

interpretation trap_struct: struct_copier
  "copy_both copy_map (copy_slice KiveTrapMatch_DeepCopyInto OMatches the_matches zero_match)"
  "\<lambda>h p q. reads_map h (fst p) (fst q) \<and> reads_matches h (snd p) (snd q)"
  "\<lambda>h p. refs_map h (fst p) \<union> refs_slice refs_match the_matches h (snd p)"
  "\<lambda>v. (tv_Metadata v, tv_MatchAny v)" "\<lambda>p v. v\<lparr>tv_Metadata := fst p, tv_MatchAny := snd p\<rparr>"
  "\<lambda>v x. tv_Path v = kt_Path x \<and> tv_Create v = kt_Create x \<and> tv_Mode v = kt_Mode x \<and> tv_Callback v = kt_Callback x"
  "\<lambda>x. (kt_Metadata x, kt_MatchAny x)"
  by unfold_locales simp_all

lemma trap_eqs:
  "KiveTrap_DeepCopyInto = copy_struct
     (copy_both copy_map (copy_slice KiveTrapMatch_DeepCopyInto OMatches the_matches zero_match))
     (\<lambda>v. (tv_Metadata v, tv_MatchAny v)) (\<lambda>p v. v\<lparr>tv_Metadata := fst p, tv_MatchAny := snd p\<rparr>)"
  "reads_trap = (\<lambda>h v x. (tv_Path v = kt_Path x \<and> tv_Create v = kt_Create x \<and> tv_Mode v = kt_Mode x \<and>
      tv_Callback v = kt_Callback x) \<and>
     reads_map h (fst (tv_Metadata v, tv_MatchAny v)) (fst (kt_Metadata x, kt_MatchAny x)) \<and>
     reads_matches h (snd (tv_Metadata v, tv_MatchAny v)) (snd (kt_Metadata x, kt_MatchAny x)))"
  "refs_trap = (\<lambda>h v. refs_map h (fst (tv_Metadata v, tv_MatchAny v)) \<union>
     refs_slice refs_match the_matches h (snd (tv_Metadata v, tv_MatchAny v)))"
  by (simp_all add: fun_eq_iff KiveTrap_DeepCopyInto_def copy_struct_def copy_both_def reads_trap_def
      refs_trap_def split: prod.split)

interpretation trap: slice_copier KiveTrap_DeepCopyInto reads_trap refs_trap OTraps the_traps zero_trap
  unfolding trap_eqs by (intro slice_copier.intro trap_struct.struct.deep_copier_axioms)
    (simp add: slice_copier_axioms_def)


definition reads_policy_spec :: "heap \<Rightarrow> policy_spec_v \<Rightarrow> KivePolicySpec \<Rightarrow> bool" where
  "reads_policy_spec h v x \<longleftrightarrow> psv_AlertVersion v = ps_AlertVersion x \<and>
     reads_slice reads_trap OTraps the_traps h (psv_Traps v) (ps_Traps x)"

definition refs_policy_spec :: "heap \<Rightarrow> policy_spec_v \<Rightarrow> addr set" where
  "refs_policy_spec h v = refs_slice refs_trap the_traps h (psv_Traps v)"

interpretation policy_spec_struct: struct_copier "copy_slice KiveTrap_DeepCopyInto OTraps the_traps zero_trap"
  "reads_slice reads_trap OTraps the_traps" "refs_slice refs_trap the_traps"
  psv_Traps "\<lambda>s v. v\<lparr>psv_Traps := s\<rparr>" "\<lambda>v x. psv_AlertVersion v = ps_AlertVersion x" ps_Traps
  by unfold_locales simp_all

lemma policy_spec_eqs:
  "KivePolicySpec_DeepCopyInto = copy_struct (copy_slice KiveTrap_DeepCopyInto OTraps the_traps zero_trap)
     psv_Traps (\<lambda>s v. v\<lparr>psv_Traps := s\<rparr>)"
  "reads_policy_spec = (\<lambda>h v x. psv_AlertVersion v = ps_AlertVersion x \<and>
     reads_slice reads_trap OTraps the_traps h (psv_Traps v) (ps_Traps x))"
  "refs_policy_spec = (\<lambda>h v. refs_slice refs_trap the_traps h (psv_Traps v))"
  by (simp_all add: fun_eq_iff KivePolicySpec_DeepCopyInto_def copy_struct_def reads_policy_spec_def
      refs_policy_spec_def)

interpretation policy_spec: deep_copier KivePolicySpec_DeepCopyInto reads_policy_spec refs_policy_spec
  unfolding policy_spec_eqs by (rule policy_spec_struct.struct.deep_copier_axioms)

definition reads_data_spec :: "heap \<Rightarrow> data_spec_v \<Rightarrow> KiveDataSpec \<Rightarrow> bool" where
  "reads_data_spec h v x \<longleftrightarrow> (dsv_InodeNo v = ds_InodeNo x \<and> dsv_DevID v = ds_DevID x) \<and>
     reads_map h (dsv_Metadata v) (ds_Metadata x)"

definition refs_data_spec :: "heap \<Rightarrow> data_spec_v \<Rightarrow> addr set" where
  "refs_data_spec h v = refs_map h (dsv_Metadata v)"

interpretation data_spec_struct: struct_copier copy_map reads_map refs_map dsv_Metadata
  "\<lambda>m v. v\<lparr>dsv_Metadata := m\<rparr>" "\<lambda>v x. dsv_InodeNo v = ds_InodeNo x \<and> dsv_DevID v = ds_DevID x" ds_Metadata
  by unfold_locales simp_all

lemma data_spec_eqs:
  "KiveDataSpec_DeepCopyInto = copy_struct copy_map dsv_Metadata (\<lambda>m v. v\<lparr>dsv_Metadata := m\<rparr>)"
  "reads_data_spec = (\<lambda>h v x. (dsv_InodeNo v = ds_InodeNo x \<and> dsv_DevID v = ds_DevID x) \<and>
     reads_map h (dsv_Metadata v) (ds_Metadata x))"
  "refs_data_spec = (\<lambda>h v. refs_map h (dsv_Metadata v))"
  by (simp_all add: fun_eq_iff KiveDataSpec_DeepCopyInto_def copy_struct_def reads_data_spec_def refs_data_spec_def)

interpretation data_spec: deep_copier KiveDataSpec_DeepCopyInto reads_data_spec refs_data_spec
  unfolding data_spec_eqs by (rule data_spec_struct.struct.deep_copier_axioms)

definition reads_alert :: "heap \<Rightarrow> alert_v \<Rightarrow> KiveAlert \<Rightarrow> bool" where
  "reads_alert h v x \<longleftrightarrow> (av_AlertVersion v = ka_AlertVersion x \<and> av_PolicyName v = ka_PolicyName x \<and>
      av_Timestamp v = ka_Timestamp x \<and> av_Metadata v = ka_Metadata x \<and> av_Pod v = ka_Pod x \<and>
      av_Node v = ka_Node x \<and> av_Process v = ka_Process x) \<and>
     reads_map h (av_CustomMetadata v) (ka_CustomMetadata x)"

definition refs_alert :: "heap \<Rightarrow> alert_v \<Rightarrow> addr set" where
  "refs_alert h v = refs_map h (av_CustomMetadata v)"

interpretation alert_struct: struct_copier copy_map reads_map refs_map av_CustomMetadata
  "\<lambda>m v. v\<lparr>av_CustomMetadata := m\<rparr>"
  "\<lambda>v x. av_AlertVersion v = ka_AlertVersion x \<and> av_PolicyName v = ka_PolicyName x \<and>
      av_Timestamp v = ka_Timestamp x \<and> av_Metadata v = ka_Metadata x \<and> av_Pod v = ka_Pod x \<and>
      av_Node v = ka_Node x \<and> av_Process v = ka_Process x" ka_CustomMetadata
  by unfold_locales simp_all

lemma alert_eqs:
  "KiveAlert_DeepCopyInto = copy_struct copy_map av_CustomMetadata (\<lambda>m v. v\<lparr>av_CustomMetadata := m\<rparr>)"
  "reads_alert = (\<lambda>h v x. (av_AlertVersion v = ka_AlertVersion x \<and> av_PolicyName v = ka_PolicyName x \<and>
      av_Timestamp v = ka_Timestamp x \<and> av_Metadata v = ka_Metadata x \<and> av_Pod v = ka_Pod x \<and>
      av_Node v = ka_Node x \<and> av_Process v = ka_Process x) \<and>
     reads_map h (av_CustomMetadata v) (ka_CustomMetadata x))"
  "refs_alert = (\<lambda>h v. refs_map h (av_CustomMetadata v))"
  by (simp_all add: fun_eq_iff KiveAlert_DeepCopyInto_def copy_struct_def reads_alert_def refs_alert_def)

interpretation alert: deep_copier KiveAlert_DeepCopyInto reads_alert refs_alert
  unfolding alert_eqs by (rule alert_struct.struct.deep_copier_axioms)

section \<open>Objects with metadata\<close>

text \<open>Strings of a slice, and the time a pointer points to, are values.\<close>

definition reads_strings :: "heap \<Rightarrow> addr option \<Rightarrow> string list \<Rightarrow> bool" where
  "reads_strings h r fs \<longleftrightarrow> (case r of None \<Rightarrow> fs = [] | Some a \<Rightarrow> a < length h \<and> h ! a = OStrings fs)"

definition reads_time :: "heap \<Rightarrow> addr option \<Rightarrow> string option \<Rightarrow> bool" where
  "reads_time h r t \<longleftrightarrow> (case r of None \<Rightarrow> t = None | Some a \<Rightarrow> a < length h \<and> t \<noteq> None \<and> h ! a = OTime (the t))"

definition reads_meta :: "heap \<Rightarrow> meta_v \<Rightarrow> ObjectMeta \<Rightarrow> bool" where
  "reads_meta h v x \<longleftrightarrow> (mev_Name v = om_Name x \<and> mev_Namespace v = om_Namespace x) \<and>
     (reads_map h (mev_Labels v) (om_Labels x) \<and> reads_map h (mev_Annotations v) (om_Annotations x)) \<and>
     (reads_strings h (mev_Finalizers v) (om_Finalizers x) \<and>
      reads_time h (mev_DeletionTimestamp v) (om_DeletionTimestamp x))"

definition refs_meta :: "heap \<Rightarrow> meta_v \<Rightarrow> addr set" where
  "refs_meta h v = (refs_map h (mev_Labels v) \<union> refs_map h (mev_Annotations v)) \<union>
     (refs_map h (mev_Finalizers v) \<union> refs_map h (mev_DeletionTimestamp v))"

definition reads_data :: "heap \<Rightarrow> data_v \<Rightarrow> KiveData \<Rightarrow> bool" where
  "reads_data h v x \<longleftrightarrow> dv_TypeMeta v = kd_TypeMeta x \<and>
     reads_meta h (dv_ObjectMeta v) (kd_ObjectMeta x) \<and> reads_data_spec h (dv_Spec v) (kd_Spec x)"

definition refs_data :: "heap \<Rightarrow> data_v \<Rightarrow> addr set" where
  "refs_data h v = refs_meta h (dv_ObjectMeta v) \<union> refs_data_spec h (dv_Spec v)"

definition reads_policy :: "heap \<Rightarrow> policy_v \<Rightarrow> KivePolicy \<Rightarrow> bool" where
  "reads_policy h v x \<longleftrightarrow> pv_TypeMeta v = kp_TypeMeta x \<and>
     reads_meta h (pv_ObjectMeta v) (kp_ObjectMeta x) \<and> reads_policy_spec h (pv_Spec v) (kp_Spec x)"

definition refs_policy :: "heap \<Rightarrow> policy_v \<Rightarrow> addr set" where
  "refs_policy h v = refs_meta h (pv_ObjectMeta v) \<union> refs_policy_spec h (pv_Spec v)"

lemma data_eqs:
  "KiveData_DeepCopyInto copy_meta = copy_struct (copy_both copy_meta KiveDataSpec_DeepCopyInto)
     (\<lambda>v. (dv_ObjectMeta v, dv_Spec v)) (\<lambda>p v. v\<lparr>dv_ObjectMeta := fst p, dv_Spec := snd p\<rparr>)"
  "reads_data = (\<lambda>h v x. dv_TypeMeta v = kd_TypeMeta x \<and>
     reads_meta h (fst (dv_ObjectMeta v, dv_Spec v)) (fst (kd_ObjectMeta x, kd_Spec x)) \<and>
     reads_data_spec h (snd (dv_ObjectMeta v, dv_Spec v)) (snd (kd_ObjectMeta x, kd_Spec x)))"
  "refs_data = (\<lambda>h v. refs_meta h (fst (dv_ObjectMeta v, dv_Spec v)) \<union>
     refs_data_spec h (snd (dv_ObjectMeta v, dv_Spec v)))"
  by (simp_all add: fun_eq_iff KiveData_DeepCopyInto_def copy_struct_def copy_both_def reads_data_def
      refs_data_def split: prod.split)

lemma policy_eqs:
  "KivePolicy_DeepCopyInto copy_meta = copy_struct (copy_both copy_meta KivePolicySpec_DeepCopyInto)
     (\<lambda>v. (pv_ObjectMeta v, pv_Spec v)) (\<lambda>p v. v\<lparr>pv_ObjectMeta := fst p, pv_Spec := snd p\<rparr>)"
  "reads_policy = (\<lambda>h v x. pv_TypeMeta v = kp_TypeMeta x \<and>
     reads_meta h (fst (pv_ObjectMeta v, pv_Spec v)) (fst (kp_ObjectMeta x, kp_Spec x)) \<and>
     reads_policy_spec h (snd (pv_ObjectMeta v, pv_Spec v)) (snd (kp_ObjectMeta x, kp_Spec x)))"
  "refs_policy = (\<lambda>h v. refs_meta h (fst (pv_ObjectMeta v, pv_Spec v)) \<union>
     refs_policy_spec h (snd (pv_ObjectMeta v, pv_Spec v)))"
  by (simp_all add: fun_eq_iff KivePolicy_DeepCopyInto_def copy_struct_def copy_both_def reads_policy_def
      refs_policy_def split: prod.split)

text \<open>With a copy of the metadata that keeps the contract, the copies of the objects keep it.\<close>

locale meta_copier = deep_copier copy_meta reads_meta refs_meta for copy_meta :: meta_copy

sublocale meta_copier \<subseteq> data_parts: pair_copier copy_meta reads_meta refs_meta
    KiveDataSpec_DeepCopyInto reads_data_spec refs_data_spec
  by (intro pair_copier.intro deep_copier_axioms data_spec.deep_copier_axioms)

sublocale meta_copier \<subseteq> data_struct: struct_copier "copy_both copy_meta KiveDataSpec_DeepCopyInto"
    "\<lambda>h p q. reads_meta h (fst p) (fst q) \<and> reads_data_spec h (snd p) (snd q)"
    "\<lambda>h p. refs_meta h (fst p) \<union> refs_data_spec h (snd p)"
    "\<lambda>v. (dv_ObjectMeta v, dv_Spec v)" "\<lambda>p v. v\<lparr>dv_ObjectMeta := fst p, dv_Spec := snd p\<rparr>"
    "\<lambda>v x. dv_TypeMeta v = kd_TypeMeta x" "\<lambda>x. (kd_ObjectMeta x, kd_Spec x)"
  by unfold_locales simp_all

sublocale meta_copier \<subseteq> data: slice_copier "KiveData_DeepCopyInto copy_meta" reads_data refs_data
    ODatas the_datas zero_data
  unfolding data_eqs by (intro slice_copier.intro data_struct.struct.deep_copier_axioms)
    (simp add: slice_copier_axioms_def)

sublocale meta_copier \<subseteq> policy_parts: pair_copier copy_meta reads_meta refs_meta
    KivePolicySpec_DeepCopyInto reads_policy_spec refs_policy_spec
  by (intro pair_copier.intro deep_copier_axioms policy_spec.deep_copier_axioms)

sublocale meta_copier \<subseteq> policy_struct: struct_copier "copy_both copy_meta KivePolicySpec_DeepCopyInto"
    "\<lambda>h p q. reads_meta h (fst p) (fst q) \<and> reads_policy_spec h (snd p) (snd q)"
    "\<lambda>h p. refs_meta h (fst p) \<union> refs_policy_spec h (snd p)"
    "\<lambda>v. (pv_ObjectMeta v, pv_Spec v)" "\<lambda>p v. v\<lparr>pv_ObjectMeta := fst p, pv_Spec := snd p\<rparr>"
    "\<lambda>v x. pv_TypeMeta v = kp_TypeMeta x" "\<lambda>x. (kp_ObjectMeta x, kp_Spec x)"
  by unfold_locales simp_all

sublocale meta_copier \<subseteq> policy: slice_copier "KivePolicy_DeepCopyInto copy_meta" reads_policy refs_policy
    OPolicies the_policies zero_policy
  unfolding policy_eqs by (intro slice_copier.intro policy_struct.struct.deep_copier_axioms)
    (simp add: slice_copier_axioms_def)

end
