(* ===== verification/Patch_Base.thy ===== *)
theory Patch_Base
  imports Deep_Copy Policy_Steady
begin

text \<open>
  The patches of the reconcilers on shared maps: the annotation that forces the other reconcilers is
  written to a map of the resource in place, after the resource was copied to be the base of the
  patch.  With the deep copies of \<open>Deep_Copy\<close> the request has the two values the functional model of the
  reconcilers gives it.
\<close>

section \<open>Metadata copied field by field\<close>

text \<open>A copy of the metadata with the contract of \<open>meta_copier\<close>: each map, slice and pointer anew.\<close>

definition copy_leaf :: "heap \<Rightarrow> addr option \<Rightarrow> addr option \<times> heap" where
  "copy_leaf h r = (case r of None \<Rightarrow> (None, h) | Some a \<Rightarrow> (Some (length h), h @ [h ! a]))"

definition fields_copy :: meta_copy where
  "fields_copy = copy_struct (copy_both (copy_both copy_map copy_map) (copy_both copy_leaf copy_leaf))
     (\<lambda>v. ((mev_Labels v, mev_Annotations v), (mev_Finalizers v, mev_DeletionTimestamp v)))
     (\<lambda>p v. v\<lparr>mev_Labels := fst (fst p), mev_Annotations := snd (fst p),
        mev_Finalizers := fst (snd p), mev_DeletionTimestamp := snd (snd p)\<rparr>)"

lemma leaf_copier:
  assumes "\<And>h r x. reads h r x \<longleftrightarrow> (case r of None \<Rightarrow> x = zero | Some a \<Rightarrow> a < length h \<and> P (h ! a) x)"
  shows "deep_copier copy_leaf reads refs_map"
  by unfold_locales (auto simp: assms refs_map_def copy_leaf_def split: option.splits)

interpretation finalizers: deep_copier copy_leaf reads_strings refs_map
  by (rule leaf_copier [where zero = "[]" and P = "\<lambda>c fs. c = OStrings fs"])
    (simp add: reads_strings_def split: option.split)

interpretation deletion: deep_copier copy_leaf reads_time refs_map
  by (rule leaf_copier [where zero = None and P = "\<lambda>c t. t \<noteq> None \<and> c = OTime (the t)"])
    (simp add: reads_time_def split: option.split)

interpretation meta_maps: pair_copier copy_map reads_map refs_map copy_map reads_map refs_map
  by unfold_locales

interpretation meta_leaves: pair_copier copy_leaf reads_strings refs_map copy_leaf reads_time refs_map
  by unfold_locales

interpretation meta_parts: pair_copier "copy_both copy_map copy_map"
  "\<lambda>h p q. reads_map h (fst p) (fst q) \<and> reads_map h (snd p) (snd q)"
  "\<lambda>h p. refs_map h (fst p) \<union> refs_map h (snd p)"
  "copy_both copy_leaf copy_leaf"
  "\<lambda>h p q. reads_strings h (fst p) (fst q) \<and> reads_time h (snd p) (snd q)"
  "\<lambda>h p. refs_map h (fst p) \<union> refs_map h (snd p)"
  by (intro pair_copier.intro meta_maps.both.deep_copier_axioms meta_leaves.both.deep_copier_axioms)

interpretation meta_struct: struct_copier
  "copy_both (copy_both copy_map copy_map) (copy_both copy_leaf copy_leaf)"
  "\<lambda>h p q. (reads_map h (fst (fst p)) (fst (fst q)) \<and> reads_map h (snd (fst p)) (snd (fst q))) \<and>
     (reads_strings h (fst (snd p)) (fst (snd q)) \<and> reads_time h (snd (snd p)) (snd (snd q)))"
  "\<lambda>h p. (refs_map h (fst (fst p)) \<union> refs_map h (snd (fst p))) \<union>
     (refs_map h (fst (snd p)) \<union> refs_map h (snd (snd p)))"
  "\<lambda>v. ((mev_Labels v, mev_Annotations v), (mev_Finalizers v, mev_DeletionTimestamp v))"
  "\<lambda>p v. v\<lparr>mev_Labels := fst (fst p), mev_Annotations := snd (fst p),
     mev_Finalizers := fst (snd p), mev_DeletionTimestamp := snd (snd p)\<rparr>"
  "\<lambda>v x. mev_Name v = om_Name x \<and> mev_Namespace v = om_Namespace x"
  "\<lambda>x. ((om_Labels x, om_Annotations x), (om_Finalizers x, om_DeletionTimestamp x))"
  by unfold_locales simp_all

interpretation meta: meta_copier fields_copy
  using meta_struct.struct.deep_copier_axioms
  by (simp add: meta_copier_def fields_copy_def reads_meta_def [abs_def] refs_meta_def [abs_def])

section \<open>Writing an annotation\<close>

text \<open>\<open>if o.Annotations == nil { o.Annotations = map[string]string{} }; o.Annotations[k] = v\<close>\<close>

definition set_annotation :: "string \<Rightarrow> string \<Rightarrow> heap \<Rightarrow> meta_v \<Rightarrow> meta_v \<times> heap" where
  "set_annotation k v h m =
     (case mev_Annotations m of
        None \<Rightarrow> (m\<lparr>mev_Annotations := Some (length h)\<rparr>, h @ [OMap (AList.update k v [])])
      | Some a \<Rightarrow> (m, h[a := OMap (AList.update k v (the_map (h ! a)))]))"

text \<open>The annotations are a map of their own, as in a resource that was just decoded.\<close>

definition own_annotations :: "meta_v \<Rightarrow> addr set \<Rightarrow> bool" where
  "own_annotations m others \<longleftrightarrow>
     (case mev_Annotations m of None \<Rightarrow> True | Some a \<Rightarrow> Some a \<noteq> mev_Labels m \<and> a \<notin> others)"

lemma wf_map_update: "wf_map m \<Longrightarrow> wf_map (AList.update k v m)"
  by (simp add: wf_map_def distinct_update)

text \<open>Whatever does not reach the annotations reads as before.\<close>

context deep_copier
begin

lemma reads_annotation:
  assumes "reads h x y" and "set_option (mev_Annotations m) \<inter> refs h x = {}"
    and "set_annotation k v h m = (m', h')"
  shows "reads h' x y"
proof (cases "mev_Annotations m")
  case None
  with assms(3) have "prefix h h'" by (auto simp: set_annotation_def)
  with assms(1) show ?thesis by (rule reads_prefix)
next
  case (Some a)
  with assms(3) have "h' = h[a := OMap (AList.update k v (the_map (h ! a)))]" by (simp add: set_annotation_def)
  moreover have "a \<notin> refs h x" using Some assms(2) by simp
  ultimately show ?thesis using reads_write(1) [OF assms(1)] by simp
qed

end

lemma set_annotation_fields:
  assumes "set_annotation k v h m = (m', h')"
  shows "mev_Name m' = mev_Name m" "mev_Namespace m' = mev_Namespace m" "mev_Labels m' = mev_Labels m"
    "mev_Finalizers m' = mev_Finalizers m" "mev_DeletionTimestamp m' = mev_DeletionTimestamp m"
  using assms by (auto simp: set_annotation_def split: option.splits)

lemma reads_map_set:
  assumes "reads_map h (mev_Annotations m) as" and "set_annotation k v h m = (m', h')"
  shows "reads_map h' (mev_Annotations m') (AList.update k v as)"
  using assms
  by (auto simp: set_annotation_def reads_map_def wf_map_update nth_append split: option.splits)
    (simp add: wf_map_def)

lemma reads_meta_annotate:
  assumes "reads_meta h m om" and "own_annotations m others" and "set_annotation k v h m = (m', h')"
  shows "reads_meta h' m' (annotate k v om)"
proof -
  note r = assms(1) [unfolded reads_meta_def]
  have lab: "set_option (mev_Annotations m) \<inter> refs_map h (mev_Labels m) = {}"
    using assms(2) by (auto simp: own_annotations_def refs_map_def split: option.splits)
  have leaves: "set_option (mev_Annotations m) \<inter> refs_map h (mev_Finalizers m) = {}"
    "set_option (mev_Annotations m) \<inter> refs_map h (mev_DeletionTimestamp m) = {}"
    using r by (auto simp: reads_map_def reads_strings_def reads_time_def refs_map_def split: option.splits)
  show ?thesis
    using r strmap.reads_annotation [OF _ lab assms(3), of "om_Labels om"]
      reads_map_set [OF _ assms(3), of "om_Annotations om"]
      finalizers.reads_annotation [OF _ leaves(1) assms(3), of "om_Finalizers om"]
      deletion.reads_annotation [OF _ leaves(2) assms(3), of "om_DeletionTimestamp om"]
    by (simp add: reads_meta_def annotate_def set_annotation_fields [OF assms(3)])
qed

section \<open>The forced patches\<close>

text \<open>\<open>orig := o.DeepCopy(); ...; o.Annotations["force-reconcile"] = now\<close>: the object and the base.\<close>

definition force_data_patch :: "meta_copy \<Rightarrow> string \<Rightarrow> heap \<Rightarrow> data_v \<Rightarrow> data_v \<times> data_v option \<times> heap" where
  "force_data_patch copy_meta now h kd =
     (let (orig, h) = KiveData_DeepCopy copy_meta h (Some kd);
          (m, h) = set_annotation ''force-reconcile'' now h (dv_ObjectMeta kd)
      in (kd\<lparr>dv_ObjectMeta := m\<rparr>, orig, h))"

definition force_policy_patch :: "meta_copy \<Rightarrow> string \<Rightarrow> heap \<Rightarrow> policy_v \<Rightarrow> policy_v \<times> policy_v option \<times> heap" where
  "force_policy_patch copy_meta now h p =
     (let (orig, h) = KivePolicy_DeepCopy copy_meta h (Some p);
          (m, h) = set_annotation ''force-reconcile'' now h (pv_ObjectMeta p)
      in (p\<lparr>pv_ObjectMeta := m\<rparr>, orig, h))"

text \<open>A resource on the heap, with one that shares nothing with its annotations.\<close>

lemma reads_data_annotate:
  assumes "reads_data h v x" and "own_annotations (dv_ObjectMeta v) (refs_data_spec h (dv_Spec v))"
    and "set_annotation k u h (dv_ObjectMeta v) = (m, h')"
  shows "reads_data h' (v\<lparr>dv_ObjectMeta := m\<rparr>) (x\<lparr>kd_ObjectMeta := annotate k u (kd_ObjectMeta x)\<rparr>)"
proof -
  have "set_option (mev_Annotations (dv_ObjectMeta v)) \<inter> refs_data_spec h (dv_Spec v) = {}"
    using assms(2) by (auto simp: own_annotations_def split: option.splits)
  with assms show ?thesis
    by (simp add: reads_data_def reads_meta_annotate [OF _ assms(2,3)] data_spec.reads_annotation [OF _ _ assms(3)])
qed

lemma reads_policy_annotate:
  assumes "reads_policy h v x" and "own_annotations (pv_ObjectMeta v) (refs_policy_spec h (pv_Spec v))"
    and "set_annotation k u h (pv_ObjectMeta v) = (m, h')"
  shows "reads_policy h' (v\<lparr>pv_ObjectMeta := m\<rparr>) (x\<lparr>kp_ObjectMeta := annotate k u (kp_ObjectMeta x)\<rparr>)"
proof -
  have "set_option (mev_Annotations (pv_ObjectMeta v)) \<inter> refs_policy_spec h (pv_Spec v) = {}"
    using assms(2) by (auto simp: own_annotations_def split: option.splits)
  with assms show ?thesis
    by (simp add: reads_policy_def reads_meta_annotate [OF _ assms(2,3)] policy_spec.reads_annotation [OF _ _ assms(3)])
qed

lemma annotations_reached: "set_option (mev_Annotations m) \<subseteq> refs_meta h m"
  by (auto simp: refs_meta_def refs_map_def)

context meta_copier
begin

lemma data_copy:
  assumes "reads_data h v x" and "KiveData_DeepCopy copy_meta h (Some v) = (r, h')"
  shows "\<exists>w. r = Some w \<and> prefix h h' \<and> reads_data h' v x \<and> refs_data h' v = refs_data h v \<and>
    reads_data h' w x \<and> refs_data h' v \<inter> refs_data h' w = {} \<and>
    (\<forall>a c. a \<in> refs_data h' w \<longrightarrow> reads_data (h'[a := c]) v x) \<and>
    (\<forall>a c. a \<in> refs_data h' v \<longrightarrow> reads_data (h'[a := c]) w x)"
proof -
  from assms(2) obtain w where w: "r = Some w" "KiveData_DeepCopyInto copy_meta h v = (w, h')"
    by (auto simp: KiveData_DeepCopy_def new_copy_def split: prod.splits)
  have p: "prefix h h'" using data.copies [OF assms(1) w(2)] by blast
  show ?thesis
    using w(1) p data.reads_prefix(2) [OF assms(1) p] data.independent [OF assms(1) w(2)] by blast
qed

lemma policy_copy:
  assumes "reads_policy h v x" and "KivePolicy_DeepCopy copy_meta h (Some v) = (r, h')"
  shows "\<exists>w. r = Some w \<and> prefix h h' \<and> reads_policy h' v x \<and> refs_policy h' v = refs_policy h v \<and>
    reads_policy h' w x \<and> refs_policy h' v \<inter> refs_policy h' w = {} \<and>
    (\<forall>a c. a \<in> refs_policy h' w \<longrightarrow> reads_policy (h'[a := c]) v x) \<and>
    (\<forall>a c. a \<in> refs_policy h' v \<longrightarrow> reads_policy (h'[a := c]) w x)"
proof -
  from assms(2) obtain w where w: "r = Some w" "KivePolicy_DeepCopyInto copy_meta h v = (w, h')"
    by (auto simp: KivePolicy_DeepCopy_def new_copy_def split: prod.splits)
  have p: "prefix h h'" using policy.copies [OF assms(1) w(2)] by blast
  show ?thesis
    using w(1) p policy.reads_prefix(2) [OF assms(1) p] policy.independent [OF assms(1) w(2)] by blast
qed

text \<open>The object of the patch reads as the annotated value, its base as the value before.\<close>

lemma data_patch_reads:
  assumes "reads_data h v x" and "own_annotations (dv_ObjectMeta v) (refs_data_spec h (dv_Spec v))"
  shows "\<exists>k w h'. force_data_patch copy_meta now h v = (k, Some w, h') \<and>
    reads_data h' k (x\<lparr>kd_ObjectMeta := annotate ''force-reconcile'' now (kd_ObjectMeta x)\<rparr>) \<and>
    reads_data h' w x"
proof -
  obtain r g where r: "KiveData_DeepCopy copy_meta h (Some v) = (r, g)" by fastforce
  from data_copy [OF assms(1) r] obtain w where w: "r = Some w" "prefix h g" "reads_data g v x"
    "refs_data g v = refs_data h v" "reads_data g w x" "refs_data g v \<inter> refs_data g w = {}" by blast
  obtain m h' where m: "set_annotation ''force-reconcile'' now g (dv_ObjectMeta v) = (m, h')" by fastforce
  have "refs_data_spec g (dv_Spec v) = refs_data_spec h (dv_Spec v)"
    by (simp add: refs_data_spec_def refs_map_def)
  with reads_data_annotate [OF w(3) _ m] assms(2)
  have "reads_data h' (v\<lparr>dv_ObjectMeta := m\<rparr>)
      (x\<lparr>kd_ObjectMeta := annotate ''force-reconcile'' now (kd_ObjectMeta x)\<rparr>)" by simp
  moreover have "set_option (mev_Annotations (dv_ObjectMeta v)) \<inter> refs_data g w = {}"
    using w(6) annotations_reached [of "dv_ObjectMeta v" g] by (auto simp: refs_data_def)
  from data.reads_annotation [OF w(5) this m] have "reads_data h' w x" .
  ultimately show ?thesis using r w(1) m by (simp add: force_data_patch_def)
qed

lemma policy_patch_reads:
  assumes "reads_policy h v x" and "own_annotations (pv_ObjectMeta v) (refs_policy_spec h (pv_Spec v))"
  shows "\<exists>k w h'. force_policy_patch copy_meta now h v = (k, Some w, h') \<and>
    reads_policy h' k (x\<lparr>kp_ObjectMeta := annotate ''force-reconcile'' now (kp_ObjectMeta x)\<rparr>) \<and>
    reads_policy h' w x"
proof -
  obtain r g where r: "KivePolicy_DeepCopy copy_meta h (Some v) = (r, g)" by fastforce
  from policy_copy [OF assms(1) r] obtain w where w: "r = Some w" "prefix h g" "reads_policy g v x"
    "refs_policy g v = refs_policy h v" "reads_policy g w x" "refs_policy g v \<inter> refs_policy g w = {}" by blast
  obtain m h' where m: "set_annotation ''force-reconcile'' now g (pv_ObjectMeta v) = (m, h')" by fastforce
  have "refs_policy_spec g (pv_Spec v) = refs_policy_spec h (pv_Spec v)"
    using assms(1) by (intro policy_spec.reads_prefix(2) [OF _ w(2)]) (auto simp: reads_policy_def)
  with reads_policy_annotate [OF w(3) _ m] assms(2)
  have "reads_policy h' (v\<lparr>pv_ObjectMeta := m\<rparr>)
      (x\<lparr>kp_ObjectMeta := annotate ''force-reconcile'' now (kp_ObjectMeta x)\<rparr>)" by simp
  moreover have "set_option (mev_Annotations (pv_ObjectMeta v)) \<inter> refs_policy g w = {}"
    using w(6) annotations_reached [of "pv_ObjectMeta v" g] by (auto simp: refs_policy_def)
  from policy.reads_annotation [OF w(5) this m] have "reads_policy h' w x" .
  ultimately show ?thesis using r w(1) m by (simp add: force_policy_patch_def)
qed

end

section \<open>Properties\<close>

text \<open>C15: a deep copy of a resource reads as the resource and shares nothing with it: after
  \<open>DeepCopy\<close> a write to anything one of the two reaches, its maps, its slices and the elements of
  those, leaves what the other reads as; this needs of the copy of the metadata only the same.\<close>

theorem deep_copy_independent:
  assumes "meta_copier copy_meta"
  shows "(reads_data h v x \<longrightarrow> (\<exists>w h'. KiveData_DeepCopy copy_meta h (Some v) = (Some w, h') \<and>
      reads_data h' v x \<and> reads_data h' w x \<and>
      (\<forall>a c. a \<in> refs_data h' w \<longrightarrow> reads_data (h'[a := c]) v x) \<and>
      (\<forall>a c. a \<in> refs_data h' v \<longrightarrow> reads_data (h'[a := c]) w x))) \<and>
    (reads_policy h p y \<longrightarrow> (\<exists>q h'. KivePolicy_DeepCopy copy_meta h (Some p) = (Some q, h') \<and>
      reads_policy h' p y \<and> reads_policy h' q y \<and>
      (\<forall>a c. a \<in> refs_policy h' q \<longrightarrow> reads_policy (h'[a := c]) p y) \<and>
      (\<forall>a c. a \<in> refs_policy h' p \<longrightarrow> reads_policy (h'[a := c]) q y)))"
proof (intro conjI impI)
  assume r: "reads_data h v x"
  obtain c h' where c: "KiveData_DeepCopy copy_meta h (Some v) = (c, h')" by fastforce
  from meta_copier.data_copy [OF assms r c] c show "\<exists>w h'. KiveData_DeepCopy copy_meta h (Some v) = (Some w, h') \<and>
      reads_data h' v x \<and> reads_data h' w x \<and>
      (\<forall>a c. a \<in> refs_data h' w \<longrightarrow> reads_data (h'[a := c]) v x) \<and>
      (\<forall>a c. a \<in> refs_data h' v \<longrightarrow> reads_data (h'[a := c]) w x)" by blast
next
  assume r: "reads_policy h p y"
  obtain c h' where c: "KivePolicy_DeepCopy copy_meta h (Some p) = (c, h')" by fastforce
  from meta_copier.policy_copy [OF assms r c] c show "\<exists>q h'. KivePolicy_DeepCopy copy_meta h (Some p) = (Some q, h') \<and>
      reads_policy h' p y \<and> reads_policy h' q y \<and>
      (\<forall>a c. a \<in> refs_policy h' q \<longrightarrow> reads_policy (h'[a := c]) p y) \<and>
      (\<forall>a c. a \<in> refs_policy h' p \<longrightarrow> reads_policy (h'[a := c]) q y)" by blast
qed

text \<open>C14: the patch that forces the other reconcilers is the one of the functional model: after the
  listing the policy reconciler makes one call, whose object and base are the annotated first
  resource and that resource, and so read the object and the base the code builds on the heap by
  copying it and then writing to its annotations in place, when those are a map of their own.\<close>

theorem forced_patch_refines:
  assumes "meta_copier copy_meta"
    and "cl_data (pe_cluster env) (pl_calls s) (ListKiveData []) = Inr (x # xs)"
    and "reads_data h v x" and "own_annotations (dv_ObjectMeta v) (refs_data_spec h (dv_Spec v))"
  shows "\<exists>t obj base k w h'. force_data env s = (Return False, t) \<and>
    pl_calls t = pl_calls s @ [ListKiveData [], PatchKiveData obj base] \<and>
    force_data_patch copy_meta (pe_now env (pl_calls s @ [ListKiveData []])) h v = (k, Some w, h') \<and>
    reads_data h' k obj \<and> reads_data h' w base"
proof -
  let ?now = "pe_now env (pl_calls s @ [ListKiveData []])"
  from meta_copier.data_patch_reads [OF assms(1,3,4), of ?now] obtain k w h' where
    "force_data_patch copy_meta ?now h v = (k, Some w, h')"
    "reads_data h' k (x\<lparr>kd_ObjectMeta := annotate ''force-reconcile'' ?now (kd_ObjectMeta x)\<rparr>)"
    "reads_data h' w x" by blast
  moreover have "\<exists>t. force_data env s = (Return False, t) \<and> pl_calls t = pl_calls s @ [ListKiveData [],
      PatchKiveData (x\<lparr>kd_ObjectMeta := annotate ''force-reconcile'' ?now (kd_ObjectMeta x)\<rparr>) x]"
    using assms(2) by (simp add: force_data_def Let_def)
  ultimately show ?thesis by blast
qed

text \<open>A resource whose labels, annotations and finalizers are on the heap.\<close>

definition ex_heap :: heap where
  "ex_heap = [OMap [(TrapIDLabel, ''t'')], OMap [(''pod-name'', ''web'')], OStrings [KiveDataFinalizerName]]"

definition ex_data_v :: data_v where
  "ex_data_v = zero_data\<lparr>dv_ObjectMeta := zero_meta\<lparr>mev_Labels := Some 0, mev_Annotations := Some 1,
     mev_Finalizers := Some 2\<rparr>\<rparr>"

definition ex_heap_data :: KiveData where
  "ex_heap_data = \<lparr>kd_TypeMeta = \<lparr>tm_Kind = [], tm_APIVersion = []\<rparr>,
     kd_ObjectMeta = \<lparr>om_Name = [], om_Namespace = [], om_Labels = [(TrapIDLabel, ''t'')],
       om_Annotations = [(''pod-name'', ''web'')], om_Finalizers = [KiveDataFinalizerName],
       om_DeletionTimestamp = None\<rparr>,
     kd_Spec = \<lparr>ds_InodeNo = 0, ds_DevID = 0, ds_Metadata = []\<rparr>\<rparr>"

lemma ex_reads_data: "reads_data ex_heap ex_data_v ex_heap_data"
  by (simp add: reads_data_def reads_meta_def reads_map_def reads_strings_def reads_time_def
      reads_data_spec_def ex_heap_def ex_data_v_def ex_heap_data_def zero_data_def zero_meta_def wf_map_def)

theorem deep_copy_independent_witness:
  "\<exists>w h'. KiveData_DeepCopy fields_copy ex_heap (Some ex_data_v) = (Some w, h') \<and>
    reads_data h' w ex_heap_data"
  using deep_copy_independent [OF meta.meta_copier_axioms, of ex_heap ex_data_v ex_heap_data] ex_reads_data
  by blast

theorem forced_patch_refines_witness:
  "\<exists>t obj base k w h'.
    force_data (ex_policy_env (ex_cluster [ex_heap_data])) ex_policy_state = (Return False, t) \<and>
    force_data_patch fields_copy (pe_now (ex_policy_env (ex_cluster [ex_heap_data]))
      (pl_calls ex_policy_state @ [ListKiveData []])) ex_heap ex_data_v = (k, Some w, h') \<and>
    pl_calls t = pl_calls ex_policy_state @ [ListKiveData [], PatchKiveData obj base] \<and>
    reads_data h' k obj \<and> reads_data h' w base"
proof -
  have list: "cl_data (pe_cluster (ex_policy_env (ex_cluster [ex_heap_data]))) (pl_calls ex_policy_state)
      (ListKiveData []) = Inr (ex_heap_data # [])"
    by (simp add: ex_policy_env_def ex_cluster_def)
  have own: "own_annotations (dv_ObjectMeta ex_data_v) (refs_data_spec ex_heap (dv_Spec ex_data_v))"
    by (simp add: own_annotations_def refs_data_spec_def refs_map_def ex_data_v_def zero_data_def zero_meta_def)
  from forced_patch_refines [OF meta.meta_copier_axioms list ex_reads_data own] show ?thesis by blast
qed

end
