(* ===== verification/Interleaving.thy ===== *)
theory Interleaving
  imports Reconcilers
begin

text \<open>
  The reconcilers, users and the API server interleaved: while the \<open>KiveData\<close> reconciler of a kernel goes
  through the list it was given, resource by resource, resources are applied, deleted and edited by
  others, and its own writes may fail.  What holds in every reachable state of this system is what
  the theorems about rounds start from.
\<close>

section \<open>The server\<close>

definition item_name :: "KiveData \<Rightarrow> string" where
  "item_name kd = om_Name (kd_ObjectMeta kd)"

text \<open>
  A merge patch carries what differs between its object and its base: the entries of a map that are
  new or changed, the keys that are gone, a list or number as a whole.  Name, namespace, kind and the
  deletion are not the client's to change.
\<close>

definition merge_map :: "strmap \<Rightarrow> strmap \<Rightarrow> strmap \<Rightarrow> strmap" where
  "merge_map new base m =
     map_copy (filter (\<lambda>e. e \<notin> set base) new)
       (filter (\<lambda>e. fst e \<notin> fst ` set base \<or> fst e \<in> fst ` set new) m)"

definition merge_value :: "'a \<Rightarrow> 'a \<Rightarrow> 'a \<Rightarrow> 'a" where
  "merge_value new base v = (if new = base then v else new)"

definition patched_item :: "KiveData \<Rightarrow> KiveData \<Rightarrow> KiveData \<Rightarrow> KiveData" where
  "patched_item kd' kd x =
     (let o' = kd_ObjectMeta kd'; ob = kd_ObjectMeta kd; ox = kd_ObjectMeta x;
          s' = kd_Spec kd'; sb = kd_Spec kd; sx = kd_Spec x
      in x\<lparr>kd_ObjectMeta := ox\<lparr>
             om_Labels := merge_map (om_Labels o') (om_Labels ob) (om_Labels ox),
             om_Annotations := merge_map (om_Annotations o') (om_Annotations ob) (om_Annotations ox),
             om_Finalizers := merge_value (om_Finalizers o') (om_Finalizers ob) (om_Finalizers ox)\<rparr>,
           kd_Spec := sx\<lparr>
             ds_InodeNo := merge_value (ds_InodeNo s') (ds_InodeNo sb) (ds_InodeNo sx),
             ds_DevID := merge_value (ds_DevID s') (ds_DevID sb) (ds_DevID sx),
             ds_Metadata := merge_map (ds_Metadata s') (ds_Metadata sb) (ds_Metadata sx)\<rparr>\<rparr>)"

text \<open>A server-side apply sets the fields it has, adds to maps and to the set of finalizers.\<close>

definition applied_item :: "KiveData \<Rightarrow> KiveData \<Rightarrow> KiveData" where
  "applied_item kd x = x\<lparr>kd_Spec := kd_Spec kd, kd_ObjectMeta := (kd_ObjectMeta x)\<lparr>
     om_Labels := map_copy (om_Labels (kd_ObjectMeta kd)) (om_Labels (kd_ObjectMeta x)),
     om_Annotations := map_copy (om_Annotations (kd_ObjectMeta kd)) (om_Annotations (kd_ObjectMeta x)),
     om_Finalizers := data_finalizers x @ filter (\<lambda>f. f \<notin> set (data_finalizers x)) (data_finalizers kd)\<rparr>\<rparr>"

definition on_name :: "KiveData \<Rightarrow> (KiveData \<Rightarrow> KiveData list) \<Rightarrow> KiveData list \<Rightarrow> KiveData list" where
  "on_name kd f items = concat (map (\<lambda>x. if item_name x = item_name kd then f x else [x]) items)"

text \<open>What a call that succeeds does to the resources of the kernel.\<close>

fun store_call :: "string \<Rightarrow> api_call \<Rightarrow> KiveData list \<Rightarrow> KiveData list" where
  "store_call now (PatchKiveData kd' kd) items = on_name kd (\<lambda>x. stored (patched_item kd' kd x)) items"
| "store_call now (DeleteKiveData kd) items =
     on_name kd (\<lambda>x. if data_deleting x then [x] else stored (mark_deleted now x)) items"
| "store_call now (ApplyKiveData kd) items =
     (if list_ex (\<lambda>x. item_name x = item_name kd) items then on_name kd (\<lambda>x. [applied_item kd x]) items
      else items @ [kd])"
| "store_call now _ items = items"

text \<open>Of the calls of a computation, those take effect whose flag says so.\<close>

definition store_calls :: "string \<Rightarrow> bool list \<Rightarrow> api_call list \<Rightarrow> KiveData list \<Rightarrow> KiveData list" where
  "store_calls now flags cs = fold (\<lambda>(b, c). if b then store_call now c else id) (zip flags cs)"

section \<open>The system\<close>

record 'm system =
  sys_data :: "'m data_state"          \<comment> \<open>of the \<open>KiveData\<close> reconciler, with the map\<close>
  sys_items :: "KiveData list"         \<comment> \<open>the resources of the kernel\<close>
  sys_pending :: "KiveData list"       \<comment> \<open>what is left of the list of the current reconciliation\<close>

text \<open>
  A reconciliation starts with loading the program, if it is not loaded, and listing the resources;
  \<open>m\<^sub>0\<close> is the map of a program that was just loaded.  Others apply what a policy reconciler
  applies, delete anything, and edit anything but the file a resource names and its finalizers.
\<close>

inductive sys_step :: "'m map_ops \<Rightarrow> 'm \<Rightarrow> 'm system \<Rightarrow> 'm system \<Rightarrow> bool" for ops m\<^sub>0 where
  list_items: "sys_pending S = [] \<Longrightarrow> de_new_map env = m\<^sub>0 \<Longrightarrow> data_load env (sys_data S) = (r, t) \<Longrightarrow>
    sys_step ops m\<^sub>0 S (S\<lparr>sys_data := t, sys_pending := (if r = Return () \<and> listed then sys_items S else [])\<rparr>)"
| one_item: "sys_pending S = kd # rest \<Longrightarrow> de_ops env = ops \<Longrightarrow> finalizers_ok (de_cluster env) \<Longrightarrow>
    data_item env policies kd (sys_data S) = (r, t) \<Longrightarrow> cs = drop (length (dr_calls (sys_data S))) (dr_calls t) \<Longrightarrow>
    sys_step ops m\<^sub>0 S \<lparr>sys_data = t, sys_items = store_calls now flags cs (sys_items S),
      sys_pending = (if r = Return None then rest else [])\<rparr>"
| apply_item: "pl_calls (snd (KivePolicy_Reconcile penv ps)) = pl_calls ps @ cs \<Longrightarrow>
    cl_policies (pe_cluster penv) (pl_calls ps) ListKivePolicy = Inr policies \<Longrightarrow>
    ApplyKiveData kd \<in> set cs \<Longrightarrow>
    sys_step ops m\<^sub>0 S (S\<lparr>sys_items := store_call now (ApplyKiveData kd) (sys_items S)\<rparr>)"
| delete_item: "sys_step ops m\<^sub>0 S (S\<lparr>sys_items := store_call now (DeleteKiveData kd) (sys_items S)\<rparr>)"
| edit_item: "data_key kd' = data_key kd \<Longrightarrow> data_finalizers kd' = data_finalizers kd \<Longrightarrow>
    sys_step ops m\<^sub>0 S (S\<lparr>sys_items := store_call now (PatchKiveData kd' kd) (sys_items S)\<rparr>)"

inductive_cases sys_stepE: "sys_step ops m\<^sub>0 S T"


section \<open>Names and files\<close>





section \<open>What keeps the finalizers\<close>


















section \<open>The invariant\<close>















section \<open>Properties\<close>









end
