(* ===== verification/Startup.thy ===== *)
theory Startup
  imports Go_Monad
begin

text \<open>
  \<open>cmd/main.go\<close> up to the start of the managers: the flags and their defaults, the id of the running
  kernel, the three managers with their servers and leader elections, the reconcilers, the webhooks
  and the health checks.  The calls of controller-runtime are a parameter, a function of the calls
  made so far; an error is the message logged before the program exits with status 1.
\<close>

section \<open>Flags\<close>

record main_flags =
  metricsAddr :: string
  kivePolicyProbeAddr :: string
  kiveDataProbeAddr :: string
  kivePodProbeAddr :: string
  secureMetrics :: bool
  enableHTTP2 :: bool

definition default_flags :: main_flags where
  "default_flags = \<lparr>metricsAddr = ''0'', kivePolicyProbeAddr = '':8081'', kiveDataProbeAddr = '':8082'',
     kivePodProbeAddr = '':8082'', secureMetrics = True, enableHTTP2 = False\<rparr>"

section \<open>Managers\<close>

datatype manager = KiveDataMgr | KivePolicyMgr | KivePodMgr

text \<open>The protocols a TLS server offers (\<open>NextProtos\<close>), empty for the default.\<close>

definition disableHTTP2 :: "string list \<Rightarrow> string list" where
  "disableHTTP2 protos = [''http/1.1'']"

definition tlsOpts :: "main_flags \<Rightarrow> (string list \<Rightarrow> string list) list" where
  "tlsOpts flags = (if \<not> enableHTTP2 flags then [disableHTTP2] else [])"

record metrics_options =
  BindAddress :: string
  SecureServing :: bool
  Protos :: "string list"
  AuthFilter :: bool

definition metricsServerOptions :: "main_flags \<Rightarrow> metrics_options" where
  "metricsServerOptions flags =
     (let opts = \<lparr>BindAddress = metricsAddr flags, SecureServing = secureMetrics flags,
        Protos = fold (\<lambda>f. f) (tlsOpts flags) [], AuthFilter = False\<rparr>
      in if secureMetrics flags then opts\<lparr>AuthFilter := True\<rparr> else opts)"

record manager_options =
  Metrics :: metrics_options
  WebhookProtos :: "string list"
  HealthProbeBindAddress :: string
  LeaderElectionID :: "string option"   \<comment> \<open>none without leader election\<close>

definition options_for :: "main_flags \<Rightarrow> string \<Rightarrow> string option \<Rightarrow> manager_options" where
  "options_for flags probe leader = \<lparr>Metrics = metricsServerOptions flags,
     WebhookProtos = fold (\<lambda>f. f) (tlsOpts flags) [], HealthProbeBindAddress = probe,
     LeaderElectionID = leader\<rparr>"

section \<open>State and environment\<close>

datatype main_call =
    NewManager manager manager_options
  | SetupWithManager manager
  | WebhookManagedBy manager string
  | AddHealthzCheck manager
  | AddReadyzCheck manager

record main_env =
  me_read_file :: "string \<Rightarrow> string + string"
  me_call :: "main_call list \<Rightarrow> main_call \<Rightarrow> string option"

record main_state =
  mn_KernelID :: string
  mn_calls :: "main_call list"

definition main_init :: main_state where
  "main_init = \<lparr>mn_KernelID = [], mn_calls = []\<rparr>"

definition KernelIDPath :: string where
  "KernelIDPath = ''/proc/sys/kernel/random/boot_id''"

section \<open>Starting\<close>

definition read_kernel_id :: "main_env \<Rightarrow> (main_state, unit) go" where
  "read_kernel_id env s =
     (case me_read_file env KernelIDPath of
        Inl err \<Rightarrow> (Error (''Cannot read kerrnel boot ID at'' @ KernelIDPath), s)
      | Inr kernelIDBytes \<Rightarrow> (Return (), s\<lparr>mn_KernelID := trim_space kernelIDBytes\<rparr>))"

text \<open>Calls in order; the first error is logged and ends the program.\<close>

fun checked :: "main_env \<Rightarrow> (main_call \<times> string) list \<Rightarrow> (main_state, unit) go" where
  "checked env [] s = (Return (), s)"
| "checked env ((c, msg) # cs) s =
     (let s' = s\<lparr>mn_calls := mn_calls s @ [c]\<rparr> in
      case me_call env (mn_calls s) c of Some err \<Rightarrow> (Error msg, s') | None \<Rightarrow> checked env cs s')"

definition new_managers :: "main_flags \<Rightarrow> string \<Rightarrow> (main_call \<times> string) list" where
  "new_managers flags kernelID =
     [(NewManager KiveDataMgr (options_for flags (kiveDataProbeAddr flags) (Some kernelID)),
         ''unable to start kiveData manager''),
      (NewManager KivePolicyMgr (options_for flags (kivePolicyProbeAddr flags) None),
         ''unable to start kive manager''),
      (NewManager KivePodMgr (options_for flags (kivePodProbeAddr flags) (Some ''kive'')),
         ''unable to start kivePod manager'')]"

definition setup_controllers :: "(main_call \<times> string) list" where
  "setup_controllers =
     [(SetupWithManager KivePolicyMgr, ''unable to create KivePolicy controller''),
      (SetupWithManager KiveDataMgr, ''unable to create KiveData controller''),
      (SetupWithManager KivePodMgr, ''unable to create KivePod controller''),
      (WebhookManagedBy KivePodMgr ''KivePolicy'', ''unable to start webhook of KivePolicy''),
      (WebhookManagedBy KivePodMgr ''KiveData'', ''unable to start webhook of KiveData'')]"

definition add_checks :: "manager \<Rightarrow> (main_call \<times> string) list" where
  "add_checks mgr =
     [(AddHealthzCheck mgr, ''unable to set up health check''),
      (AddReadyzCheck mgr, ''unable to set up ready check'')]"

definition startup :: "main_env \<Rightarrow> main_flags \<Rightarrow> (main_state, unit) go" where
  "startup env flags =
     go_bind (read_kernel_id env) (\<lambda>_ s.
     go_bind (checked env (new_managers flags (mn_KernelID s))) (\<lambda>_.
     go_bind (checked env setup_controllers) (\<lambda>_.
     go_bind (checked env (add_checks KivePolicyMgr)) (\<lambda>_.
     go_bind (checked env (add_checks KiveDataMgr)) (\<lambda>_.
       checked env (add_checks KivePodMgr))))) s)"

section \<open>What starting does\<close>

definition all_ok :: "main_env \<Rightarrow> main_call list \<Rightarrow> main_call list \<Rightarrow> bool" where
  "all_ok env h cs \<longleftrightarrow> (\<forall>i < length cs. me_call env (h @ take i cs) (cs ! i) = None)"

lemma all_ok_Cons: "all_ok env h (c # cs) \<longleftrightarrow> me_call env h c = None \<and> all_ok env (h @ [c]) cs"
  by (auto simp: all_ok_def less_Suc_eq_0_disj nth_Cons split: nat.splits)

lemma all_ok_append: "all_ok env h (cs @ ds) \<longleftrightarrow> all_ok env h cs \<and> all_ok env (h @ cs) ds"
proof (induction cs arbitrary: h)
  case Nil
  then show ?case by (simp add: all_ok_def)
qed (simp add: all_ok_Cons)

lemma checked_Return:
  "checked env cs s = (Return x, t) \<longleftrightarrow>
     all_ok env (mn_calls s) (map fst cs) \<and> t = s\<lparr>mn_calls := mn_calls s @ map fst cs\<rparr>"
proof (induction cs arbitrary: s)
  case Nil
  then show ?case by (auto simp: all_ok_def)
next
  case (Cons c cs)
  then show ?case
    by (cases c) (auto simp: Let_def all_ok_Cons split: option.split)
qed

lemma checked_Error:
  assumes "all_ok env (mn_calls s) (map fst pre)" and "me_call env (mn_calls s @ map fst pre) c \<noteq> None"
  shows "\<exists>t. checked env (pre @ (c, msg) # cs) s = (Error msg, t)"
  using assms
proof (induction pre arbitrary: s)
  case Nil
  then show ?case by (auto simp: Let_def)
next
  case (Cons p pre)
  then show ?case by (cases p) (simp add: Let_def all_ok_Cons)
qed

lemma checked_no_panic: "fst (checked env cs s) \<noteq> Panic"
  by (induction env cs s rule: checked.induct) (auto simp: Let_def split: option.split)

definition startup_calls :: "main_flags \<Rightarrow> string \<Rightarrow> main_call list" where
  "startup_calls flags kernelID = map fst (new_managers flags kernelID @ setup_controllers @
     add_checks KivePolicyMgr @ add_checks KiveDataMgr @ add_checks KivePodMgr)"

lemma startup_Return:
  "startup env flags main_init = (Return (), t) \<longleftrightarrow>
     (\<exists>b. me_read_file env KernelIDPath = Inr b \<and> all_ok env [] (startup_calls flags (trim_space b)) \<and>
        t = \<lparr>mn_KernelID = trim_space b, mn_calls = startup_calls flags (trim_space b)\<rparr>)"
  unfolding startup_def go_bind_Return checked_Return
  by (auto simp: read_kernel_id_def main_init_def startup_calls_def all_ok_append split: sum.splits)

section \<open>Probe addresses\<close>

text \<open>A manager listens on its probe address as soon as it is made, unless the address is disabled.\<close>

fun probe_of :: "main_call \<Rightarrow> string option" where
  "probe_of (NewManager mgr opts) =
     (if HealthProbeBindAddress opts \<in> {[], ''0''} then None else Some (HealthProbeBindAddress opts))"
| "probe_of _ = None"

text \<open>The calls of which only those fail that would listen on an address that is in use.\<close>

definition binds :: "main_env \<Rightarrow> bool" where
  "binds env \<longleftrightarrow> (\<forall>h c. me_call env h c = None \<longleftrightarrow>
     probe_of c = None \<or> probe_of c \<notin> probe_of ` set h)"

definition probes :: "main_flags \<Rightarrow> string list" where
  "probes flags = filter (\<lambda>a. a \<notin> {[], ''0''})
     [kiveDataProbeAddr flags, kivePolicyProbeAddr flags, kivePodProbeAddr flags]"

lemma HealthProbe [simp]: "HealthProbeBindAddress (options_for flags probe leader) = probe"
  by (simp add: options_for_def)

lemma no_probes: "list_all (\<lambda>c. probe_of c = None) cs \<Longrightarrow> binds env \<Longrightarrow> all_ok env h cs"
  by (simp add: all_ok_def binds_def list_all_length)

lemma managers_ok:
  "binds env \<Longrightarrow> all_ok env [] (map fst (new_managers flags i)) \<longleftrightarrow> distinct (probes flags)"
  by (simp add: all_ok_Cons binds_def new_managers_def probes_def) (auto simp: all_ok_def)

lemma startup_binds:
  assumes "binds env" and "me_read_file env KernelIDPath = Inr b"
  shows "(\<exists>t. startup env flags main_init = (Return (), t)) \<longleftrightarrow> distinct (probes flags)"
proof -
  have "all_ok env h (map fst (setup_controllers @ add_checks m @ add_checks m' @ add_checks m''))" for h m m' m''
    using assms(1) by (intro no_probes) (simp_all add: setup_controllers_def add_checks_def)
  then show ?thesis
    using managers_ok [OF assms(1), of flags "trim_space b"] assms(2)
    by (simp add: startup_Return startup_calls_def all_ok_append)
qed

lemma startup_default:
  assumes "binds env" and "me_read_file env KernelIDPath = Inr b"
  shows "\<exists>t. startup env default_flags main_init = (Error ''unable to start kivePod manager'', t)"
proof -
  let ?all = "new_managers default_flags (trim_space b)"
  let ?pre = "take 2 ?all" and ?s = "main_init\<lparr>mn_KernelID := trim_space b\<rparr>"
  have split: "?all = ?pre @ ?all ! 2 # []" by (simp add: new_managers_def numeral_2_eq_2)
  have "all_ok env [] (map fst ?pre)"
    using assms(1) by (simp add: all_ok_Cons binds_def new_managers_def default_flags_def) (simp add: all_ok_def)
  moreover have "me_call env (map fst ?pre) (fst (?all ! 2)) \<noteq> None"
    using assms(1) by (simp add: binds_def new_managers_def default_flags_def numeral_2_eq_2)
  ultimately have "\<exists>t. checked env ?all ?s = (Error (snd (?all ! 2)), t)"
    using checked_Error [of env ?s ?pre "fst (?all ! 2)" "snd (?all ! 2)" "[]"] split
    by (simp add: main_init_def)
  then show ?thesis
    using assms(2) by (auto simp: startup_def read_kernel_id_def go_bind_def new_managers_def)
qed

section \<open>Properties\<close>

text \<open>The program gets as far as starting its managers exactly when the kernel's id can be read and
  all fourteen calls, three of them for managers, succeed in order; the id is the file's text
  without white space around it, and it is the leader election of the \<open>KiveData\<close> manager.\<close>

lemma startup_succeeds_iff:
  "startup env flags main_init = (Return (), t) \<longleftrightarrow>
     (\<exists>b. me_read_file env KernelIDPath = Inr b \<and> all_ok env [] (startup_calls flags (trim_space b)) \<and>
        t = \<lparr>mn_KernelID = trim_space b, mn_calls = startup_calls flags (trim_space b)\<rparr>)"
  by (rule startup_Return)

text \<open>C37: where only listening on an address that is in use fails, the program starts exactly when the
  probe addresses that are not disabled differ; with its default flags it exits, unable to make
  the pod manager.\<close>

theorem default_flags_clash:
  assumes "binds env" and "me_read_file env KernelIDPath = Inr b"
  shows "((\<exists>t. startup env flags main_init = (Return (), t)) \<longleftrightarrow> distinct (probes flags)) \<and>
    (\<exists>t. startup env default_flags main_init = (Error ''unable to start kivePod manager'', t))"
  using startup_binds [OF assms] startup_default [OF assms] by simp

definition ex_main :: main_env where
  "ex_main = \<lparr>me_read_file = (\<lambda>_. Inr ''k ''),
     me_call = (\<lambda>h c. if probe_of c = None \<or> probe_of c \<notin> probe_of ` set h then None
       else Some ''address already in use'')\<rparr>"

theorem default_flags_clash_witness:
  "\<not> (\<exists>t. startup ex_main default_flags main_init = (Return (), t)) \<and>
   (\<exists>t. startup ex_main (default_flags\<lparr>kivePodProbeAddr := '':8083''\<rparr>) main_init = (Return (), t))"
proof -
  have "binds ex_main" by (simp add: binds_def ex_main_def)
  then have "(\<exists>t. startup ex_main flags main_init = (Return (), t)) \<longleftrightarrow> distinct (probes flags)" for flags
    using default_flags_clash [of ex_main "''k ''" flags] by (simp add: ex_main_def)
  then show ?thesis by (simp add: probes_def default_flags_def)
qed

end
