(* ===== verification/Shutdown.thy ===== *)
theory Shutdown
  imports Ebpf_Loader Container
begin

text \<open>
  \<open>cmd/main.go\<close> from the start of the managers: the main goroutine serves until the signal handler's
  context is done, then closes the connections of the runtimes and unloads the eBPF program; a
  second goroutine waits for the same context and unloads it too.  The two unloads interleave
  action by action, and with the load of a reconciliation step by step; a lookup of a container
  and the closing of the connections are one step each.  A panic of any of them ends the run.
\<close>

section \<open>Unloading action by action\<close>

text \<open>What \<open>UnloadEbpf\<close> does once it has seen a probe; each action reads the package's variables anew.\<close>

datatype unload_act =
    CloseKprobe
  | CloseTracedInodes
  | CloseProgramNew
  | CloseProgramOld
  | CloseMapRb
  | CloseMapTracedInodes
  | TestRingbuff                     \<comment> \<open>\<open>if RingbuffReader != nil\<close>\<close>
  | CloseRingbuff
  | ClearLoaded

definition unload_acts :: "ebpf_state \<Rightarrow> unload_act list" where
  "unload_acts s =
     (if Kprobe s = None then []
      else [CloseKprobe, CloseTracedInodes, CloseProgramNew, CloseProgramOld, CloseMapRb,
        CloseMapTracedInodes, TestRingbuff, ClearLoaded])"

text \<open>
  Closing a nil link or reader is a nil dereference.  The value is what the action adds to those that
  remain: the reader is closed if it was not nil when tested.
\<close>

definition act_call :: "ebpf_env \<Rightarrow> ext_call \<Rightarrow> (ebpf_state, unload_act list) go" where
  "act_call env c = go_bind (call_err env c) (\<lambda>_. go_return [])"

fun do_act :: "ebpf_env \<Rightarrow> unload_act \<Rightarrow> (ebpf_state, unload_act list) go" where
  "do_act env CloseKprobe s =
     (case Kprobe s of None \<Rightarrow> (Panic, s) | Some k \<Rightarrow> act_call env (CloseLink k) s)"
| "do_act env CloseTracedInodes s = act_call env (CloseMap (TracedInodes (Objs s))) s"
| "do_act env CloseProgramNew s = act_call env (CloseProgram (KprobeInodePermissionNew (Objs s))) s"
| "do_act env CloseProgramOld s = act_call env (CloseProgram (KprobeInodePermissionOld (Objs s))) s"
| "do_act env CloseMapRb s = act_call env (CloseMap (Rb (Objs s))) s"
| "do_act env CloseMapTracedInodes s = act_call env (CloseMap (TracedInodes (Objs s))) s"
| "do_act env TestRingbuff s =
     (Return (if RingbuffReader s = None then [] else [CloseRingbuff]), s)"
| "do_act env CloseRingbuff s =
     (case RingbuffReader s of None \<Rightarrow> (Panic, s) | Some r \<Rightarrow> act_call env (CloseReader r) s)"
| "do_act env ClearLoaded s = (Return [], s\<lparr>Loaded := False\<rparr>)"

section \<open>Loading step by step\<close>

text \<open>Where \<open>LoadEbpf\<close> is, in the order of its calls; \<open>Probe\<close> holds what \<open>isKernelOld\<close> answered.\<close>

datatype load_pc = Memlock | LoadObjs | Version | Probe bool | Reader | SetLoaded

fun load_step :: "ebpf_env \<Rightarrow> load_pc \<Rightarrow> (ebpf_state, load_pc option) go" where
  "load_step env Memlock =
     go_bind (go_wrap ''LoadEbpf Error Remove memlock: '' (call_err env RemoveMemlock))
       (\<lambda>_. go_return (Some LoadObjs))"
| "load_step env LoadObjs =
     go_bind (go_wrap ''LoadEbpf Error Load eBPF objects: '' (loadBpfObjects env))
       (\<lambda>_. go_return (Some Version))"
| "load_step env Version =
     go_bind (go_wrap ''LoadEbpf Error Check kernel version: '' (check_kernel env))
       (\<lambda>kernelIsOld. go_return (Some (Probe kernelIsOld)))"
| "load_step env (Probe kernelIsOld) =
     go_bind (if kernelIsOld
        then (\<lambda>s. go_wrap ''LoadEbpf Error Open kprobe (old kernel): ''
                    (open_kprobe env (KprobeInodePermissionOld (Objs s))) s)
        else (\<lambda>s. go_wrap ''LoadEbpf Error Open kprobe: ''
                    (open_kprobe env (KprobeInodePermissionNew (Objs s))) s))
       (\<lambda>_. go_return (Some Reader))"
| "load_step env Reader =
     go_bind (go_wrap ''LoadEbpf Error Open ringbuf reader: '' (open_reader env))
       (\<lambda>_. go_return (Some SetLoaded))"
| "load_step env SetLoaded = (\<lambda>s. (Return None, s\<lparr>Loaded := True\<rparr>))"

section \<open>The goroutines\<close>

datatype main_pc =
    Serving
  | Closing                          \<comment> \<open>the managers have stopped\<close>
  | Closed                           \<comment> \<open>the connections are closed\<close>
  | Unloading "unload_act list"
  | Exited nat
  | Panicked

datatype watcher_pc = Waiting | Working "unload_act list"

record 's operator =
  op_signal :: bool
  op_main :: main_pc
  op_watcher :: watcher_pc
  op_load :: "load_pc option"        \<comment> \<open>where a load of the \<open>KiveData\<close> reconciler is\<close>
  op_ebpf :: ebpf_state
  op_conns :: 's

definition op_start :: "ebpf_state \<Rightarrow> 's \<Rightarrow> 's operator" where
  "op_start e c = \<lparr>op_signal = False, op_main = Serving, op_watcher = Waiting, op_load = None,
     op_ebpf = e, op_conns = c\<rparr>"

fun running :: "main_pc \<Rightarrow> bool" where
  "running (Exited n) = False"
| "running Panicked = False"
| "running _ = True"

text \<open>
  \<open>Start\<close> of a manager returns an error at any time, such as a lost leader election, and then the
  program exits with status 1; it returns normally once its reconciliation has ended.  After an
  error of its own unload the main goroutine returns.
\<close>

inductive main_step ::
  "ebpf_env \<Rightarrow> (string \<times> 's runtime) list \<Rightarrow> 's operator \<Rightarrow> 's operator \<Rightarrow> bool"
  for env rts where
  signal: "running (op_main s) \<Longrightarrow> main_step env rts s (s\<lparr>op_signal := True\<rparr>)"
| reconcile: "op_main s = Serving \<Longrightarrow> op_load s = None \<Longrightarrow> \<not> Loaded (op_ebpf s) \<Longrightarrow>
    main_step env rts s (s\<lparr>op_load := Some Memlock\<rparr>)"
| load_ok: "op_main s = Serving \<Longrightarrow> op_load s = Some p \<Longrightarrow> load_step env p (op_ebpf s) = (Return q, e) \<Longrightarrow>
    main_step env rts s (s\<lparr>op_load := q, op_ebpf := e\<rparr>)"
| load_error: "op_main s = Serving \<Longrightarrow> op_load s = Some p \<Longrightarrow> load_step env p (op_ebpf s) = (Error m, e) \<Longrightarrow>
    main_step env rts s (s\<lparr>op_load := None, op_ebpf := e\<rparr>)"
| load_panic: "op_main s = Serving \<Longrightarrow> op_load s = Some p \<Longrightarrow> load_step env p (op_ebpf s) = (Panic, e) \<Longrightarrow>
    main_step env rts s (s\<lparr>op_main := Panicked, op_load := None, op_ebpf := e\<rparr>)"
| look_up: "running (op_main s) \<Longrightarrow> GetContainerData rts status trap (op_conns s) = (r, c) \<Longrightarrow> r \<noteq> Panic \<Longrightarrow>
    main_step env rts s (s\<lparr>op_conns := c\<rparr>)"
| look_up_panic: "running (op_main s) \<Longrightarrow> GetContainerData rts status trap (op_conns s) = (Panic, c) \<Longrightarrow>
    main_step env rts s (s\<lparr>op_main := Panicked, op_conns := c\<rparr>)"
| failed: "running (op_main s) \<Longrightarrow> main_step env rts s (s\<lparr>op_main := Exited 1\<rparr>)"
| stopped: "op_main s = Serving \<Longrightarrow> op_signal s \<Longrightarrow> op_load s = None \<Longrightarrow>
    main_step env rts s (s\<lparr>op_main := Closing\<rparr>)"
| close: "op_main s = Closing \<Longrightarrow> CloseConnections rts (op_conns s) = (r, c) \<Longrightarrow> r \<noteq> Panic \<Longrightarrow>
    main_step env rts s (s\<lparr>op_main := Closed, op_conns := c\<rparr>)"
| close_panic: "op_main s = Closing \<Longrightarrow> CloseConnections rts (op_conns s) = (Panic, c) \<Longrightarrow>
    main_step env rts s (s\<lparr>op_main := Panicked, op_conns := c\<rparr>)"
| unload: "op_main s = Closed \<Longrightarrow>
    main_step env rts s (s\<lparr>op_main := Unloading (unload_acts (op_ebpf s))\<rparr>)"
| unload_ok: "op_main s = Unloading (a # as) \<Longrightarrow> do_act env a (op_ebpf s) = (Return bs, e) \<Longrightarrow>
    main_step env rts s (s\<lparr>op_main := Unloading (bs @ as), op_ebpf := e\<rparr>)"
| unload_error: "op_main s = Unloading (a # as) \<Longrightarrow> do_act env a (op_ebpf s) = (Error m, e) \<Longrightarrow>
    main_step env rts s (s\<lparr>op_main := Exited 0, op_ebpf := e\<rparr>)"
| unload_panic: "op_main s = Unloading (a # as) \<Longrightarrow> do_act env a (op_ebpf s) = (Panic, e) \<Longrightarrow>
    main_step env rts s (s\<lparr>op_main := Panicked, op_ebpf := e\<rparr>)"
| exit: "op_main s = Unloading [] \<Longrightarrow> main_step env rts s (s\<lparr>op_main := Exited 0\<rparr>)"
| watch: "running (op_main s) \<Longrightarrow> op_signal s \<Longrightarrow> op_watcher s = Waiting \<Longrightarrow>
    main_step env rts s (s\<lparr>op_watcher := Working (unload_acts (op_ebpf s))\<rparr>)"
| watch_ok: "running (op_main s) \<Longrightarrow> op_watcher s = Working (a # as) \<Longrightarrow>
    do_act env a (op_ebpf s) = (Return bs, e) \<Longrightarrow>
    main_step env rts s (s\<lparr>op_watcher := Working (bs @ as), op_ebpf := e\<rparr>)"
| watch_error: "running (op_main s) \<Longrightarrow> op_watcher s = Working (a # as) \<Longrightarrow>
    do_act env a (op_ebpf s) = (Error m, e) \<Longrightarrow>
    main_step env rts s (s\<lparr>op_watcher := Working [], op_ebpf := e\<rparr>)"
| watch_panic: "running (op_main s) \<Longrightarrow> op_watcher s = Working (a # as) \<Longrightarrow>
    do_act env a (op_ebpf s) = (Panic, e) \<Longrightarrow>
    main_step env rts s (s\<lparr>op_main := Panicked, op_ebpf := e\<rparr>)"

abbreviation main_steps ::
  "ebpf_env \<Rightarrow> (string \<times> 's runtime) list \<Rightarrow> 's operator \<Rightarrow> 's operator \<Rightarrow> bool" where
  "main_steps env rts \<equiv> (main_step env rts)\<^sup>*\<^sup>*"

section \<open>The actions are the unload\<close>

fun act_calls :: "unload_act \<Rightarrow> ebpf_state \<Rightarrow> ext_call list" where
  "act_calls CloseKprobe s = (case Kprobe s of None \<Rightarrow> [] | Some k \<Rightarrow> [CloseLink k])"
| "act_calls CloseTracedInodes s = [CloseMap (TracedInodes (Objs s))]"
| "act_calls CloseProgramNew s = [CloseProgram (KprobeInodePermissionNew (Objs s))]"
| "act_calls CloseProgramOld s = [CloseProgram (KprobeInodePermissionOld (Objs s))]"
| "act_calls CloseMapRb s = [CloseMap (Rb (Objs s))]"
| "act_calls CloseMapTracedInodes s = [CloseMap (TracedInodes (Objs s))]"
| "act_calls TestRingbuff s = []"
| "act_calls CloseRingbuff s = (case RingbuffReader s of None \<Rightarrow> [] | Some r \<Rightarrow> [CloseReader r])"
| "act_calls ClearLoaded s = []"

text \<open>The actions of an unload that nothing interrupts.\<close>

definition done_acts :: "ebpf_state \<Rightarrow> unload_act list" where
  "done_acts s =
     (if Kprobe s = None then []
      else [CloseKprobe, CloseTracedInodes, CloseProgramNew, CloseProgramOld, CloseMapRb,
        CloseMapTracedInodes, TestRingbuff] @ (if RingbuffReader s = None then [] else [CloseRingbuff]) @ [ClearLoaded])"

lemma unload_calls_acts: "unload_calls s = concat (map (\<lambda>a. act_calls a s) (done_acts s))"
  by (auto simp: unload_calls_def done_acts_def split: option.split)

lemma act_call_eq:
  "act_call env c s = (case ee_call env (history s) c of
     None \<Rightarrow> (Return [], made c s) | Some e \<Rightarrow> (Error e, made c s))"
  by (simp add: act_call_def go_bind_def call_err_def go_check_def go_return_def split: option.split)

text \<open>An action keeps the handles, and does nothing but its calls and clearing \<open>Loaded\<close>.\<close>

definition act_done :: "unload_act \<Rightarrow> ebpf_state \<Rightarrow> ebpf_state" where
  "act_done a s = s\<lparr>history := history s @ act_calls a s, Loaded := (a \<noteq> ClearLoaded \<and> Loaded s)\<rparr>"

lemma do_act_state: "do_act env a s = (r, t) \<Longrightarrow> t = act_done a s"
  by (cases a) (auto simp: act_done_def act_call_eq made_def split: option.splits)

lemma do_act_more:
  "do_act env a s = (Return bs, t) \<Longrightarrow>
   bs = (if a = TestRingbuff \<and> RingbuffReader s \<noteq> None then [CloseRingbuff] else [])"
  by (cases a) (auto simp: act_call_eq split: option.splits)

lemma act_done_keeps [simp]:
  "Kprobe (act_done a s) = Kprobe s" "Objs (act_done a s) = Objs s"
  "RingbuffReader (act_done a s) = RingbuffReader s"
  "history (act_done a s) = history s @ act_calls a s"
  "Loaded (act_done a s) \<longleftrightarrow> a \<noteq> ClearLoaded \<and> Loaded s"
  by (simp_all add: act_done_def)

lemma act_calls_done [simp]: "act_calls b (act_done a s) = act_calls b s"
  by (cases b) simp_all

text \<open>Uninterrupted, they are \<open>UnloadEbpf\<close>.\<close>

lemma acts_are_unload:
  "BpfClose (map (\<lambda>a. go_bind (do_act env a) (\<lambda>_. go_return ())) (done_acts s)) s = (Return (), t) \<longleftrightarrow>
   UnloadEbpf env s = (Return (), t)"
proof (cases "Kprobe s")
  case None
  then show ?thesis by (auto simp: done_acts_def UnloadEbpf_def go_return_def)
next
  case (Some k)
  have call: "act_call env c u = (Return x, v) \<longleftrightarrow> x = [] \<and> ee_call env (history u) c = None \<and> v = made c u"
    for c u x v by (auto simp: act_call_eq split: option.split)
  show ?thesis
    using Some unfolding UnloadEbpf_iff
    by (cases "RingbuffReader s")
      (auto simp: done_acts_def unload_calls_def go_bind_Return go_return_def made_def call)
qed

section \<open>The steps are the load\<close>

text \<open>A load that nothing interrupts, from a step on to its end.\<close>

inductive load_run :: "ebpf_env \<Rightarrow> load_pc \<Rightarrow> ebpf_state \<Rightarrow> ebpf_state \<Rightarrow> bool" for env where
  load_stops: "load_step env p e = (Error m, f) \<Longrightarrow> load_run env p e f"
| load_ends: "load_step env p e = (Return None, f) \<Longrightarrow> load_run env p e f"
| load_goes_on: "load_step env p e = (Return (Some q), f) \<Longrightarrow> load_run env q f g \<Longrightarrow> load_run env p e g"

lemma load_run_bind:
  assumes "load_step env p = go_bind m (\<lambda>x. go_return (Some (k x)))" and "go_bind m f e = (r, g)"
    and "r \<noteq> Panic" and "\<And>x u. f x u = (r, g) \<Longrightarrow> load_run env (k x) u g"
  shows "load_run env p e g"
proof (cases "m e")
  case (Pair q u)
  show ?thesis
  proof (cases q)
    case (Return x)
    with Pair assms(2) have "f x u = (r, g)" by (simp add: go_bind_def)
    from load_goes_on [OF _ assms(4) [OF this]] show ?thesis
      using Pair Return by (simp add: assms(1) go_bind_def go_return_def)
  next
    case (Error m)
    with Pair assms(2) have "u = g" by (simp add: go_bind_def)
    with Pair Error show ?thesis by (intro load_stops) (simp add: assms(1) go_bind_def)
  next
    case Panic
    with Pair assms(2,3) show ?thesis by (simp add: go_bind_def)
  qed
qed

lemma load_run_LoadEbpf:
  assumes "LoadEbpf env e = (r, g)" and "r \<noteq> Panic"
  shows "load_run env Memlock e g"
  using assms(1) unfolding LoadEbpf_def
  by (elim load_run_bind [OF load_step.simps(1) _ assms(2)] load_run_bind [OF load_step.simps(2) _ assms(2)]
      load_run_bind [OF load_step.simps(3) _ assms(2)] load_run_bind [OF load_step.simps(4) _ assms(2)]
      load_run_bind [OF load_step.simps(5) _ assms(2)]) (auto intro: load_ends)

lemma load_run_steps:
  "load_run env p e g \<Longrightarrow> op_main s = Serving \<Longrightarrow> op_load s = Some p \<Longrightarrow> op_ebpf s = e \<Longrightarrow>
   main_steps env rts s (s\<lparr>op_load := None, op_ebpf := g\<rparr>)"
proof (induction arbitrary: s rule: load_run.induct)
  case (load_stops p e m f)
  then show ?case using load_error [of s p env m f rts] by simp
next
  case (load_ends p e f)
  then show ?case using load_ok [of s p env None f rts] by simp
next
  case (load_goes_on p e q f g)
  let ?t = "s\<lparr>op_load := Some q, op_ebpf := f\<rparr>"
  have "main_step env rts s ?t" using load_goes_on by (intro load_ok) simp_all
  moreover have "main_steps env rts ?t (?t\<lparr>op_load := None, op_ebpf := g\<rparr>)"
    using load_goes_on.prems by (intro load_goes_on.IH) simp_all
  ultimately show ?case using converse_rtranclp_into_rtranclp [of "main_step env rts" s ?t] by simp
qed

lemma load_uninterrupted:
  assumes "LoadEbpf env (op_ebpf s) = (r, g)" and "r \<noteq> Panic"
    and "op_main s = Serving" and "op_load s = None" and "\<not> Loaded (op_ebpf s)"
  shows "main_steps env rts s (s\<lparr>op_ebpf := g\<rparr>)"
proof -
  let ?t = "s\<lparr>op_load := Some Memlock\<rparr>"
  have "main_step env rts s ?t" using assms(3-5) by (rule reconcile)
  moreover have "main_steps env rts ?t (?t\<lparr>op_load := None, op_ebpf := g\<rparr>)"
    using assms(3) by (intro load_run_steps [OF load_run_LoadEbpf [OF assms(1,2)]]) simp_all
  moreover have "?t\<lparr>op_load := None, op_ebpf := g\<rparr> = s\<lparr>op_ebpf := g\<rparr>" using assms(4) by simp
  ultimately show ?thesis by (metis converse_rtranclp_into_rtranclp)
qed

text \<open>What a step of a load leaves.\<close>

fun attaches :: "load_pc \<Rightarrow> bool" where
  "attaches (Probe old) = True"
| "attaches p = False"

lemma snd_go_bind_return: "snd (go_bind m (\<lambda>x. go_return (f x)) s) = snd (m s)"
  by (simp add: go_bind_def go_return_def split: prod.split outcome.split)

lemma loadBpfObjects_keeps:
  "Loaded (snd (loadBpfObjects env s)) = Loaded s \<and> Kprobe (snd (loadBpfObjects env s)) = Kprobe s \<and>
   RingbuffReader (snd (loadBpfObjects env s)) = RingbuffReader s"
  using steps_loadBpfObjects [of "\<lambda>s t. Loaded t = Loaded s \<and> Kprobe t = Kprobe s \<and>
      RingbuffReader t = RingbuffReader s" env]
  by (auto simp: transp_def go_steps_def)

lemma load_step_keeps:
  assumes "load_step env p s = (r, t)"
  shows "(p \<noteq> SetLoaded \<longrightarrow> Loaded t = Loaded s) \<and> (\<not> attaches p \<longrightarrow> Kprobe t = Kprobe s) \<and>
    (p \<noteq> Reader \<longrightarrow> RingbuffReader t = RingbuffReader s)"
proof -
  from assms have "t = snd (load_step env p s)" by simp
  then show ?thesis
    using loadBpfObjects_keeps [of env s]
    by (cases p) (simp_all add: snd_go_bind_return check_kernel_def open_kprobe_def open_reader_def Let_def)
qed

lemma load_step_next:
  assumes "load_step env p s = (Return q, t)" and "handles_ok env"
  shows "(attaches p \<longrightarrow> Kprobe t \<noteq> None) \<and> (p = Reader \<longrightarrow> RingbuffReader t \<noteq> None) \<and>
    (q = Some Reader \<longrightarrow> attaches p) \<and> (q = Some SetLoaded \<longrightarrow> p = Reader) \<and> (q = None \<longleftrightarrow> p = SetLoaded)"
  using assms
  by (cases p) (auto simp: go_bind_Return go_return_def open_kprobe_Return open_reader_Return handles_ok_def
      split: if_splits)

text \<open>The opening calls of the library do not fail, and the kernel's version can be parsed.\<close>

definition loads_ok :: "ebpf_env \<Rightarrow> bool" where
  "loads_ok env \<longleftrightarrow> (\<forall>h c. \<not> closes c \<longrightarrow> ee_call env h c = None) \<and>
     (\<forall>h. \<exists>old. isKernelOld (ee_uname env h) = Return old)"

lemma load_step_ok:
  assumes "loads_ok env"
  shows "\<exists>q t. load_step env p s = (Return q, t)"
proof (cases p)
  case Version
  obtain old where "isKernelOld (ee_uname env (history s)) = Return old"
    using assms unfolding loads_ok_def by blast
  with Version show ?thesis by (simp add: go_bind_def go_wrap_def go_return_def check_kernel_def)
qed (use assms in \<open>auto simp: loads_ok_def go_bind_def go_wrap_def go_return_def call_err_def go_check_def
  loadBpfObjects_def loadBpf_def open_kprobe_def open_reader_def Let_def\<close>)

section \<open>Between the end of serving and the exit\<close>

inductive_cases main_stepE: "main_step env rts s t"

lemma not_running_stuck: "main_step env rts s t \<Longrightarrow> running (op_main s)"
  by (erule main_stepE) simp_all

definition same_handles :: "ebpf_state \<Rightarrow> ebpf_state \<Rightarrow> bool" where
  "same_handles e f \<longleftrightarrow> Kprobe f = Kprobe e \<and> Objs f = Objs e \<and> RingbuffReader f = RingbuffReader e"

lemma same_handles_calls: "same_handles e f \<Longrightarrow> act_calls a f = act_calls a e"
  by (cases a) (simp_all add: same_handles_def)

lemma same_handles_acts: "same_handles e f \<Longrightarrow> unload_acts f = unload_acts e"
  by (simp add: same_handles_def unload_acts_def)

lemma same_handles_done [simp]: "same_handles e (act_done a f) \<longleftrightarrow> same_handles e f"
  by (simp add: same_handles_def)

text \<open>How far the main goroutine has come since it started to unload, in a state \<open>e\<close>.\<close>

definition unloaded :: "ebpf_state \<Rightarrow> unload_act list \<Rightarrow> ext_call list \<Rightarrow> ebpf_state \<Rightarrow> bool" where
  "unloaded e acts new f \<longleftrightarrow> subseq (concat (map (\<lambda>a. act_calls a e) acts)) new \<and>
     (ClearLoaded \<in> set acts \<longrightarrow> \<not> Loaded f)"

text \<open>What is done and what remains, before and after the reader is tested.\<close>

definition parts :: "ebpf_state \<Rightarrow> unload_act list \<Rightarrow> unload_act list \<Rightarrow> bool" where
  "parts e acts as \<longleftrightarrow>
     acts @ as = (if TestRingbuff \<in> set as then unload_acts e else done_acts e)"

lemma parts_start: "parts e [] (unload_acts e)"
  by (simp add: parts_def unload_acts_def done_acts_def)

lemma parts_next:
  assumes "parts e acts (a # as)" and "same_handles e f" and "do_act env a f = (Return bs, g)"
  shows "parts e (acts @ [a]) (bs @ as)"
proof (cases "a = TestRingbuff")
  case True
  then have "acts @ TestRingbuff # as = unload_acts e" using assms(1) by (simp add: parts_def)
  then have "Kprobe e \<noteq> None \<and> as = [ClearLoaded] \<and>
      acts = [CloseKprobe, CloseTracedInodes, CloseProgramNew, CloseProgramOld, CloseMapRb, CloseMapTracedInodes]"
    by (auto simp: unload_acts_def append_eq_Cons_conv Cons_eq_append_conv split: if_splits)
  then show ?thesis
    using do_act_more [OF assms(3)] assms(2) True by (auto simp: parts_def done_acts_def same_handles_def)
next
  case False
  with do_act_more [OF assms(3)] assms(1) show ?thesis by (auto simp: parts_def split: if_splits)
qed

fun progress :: "ebpf_state \<Rightarrow> main_pc \<Rightarrow> ext_call list \<Rightarrow> ebpf_state \<Rightarrow> bool" where
  "progress e Closed new f = True"
| "progress e (Unloading as) new f = (\<exists>acts. parts e acts as \<and> unloaded e acts new f)"
| "progress e (Exited n) new f = (n = 0 \<longrightarrow> unloaded e (done_acts e) new f)"
| "progress e Panicked new f = True"
| "progress e _ new f = False"

definition closing_inv :: "ebpf_state \<Rightarrow> 's operator \<Rightarrow> bool" where
  "closing_inv e s \<longleftrightarrow> same_handles e (op_ebpf s) \<and>
     (\<exists>new. history (op_ebpf s) = history e @ new \<and> progress e (op_main s) new (op_ebpf s))"

text \<open>Whatever the other goroutine does, what was done stays done.\<close>

lemma unloaded_more:
  "unloaded e acts new f \<Longrightarrow> unloaded e acts (new @ act_calls a f) (act_done a f)"
  by (auto simp: unloaded_def intro: subseq_order.trans)

lemma progress_more:
  "progress e pc new f \<Longrightarrow> progress e pc (new @ act_calls a f) (act_done a f)"
  by (cases pc) (auto intro: unloaded_more)

lemma closing_watch:
  assumes "closing_inv e s" and "do_act env a (op_ebpf s) = (r, f)"
  shows "closing_inv e (s\<lparr>op_watcher := w, op_ebpf := f\<rparr>)"
proof -
  from assms(2) have f: "f = act_done a (op_ebpf s)" by (rule do_act_state)
  from assms(1) obtain new where "same_handles e (op_ebpf s)" "history (op_ebpf s) = history e @ new"
    "progress e (op_main s) new (op_ebpf s)" by (auto simp: closing_inv_def)
  with progress_more [OF this(3), of a] show ?thesis unfolding f by (simp add: closing_inv_def)
qed

lemma do_act_ok: "closes_ok env \<Longrightarrow> do_act env a s \<noteq> (Error m, f)"
  by (cases a) (auto simp: closes_ok_def act_call_eq split: option.splits)

lemma unloaded_next:
  assumes "unloaded e acts new f" and "same_handles e f"
  shows "unloaded e (acts @ [a]) (new @ act_calls a f) (act_done a f)"
  using assms same_handles_calls [OF assms(2), of a]
  by (auto simp: unloaded_def intro: list_emb_append_mono)

lemma closing_step:
  assumes "closes_ok env" and "main_step env rts s t" and "closing_inv e s"
  shows "closing_inv e t"
  using assms(2)
proof (cases rule: main_step.cases)
  case unload
  have "unloaded e [] new f" for new f by (simp add: unloaded_def)
  with assms(3) unload same_handles_acts [of e "op_ebpf s"] parts_start [of e] show ?thesis
    unfolding closing_inv_def by auto
next
  case (unload_ok a as bs f)
  from do_act_state [OF unload_ok(3)] have f: "f = act_done a (op_ebpf s)" .
  from assms(3) unload_ok(2) obtain new acts where inv: "same_handles e (op_ebpf s)"
    "history (op_ebpf s) = history e @ new" "parts e acts (a # as)"
    "unloaded e acts new (op_ebpf s)" by (auto simp: closing_inv_def)
  from unloaded_next [OF inv(4,1), of a] parts_next [OF inv(3,1) unload_ok(3)]
  have "progress e (Unloading (bs @ as)) (new @ act_calls a (op_ebpf s)) (act_done a (op_ebpf s))" by auto
  with inv(1,2) show ?thesis unfolding unload_ok(1) f by (simp add: closing_inv_def)
next
  case (watch_ok a as bs f)
  then show ?thesis using closing_watch [OF assms(3)] by simp
next
  case (watch_error a as m f)
  then show ?thesis using closing_watch [OF assms(3)] by simp
next
  case (unload_panic a as f)
  from do_act_state [OF unload_panic(3)] assms(3) show ?thesis
    by (auto simp: unload_panic(1) closing_inv_def)
next
  case (watch_panic a as f)
  from do_act_state [OF watch_panic(4)] assms(3) show ?thesis
    by (auto simp: watch_panic(1) closing_inv_def)
next
  case (unload_error a as m f)
  with do_act_ok [OF assms(1)] show ?thesis by blast
qed (use assms(3) in \<open>auto simp: closing_inv_def parts_def\<close>)

lemma closing_steps:
  assumes "closes_ok env" and "main_steps env rts s t" and "op_main s = Closed"
  shows "closing_inv (op_ebpf s) t"
  using assms(2)
proof (induction rule: rtranclp_induct)
  case base
  then show ?case using assms(3) by (simp add: closing_inv_def same_handles_def)
qed (rule closing_step [OF assms(1)])

section \<open>Loaded only with a probe\<close>

definition load_inv :: "'s operator \<Rightarrow> bool" where
  "load_inv s \<longleftrightarrow> (Loaded (op_ebpf s) \<longrightarrow> Kprobe (op_ebpf s) \<noteq> None \<and> op_load s = None) \<and>
     (op_load s = Some Reader \<or> op_load s = Some SetLoaded \<longrightarrow> Kprobe (op_ebpf s) \<noteq> None)"

lemma load_inv_step:
  assumes "handles_ok env" and "main_step env rts s t" and "load_inv s"
  shows "load_inv t"
  using assms(2)
proof (cases rule: main_step.cases)
  case (load_ok p q e)
  from load_step_keeps [OF load_ok(4)] load_step_next [OF load_ok(4) assms(1)] assms(3) load_ok(3)
  show ?thesis by (cases p) (auto simp: load_ok(1) load_inv_def)
next
  case (load_error p m e)
  have "p \<noteq> SetLoaded" using load_error(4) by auto
  with load_step_keeps [OF load_error(4)] assms(3) load_error(3) show ?thesis
    by (auto simp: load_error(1) load_inv_def)
next
  case (load_panic p e)
  have "p \<noteq> SetLoaded" using load_panic(4) by auto
  with load_step_keeps [OF load_panic(4)] assms(3) load_panic(3) show ?thesis
    by (auto simp: load_panic(1) load_inv_def)
next
  case (unload_ok a as bs f)
  with assms(3) do_act_state [OF unload_ok(3)] show ?thesis by (auto simp: load_inv_def)
next
  case (unload_error a as m f)
  with assms(3) do_act_state [OF unload_error(3)] show ?thesis by (auto simp: load_inv_def)
next
  case (unload_panic a as f)
  with assms(3) do_act_state [OF unload_panic(3)] show ?thesis by (auto simp: load_inv_def)
next
  case (watch_ok a as bs f)
  with assms(3) do_act_state [OF watch_ok(4)] show ?thesis by (auto simp: load_inv_def)
next
  case (watch_error a as m f)
  with assms(3) do_act_state [OF watch_error(4)] show ?thesis by (auto simp: load_inv_def)
next
  case (watch_panic a as f)
  with assms(3) do_act_state [OF watch_panic(4)] show ?thesis by (auto simp: load_inv_def)
qed (use assms(3) in \<open>auto simp: load_inv_def\<close>)

lemma load_inv_steps:
  assumes "handles_ok env" and "main_steps env rts (op_start ebpf_init c) t"
  shows "load_inv t"
  using assms(2)
proof (induction rule: rtranclp_induct)
  case base
  then show ?case by (simp add: load_inv_def op_start_def ebpf_init_def)
qed (rule load_inv_step [OF assms(1)])

section \<open>Panics\<close>

text \<open>The actions the two goroutines still have to do.\<close>

definition pending :: "'s operator \<Rightarrow> unload_act set" where
  "pending s = (case op_main s of Unloading as \<Rightarrow> set as | _ \<Rightarrow> {}) \<union>
     (case op_watcher s of Working as \<Rightarrow> set as | Waiting \<Rightarrow> {})"

text \<open>A goroutine that is going to close the probe or the reader finds one.\<close>

definition handles_held :: "unload_act set \<Rightarrow> ebpf_state \<Rightarrow> bool" where
  "handles_held A e \<longleftrightarrow> (A \<noteq> {} \<longrightarrow> Kprobe e \<noteq> None) \<and> (CloseRingbuff \<in> A \<longrightarrow> RingbuffReader e \<noteq> None)"

definition held_inv :: "Containerd operator \<Rightarrow> bool" where
  "held_inv s \<longleftrightarrow> op_main s \<noteq> Panicked \<and> client_inv (op_conns s) \<and> handles_held (pending s) (op_ebpf s)"

lemma held_mono: "handles_held A e \<Longrightarrow> B \<subseteq> A \<Longrightarrow> handles_held B e"
  unfolding handles_held_def by blast

lemma held_acts: "handles_held A e \<Longrightarrow> handles_held (A \<union> set (unload_acts e)) e"
  by (auto simp: handles_held_def unload_acts_def)

lemma held_act:
  assumes "handles_held A e" and "a \<in> A" and "do_act env a e = (Return bs, f)"
  shows "handles_held (A \<union> set bs) f"
  using assms do_act_more [OF assms(3)] do_act_state [OF assms(3)] by (auto simp: handles_held_def)

lemma held_no_panic: "handles_held A e \<Longrightarrow> a \<in> A \<Longrightarrow> do_act env a e \<noteq> (Panic, f)"
  by (cases a) (auto simp: handles_held_def act_call_eq split: option.splits)

lemma held_load:
  assumes "handles_held A s" and "handles_ok env" and "load_step env p s = (Return q, t)"
  shows "handles_held A t"
proof -
  have "Kprobe s \<noteq> None \<longrightarrow> Kprobe t \<noteq> None"
    using load_step_keeps [OF assms(3)] load_step_next [OF assms(3,2)] by (cases "attaches p") simp_all
  moreover have "RingbuffReader s \<noteq> None \<longrightarrow> RingbuffReader t \<noteq> None"
    using load_step_keeps [OF assms(3)] load_step_next [OF assms(3,2)] by (cases "p = Reader") simp_all
  ultimately show ?thesis using assms(1) unfolding handles_held_def by blast
qed

lemma held_step:
  assumes "loads_ok env" and "handles_ok env"
    and "main_step env (ContainerRuntimes cenv) s t" and "held_inv s"
  shows "held_inv t"
proof -
  from assms(4) have inv: "client_inv (op_conns s)" "handles_held (pending s) (op_ebpf s)"
    by (simp_all add: held_inv_def)
  from assms(3) show ?thesis
  proof (cases rule: main_step.cases)
    case (load_ok p q e)
    from held_load [OF inv(2) assms(2) load_ok(4)] inv(1) load_ok(2) show ?thesis
      by (simp add: load_ok(1) held_inv_def pending_def)
  next
    case (load_error p m e)
    with load_step_ok [OF assms(1), of p "op_ebpf s"] show ?thesis by auto
  next
    case (load_panic p e)
    with load_step_ok [OF assms(1), of p "op_ebpf s"] show ?thesis by auto
  next
    case (look_up st trap r c)
    with GetContainerData_inv [OF inv(1) look_up(3)] assms(4) show ?thesis by (simp add: held_inv_def pending_def)
  next
    case (look_up_panic st trap c)
    with GetContainerData_inv [OF inv(1) look_up_panic(3)] show ?thesis by simp
  next
    case (close r c)
    with CloseConnections_inv [OF inv(1) close(3)] inv(2) show ?thesis
      by (auto simp: held_inv_def pending_def)
  next
    case (close_panic c)
    with CloseConnections_inv [OF inv(1) close_panic(3)] show ?thesis by simp
  next
    case unload
    with held_acts [OF inv(2)] inv(1) show ?thesis by (auto simp: held_inv_def pending_def Un_commute)
  next
    case watch
    with held_acts [OF inv(2)] inv(1) assms(4) show ?thesis by (auto simp: held_inv_def pending_def Un_commute)
  next
    case (unload_ok a as bs f)
    have "a \<in> pending s" using unload_ok(2) by (simp add: pending_def)
    from held_mono [OF held_act [OF inv(2) this unload_ok(3)], of "pending t"] inv(1) unload_ok(1,2)
    show ?thesis by (auto simp: held_inv_def pending_def)
  next
    case (watch_ok a as bs f)
    have "a \<in> pending s" using watch_ok(3) by (simp add: pending_def)
    from held_mono [OF held_act [OF inv(2) this watch_ok(4)], of "pending t"] inv(1) watch_ok(1,3) assms(4)
    show ?thesis by (auto simp: held_inv_def pending_def)
  next
    case (unload_error a as m f)
    with do_act_state [OF unload_error(3)] held_mono [OF inv(2), of "pending t"] inv(1) show ?thesis
      by (auto simp: held_inv_def pending_def handles_held_def)
  next
    case (watch_error a as m f)
    with do_act_state [OF watch_error(4)] held_mono [OF inv(2), of "pending t"] inv(1) assms(4) show ?thesis
      by (auto simp: held_inv_def pending_def handles_held_def)
  next
    case (unload_panic a as f)
    with held_no_panic [OF inv(2), of a] show ?thesis by (simp add: pending_def)
  next
    case (watch_panic a as f)
    with held_no_panic [OF inv(2), of a] show ?thesis by (simp add: pending_def)
  qed (use assms(4) in \<open>auto simp: held_inv_def pending_def handles_held_def\<close>)
qed

lemma held_steps:
  assumes "loads_ok env" and "handles_ok env" and "client_inv c"
    and "main_steps env (ContainerRuntimes cenv) (op_start e c) t"
  shows "held_inv t"
  using assms(4)
proof (induction rule: rtranclp_induct)
  case base
  then show ?case using assms(3) by (simp add: held_inv_def op_start_def pending_def handles_held_def)
qed (rule held_step [OF assms(1,2)])

section \<open>Properties\<close>

text \<open>C17: the two unloads of a shutdown do not harm each other: when closing does not fail and the
  library's handles are not nil, then however the waiting goroutine, the signal, loads and lookups
  were interleaved since the program started, at an exit with status 0 the program no longer counts
  as loaded, the handles are those held when the connections were closed, and if a probe was
  attached then, each of them has been closed since, in the order of \<open>UnloadEbpf\<close>: the probe, the
  map, the two programs, the two maps and the reader.  Without a probe nothing is closed, also
  when a load that failed half way left maps and programs open.\<close>

theorem shutdown_unloads:
  assumes "closes_ok env" and "handles_ok env"
    and "main_steps env rts (op_start ebpf_init c) s" and "op_main s = Closed"
    and "main_steps env rts s t" and "op_main t = Exited 0"
  shows "same_handles (op_ebpf s) (op_ebpf t) \<and> \<not> Loaded (op_ebpf t) \<and>
    (\<exists>new. history (op_ebpf t) = history (op_ebpf s) @ new \<and>
      (\<forall>k ob. Kprobe (op_ebpf s) = Some k \<longrightarrow> ob = Objs (op_ebpf s) \<longrightarrow>
        subseq ([CloseLink k, CloseMap (TracedInodes ob), CloseProgram (KprobeInodePermissionNew ob),
            CloseProgram (KprobeInodePermissionOld ob), CloseMap (Rb ob), CloseMap (TracedInodes ob)] @
          (case RingbuffReader (op_ebpf s) of None \<Rightarrow> [] | Some r \<Rightarrow> [CloseReader r])) new))"
proof -
  from closing_steps [OF assms(1,5,4)] assms(6) obtain new where
    new: "same_handles (op_ebpf s) (op_ebpf t)" "history (op_ebpf t) = history (op_ebpf s) @ new"
    "unloaded (op_ebpf s) (done_acts (op_ebpf s)) new (op_ebpf t)" by (auto simp: closing_inv_def)
  have "load_inv t" using assms(3,5) by (intro load_inv_steps [OF assms(2)]) (rule rtranclp_trans)
  then have "\<not> Loaded (op_ebpf t)"
    using new(1,3) by (cases "Kprobe (op_ebpf s)")
      (auto simp: load_inv_def same_handles_def unloaded_def done_acts_def)
  with new show ?thesis
    unfolding unloaded_def unload_calls_acts [symmetric] by (auto simp: unload_calls_def)
qed

text \<open>C18: while the opening calls of the library do not fail, no interleaving panics: not the closing
  of the probe or of the reader by either goroutine, not a load, not a lookup of a container and not
  the closing of the connections, from a containerd runtime that is connected only with a client.\<close>

theorem shutdown_no_panic:
  assumes "loads_ok env" and "handles_ok env" and "client_inv c"
    and "main_steps env (ContainerRuntimes cenv) (op_start e c) t"
  shows "op_main t \<noteq> Panicked"
  using held_steps [OF assms] by (simp add: held_inv_def)

text \<open>The witnesses: a run that loads, is asked to stop and stops, with the waiting goroutine at work.\<close>

definition ex_rts :: "(string \<times> Containerd runtime) list" where
  "ex_rts = ContainerRuntimes ex_containers"

definition ex_loaded_state :: ebpf_state where
  "ex_loaded_state = snd (LoadEbpf (ex_loader (6, 8)) ebpf_init)"

definition ex_closed :: "Containerd operator" where
  "ex_closed = (op_start ex_loaded_state containerd_init)\<lparr>op_signal := True, op_main := Closed\<rparr>"

lemma ex_load_steps: "LoadEbpf (ex_loader (6, 8)) ebpf_init = (Return (), ex_loaded_state)"
  using ex_loader_load [of "(6, 8)" ebpf_init] by (auto simp: ex_loaded_state_def)

lemma LoadEbpf_Loaded: "LoadEbpf env s = (Return (), t) \<Longrightarrow> Loaded t"
  by (auto simp: LoadEbpf_iff)

lemma ex_handles: "handles_ok (ex_loader v)" "closes_ok (ex_loader v)"
  by (simp_all add: handles_ok_def closes_ok_def ex_loader_def)

lemma ex_loads: "loads_ok (ex_loader (6, 8))"
  using isKernelOld_release [of "(6, 8)" "[]"] by (simp add: loads_ok_def ex_loader_def)

lemma ex_loaded: "Kprobe ex_loaded_state \<noteq> None" "RingbuffReader ex_loaded_state \<noteq> None"
proof -
  have "Loaded ex_loaded_state" by (rule LoadEbpf_Loaded [OF ex_load_steps])
  with LoadEbpf_inv [OF ex_handles(1) _ ex_load_steps]
  show "Kprobe ex_loaded_state \<noteq> None" "RingbuffReader ex_loaded_state \<noteq> None"
    by (auto simp: loader_inv_def ebpf_init_def)
qed

lemma ex_runs: "main_steps (ex_loader (6, 8)) ex_rts (op_start ebpf_init containerd_init) ex_closed"
proof -
  let ?R = "main_step (ex_loader (6, 8)) ex_rts"
  let ?s = "op_start ebpf_init containerd_init"
  let ?t = "?s\<lparr>op_ebpf := ex_loaded_state\<rparr>"
  let ?u = "?t\<lparr>op_signal := True\<rparr>"
  have "main_steps (ex_loader (6, 8)) ex_rts ?s ?t"
    by (rule load_uninterrupted [where r = "Return ()"]) (simp_all add: op_start_def ex_load_steps, simp add: ebpf_init_def)
  moreover have "?R ?t ?u" by (rule signal) (simp add: op_start_def)
  moreover have "?R ?u (?u\<lparr>op_main := Closing\<rparr>)" by (rule stopped) (simp_all add: op_start_def)
  moreover have "?R (?u\<lparr>op_main := Closing\<rparr>) (?u\<lparr>op_main := Closed, op_conns := containerd_init\<rparr>)"
    using close [of "?u\<lparr>op_main := Closing\<rparr>" ex_rts "Return ()" containerd_init "ex_loader (6, 8)"]
    by (simp add: op_start_def ex_rts_def ContainerRuntimes_def Containerd_runtime_def containerd_init_def)
  moreover have "?u\<lparr>op_main := Closed, op_conns := containerd_init\<rparr> = ex_closed"
    by (simp add: ex_closed_def op_start_def)
  ultimately show ?thesis by (metis (no_types, lifting) rtranclp.rtrancl_into_rtrancl)
qed

lemma ex_act:
  assumes "Kprobe e \<noteq> None" and "RingbuffReader e \<noteq> None"
  shows "\<exists>bs. do_act (ex_loader v) a e = (Return bs, act_done a e)"
proof -
  have call: "act_call (ex_loader v) c e = (Return [], made c e)" for c by (simp add: act_call_eq ex_loader_def)
  show ?thesis using assms by (cases a) (auto simp: call act_done_def made_def)
qed

lemma ex_unload_one:
  assumes "Kprobe (op_ebpf s) \<noteq> None" and "RingbuffReader (op_ebpf s) \<noteq> None" and "op_main s = Unloading (a # as)"
  shows "\<exists>e. main_steps (ex_loader v) rts s (s\<lparr>op_main := Unloading as, op_ebpf := e\<rparr>) \<and>
    Kprobe e \<noteq> None \<and> RingbuffReader e \<noteq> None"
proof -
  obtain bs where m: "do_act (ex_loader v) a (op_ebpf s) = (Return bs, act_done a (op_ebpf s))"
    using ex_act [OF assms(1,2)] by blast
  let ?e = "act_done a (op_ebpf s)"
  let ?t = "s\<lparr>op_main := Unloading (bs @ as), op_ebpf := ?e\<rparr>"
  have one: "main_step (ex_loader v) rts s ?t" by (rule unload_ok [OF assms(3) m])
  show ?thesis
  proof (cases "bs = []")
    case True
    with one assms(1,2) show ?thesis by (intro exI [of _ ?e]) auto
  next
    case False
    with do_act_more [OF m] have bs: "bs = [CloseRingbuff]" by (auto split: if_splits)
    have "do_act (ex_loader v) CloseRingbuff ?e = (Return [], act_done CloseRingbuff ?e)"
    proof -
      obtain bs where n: "do_act (ex_loader v) CloseRingbuff ?e = (Return bs, act_done CloseRingbuff ?e)"
        using ex_act [of ?e v CloseRingbuff] assms(1,2) by auto
      with do_act_more [OF n] show ?thesis by simp
    qed
    then have "main_step (ex_loader v) rts ?t
        (?t\<lparr>op_main := Unloading ([] @ as), op_ebpf := act_done CloseRingbuff ?e\<rparr>)"
      by (intro unload_ok [where a = CloseRingbuff]) (simp_all add: bs)
    with one assms(1,2) show ?thesis
      by (intro exI [of _ "act_done CloseRingbuff ?e"])
        (auto intro: converse_rtranclp_into_rtranclp [of "main_step (ex_loader v) rts" s ?t])
  qed
qed

lemma ex_unloads:
  "Kprobe (op_ebpf s) \<noteq> None \<Longrightarrow> RingbuffReader (op_ebpf s) \<noteq> None \<Longrightarrow> op_main s = Unloading as \<Longrightarrow>
   \<exists>t. main_steps (ex_loader v) rts s t \<and> op_main t = Exited 0"
proof (induction as arbitrary: s)
  case Nil
  then have "main_step (ex_loader v) rts s (s\<lparr>op_main := Exited 0\<rparr>)" by (intro exit)
  then show ?case by (intro exI [of _ "s\<lparr>op_main := Exited 0\<rparr>"]) simp
next
  case (Cons a as)
  from ex_unload_one [OF Cons.prems] obtain e where
    e: "main_steps (ex_loader v) rts s (s\<lparr>op_main := Unloading as, op_ebpf := e\<rparr>)"
    "Kprobe e \<noteq> None" "RingbuffReader e \<noteq> None" by blast
  from Cons.IH [of "s\<lparr>op_main := Unloading as, op_ebpf := e\<rparr>"] e(2,3) obtain t where
    "main_steps (ex_loader v) rts (s\<lparr>op_main := Unloading as, op_ebpf := e\<rparr>) t" "op_main t = Exited 0" by auto
  with e(1) show ?case by (meson rtranclp_trans)
qed

lemma ex_shutdown: "\<exists>t. main_steps (ex_loader (6, 8)) ex_rts ex_closed t \<and> op_main t = Exited 0"
proof -
  let ?w = "ex_closed\<lparr>op_watcher := Working (unload_acts (op_ebpf ex_closed))\<rparr>"
  let ?u = "?w\<lparr>op_main := Unloading (unload_acts (op_ebpf ex_closed))\<rparr>"
  have "main_step (ex_loader (6, 8)) ex_rts ex_closed ?w"
    by (rule watch) (simp_all add: ex_closed_def op_start_def)
  moreover have "main_step (ex_loader (6, 8)) ex_rts ?w ?u"
    using unload [of ?w "ex_loader (6, 8)" ex_rts] by (simp add: ex_closed_def)
  moreover obtain t where "main_steps (ex_loader (6, 8)) ex_rts ?u t" "op_main t = Exited 0"
    using ex_unloads [of ?u "unload_acts (op_ebpf ex_closed)" "(6, 8)" ex_rts] ex_loaded
    by (auto simp: ex_closed_def op_start_def)
  ultimately show ?thesis by (meson converse_rtranclp_into_rtranclp)
qed

theorem shutdown_unloads_witness:
  "\<exists>t. main_steps (ex_loader (6, 8)) ex_rts (op_start ebpf_init containerd_init) t \<and>
    op_main t = Exited 0 \<and> \<not> Loaded (op_ebpf t)"
proof -
  obtain t where t: "main_steps (ex_loader (6, 8)) ex_rts ex_closed t" "op_main t = Exited 0"
    using ex_shutdown by blast
  have "op_main ex_closed = Closed" by (simp add: ex_closed_def)
  from shutdown_unloads [OF ex_handles(2,1) ex_runs this t] have "\<not> Loaded (op_ebpf t)" by blast
  with t ex_runs show ?thesis by (meson rtranclp_trans)
qed

theorem shutdown_no_panic_witness:
  "\<exists>t. main_steps (ex_loader (6, 8)) ex_rts (op_start ebpf_init containerd_init) t \<and>
    op_main t = Exited 0 \<and> op_main t \<noteq> Panicked"
proof -
  obtain t where t: "main_steps (ex_loader (6, 8)) ex_rts ex_closed t" "op_main t = Exited 0"
    using ex_shutdown by blast
  have run: "main_steps (ex_loader (6, 8)) ex_rts (op_start ebpf_init containerd_init) t"
    using ex_runs t(1) by (rule rtranclp_trans)
  have "client_inv containerd_init" by (simp add: client_inv_def containerd_init_def)
  from shutdown_no_panic [OF ex_loads ex_handles(1) this run [unfolded ex_rts_def]] run t(2)
  show ?thesis by blast
qed

section \<open>A race\<close>

text \<open>A library that opens no reader and, once it was asked for one, attaches no probe.\<close>

fun opens_reader :: "ext_call \<Rightarrow> bool" where
  "opens_reader (NewReader r) = True"
| "opens_reader c = False"

definition ex_race :: ebpf_env where
  "ex_race = (ex_loader (6, 8))\<lparr>
     ee_call := (\<lambda>h c. case c of NewReader _ \<Rightarrow> Some ''no reader''
       | LinkKprobe _ _ \<Rightarrow> if list_ex opens_reader h then Some ''no probe'' else None | _ \<Rightarrow> None),
     ee_handle := (\<lambda>h c. if list_ex opens_reader h then None else Some 10)\<rparr>"

lemma ex_race_load:
  assumes "\<not> Loaded s"
  shows "\<exists>m t. LoadEbpf ex_race s = (Error m, t) \<and> \<not> Loaded t \<and>
    (Kprobe t = None \<longleftrightarrow> list_ex opens_reader (history s)) \<and>
    (\<not> list_ex opens_reader (history s) \<longrightarrow> list_ex opens_reader (history t))"
proof -
  have "isKernelOld (Inr (release_field (6, 8) [])) = Return (before_5_12 (6, 8))"
    using isKernelOld_release [of "(6, 8)" "[]"] by simp
  then show ?thesis
    using assms
    by (simp add: LoadEbpf_def loadBpfObjects_def loadBpf_def check_kernel_def open_kprobe_def
        open_reader_def go_bind_def go_wrap_def call_err_def go_check_def ex_race_def ex_loader_def
        Let_def made_def before_5_12_def)
qed

text \<open>C38: a failed load leaves a probe behind while the program does not count as loaded; a
  reconciliation then loads again, even after the waiting goroutine has seen the probe, and if the
  probe cannot be attached this time, the goroutine closes a nil link: the program panics.\<close>

theorem shutdown_race:
  "\<exists>t. main_steps ex_race [] (op_start ebpf_init ()) t \<and> op_main t = Panicked"
proof -
  let ?s0 = "op_start ebpf_init ()"
  obtain m1 e1 where e1: "LoadEbpf ex_race ebpf_init = (Error m1, e1)" "\<not> Loaded e1" "Kprobe e1 \<noteq> None"
    "list_ex opens_reader (history e1)"
    using ex_race_load [of ebpf_init] by (auto simp: ebpf_init_def)
  obtain m2 e2 where e2: "LoadEbpf ex_race e1 = (Error m2, e2)" "Kprobe e2 = None"
    using ex_race_load [OF e1(2)] e1(4) by auto
  let ?s1 = "?s0\<lparr>op_ebpf := e1\<rparr>"
  let ?s2 = "?s1\<lparr>op_signal := True\<rparr>"
  let ?s3 = "?s2\<lparr>op_watcher := Working (unload_acts e1)\<rparr>"
  let ?s4 = "?s3\<lparr>op_ebpf := e2\<rparr>"
  let ?s5 = "?s4\<lparr>op_main := Panicked, op_ebpf := e2\<rparr>"
  have "main_steps ex_race [] ?s0 ?s1"
    by (rule load_uninterrupted [where r = "Error m1"]) (simp_all add: op_start_def e1(1), simp add: ebpf_init_def)
  moreover have "main_step ex_race [] ?s1 ?s2" by (rule signal) (simp add: op_start_def)
  moreover have "main_step ex_race [] ?s2 ?s3"
    using watch [of ?s2 ex_race "[]"] by (simp add: op_start_def)
  moreover have "main_steps ex_race [] ?s3 ?s4"
    by (rule load_uninterrupted [where r = "Error m2"]) (simp_all add: op_start_def e1(2) e2(1))
  moreover have "main_step ex_race [] ?s4 ?s5"
    using e1(3) e2(2) by (intro watch_panic [where a = CloseKprobe]) (auto simp: op_start_def unload_acts_def)
  ultimately have "main_steps ex_race [] ?s0 ?s5"
    by (meson rtranclp.rtrancl_into_rtrancl rtranclp_trans)
  moreover have "op_main ?s5 = Panicked" by (simp add: op_start_def)
  ultimately show ?thesis by blast
qed

end
