(* ===== verification/Stat_Helper.thy ===== *)
theory Stat_Helper
  imports Go_Json
begin

text \<open>
  \<open>hack/stat.c\<close>: the command that prints the device and the inode of a file, which is how the numbers
  the operator works with are looked up by hand.  The system call is a parameter; what the program
  prints is a list of writes to its two streams.
\<close>

section \<open>printf\<close>

text \<open>\<open>%lx\<close>.\<close>

fun format_hex :: "nat \<Rightarrow> string" where
  "format_hex n = (if n < 16 then [hex_digit n] else format_hex (n div 16) @ [hex_digit (n mod 16)])"

declare format_hex.simps [simp del]

definition newline :: char where "newline = CHR 0x0A"

section \<open>The program\<close>

text \<open>The fields of \<open>struct stat\<close> it reads, on a 64-bit platform.\<close>

record stat_buf =
  st_dev :: u64
  st_ino :: u64

datatype stream = Stdout | Stderr

text \<open>With no arguments at all \<open>argv[0]\<close> is a null pointer, which the C library prints as \<open>(null)\<close>.\<close>

definition stat_main :: "(string \<Rightarrow> string + stat_buf) \<Rightarrow> string list \<Rightarrow> (stream \<times> string) list \<times> int" where
  "stat_main stat_call argv =
     (if length argv \<noteq> 2
      then ([(Stderr, ''Usage: '' @ (if argv = [] then ''(null)'' else argv ! 0) @ '' <path>'' @ [newline])], 1)
      else case stat_call (argv ! 1) of
        Inl err \<Rightarrow> ([(Stderr, ''stat: '' @ err @ [newline])], 1)
      | Inr st \<Rightarrow>
          ([(Stdout, ''File: '' @ argv ! 1 @ [newline]),
            (Stdout, ''Device ID (st_dev): '' @ format_uint (unat (st_dev st)) @ '' (0x'' @
               format_hex (unat (st_dev st)) @ '')'' @ [newline]),
            (Stdout, ''Inode: '' @ format_uint (unat (st_ino st)) @ [newline])], 0))"

section \<open>Reading the numbers back\<close>

definition hex_value :: "string \<Rightarrow> nat" where
  "hex_value s = foldl (\<lambda>v c. 16 * v + hex_val c) 0 s"

lemma hex_value_format [simp]: "hex_value (format_hex n) = n"
proof (induction n rule: format_hex.induct)
  case (1 n)
  show ?case
  proof (cases "n < 16")
    case True
    then show ?thesis by (subst format_hex.simps) (simp add: hex_value_def hex_val_digit)
  next
    case False
    with 1 show ?thesis
      by (subst format_hex.simps) (simp add: hex_value_def hex_val_digit)
  qed
qed

text \<open>What is written to a stream.\<close>

definition written :: "stream \<Rightarrow> (stream \<times> string) list \<Rightarrow> string" where
  "written f out = concat (map snd (filter (\<lambda>w. fst w = f) out))"

lemma stat_text:
  assumes "f path = Inr st"
  shows "written Stdout (fst (stat_main f [cmd, path])) = ''File: '' @ path @ newline # ''Device ID (st_dev): '' @
      format_uint (unat (st_dev st)) @ '' (0x'' @ format_hex (unat (st_dev st)) @ '')'' @ newline #
      ''Inode: '' @ format_uint (unat (st_ino st)) @ [newline]"
  using assms by (simp add: stat_main_def written_def)

lemma format_space_inject:
  "format_uint m @ CHR '' '' # x = format_uint n @ CHR '' '' # y \<Longrightarrow> m = n \<and> x = y"
  using format_closed_inject [of m "CHR '' '' # x" n "CHR '' '' # y"] by (simp add: is_digit_def)

lemma unat_inject: "unat v = unat w \<Longrightarrow> v = w" for v w :: u64
  by (rule unsigned_word_eqI)

section \<open>Properties\<close>

text \<open>C39: the command returns 0 exactly when it has one argument, a file that \<open>stat\<close> finds, and writes
  nothing to standard error exactly then.  For a file it prints three lines: its name, its device in
  decimal and then in hexadecimal, and its inode in decimal; read back, the numbers are the fields of
  \<open>struct stat\<close>, so what it prints determines the device and the inode.\<close>

theorem stat_prints_identity:
  "(snd (stat_main f argv) = 0 \<longleftrightarrow> (\<exists>cmd path st. argv = [cmd, path] \<and> f path = Inr st)) \<and>
   (written Stderr (fst (stat_main f argv)) = [] \<longleftrightarrow> snd (stat_main f argv) = 0) \<and>
   (f path = Inr st \<longrightarrow>
      (\<exists>d h i. written Stdout (fst (stat_main f [cmd, path])) =
         ''File: '' @ path @ [newline] @
         ''Device ID (st_dev): '' @ d @ '' (0x'' @ h @ '')'' @ [newline] @
         ''Inode: '' @ i @ [newline] \<and>
         list_all is_digit d \<and> digits_val d = unat (st_dev st) \<and> hex_value h = unat (st_dev st) \<and>
         list_all is_digit i \<and> digits_val i = unat (st_ino st)) \<and>
      (\<forall>g st'. g path = Inr st' \<longrightarrow>
         written Stdout (fst (stat_main f [cmd, path])) = written Stdout (fst (stat_main g [cmd, path])) \<longrightarrow>
         st_dev st' = st_dev st \<and> st_ino st' = st_ino st))"
proof (intro conjI impI allI)
  show "snd (stat_main f argv) = 0 \<longleftrightarrow> (\<exists>cmd path st. argv = [cmd, path] \<and> f path = Inr st)"
    by (cases argv rule: remdups_adj.cases) (auto simp: stat_main_def split: sum.split)
  show "written Stderr (fst (stat_main f argv)) = [] \<longleftrightarrow> snd (stat_main f argv) = 0"
    by (simp add: stat_main_def written_def split: sum.split)
next
  assume st: "f path = Inr st"
  show "\<exists>d h i. written Stdout (fst (stat_main f [cmd, path])) =
         ''File: '' @ path @ [newline] @
         ''Device ID (st_dev): '' @ d @ '' (0x'' @ h @ '')'' @ [newline] @
         ''Inode: '' @ i @ [newline] \<and>
         list_all is_digit d \<and> digits_val d = unat (st_dev st) \<and> hex_value h = unat (st_dev st) \<and>
         list_all is_digit i \<and> digits_val i = unat (st_ino st)"
    by (rule exI [of _ "format_uint (unat (st_dev st))"], rule exI [of _ "format_hex (unat (st_dev st))"],
        rule exI [of _ "format_uint (unat (st_ino st))"])
      (simp add: stat_text [of f, OF st] format_uint_digits)
next
  fix g :: "string \<Rightarrow> string + stat_buf" and st'
  assume st: "f path = Inr st" and st': "g path = Inr st'"
    and "written Stdout (fst (stat_main f [cmd, path])) = written Stdout (fst (stat_main g [cmd, path]))"
  then have "format_uint (unat (st_dev st)) @ CHR '' '' # ''(0x'' @ format_hex (unat (st_dev st)) @
      '')'' @ newline # ''Inode: '' @ format_uint (unat (st_ino st)) @ [newline] =
    format_uint (unat (st_dev st')) @ CHR '' '' # ''(0x'' @ format_hex (unat (st_dev st')) @
      '')'' @ newline # ''Inode: '' @ format_uint (unat (st_ino st')) @ [newline]"
    by (simp add: stat_text [of f, OF st] stat_text [of g, OF st'])
  from format_space_inject [OF this] show "st_dev st' = st_dev st" "st_ino st' = st_ino st"
    by (auto intro: unat_inject)
qed

theorem stat_prints_identity_witness:
  "\<exists>d h i. written Stdout (fst (stat_main (\<lambda>_. Inr \<lparr>st_dev = 2049, st_ino = 1234\<rparr>)
      [''stat'', ''/etc/passwd''])) = ''File: /etc/passwd'' @ [newline] @
      ''Device ID (st_dev): '' @ d @ '' (0x'' @ h @ '')'' @ [newline] @ ''Inode: '' @ i @ [newline] \<and>
    digits_val d = 2049 \<and> hex_value h = 2049 \<and> digits_val i = 1234"
proof -
  have "(\<lambda>_. Inr \<lparr>st_dev = 2049, st_ino = 1234\<rparr>) ''/etc/passwd'' =
    (Inr \<lparr>st_dev = 2049, st_ino = 1234\<rparr> :: string + stat_buf)" by simp
  with stat_prints_identity [of "\<lambda>_. Inr \<lparr>st_dev = 2049, st_ino = 1234\<rparr>" "[]" "''/etc/passwd''"
      "\<lparr>st_dev = 2049, st_ino = 1234\<rparr>" "''stat''"] show ?thesis by (elim conjE impE exE) auto
qed

end
