(* ===== verification/Spec2Isabelle.thy ===== *)
theory Spec2Isabelle
  imports Vmlinux_Types Monitor Container Callback_Server Field_Selectors Api_Registration Patch_Base Interleaving Startup Shutdown Stat_Helper
begin

text \<open>
  The kivebpf operator (\<open>src/\<close>): it watches files inside the containers of a Kubernetes cluster with an
  eBPF program and reports every access to them.

  \<^bold>\<open>How the program works.\<close>  A \<open>KivePolicy\<close> resource lists traps; a trap names a path and the containers it
  applies to.  The policy reconciler (\<open>kivepolicy_controller.go\<close>) looks the path up in each matching
  container, through the container runtime and \<open>/proc\<close> (\<open>container/\<close>), and applies a \<open>KiveData\<close> resource
  with the inode and device it finds.  The \<open>KiveData\<close> reconciler (\<open>kivedata_controller.go\<close>) loads the
  eBPF program (\<open>ebpf/ebpf.go\<close>) and keeps the kernel's map of traced inodes equal to the resources of
  its kernel.  The program (\<open>ebpf/tracer.bpf.c\<close>), attached to \<open>inode_permission\<close>, sends a record to a
  ring buffer for each call on a traced inode.  The output loop (\<open>output.go\<close>) reads the records, joins
  each with its \<open>KiveData\<close> and posts an alert.  The pod reconciler (\<open>kivepod_controller.go\<close>) deletes the
  \<open>KiveData\<close> of pods that are gone.

  \<^bold>\<open>Theories and the code they model.\<close>
  \<^item> \<open>Kive_Prelude\<close>: machine integers, little-endian bytes, results of Go functions, collections of facts.
  \<^item> \<open>C_Layout\<close>: C object types and their x86-64 layout.  \<open>Vmlinux_Regs\<close>, \<open>Vmlinux_Inode\<close>, \<open>Vmlinux_Super\<close>,
    \<open>Vmlinux_Task\<close>, \<open>Vmlinux_Bpf\<close>, \<open>Vmlinux_Files\<close>, \<open>Vmlinux_Kernel\<close>: the types of
    \<open>vmlinux_x86_64_6_11.h\<close>, one definition per struct, union, enum or typedef, by its name with a prefix;
    \<open>Vmlinux_Types\<close>: what holds of all of them.
  \<^item> \<open>Log_Data\<close>: \<open>log_data.h\<close>, \<open>maps.h\<close> and their Go counterparts in \<open>bpf_bpfel.go\<close>: the two sides of the
    map's key and of the record.
  \<^item> \<open>Kernel_Objects\<close>, \<open>Tracer\<close>: kernel memory as \<open>BPF_CORE_READ\<close> sees it, and the two probes of
    \<open>tracer.bpf.c\<close>.  \<open>Example_Kernel\<close>: a concrete memory for the witnesses.
  \<^item> \<open>Go_Lib\<close>, \<open>Go_Monad\<close>: the functions of \<open>strings\<close> and \<open>strconv\<close> the code calls, and Go functions on
    a state with errors and panics.  \<open>Go_Json\<close>, \<open>Go_Sha256\<close>, \<open>Go_Glob\<close>: the parts of \<open>encoding/json\<close>,
    \<open>crypto/sha256\<close> and \<open>path/filepath\<close> it uses.
  \<^item> \<open>Ebpf_Utils\<close>, \<open>Ebpf_Loader\<close>: \<open>ebpf/utils.go\<close> and \<open>ebpf/ebpf.go\<close>; the package's variables are the
    record \<open>ebpf_state\<close> with the history of its system calls.
  \<^item> \<open>Monitor\<close>: the probe, \<open>AddInode\<close> and \<open>RemoveInode\<close> on the two shared maps, interleaved.
  \<^item> \<open>Container_Utils\<close>, \<open>Container\<close>: \<open>container/\<close>; the client of containerd is the record \<open>Containerd\<close>.
  \<^item> \<open>Kive_Api\<close>: the resources of \<open>api/v1\<close> and \<open>api/v2alpha1\<close> and the conversions between them.
    \<open>Kive_Json\<close>: the JSON of a trap and of an alert.
  \<^item> \<open>Alerts\<close>: \<open>ReadAlert\<close> and \<open>output.go\<close>.
  \<^item> \<open>Kive_Utils\<close>: \<open>controller/utils.go\<close> and \<open>constants.go\<close>.
  \<^item> \<open>Cluster\<close>: the calls of the Kubernetes client, for the three reconcilers.
  \<^item> \<open>Data_Reconciler\<close>, \<open>Pod_Reconciler\<close>, \<open>Policy_Reconciler\<close>: the three \<open>Reconcile\<close> methods.
  \<^item> \<open>Policy_Steady\<close>: the policy reconciler against a reference; \<open>Control_Loop\<close>, \<open>Data_Convergence\<close>,
    \<open>Policy_Convergence\<close>: two reconcilers in a loop with the API server; \<open>Reconcilers\<close>: from a policy to
    the map; \<open>Interleaving\<close>: the \<open>KiveData\<close> reconciler and whoever applies, deletes and edits resources
    (other than in the file they name and their finalizers), step by step.  \<open>Field_Selectors\<close>: the
    \<open>SetupWithManager\<close> methods with their indexes, and what the API server selects by.
  \<^item> \<open>Policy_Alert\<close>: from a policy to the alert that is sent; \<open>Callback_Server\<close>: \<open>callback/cmd/main.go\<close>, which receives it.
  \<^item> \<open>Deep_Copy\<close>: \<open>zz_generated.deepcopy.go\<close>, on a heap of maps, slices and pointers; \<open>Patch_Base\<close>: the patches
    of the reconcilers on that heap, which write to a resource in place after copying it.
  \<^item> \<open>Api_Registration\<close>: group, versions, kinds and constants of \<open>api/\<close>, and its webhooks.
  \<^item> \<open>Startup\<close>, \<open>Shutdown\<close>: \<open>cmd/main.go\<close> up to the start of the managers, and its goroutines from then on.
  \<^item> \<open>Stat_Helper\<close>: \<open>hack/stat.c\<close>.
  This theory composes the parts: from a file in a container, and from a policy, to the record.

  \<^bold>\<open>Conventions.\<close>  A definition has the name of the function, type or constant it models; loops that the
  code writes inside a function have names of their own (\<open>search_containers\<close>, \<open>data_loop\<close>,
  \<open>trap_loop\<close>, \<open>do_match\<close>).  A Go function that reads or changes state is a function from the state to an
  outcome (\<open>Return\<close>, \<open>Error\<close> with the message, \<open>Panic\<close>) and the state.  What is not under \<open>src/\<close>, that is,
  the Linux kernel and its BPF helpers, libbpf, cilium/ebpf, the containerd client, system calls, the
  Kubernetes API server with client-go and controller-runtime, is an argument: a record of functions
  of the calls made so far, so every call can fail at every point.  What the code relies on of them
  are named predicates, as documented: \<open>parms_x86_64\<close>, \<open>core_reads\<close>, \<open>current_task\<close> (kernel),
  \<open>traced_map\<close>, \<open>has_room\<close> (BPF hash map), \<open>lossless_ring\<close>, \<open>finalizers_ok\<close>, \<open>steady\<close>, \<open>server_effects\<close>,
  \<open>relists\<close>, \<open>refuses_other_fields\<close>, \<open>stored_as\<close>, \<open>store_call\<close> (API server),
  \<open>handles_ok\<close>, \<open>loads_ok\<close>, \<open>closes_ok\<close> (cilium/ebpf), \<open>meta_copier\<close> (\<open>ObjectMeta.DeepCopyInto\<close>).
  Go's regular expressions are the record \<open>go_std\<close>.  Machine integers have their width; Go strings are lists of bytes as characters.

  \<^bold>\<open>Interfaces.\<close>  The locales \<open>fixed_width\<close> and \<open>byte_codec\<close> of \<open>Log_Data\<close> are the contract of the byte encodings and
  \<open>inode_probe\<close> that of a probe, with an interpretation for each of the two; \<open>mon_step\<close> is the abstract
  monitor the concrete one refines; \<open>container_runtime\<close> is the contract of \<open>Runtime\<close>, interpreted on
  containerd; \<open>lossless\<close> that of a conversion; \<open>control_loop\<close> that of a reconciler whose writes trigger
  its next run, interpreted on the rounds of the \<open>KiveData\<close> and of the policy reconciler; \<open>deep_copier\<close> that of
  a deep copy, which \<open>pair_copier\<close>, \<open>struct_copier\<close> and \<open>slice_copier\<close> give a pair, a field and a slice of
  what has it, interpreted on every generated copy.

  \<^bold>\<open>What is shown.\<close>
  \<^item> Data: sizes, offsets and the absence of overlap in the kernel's types, with the place of every member of
    those the probes read written out (\<open>kernel_members_placed\<close>); the C and the Go view of key and
    record agree byte by byte; encoding and decoding of records, streams, container ids, device numbers
    and resource versions are inverse.
  \<^item> Monitor: the probe reports exactly the accesses to traced files; every run of map operations and
    probes refines the abstract monitor, and with room in the map and a ring buffer that loses nothing
    the records are exactly those of the accesses to files traced at the time.
  \<^item> Loader: when loading and unloading succeed, what a failure leaves, and over all reachable states
    what the package's variables hold: \<open>Loaded\<close> means handles of a load that succeeded, none closed since
    while closing does not fail, and a read panics exactly while there is no reader.  A load makes a new,
    empty map of traced inodes.
  \<^item> Shutdown: \<open>main_step\<close> is one step of the main goroutine, of the goroutine that waits for the signal, or of
    the \<open>KiveData\<close> reconciler's load: one call of \<open>LoadEbpf\<close> (\<open>load_step\<close>) or one action of \<open>UnloadEbpf\<close>
    (\<open>do_act\<close>); a lookup and the closing of the connections are one step.  A panic of any of them ends the
    run.  \<open>shutdown_unloads\<close> and \<open>shutdown_no_panic\<close> hold for all its runs, and \<open>shutdown_race\<close> is a run that
    panics after loads that failed.  \<open>default_flags_clash\<close>: when the program starts.
  \<^item> Identity: the id of a trap stands for the trap and the version (\<open>trap_id_identity\<close>), the posted body
    for the alert (\<open>alert_body_determines\<close>), because the JSON text of a value determines it
    (\<open>json_text_inject\<close>); which container names a match selects (\<open>container_name_selected\<close>).
  \<^item> Container lookup: what is returned on every branch, that nothing is created unasked, that a nil
    client is never used.
  \<^item> Reconcilers: safety whatever the calls answer (\<open>reconcile_map_safe\<close>, \<open>policy_applies_justified\<close>,
    \<open>policy_reconcile_errors\<close>); the exact result while answers are steady (\<open>reconcile_settled\<close>,
    \<open>policy_reconcile_exact\<close>, \<open>pod_reconcile_exact\<close>); the end of repeated reconciliations
    (\<open>data_reconciler_converges\<close>, \<open>policy_reconciler_converges\<close>).  Interleaved with others: every traced
    file has a stored resource that will free it (\<open>traced_files_are_held\<close>, for the runs of \<open>sys_step\<close>), and
    from every state reached the rounds end (\<open>quiet_system_converges\<close>).
  \<^item> Whole system: \<open>traced_file_is_reported\<close>, \<open>policy_enforced\<close> (from a policy to the record) and
    \<open>policy_alerts\<close> (from a policy to the alert that is posted).
  \<^item> Sharing: \<open>deep_copy_independent\<close>, and \<open>forced_patch_refines\<close>: the values the functional model gives a
    patch are those the code builds by writing to shared maps.
  \<^item> Behaviour that is likely not intended has theorems too: \<open>pending_pod_blocks\<close>,
    \<open>address_match_selects_nothing\<close>, \<open>data_index_node\<close>, \<open>port_flag_ignored\<close>,
    \<open>failed_pod_listing_counts_as_found\<close>, \<open>alert_ignores_device\<close>, \<open>alert_without_ip\<close>,
    \<open>lookup_swallows_errors\<close>, \<open>load_failure\<close>, \<open>half_unloaded\<close> (an unload that fails half way leaves
    \<open>Loaded\<close> set), \<open>edited_file_stays_traced\<close> (a resource whose inode is edited leaves the old one traced).

  \<^bold>\<open>Bounds.\<close>  All loops of the code are over lists, and the functions that model them are total by
  structural recursion.  The one endless loop, \<open>Output\<close>, takes the number of its turns; its theorem
  is about every number.  A turn need not end: the read waits for a record and the post for an answer, and
  \<open>waits\<close> says which of these calls never return; then the loop stays in that turn.
  The rounds of \<open>data_reconciler_converges\<close> are bounded by the sum of a weight of
  at most 3 for each resource (3: lacks the finalizer, 2: not accounted for, 1: being deleted, 0: at its
  end); every round with a write lowers the sum.

  \<^bold>\<open>Not modelled.\<close>  Parsing the command line and the logger in \<open>cmd/main.go\<close>; the driver and the test suites
  under \<open>test/\<close>; log messages that have no effect on the state.  A slice is an array of its own: slices
  that share a part of one array are not described.  The big-endian \<open>bpf_bpfeb.go\<close> is \<open>bpf_bpfel.go\<close> but
  for the byte order.  Of \<open>vmlinux_x86_64_6_11.h\<close> (generated from a kernel's type information) the types are
  modelled that the program reads and those around its hook, its maps and its helpers, not the rest of
  its 155,000 lines.
  \<open>Interleaving\<close> interleaves the \<open>KiveData\<close> reconciler with the others one resource of its list at a time
  (the list itself is current when it is answered);
  the other theorems about reconcilers take one \<open>Reconcile\<close> as a step, and that controller-runtime runs it
  again after a write is a hypothesis of those about rounds.
\<close>

section \<open>From a container's file to a record of its accesses\<close>

text \<open>C7: the whole path of a trap: when the lookup of a trap's file in a container returns its data,
  the key built from that data was added to the map of traced inodes, and then a process accesses
  that file, an inode with the same number on a super block with the device the file's \<open>stat\<close>
  encodes, the probe for the running kernel sends the record of that access.\<close>

theorem traced_file_is_reported:
  assumes "cs_Ready status" and "cs_ContainerID status = ''containerd://'' @ i" and "isConnected s"
    and "file_found cenv s i trap cs ino (ucast (new_encode_dev dev))"
    and "GetContainerData (ContainerRuntimes cenv) status trap s = (Return d, s')"
    and "traced_map (be_lookup env) ops"
    and "AddInode ops \<lparr>mk_Inode = cd_Ino d, mk_Dev = cd_DevID d\<rparr> (traced_inodes st) = (None, m)"
    and "parms_x86_64 env" and "core_reads env mem K"
    and "current_task env mem K task tid tgrp user grp name"
    and "calls_inode_permission v ctx a msk" and "a \<noteq> 0" and "inode_object mem K a ino dev"
  shows "bpf_program (before_5_12 v) env ctx (st\<lparr>traced_inodes := m\<rparr>) =
    (0, \<lparr>traced_inodes = m, rb = be_output env (rb st) (bytes_log_data
       \<lparr>ld_Pid = tid, ld_Tgid = tgrp, ld_Uid = user, ld_Gid = grp, ld_Dev = dev, ld_Ino = ino,
        ld_Mask = ucast msk, ld_Comm = name\<rparr>)\<rparr>)"
proof -
  have "cd_Ino d = ino" "cd_DevID d = dev"
    using GetContainerData_found [OF assms(1-4)] assms(5) by (auto simp: UserDev_new_encode)
  with AddInode_cases [OF assms(6,7)]
  have "be_lookup env m (map_key_object ino dev) \<noteq> None"
    by (auto simp: set_eq_iff traced_iff map_key_object_go)
  with program_access [OF assms(8,9) current_task_comm [OF assms(10)] assms(11-13),
      of "st\<lparr>traced_inodes := m\<rparr>"]
  show ?thesis by (simp add: log_entry_of_task [OF assms(10)])
qed

theorem traced_file_is_reported_witness:
  "\<exists>m. bpf_program (before_5_12 (6, 8)) ex_env (ex_regs 0 ex_inode 4) (ex_maps\<lparr>traced_inodes := m\<rparr>) =
    (0, \<lparr>traced_inodes = m, rb = [bytes_log_data
       \<lparr>ld_Pid = 101, ld_Tgid = 100, ld_Uid = 1000, ld_Gid = 1001, ld_Dev = ex_dev, ld_Ino = ex_ino,
        ld_Mask = 4, ld_Comm = ex_comm\<rparr>]\<rparr>)"
proof -
  note found = ex_found [folded ex_ino_def ex_dev_def]
  obtain d s' where d: "GetContainerData (ContainerRuntimes ex_containers) ex_status ex_trap
      ex_connected = (Return d, s')"
    using GetContainerData_found [OF _ _ _ found, of ex_status]
    by (auto simp: ex_status_def ex_connected_def)
  obtain m where m: "AddInode hash_ops \<lparr>mk_Inode = cd_Ino d, mk_Dev = cd_DevID d\<rparr>
      (traced_inodes ex_maps) = (None, m)"
    by (simp add: AddInode_def hash_ops_def ex_maps_def traced_inodes_decl_def MAP_MAX_ENTRIES_def)
  show ?thesis
    using traced_file_is_reported [OF _ _ _ found d ex_traced m ex_parms ex_core_reads ex_current _ _
        ex_inode_object, of "(6, 8)" "ex_regs 0 ex_inode 4" 4]
    by (auto simp: ex_status_def ex_connected_def calls_inode_permission_def before_5_12_def
        ex_regs_def ex_inode_def ex_env_def ex_maps_def)
qed

section \<open>From a policy to a record\<close>

text \<open>C1: the operator as a whole: a \<open>KiveData\<close> that the policy reconciler applies for a trap of a policy
  comes to be enforced.  While policies and pods stay, once the API server has it among the
  resources of the kernel, at most three rounds of the \<open>KiveData\<close> reconciler for each of them, and
  one more, leave a map with which the probe for the running kernel sends, on every call of
  \<open>inode_permission\<close> for the inode and device of the resource, the record of that access.\<close>

theorem policy_enforced:
  assumes "steady (pe_cluster penv) data policies pods"
    and "relists pods"
    and "pl_calls (snd (KivePolicy_Reconcile penv ps)) = pl_calls ps @ cs"
    and "ApplyKiveData kd \<in> set cs"
    and "at_work denv (be_lookup env) n policies pods"
    and "server_effects eff now"
    and "Loaded (dr_ebpf s)"
    and "kd \<in> set items"
    and "card (data_key ` set items) \<le> n"
    and "traced (be_lookup env) (dr_map s) \<subseteq>
      data_key ` {kd \<in> set items. KiveDataFinalizerName \<in> set (data_finalizers kd)}"
    and "parms_x86_64 env"
    and "core_reads env mem K"
    and "current_task env mem K task tid tgrp user grp name"
    and "calls_inode_permission v ctx a msk"
    and "a \<noteq> 0"
    and "inode_object mem K a (ds_InodeNo (kd_Spec kd)) (ds_DevID (kd_Spec kd))"
  shows "\<exists>k \<le> 3 * length items. \<exists>t left. (data_round denv eff ^^ Suc k) (s, items) = (t, left) \<and>
    bpf_program (before_5_12 v) env ctx \<lparr>traced_inodes = dr_map t, rb = r\<rparr> =
      (0, \<lparr>traced_inodes = dr_map t, rb = be_output env r (bytes_log_data
         \<lparr>ld_Pid = tid, ld_Tgid = tgrp, ld_Uid = user, ld_Gid = grp, ld_Dev = ds_DevID (kd_Spec kd),
          ld_Ino = ds_InodeNo (kd_Spec kd), ld_Mask = ucast msk, ld_Comm = name\<rparr>)\<rparr>)"
proof -
  from applied_rounds [OF assms(1-10)] obtain k t left where k: "k \<le> 3 * length items"
    "(data_round denv eff ^^ Suc k) (s, items) = (t, left)" "data_key kd \<in> traced (be_lookup env) (dr_map t)"
    by blast
  from k(3) have "be_lookup env (dr_map t) (map_key_object (ds_InodeNo (kd_Spec kd)) (ds_DevID (kd_Spec kd))) \<noteq> None"
    by (simp add: traced_iff map_key_object_go data_key_def)
  with program_access [OF assms(11,12) current_task_comm [OF assms(13)] assms(14-16),
      of "\<lparr>traced_inodes = dr_map t, rb = r\<rparr>"]
  have "bpf_program (before_5_12 v) env ctx \<lparr>traced_inodes = dr_map t, rb = r\<rparr> =
      (0, \<lparr>traced_inodes = dr_map t, rb = be_output env r (bytes_log_data
         \<lparr>ld_Pid = tid, ld_Tgid = tgrp, ld_Uid = user, ld_Gid = grp, ld_Dev = ds_DevID (kd_Spec kd),
          ld_Ino = ds_InodeNo (kd_Spec kd), ld_Mask = ucast msk, ld_Comm = name\<rparr>)\<rparr>)"
    by (simp add: log_entry_of_task [OF assms(13)])
  with k(1,2) show ?thesis by blast
qed

theorem policy_enforced_witness:
  "\<exists>k t left. (data_round (ex_data_env (ex_cluster [])) ex_effects ^^ k)
      (ex_data_state, ex_applied # ex_all) = (t, left) \<and>
    bpf_program (before_5_12 (6, 8)) ex_env (ex_regs 0 ex_inode 4) \<lparr>traced_inodes = dr_map t, rb = []\<rparr> =
      (0, \<lparr>traced_inodes = dr_map t, rb = [bytes_log_data
         \<lparr>ld_Pid = 101, ld_Tgid = 100, ld_Uid = 1000, ld_Gid = 1001, ld_Dev = 0x800001,
          ld_Ino = 1234, ld_Mask = 4, ld_Comm = ex_comm\<rparr>]\<rparr>)"
proof -
  obtain cs where cs: "pl_calls (snd (KivePolicy_Reconcile (ex_policy_env (ex_cluster [])) ex_policy_state)) =
      pl_calls ex_policy_state @ cs" "ApplyKiveData ex_applied \<in> set cs" using ex_applied_call by blast
  have look: "be_lookup ex_env = hash_look" by (simp add: ex_env_def)
  have spec: "ds_InodeNo (kd_Spec ex_applied) = 1234" "ds_DevID (kd_Spec ex_applied) = 0x800001"
    by (simp_all add: ex_applied_def new_kive_data_def Policy_Steady.ex_data_def)
  have mem: "ex_applied \<in> set (ex_applied # ex_all)" by simp
  have call: "calls_inode_permission (6, 8) (ex_regs 0 ex_inode 4) ex_inode 4" "ex_inode \<noteq> 0"
    by (simp_all add: calls_inode_permission_def before_5_12_def ex_regs_def ex_inode_def)
  have object: "inode_object ex_mem vmlinux_btf ex_inode (ds_InodeNo (kd_Spec ex_applied))
      (ds_DevID (kd_Spec ex_applied))"
    using ex_inode_object by (simp add: spec ex_ino_def ex_dev_def)
  have out: "be_output ex_env [] x = [x]" "ucast (4 :: u64) = (4 :: u32)" for x by (simp_all add: ex_env_def)
  from policy_enforced [where env = ex_env and denv = "ex_data_env (ex_cluster [])" and r = "[]",
      unfolded look, OF ex_premises ex_relists cs ex_at_work ex_server
      ex_loop_start(1) mem ex_applied_start ex_parms ex_core_reads ex_current call object]
  show ?thesis unfolding spec out by (elim exE conjE) (intro exI conjI)
qed

end
